(* ===== verification/Prelude.thy ===== *)
theory Prelude
  imports Complex_Main "HOL-Library.AList"
begin

text \<open>
  What every component of the development shares: Python exceptions as values, the result
  type of code that may raise, the collections of rewrite rules, Python's operations on
  strings, integer parsing and printing, and the numpy idioms on one-dimensional arrays
  (\<^verbatim>\<open>np.where\<close> on a condition, assignment through an index array) that the algorithms
  use. Strings are lists of 8-bit characters; the program's keys, file names and messages
  are ASCII.
\<close>

named_theorems res_simps \<open>rewriting of results and their sequencing\<close>
named_theorems str_simps \<open>rewriting of Python string operations\<close>
named_theorems np_simps \<open>rewriting of numpy index operations\<close>

section \<open>Exceptions and results\<close>

text \<open>The exception classes the code raises or catches, each with its message.\<close>

datatype py_error =
    KeyError string
  | ValueError string
  | OSError string
  | FileNotFoundError string
  | AttributeError string
  | TypeError string
  | IndexError string
  | ZeroDivisionError string
  | OverflowError string
  | NameError string
  | RuntimeError string
  | ImportError string
  | UnboundLocalError string
  | FloatingPointError string
  | InvalidArraySizeError string     \<comment> \<open>declared by the retrackers\<close>
  | SINLocateError string            \<comment> \<open>declared by the SARIn geolocation\<close>
  | StructError string               \<comment> \<open>\<^verbatim>\<open>struct.error\<close>\<close>
  | SystemExit string
  | NonTermination                   \<comment> \<open>no exception: the outcome of a loop that never ends\<close>

text \<open>\<^verbatim>\<open>IOError\<close> is \<^verbatim>\<open>OSError\<close> in Python 3, and \<^verbatim>\<open>FileNotFoundError\<close> is one of its subclasses.\<close>

fun is_os_error :: "py_error \<Rightarrow> bool" where
  "is_os_error (OSError _) = True"
| "is_os_error (FileNotFoundError _) = True"
| "is_os_error _ = False"

fun is_key_error :: "py_error \<Rightarrow> bool" where
  "is_key_error (KeyError _) = True"
| "is_key_error _ = False"

fun is_value_error :: "py_error \<Rightarrow> bool" where
  "is_value_error (ValueError _) = True"
| "is_value_error _ = False"

fun is_attribute_error :: "py_error \<Rightarrow> bool" where
  "is_attribute_error (AttributeError _) = True"
| "is_attribute_error _ = False"

fun is_file_not_found :: "py_error \<Rightarrow> bool" where
  "is_file_not_found (FileNotFoundError _) = True"
| "is_file_not_found _ = False"

type_synonym 'a res = "py_error + 'a"

definition rbind :: "'e + 'a \<Rightarrow> ('a \<Rightarrow> 'e + 'b) \<Rightarrow> 'e + 'b" where
  "rbind r f = (case r of Inl e \<Rightarrow> Inl e | Inr x \<Rightarrow> f x)"

definition guard :: "bool \<Rightarrow> 'e \<Rightarrow> 'e + unit" where
  "guard b e = (if b then Inr () else Inl e)"

definition of_option :: "'e \<Rightarrow> 'a option \<Rightarrow> 'e + 'a" where
  "of_option e x = (case x of None \<Rightarrow> Inl e | Some v \<Rightarrow> Inr v)"

text \<open>A loop whose body may raise: the first exception ends it.\<close>

fun rmapM :: "('a \<Rightarrow> 'e + 'b) \<Rightarrow> 'a list \<Rightarrow> 'e + 'b list" where
  "rmapM f [] = Inr []"
| "rmapM f (x # xs) = rbind (f x) (\<lambda>y. rbind (rmapM f xs) (\<lambda>ys. Inr (y # ys)))"

lemma rbind_Inr [simp, res_simps]: "rbind (Inr x) f = f x"
  by (simp add: rbind_def)

lemma rbind_Inl [simp, res_simps]: "rbind (Inl e) f = Inl e"
  by (simp add: rbind_def)

lemma rbind_eq_Inr [res_simps]: "rbind r f = Inr y \<longleftrightarrow> (\<exists>x. r = Inr x \<and> f x = Inr y)"
  by (cases r) auto

lemma rbind_eq_Inl [res_simps]:
  "rbind r f = Inl e \<longleftrightarrow> r = Inl e \<or> (\<exists>x. r = Inr x \<and> f x = Inl e)"
  by (cases r) auto

lemma rbind_Inr_right [simp, res_simps]: "rbind r Inr = r"
  by (cases r) auto

lemma rbind_assoc: "rbind (rbind r f) g = rbind r (\<lambda>x. rbind (f x) g)"
  by (cases r) auto

lemma rbind_cong [fundef_cong]:
  "r = r' \<Longrightarrow> (\<And>x. r' = Inr x \<Longrightarrow> f x = f' x) \<Longrightarrow> rbind r f = rbind r' f'"
  by (cases r') auto

lemma guard_eq_Inr [simp, res_simps]: "guard b e = Inr u \<longleftrightarrow> b"
  by (simp add: guard_def)

lemma guard_eq_Inl [simp, res_simps]: "guard b e = Inl e' \<longleftrightarrow> \<not> b \<and> e = e'"
  by (auto simp: guard_def)

lemma guard_True [simp]: "guard True e = Inr ()"
  by (simp add: guard_def)

lemma guard_False [simp]: "guard False e = Inl e"
  by (simp add: guard_def)

lemma of_option_eq_Inr [simp, res_simps]: "of_option e x = Inr v \<longleftrightarrow> x = Some v"
  by (cases x) (auto simp: of_option_def)

lemma of_option_eq_Inl [simp, res_simps]: "of_option e x = Inl e' \<longleftrightarrow> x = None \<and> e = e'"
  by (cases x) (auto simp: of_option_def)

lemma of_option_Some [simp]: "of_option e (Some v) = Inr v"
  by (simp add: of_option_def)

lemma of_option_None [simp]: "of_option e None = Inl e"
  by (simp add: of_option_def)

lemma rmapM_Inr_iff:
  "rmapM f xs = Inr ys \<longleftrightarrow> list_all2 (\<lambda>x y. f x = Inr y) xs ys"
  by (induction xs arbitrary: ys) (auto simp: res_simps list_all2_Cons1)

lemma rmapM_length: "rmapM f xs = Inr ys \<Longrightarrow> length ys = length xs"
  by (auto simp: rmapM_Inr_iff dest: list_all2_lengthD)

lemma rmapM_nth: "rmapM f xs = Inr ys \<Longrightarrow> i < length xs \<Longrightarrow> f (xs ! i) = Inr (ys ! i)"
  by (auto simp: rmapM_Inr_iff list_all2_conv_all_nth)

lemma rmapM_pure [simp]: "rmapM (\<lambda>x. Inr (g x)) xs = Inr (map g xs)"
  by (induction xs) auto

lemma rmapM_append:
  "rmapM f (xs @ ys) = rbind (rmapM f xs) (\<lambda>as. rbind (rmapM f ys) (\<lambda>bs. Inr (as @ bs)))"
  by (induction xs) (simp_all add: rbind_assoc)

lemma rmapM_ex: "\<forall>x\<in>set xs. \<exists>y. f x = Inr y \<Longrightarrow> \<exists>ys. rmapM f xs = Inr ys"
  by (induction xs) auto

lemma rmapM_total:
  assumes "\<And>x. x \<in> set xs \<Longrightarrow> f x = Inr (g x)"
  shows "rmapM f xs = Inr (map g xs)"
  using assms by (induction xs) auto

text \<open>A loop over a list that threads a state and may raise.\<close>

fun rfold :: "('a \<Rightarrow> 's \<Rightarrow> 'e + 's) \<Rightarrow> 'a list \<Rightarrow> 's \<Rightarrow> 'e + 's" where
  "rfold f [] s = Inr s"
| "rfold f (x # xs) s = rbind (f x s) (rfold f xs)"

lemma rfold_append: "rfold f (xs @ ys) s = rbind (rfold f xs s) (rfold f ys)"
  by (induction xs arbitrary: s) (simp_all add: rbind_assoc cong: rbind_cong)

section \<open>Strings\<close>

fun starts_with :: "string \<Rightarrow> string \<Rightarrow> bool" where
  "starts_with [] s = True"
| "starts_with (p # ps) [] = False"
| "starts_with (p # ps) (c # cs) = (p = c \<and> starts_with ps cs)"

text \<open>\<open>py_in needle hay\<close> is Python's \<^verbatim>\<open>needle in hay\<close> on strings.\<close>

fun py_in :: "string \<Rightarrow> string \<Rightarrow> bool" where
  "py_in needle [] = (needle = [])"
| "py_in needle (c # cs) = (starts_with needle (c # cs) \<or> py_in needle cs)"

text \<open>\<open>py_replace old new s\<close>: the occurrences of \<open>old\<close>, left to right and not overlapping.\<close>

fun py_replace :: "string \<Rightarrow> string \<Rightarrow> string \<Rightarrow> string" where
  "py_replace old new [] = []"
| "py_replace old new (c # cs) =
     (if old \<noteq> [] \<and> starts_with old (c # cs)
      then new @ py_replace old new (drop (length old - 1) cs)
      else c # py_replace old new cs)"

text \<open>\<open>py_split c s\<close> is \<^verbatim>\<open>s.split(c)\<close> for a one-character separator.\<close>

fun py_split :: "char \<Rightarrow> string \<Rightarrow> string list" where
  "py_split sep [] = [[]]"
| "py_split sep (c # cs) =
     (if c = sep then [] # py_split sep cs
      else (case py_split sep cs of [] \<Rightarrow> [[c]] | w # ws \<Rightarrow> (c # w) # ws))"

definition is_upper_c :: "char \<Rightarrow> bool" where
  "is_upper_c c = (65 \<le> (of_char c :: nat) \<and> (of_char c :: nat) \<le> 90)"

definition is_lower_c :: "char \<Rightarrow> bool" where
  "is_lower_c c = (97 \<le> (of_char c :: nat) \<and> (of_char c :: nat) \<le> 122)"

definition is_digit_c :: "char \<Rightarrow> bool" where
  "is_digit_c c = (48 \<le> (of_char c :: nat) \<and> (of_char c :: nat) \<le> 57)"

definition is_space_c :: "char \<Rightarrow> bool" where
  "is_space_c c = ((9 \<le> (of_char c :: nat) \<and> (of_char c :: nat) \<le> 13) \<or>
     (28 \<le> (of_char c :: nat) \<and> (of_char c :: nat) \<le> 32))"

definition lower_c :: "char \<Rightarrow> char" where
  "lower_c c = (if is_upper_c c then char_of ((of_char c :: nat) + 32) else c)"

definition upper_c :: "char \<Rightarrow> char" where
  "upper_c c = (if is_lower_c c then char_of ((of_char c :: nat) - 32) else c)"

definition py_lower :: "string \<Rightarrow> string" where
  "py_lower s = map lower_c s"

definition py_upper :: "string \<Rightarrow> string" where
  "py_upper s = map upper_c s"

definition py_isalpha :: "string \<Rightarrow> bool" where
  "py_isalpha s = (s \<noteq> [] \<and> list_all (\<lambda>c. is_upper_c c \<or> is_lower_c c) s)"

definition py_isdigit :: "string \<Rightarrow> bool" where
  "py_isdigit s = (s \<noteq> [] \<and> list_all is_digit_c s)"

definition py_strip :: "string \<Rightarrow> string" where
  "py_strip s = rev (dropWhile is_space_c (rev (dropWhile is_space_c s)))"

text \<open>\<open>py_slice s a b\<close> is \<^verbatim>\<open>s[a:b]\<close>, with \<open>None\<close> for a bound that is left out; a negative
  bound counts from the end, and bounds outside the string are cut to it.\<close>

definition slice_index :: "nat \<Rightarrow> int \<Rightarrow> nat" where
  "slice_index n i = nat (max 0 (min (int n) (if i < 0 then int n + i else i)))"

definition py_slice :: "'a list \<Rightarrow> int option \<Rightarrow> int option \<Rightarrow> 'a list" where
  "py_slice s a b =
     (let n = length s;
          lo = (case a of None \<Rightarrow> 0 | Some i \<Rightarrow> slice_index n i);
          hi = (case b of None \<Rightarrow> n | Some i \<Rightarrow> slice_index n i)
      in take (hi - lo) (drop lo s))"

text \<open>\<open>py_index xs i\<close> is \<^verbatim>\<open>xs[i]\<close>: a negative index counts from the end.\<close>

definition py_index :: "'a list \<Rightarrow> int \<Rightarrow> 'a res" where
  "py_index xs i =
     (if 0 \<le> i \<and> nat i < length xs then Inr (xs ! nat i)
      else if i < 0 \<and> nat (- i) \<le> length xs then Inr (rev xs ! (nat (- i) - 1))
      else Inl (IndexError ''index out of range''))"

section \<open>Decimal numbers\<close>

definition digit_char :: "nat \<Rightarrow> char" where
  "digit_char d = char_of (48 + d)"

definition digit_val :: "char \<Rightarrow> nat" where
  "digit_val c = of_char c - 48"

fun show_nat :: "nat \<Rightarrow> string" where
  "show_nat n = (if n < 10 then [digit_char n] else show_nat (n div 10) @ [digit_char (n mod 10)])"

declare show_nat.simps [simp del]

definition show_int :: "int \<Rightarrow> string" where
  "show_int i = (if i < 0 then CHR ''-'' # show_nat (nat (- i)) else show_nat (nat i))"

text \<open>\<open>show_pad w i\<close> is the format \<^verbatim>\<open>{i:0wd}\<close>: zero-padded to width \<open>w\<close>, the sign counted.\<close>

definition show_pad :: "nat \<Rightarrow> int \<Rightarrow> string" where
  "show_pad w i =
     (let body = show_nat (nat \<bar>i\<bar>); sign = (if i < 0 then ''-'' else [])
      in sign @ replicate (w - length sign - length body) (CHR ''0'') @ body)"

fun digits_value :: "nat \<Rightarrow> string \<Rightarrow> nat" where
  "digits_value acc [] = acc"
| "digits_value acc (c # cs) = digits_value (10 * acc + digit_val c) cs"

text \<open>Digits with single underscores between them, as \<^verbatim>\<open>int\<close> and \<^verbatim>\<open>float\<close> accept them.\<close>

fun digit_part :: "string \<Rightarrow> string option" where
  "digit_part [] = None"
| "digit_part [c] = (if is_digit_c c then Some [c] else None)"
| "digit_part (c # d # cs) =
     (if \<not> is_digit_c c then None
      else if d = CHR ''_'' then map_option ((#) c) (digit_part cs)
      else map_option ((#) c) (digit_part (d # cs)))"

definition split_sign :: "string \<Rightarrow> bool \<times> string" where
  "split_sign s = (case s of [] \<Rightarrow> (False, [])
     | c # cs \<Rightarrow> if c = CHR ''-'' then (True, cs) else if c = CHR ''+'' then (False, cs) else (False, s))"

text \<open>\<open>py_int s\<close> is \<^verbatim>\<open>int(s)\<close> on a string; \<open>None\<close> where Python raises \<^verbatim>\<open>ValueError\<close>.\<close>

definition py_int :: "string \<Rightarrow> int option" where
  "py_int s =
     (let (neg, body) = split_sign (py_strip s)
      in case digit_part body of
           None \<Rightarrow> None
         | Some ds \<Rightarrow> Some (if neg then - int (digits_value 0 ds) else int (digits_value 0 ds)))"

section \<open>numpy on one-dimensional arrays\<close>

text \<open>\<open>np_where p xs\<close> is \<^verbatim>\<open>np.where(cond)[0]\<close> for an elementwise condition \<open>p\<close> on \<open>xs\<close>.\<close>

definition np_where :: "('a \<Rightarrow> bool) \<Rightarrow> 'a list \<Rightarrow> nat list" where
  "np_where p xs = filter (\<lambda>i. p (xs ! i)) [0..<length xs]"

text \<open>\<open>np_put xs idx v\<close> is \<^verbatim>\<open>xs[idx] = v\<close> for an index array and a scalar.\<close>

fun np_put :: "'a list \<Rightarrow> nat list \<Rightarrow> 'a \<Rightarrow> 'a list" where
  "np_put xs [] v = xs"
| "np_put xs (i # is) v = np_put (xs[i := v]) is v"

text \<open>\<open>arr_at xs i\<close> is \<^verbatim>\<open>xs[i]\<close> for an index that is not negative, \<open>gather xs idx\<close> is \<^verbatim>\<open>xs[idx]\<close> for an
  index array, and \<open>scatter xs idx vs\<close> is \<^verbatim>\<open>xs[idx] = vs\<close>.\<close>

definition arr_at :: "'a list \<Rightarrow> nat \<Rightarrow> 'a res" where
  "arr_at xs i = (if i < length xs then Inr (xs ! i) else Inl (IndexError ''index out of bounds''))"

definition gather :: "'a list \<Rightarrow> nat list \<Rightarrow> 'a list res" where
  "gather xs idx = rmapM (arr_at xs) idx"

fun scatter :: "'a list \<Rightarrow> nat list \<Rightarrow> 'a list \<Rightarrow> 'a list" where
  "scatter xs [] vs = xs"
| "scatter xs (i # idx) [] = xs"
| "scatter xs (i # idx) (v # vs) = scatter (xs[i := v]) idx vs"

text \<open>An elementwise operation on two arrays: an array of one element is stretched, other arrays
  of different sizes cannot be combined.\<close>

definition np_map2 :: "('a \<Rightarrow> 'b \<Rightarrow> 'c) \<Rightarrow> 'a list \<Rightarrow> 'b list \<Rightarrow> 'c list res" where
  "np_map2 f xs ys =
     (if length xs = length ys then Inr (map2 f xs ys)
      else case (xs, ys) of
             ([x], _) \<Rightarrow> Inr (map (f x) ys)
           | (_, [y]) \<Rightarrow> Inr (map (\<lambda>x. f x y) xs)
           | _ \<Rightarrow> Inl (ValueError ''operands could not be broadcast together''))"

definition count_true :: "bool list \<Rightarrow> nat" where
  "count_true bs = length (filter id bs)"

section \<open>Lemmas\<close>

lemma starts_with_iff: "starts_with p s \<longleftrightarrow> (\<exists>r. s = p @ r)"
  by (induction p s rule: starts_with.induct) auto

lemma starts_with_append [simp, str_simps]: "starts_with p (p @ s)"
  by (simp add: starts_with_iff)

lemma py_in_iff: "py_in needle hay \<longleftrightarrow> (\<exists>a b. hay = a @ needle @ b)"
proof (induction hay)
  case Nil
  then show ?case by auto
next
  case (Cons c cs)
  have "(\<exists>a b. c # cs = a @ needle @ b) \<longleftrightarrow>
      (\<exists>b. c # cs = needle @ b) \<or> (\<exists>a b. cs = a @ needle @ b)"
    by (auto simp: append_eq_Cons_conv Cons_eq_append_conv) 
  then show ?case using Cons by (auto simp: starts_with_iff)
qed

lemma py_in_appendI1: "py_in needle a \<Longrightarrow> py_in needle (a @ b)"
  by (force simp: py_in_iff)

lemma py_in_self [simp, str_simps]: "py_in s (s @ t)"
  by (force simp: py_in_iff)

lemma py_replace_no_occurrence: "\<not> py_in old s \<Longrightarrow> py_replace old new s = s"
  by (induction old new s rule: py_replace.induct) auto

lemma of_char_digit_char: "d < 10 \<Longrightarrow> (of_char (digit_char d) :: nat) = 48 + d"
  by (simp add: digit_char_def)

lemma digit_val_digit_char [simp, str_simps]: "d < 10 \<Longrightarrow> digit_val (digit_char d) = d"
  by (simp add: digit_val_def of_char_digit_char)

lemma is_digit_digit_char [simp, str_simps]: "d < 10 \<Longrightarrow> is_digit_c (digit_char d)"
  by (simp add: is_digit_c_def of_char_digit_char)

lemma digits_value_append: "digits_value acc (a @ b) = digits_value (digits_value acc a) b"
  by (induction a arbitrary: acc) auto

lemma show_nat_digits: "list_all is_digit_c (show_nat n)"
proof (induction n rule: show_nat.induct)
  case (1 n)
  then show ?case by (subst show_nat.simps) simp
qed

lemma show_nat_nonempty [simp]: "show_nat n \<noteq> []"
  by (subst show_nat.simps) simp

lemma digits_value_show_nat [simp, str_simps]: "digits_value 0 (show_nat n) = n"
proof (induction n rule: show_nat.induct)
  case (1 n)
  then show ?case by (subst show_nat.simps) (simp add: digits_value_append)
qed

lemma digits_value_zeros: "digits_value 0 (replicate k (CHR ''0'') @ s) = digits_value 0 s"
  by (induction k) (simp_all add: digit_val_def)

lemma underscore_not_digit: "\<not> is_digit_c (CHR ''_'')"
  by (simp add: is_digit_c_def)

lemma digit_part_digits: "s \<noteq> [] \<Longrightarrow> list_all is_digit_c s \<Longrightarrow> digit_part s = Some s"
  by (induction s rule: digit_part.induct) (auto simp: underscore_not_digit)

lemma digit_not_space: "is_digit_c c \<Longrightarrow> \<not> is_space_c c"
  by (auto simp: is_digit_c_def is_space_c_def)

lemma strip_digits: "list_all is_digit_c s \<Longrightarrow> py_strip s = s"
proof -
  assume s: "list_all is_digit_c s"
  then have a: "dropWhile is_space_c s = s"
    by (cases s) (auto dest: digit_not_space)
  from s have "list_all is_digit_c (rev s)" by (simp add: list_all_iff)
  then have "dropWhile is_space_c (rev s) = rev s"
    by (cases "rev s") (auto dest: digit_not_space)
  with a show ?thesis by (simp add: py_strip_def)
qed

lemma digit_not_sign: "is_digit_c c \<Longrightarrow> c \<noteq> CHR ''-'' \<and> c \<noteq> CHR ''+''"
  by (auto simp: is_digit_c_def)

text \<open>Parsing a string of digits is the value of the digits.\<close>

lemma py_int_digits:
  assumes "s \<noteq> []" and "list_all is_digit_c s"
  shows "py_int s = Some (int (digits_value 0 s))"
proof -
  have "split_sign s = (False, s)"
    using assms by (cases s) (auto simp: split_sign_def dest: digit_not_sign)
  then show ?thesis
    using assms by (simp add: py_int_def strip_digits digit_part_digits)
qed

lemma py_int_show_nat [simp, str_simps]: "py_int (show_nat n) = Some (int n)"
  by (simp add: py_int_digits show_nat_digits)

lemma zero_is_digit: "is_digit_c (CHR ''0'')"
  by (simp add: is_digit_c_def)

lemma py_int_show_pad [simp, str_simps]: "py_int (show_pad w (int n)) = Some (int n)"
proof -
  have "list_all is_digit_c (replicate (w - length (show_nat n)) (CHR ''0'') @ show_nat n)"
    using show_nat_digits [of n] by (auto simp: list_all_iff zero_is_digit)
  then show ?thesis
    by (simp add: show_pad_def py_int_digits digits_value_zeros Let_def)
qed

lemma length_show_nat_le: "n < 10 ^ k \<Longrightarrow> 0 < k \<Longrightarrow> length (show_nat n) \<le> k"
proof (induction n arbitrary: k rule: show_nat.induct)
  case (1 n)
  show ?case
  proof (cases "n < 10")
    case True
    then show ?thesis using "1.prems" by (subst show_nat.simps) simp
  next
    case False
    with "1.prems" have "k \<noteq> 1" by auto
    with "1.prems" obtain j where j: "k = Suc j" "0 < j" by (cases k) auto
    with "1.prems" have "n div 10 < 10 ^ j" by (simp add: less_mult_imp_div_less mult.commute)
    with False j "1.IH" have "length (show_nat (n div 10)) \<le> j" by simp
    with False j show ?thesis by (subst show_nat.simps) simp
  qed
qed

lemma length_show_pad: "n < 10 ^ w \<Longrightarrow> 0 < w \<Longrightarrow> length (show_pad w (int n)) = w"
  using length_show_nat_le [of n w] by (simp add: show_pad_def Let_def)

lemma set_np_where [np_simps]: "set (np_where p xs) = {i. i < length xs \<and> p (xs ! i)}"
  by (auto simp: np_where_def)

lemma np_where_Nil_iff: "np_where p xs = [] \<longleftrightarrow> (\<forall>x\<in>set xs. \<not> p x)"
  by (subst set_empty [symmetric]) (auto simp: set_np_where all_set_conv_all_nth)

lemma distinct_np_where [np_simps]: "distinct (np_where p xs)"
  by (simp add: np_where_def)

lemma sorted_np_where: "sorted (np_where p xs)"
  by (simp add: np_where_def sorted_wrt_filter)

lemma length_np_put [simp, np_simps]: "length (np_put xs is v) = length xs"
  by (induction xs "is" v rule: np_put.induct) auto

lemma nth_np_put [np_simps]:
  "i < length xs \<Longrightarrow> np_put xs is v ! i = (if i \<in> set is then v else xs ! i)"
  by (induction xs "is" v rule: np_put.induct) auto

text \<open>Assignment through \<^verbatim>\<open>np.where\<close> on the array itself is an elementwise conditional.\<close>

lemma np_put_where: "length ys = length xs \<Longrightarrow>
    np_put xs (np_where p ys) v = map2 (\<lambda>x y. if p y then v else x) xs ys"
  by (rule nth_equalityI) (auto simp: np_simps)

lemma arr_at_Inr [simp]: "arr_at xs i = Inr x \<longleftrightarrow> i < length xs \<and> x = xs ! i"
  by (auto simp: arr_at_def)

lemma gather_Inr: "gather xs idx = Inr vs \<longleftrightarrow> (\<forall>i\<in>set idx. i < length xs) \<and> vs = map ((!) xs) idx"
  by (induction idx arbitrary: vs) (auto simp: gather_def rbind_eq_Inr)

lemma gather_length: "gather xs idx = Inr vs \<Longrightarrow> length vs = length idx"
  by (simp add: gather_Inr)

lemma length_scatter [simp, np_simps]: "length (scatter xs idx vs) = length xs"
  by (induction xs idx vs rule: scatter.induct) auto

text \<open>Assignment of values computed position by position.\<close>

lemma nth_scatter_map [np_simps]:
  "distinct idx \<Longrightarrow> i < length xs \<Longrightarrow>
     scatter xs idx (map f idx) ! i = (if i \<in> set idx then f i else xs ! i)"
  by (induction idx arbitrary: xs) (auto simp: nth_list_update)

lemma np_map2_same [simp]: "length xs = length ys \<Longrightarrow> np_map2 f xs ys = Inr (map2 f xs ys)"
  by (simp add: np_map2_def)

lemma length_np_where: "length (np_where p xs) = length (filter p xs)"
proof -
  have "filter p xs = map ((!) xs) (filter (\<lambda>i. p (xs ! i)) [0..<length xs])"
    by (subst (1) map_nth [symmetric]) (simp only: filter_map o_def)
  then show ?thesis by (simp add: np_where_def)
qed

lemma map_of_update: "map_of (AList.update k v d) = (map_of d)(k \<mapsto> v)"
  by (rule update_conv')

lemma keys_update: "fst ` set (AList.update k v d) = insert k (fst ` set d)"
  by (simp add: dom_update)

end
