(* ===== verification/Float64.thy ===== *)
theory Float64
  imports Prelude "HOL-Library.Log_Nat"
begin

text \<open>
  IEEE 754 binary64, the type of Python's \<^verbatim>\<open>float\<close> and of the \<^verbatim>\<open>float64\<close> arrays of the
  program: a finite value is the rational number it denotes, and an arithmetic operation is
  the exact result followed by rounding to the nearest double, ties to even
  (\<open>round64\<close>), with overflow to infinity and gradual underflow. The sign of zero is not
  kept: \<open>+0\<close> and \<open>-0\<close> are one value, so a quotient by zero is the signed infinity of its
  numerator. numpy's comparisons are false on NaN.
\<close>

named_theorems fl_simps \<open>rewriting of floating-point operations\<close>

datatype fl = NaN | PInf | NInf | Fin rat

section \<open>Rounding\<close>

definition two_pow :: "int \<Rightarrow> rat" where
  "two_pow e = (if 0 \<le> e then 2 ^ nat e else 1 / 2 ^ nat (- e))"

text \<open>\<open>ilog2 q\<close> is the exponent of a positive rational: \<open>2 ^ ilog2 q \<le> q < 2 ^ (ilog2 q + 1)\<close>.\<close>

definition ilog2 :: "rat \<Rightarrow> int" where
  "ilog2 q =
     (let (n, d) = quotient_of q;
          k = int (floorlog 2 (nat n)) - int (floorlog 2 (nat d))
      in if two_pow k \<le> q then k else k - 1)"

text \<open>Rounding to the nearest integer, ties to even; also \<^verbatim>\<open>np.around\<close> on a double.\<close>

definition rne :: "rat \<Rightarrow> int" where
  "rne q = (let f = \<lfloor>q\<rfloor>; r = q - of_int f
     in if r < 1 / 2 then f else if 1 / 2 < r then f + 1 else if even f then f else f + 1)"

definition ulp64 :: "rat \<Rightarrow> rat" where
  "ulp64 q = two_pow (max (ilog2 \<bar>q\<bar>) (- 1022) - 52)"

definition max64 :: rat where
  "max64 = (2 ^ 53 - 1) * 2 ^ 971"

definition round64 :: "rat \<Rightarrow> fl" where
  "round64 q =
     (if q = 0 then Fin 0
      else let v = of_int (rne (q / ulp64 q)) * ulp64 q
           in if max64 < v then PInf else if v < - max64 then NInf else Fin v)"

section \<open>Operations\<close>

definition is_nan :: "fl \<Rightarrow> bool" where
  "is_nan x = (x = NaN)"

definition is_finite :: "fl \<Rightarrow> bool" where
  "is_finite x = (case x of Fin _ \<Rightarrow> True | _ \<Rightarrow> False)"

fun fl_neg :: "fl \<Rightarrow> fl" where
  "fl_neg NaN = NaN"
| "fl_neg PInf = NInf"
| "fl_neg NInf = PInf"
| "fl_neg (Fin a) = Fin (- a)"

fun fl_abs :: "fl \<Rightarrow> fl" where
  "fl_abs NaN = NaN"
| "fl_abs PInf = PInf"
| "fl_abs NInf = PInf"
| "fl_abs (Fin a) = Fin \<bar>a\<bar>"

fun fl_add :: "fl \<Rightarrow> fl \<Rightarrow> fl" where
  "fl_add NaN y = NaN"
| "fl_add x NaN = NaN"
| "fl_add PInf NInf = NaN"
| "fl_add NInf PInf = NaN"
| "fl_add PInf y = PInf"
| "fl_add NInf y = NInf"
| "fl_add x PInf = PInf"
| "fl_add x NInf = NInf"
| "fl_add (Fin a) (Fin b) = round64 (a + b)"

definition fl_sub :: "fl \<Rightarrow> fl \<Rightarrow> fl" where
  "fl_sub x y = fl_add x (fl_neg y)"

text \<open>The sign of a value, for the rules of infinity.\<close>

fun fl_sgn :: "fl \<Rightarrow> int" where
  "fl_sgn NaN = 0"
| "fl_sgn PInf = 1"
| "fl_sgn NInf = - 1"
| "fl_sgn (Fin a) = (if a = 0 then 0 else if 0 < a then 1 else - 1)"

definition inf_of_sign :: "int \<Rightarrow> fl" where
  "inf_of_sign s = (if s = 0 then NaN else if 0 < s then PInf else NInf)"

fun fl_mul :: "fl \<Rightarrow> fl \<Rightarrow> fl" where
  "fl_mul NaN y = NaN"
| "fl_mul x NaN = NaN"
| "fl_mul (Fin a) (Fin b) = round64 (a * b)"
| "fl_mul x y = inf_of_sign (fl_sgn x * fl_sgn y)"

text \<open>numpy's division: by zero it gives a signed infinity, and NaN for \<open>0 / 0\<close>.\<close>

fun fl_div :: "fl \<Rightarrow> fl \<Rightarrow> fl" where
  "fl_div NaN y = NaN"
| "fl_div x NaN = NaN"
| "fl_div (Fin a) (Fin b) = (if b = 0 then inf_of_sign (fl_sgn (Fin a)) else round64 (a / b))"
| "fl_div (Fin a) y = Fin 0"
| "fl_div x (Fin b) = (if b = 0 then x else inf_of_sign (fl_sgn x * fl_sgn (Fin b)))"
| "fl_div x y = NaN"

text \<open>numpy's remainder by a positive finite modulus (\<^verbatim>\<open>lon % 360.0\<close>): the exact remainder
  truncated towards zero, moved up by the modulus when it is negative.\<close>

definition rat_fmod :: "rat \<Rightarrow> rat \<Rightarrow> rat" where
  "rat_fmod a b = (if 0 \<le> a then a - of_int \<lfloor>a / b\<rfloor> * b else a - of_int \<lceil>a / b\<rceil> * b)"

fun fl_mod :: "fl \<Rightarrow> rat \<Rightarrow> fl" where
  "fl_mod (Fin a) b = (let m = rat_fmod a b in if m < 0 then round64 (m + b) else Fin m)"
| "fl_mod x b = NaN"

fun fl_lt :: "fl \<Rightarrow> fl \<Rightarrow> bool" where
  "fl_lt NaN y = False"
| "fl_lt x NaN = False"
| "fl_lt PInf y = False"
| "fl_lt x NInf = False"
| "fl_lt NInf y = True"
| "fl_lt x PInf = True"
| "fl_lt (Fin a) (Fin b) = (a < b)"

definition fl_eq :: "fl \<Rightarrow> fl \<Rightarrow> bool" where
  "fl_eq x y = (x \<noteq> NaN \<and> x = y)"

definition fl_le :: "fl \<Rightarrow> fl \<Rightarrow> bool" where
  "fl_le x y = (fl_lt x y \<or> fl_eq x y)"

definition of_intf :: "int \<Rightarrow> fl" where
  "of_intf i = round64 (of_int i)"

text \<open>\<^verbatim>\<open>int(np.around(x))\<close>: NaN raises \<^verbatim>\<open>ValueError\<close>, an infinity \<^verbatim>\<open>OverflowError\<close>.\<close>

fun int_around :: "fl \<Rightarrow> int res" where
  "int_around NaN = Inl (ValueError ''cannot convert float NaN to integer'')"
| "int_around PInf = Inl (OverflowError ''cannot convert float infinity to integer'')"
| "int_around NInf = Inl (OverflowError ''cannot convert float infinity to integer'')"
| "int_around (Fin a) = Inr (rne a)"

text \<open>\<^verbatim>\<open>np.nan_to_num\<close>: NaN becomes zero and the infinities the largest finite doubles.\<close>

fun nan_to_num :: "fl \<Rightarrow> fl" where
  "nan_to_num NaN = Fin 0"
| "nan_to_num PInf = Fin max64"
| "nan_to_num NInf = Fin (- max64)"
| "nan_to_num (Fin a) = Fin a"

text \<open>The format \<^verbatim>\<open>{x:.2f}\<close>: the exact value rounded to two decimals, ties to even.\<close>

fun fmt_2f :: "fl \<Rightarrow> string" where
  "fmt_2f NaN = ''nan''"
| "fmt_2f PInf = ''inf''"
| "fmt_2f NInf = ''-inf''"
| "fmt_2f (Fin a) =
     (let c = nat (rne (\<bar>a\<bar> * 100))
      in (if a < 0 then ''-'' else []) @ show_nat (c div 100) @ ''.'' @ show_pad 2 (int (c mod 100)))"

section \<open>Laws\<close>

lemma rne_of_int [simp, fl_simps]: "rne (of_int i) = i"
  by (simp add: rne_def)

lemma rne_error: "\<bar>of_int (rne q) - q\<bar> \<le> 1 / 2"
proof -
  have "of_int \<lfloor>q\<rfloor> \<le> q" "q < of_int \<lfloor>q\<rfloor> + 1" by linarith+
  then show ?thesis by (auto simp: rne_def Let_def)
qed

lemma rne_mono: "p \<le> q \<Longrightarrow> rne p \<le> rne q"
proof -
  assume le: "p \<le> q"
  have fl: "\<lfloor>p\<rfloor> \<le> \<lfloor>q\<rfloor>" using le by (rule floor_mono)
  show ?thesis
  proof (cases "\<lfloor>p\<rfloor> = \<lfloor>q\<rfloor>")
    case True
    then show ?thesis using le by (auto simp: rne_def Let_def)
  next
    case False
    with fl have "\<lfloor>p\<rfloor> + 1 \<le> \<lfloor>q\<rfloor>" by linarith
    then show ?thesis by (auto simp: rne_def Let_def)
  qed
qed

lemma rne_bounds: "of_int (rne q) - 1 / 2 \<le> q \<and> q \<le> of_int (rne q) + 1 / 2"
  using rne_error [of q] by linarith

lemma two_pow_pos [simp]: "0 < two_pow e"
  by (simp add: two_pow_def)

lemma two_pow_nonneg [simp]: "0 \<le> two_pow e"
  by (simp add: two_pow_def)

lemma two_pow_nonzero [simp]: "two_pow e \<noteq> 0"
  by (simp add: two_pow_def)

lemma round64_0 [simp, fl_simps]: "round64 0 = Fin 0"
  by (simp add: round64_def)

lemma round64_not_nan [simp, fl_simps]: "round64 q \<noteq> NaN"
  by (simp add: round64_def Let_def)

lemma fl_add_NaN [simp, fl_simps]: "fl_add x NaN = NaN" "fl_add NaN x = NaN"
  by (cases x; simp)+

lemma fl_sub_NaN [simp, fl_simps]: "fl_sub x NaN = NaN" "fl_sub NaN x = NaN"
  by (simp_all add: fl_sub_def)

lemma fl_abs_NaN_iff [simp, fl_simps]: "fl_abs x = NaN \<longleftrightarrow> x = NaN"
  by (cases x) auto

lemma fl_lt_NaN [simp, fl_simps]: "\<not> fl_lt x NaN" "\<not> fl_lt NaN x"
  by (cases x; simp)+

lemma fl_le_NaN [simp, fl_simps]: "\<not> fl_le x NaN" "\<not> fl_le NaN x"
  by (simp_all add: fl_le_def fl_eq_def)

lemma fl_lt_irrefl [simp]: "\<not> fl_lt x x"
  by (cases x) auto

lemma fl_lt_trans: "fl_lt x y \<Longrightarrow> fl_lt y z \<Longrightarrow> fl_lt x z"
  by (cases x; cases y; cases z) auto

lemma fl_not_lt_imp_le: "\<not> fl_lt x y \<Longrightarrow> x \<noteq> NaN \<Longrightarrow> y \<noteq> NaN \<Longrightarrow> fl_le y x"
  by (cases x; cases y) (auto simp: fl_le_def fl_eq_def)

lemma fl_le_not_lt: "fl_le x y \<Longrightarrow> \<not> fl_lt y x"
  by (cases x; cases y) (auto simp: fl_le_def fl_eq_def)

lemma fl_le_Fin [simp, fl_simps]: "fl_le (Fin a) (Fin b) \<longleftrightarrow> a \<le> b"
  by (auto simp: fl_le_def fl_eq_def)

lemma nan_to_num_finite: "is_finite (nan_to_num x)"
  by (cases x) (auto simp: is_finite_def)

lemma is_finite_iff: "is_finite x \<longleftrightarrow> (\<exists>a. x = Fin a)"
  by (cases x) (auto simp: is_finite_def)

section \<open>Accuracy of rounding\<close>


lemma two_pow_powi: "two_pow e = 2 powi e"
  by (simp add: two_pow_def power_int_def inverse_eq_divide power_one_over)

lemma two_pow_add: "two_pow (a + b) = two_pow a * two_pow b"
  by (simp add: two_pow_powi power_int_add)

lemma two_pow_mono: "a \<le> b \<Longrightarrow> two_pow a \<le> two_pow b"
  by (simp add: two_pow_powi power_int_increasing)

lemma two_pow_nat: "two_pow (int n) = 2 ^ n"
  by (simp add: two_pow_def)

lemma ilog2_bounds:
  assumes "0 < q"
  shows "two_pow (ilog2 q) \<le> q \<and> q < two_pow (ilog2 q + 1)"
proof -
  obtain n d where nd: "quotient_of q = (n, d)" by (cases "quotient_of q")
  have d: "0 < d" using nd by (rule quotient_of_denom_pos)
  have q: "q = of_int n / of_int d" using nd by (rule quotient_of_div)
  with assms d have n: "0 < n" by (simp add: zero_less_divide_iff)
  let ?a = "floorlog 2 (nat n)" and ?b = "floorlog 2 (nat d)"
  have a: "2 ^ (?a - 1) \<le> nat n" "nat n < 2 ^ ?a" and b: "2 ^ (?b - 1) \<le> nat d" "nat d < 2 ^ ?b"
    using floorlog_bounds [of "nat n" 2] floorlog_bounds [of "nat d" 2] n d by auto
  have pos: "0 < ?a" "0 < ?b" using a b n d by (auto intro!: gr0I)
  have A1: "two_pow (int ?a - 1) \<le> of_int n"
  proof -
    have "(2::rat) ^ (?a - 1) \<le> of_nat (nat n)" using a(1) by (metis of_nat_le_iff of_nat_numeral of_nat_power)
    then show ?thesis using pos n by (simp add: two_pow_def nat_diff_distrib)
  qed
  have A2: "of_int n < two_pow (int ?a)"
  proof -
    have "of_nat (nat n) < (2::rat) ^ ?a" using a(2) by (metis of_nat_less_iff of_nat_numeral of_nat_power)
    then show ?thesis using n by (simp add: two_pow_nat)
  qed
  have B1: "two_pow (int ?b - 1) \<le> of_int d"
  proof -
    have "(2::rat) ^ (?b - 1) \<le> of_nat (nat d)" using b(1) by (metis of_nat_le_iff of_nat_numeral of_nat_power)
    then show ?thesis using pos d by (simp add: two_pow_def nat_diff_distrib)
  qed
  have B2: "of_int d < two_pow (int ?b)"
  proof -
    have "of_nat (nat d) < (2::rat) ^ ?b" using b(2) by (metis of_nat_less_iff of_nat_numeral of_nat_power)
    then show ?thesis using d by (simp add: two_pow_nat)
  qed
  let ?k = "int ?a - int ?b"
  have lo: "two_pow (?k - 1) \<le> q"
  proof -
    have "two_pow (?k - 1) * of_int d \<le> two_pow (?k - 1) * two_pow (int ?b)"
      using B2 by (intro mult_left_mono) (auto intro: less_imp_le)
    also have "\<dots> = two_pow (int ?a - 1)" by (simp flip: two_pow_add)
    finally have "two_pow (?k - 1) * of_int d \<le> of_int n" using A1 by linarith
    then show ?thesis using d q by (simp add: pos_le_divide_eq)
  qed
  have hi: "q < two_pow (?k + 1)"
  proof -
    have "two_pow (int ?a) = two_pow (?k + 1) * two_pow (int ?b - 1)" by (simp flip: two_pow_add)
    also have "\<dots> \<le> two_pow (?k + 1) * of_int d"
      using B1 by (intro mult_left_mono) (auto intro: less_imp_le)
    finally have "of_int n < two_pow (?k + 1) * of_int d" using A2 by linarith
    then show ?thesis using d q by (simp add: pos_divide_less_eq)
  qed
  show ?thesis using lo hi nd by (auto simp: ilog2_def Let_def)
qed

text \<open>On the normal range rounding is within half a unit of the 53-bit mantissa, so a positive
  number stays positive.\<close>

lemma round64_normal:
  assumes lo: "two_pow (- 1022) \<le> q" and hi: "q < two_pow 1023"
  shows "\<exists>v. round64 q = Fin v \<and> 0 < v \<and> \<bar>v - q\<bar> \<le> q / 2 ^ 53"
proof -
  have q: "0 < q" using lo two_pow_pos [of "- 1022"] by linarith
  note B = ilog2_bounds [OF q]
  have e: "- 1022 \<le> ilog2 q"
  proof (rule ccontr)
    assume "\<not> - 1022 \<le> ilog2 q"
    then have "two_pow (ilog2 q + 1) \<le> two_pow (- 1022)" by (intro two_pow_mono) simp
    with B lo show False by linarith
  qed
  have e': "ilog2 q + 1 \<le> 1023"
  proof (rule ccontr)
    assume "\<not> ilog2 q + 1 \<le> 1023"
    then have "two_pow 1023 \<le> two_pow (ilog2 q)" by (intro two_pow_mono) simp
    with B hi show False by linarith
  qed
  let ?u = "two_pow (ilog2 q - 52)"
  have u: "ulp64 q = ?u" using e q by (simp add: ulp64_def)
  have up: "0 < ?u" by simp
  let ?v = "of_int (rne (q / ?u)) * ?u"
  have split: "two_pow (ilog2 q) = two_pow 52 * ?u" "two_pow (ilog2 q + 1) = two_pow 53 * ?u"
    by (simp_all add: add.commute flip: two_pow_add)
  have r: "two_pow 52 \<le> q / ?u" "q / ?u < two_pow 53"
    using B up by (simp_all add: split pos_le_divide_eq pos_divide_less_eq)
  have "rne (two_pow 52) \<le> rne (q / ?u)" "rne (q / ?u) \<le> rne (two_pow 53)"
    using r by (auto intro!: rne_mono)
  then have k: "2 ^ 52 \<le> rne (q / ?u)" "rne (q / ?u) \<le> 2 ^ 53"
    using rne_of_int [of "2 ^ 52"] rne_of_int [of "2 ^ 53"] by (simp_all add: two_pow_def)
  then have v_lo: "0 < ?v" by (intro mult_pos_pos) auto
  have "?v \<le> of_int (2 ^ 53) * ?u"
    using k(2) up by (intro mult_right_mono) (auto simp only: of_int_le_iff less_imp_le)
  also have "\<dots> = two_pow (ilog2 q + 1)" by (simp add: split two_pow_def [of 53])
  also have "\<dots> \<le> two_pow 1023" using e' by (rule two_pow_mono)
  also have "two_pow 1023 \<le> max64" by (simp add: two_pow_def max64_def)
  finally have v_hi: "?v \<le> max64" .
  have "\<bar>of_int (rne (q / ?u)) - q / ?u\<bar> * ?u \<le> (1 / 2) * ?u"
    using rne_error [of "q / ?u"] up by (intro mult_right_mono) auto
  moreover have "\<bar>of_int (rne (q / ?u)) - q / ?u\<bar> * ?u = \<bar>?v - q\<bar>"
    by (simp add: abs_mult_pos left_diff_distrib)
  ultimately have err: "\<bar>?v - q\<bar> \<le> ?u / 2" by simp
  have "two_pow 52 * ?u \<le> q" using B split by simp
  then have "?u / 2 \<le> q / 2 ^ 53" by (simp add: two_pow_def [of 52] field_simps)
  with err have "\<bar>?v - q\<bar> \<le> q / 2 ^ 53" by linarith
  moreover have "round64 q = Fin ?v"
    using q v_lo v_hi by (simp add: round64_def u Let_def max64_def not_less)
  ultimately show ?thesis using v_lo by blast
qed

lemma ulp64_le: "q \<noteq> 0 \<Longrightarrow> ulp64 q \<le> (\<bar>q\<bar> + 1) / 2 ^ 52"
proof -
  assume "q \<noteq> 0"
  then have B: "two_pow (ilog2 \<bar>q\<bar>) \<le> \<bar>q\<bar>" using ilog2_bounds [of "\<bar>q\<bar>"] by simp
  have tiny: "two_pow (- 1022) \<le> 1" by (simp add: two_pow_def)
  have "two_pow (max (ilog2 \<bar>q\<bar>) (- 1022)) \<le> \<bar>q\<bar> + 1"
    using B tiny abs_ge_zero [of q] by (auto simp: max_def)
  moreover have "ulp64 q = two_pow (max (ilog2 \<bar>q\<bar>) (- 1022)) * two_pow (- 52)"
    unfolding ulp64_def by (subst two_pow_add [symmetric]) simp
  moreover have "two_pow (- 52) = 1 / 2 ^ 52" by (simp add: two_pow_def)
  ultimately show ?thesis by (simp add: divide_right_mono)
qed

lemma ulp64_pos [simp]: "0 < ulp64 q"
  by (simp add: ulp64_def)

text \<open>A number far from the largest double rounds to a finite one, close to it.\<close>

lemma round64_bounded:
  assumes "\<bar>q\<bar> \<le> 2 ^ 1000"
  shows "\<exists>v. round64 q = Fin v \<and> \<bar>v - q\<bar> \<le> (\<bar>q\<bar> + 1) / 2 ^ 53"
proof (cases "q = 0")
  case True
  then show ?thesis by simp
next
  case False
  let ?u = "ulp64 q" and ?v = "of_int (rne (q / ulp64 q)) * ulp64 q"
  have "\<bar>of_int (rne (q / ?u)) - q / ?u\<bar> * ?u \<le> (1 / 2) * ?u"
    by (intro mult_right_mono rne_error) (simp add: less_imp_le)
  moreover have "\<bar>of_int (rne (q / ?u)) - q / ?u\<bar> * ?u = \<bar>?v - q\<bar>"
    using less_imp_neq [OF ulp64_pos [of q]] by (simp add: abs_mult_pos left_diff_distrib less_imp_le)
  ultimately have err: "\<bar>?v - q\<bar> \<le> (\<bar>q\<bar> + 1) / 2 ^ 53" using ulp64_le [OF False] by simp
  also have "\<dots> \<le> \<bar>q\<bar> + 1" using divide_right_mono [of 1 "2 ^ 53" "\<bar>q\<bar> + 1"] by (simp add: divide_le_eq_numeral)
  finally have "\<bar>?v\<bar> \<le> 2 * \<bar>q\<bar> + 1" by linarith
  also have "\<dots> \<le> 2 * 2 ^ 1000 + 1" using assms by linarith
  also have "\<dots> \<le> max64" by (simp add: max64_def)
  finally have "round64 q = Fin ?v" using False by (simp add: round64_def Let_def abs_le_iff not_less max64_def)
  with err show ?thesis by blast
qed

text \<open>The doubles of a moderate size are closed under the arithmetic of the grids.\<close>

definition moderate :: "fl \<Rightarrow> bool" where
  "moderate x \<longleftrightarrow> (\<exists>a. x = Fin a \<and> \<bar>a\<bar> \<le> 2 ^ 900)"

lemma round64_moderate: "\<bar>q\<bar> \<le> 2 ^ 899 \<Longrightarrow> moderate (round64 q)"
proof -
  assume q: "\<bar>q\<bar> \<le> 2 ^ 899"
  then have "\<bar>q\<bar> \<le> 2 ^ 1000" by (rule order_trans) (simp add: power_increasing)
  then obtain v where v: "round64 q = Fin v" "\<bar>v - q\<bar> \<le> (\<bar>q\<bar> + 1) / 2 ^ 53" using round64_bounded by blast
  have "(\<bar>q\<bar> + 1) / 2 ^ 53 \<le> (2 ^ 899 + 1) / 2 ^ 53" using q by (intro divide_right_mono) auto
  also have "\<dots> \<le> 2 ^ 899" by simp
  finally have "\<bar>v\<bar> \<le> 2 ^ 899 + 2 ^ 899" using v(2) q by linarith
  also have "(2::rat) ^ 899 + 2 ^ 899 = 2 ^ 900" by simp
  finally show ?thesis using v by (auto simp: moderate_def)
qed

text \<open>Integers of up to 53 bits are doubles.\<close>

lemma round64_of_int:
  assumes "\<bar>i\<bar> < 2 ^ 53"
  shows "round64 (of_int i) = Fin (of_int i)"
proof (cases "i = 0")
  case False
  let ?q = "of_int i :: rat"
  have pos: "0 < \<bar>?q\<bar>" using False by simp
  note B = ilog2_bounds [OF pos]
  have "\<bar>?q\<bar> < of_int (2 ^ 53)" using assms unfolding of_int_abs [symmetric] of_int_less_iff .
  then have "two_pow (ilog2 \<bar>?q\<bar>) < two_pow 53" using B by (simp add: two_pow_def [of 53])
  then have "ilog2 \<bar>?q\<bar> \<le> 52" using two_pow_mono [of 53 "ilog2 \<bar>?q\<bar>"] by linarith
  then have "max (ilog2 \<bar>?q\<bar>) (- 1022) - 52 \<le> 0" by simp
  then obtain n where n: "max (ilog2 \<bar>?q\<bar>) (- 1022) - 52 = - int n"
    using nonpos_int_cases by blast
  then have u: "ulp64 ?q = 1 / 2 ^ n" by (simp add: ulp64_def two_pow_def)
  have "?q / ulp64 ?q = of_int (i * 2 ^ n)" by (simp add: u)
  then have "of_int (rne (?q / ulp64 ?q)) * ulp64 ?q = ?q" by (simp only: rne_of_int) (simp add: u)
  moreover have "\<bar>?q\<bar> \<le> max64"
  proof -
    have "\<bar>?q\<bar> \<le> 2 ^ 53" using \<open>\<bar>?q\<bar> < of_int (2 ^ 53)\<close> by simp
    also have "\<dots> \<le> max64" by (simp add: max64_def)
    finally show ?thesis .
  qed
  ultimately show ?thesis using False by (simp add: round64_def Let_def abs_le_iff not_less)
qed simp

lemma of_intf_exact [fl_simps]: "\<bar>i\<bar> < 2 ^ 53 \<Longrightarrow> of_intf i = Fin (of_int i)"
  by (simp add: of_intf_def round64_of_int)

text \<open>Evaluation: numbers of a moderate size need no comparison with the largest double.\<close>

lemma round64_code [code]:
  "round64 q =
     (if q = 0 then Fin 0
      else let u = ulp64 q; v = of_int (rne (q / u)) * u
           in if \<bar>q\<bar> < 1152921504606846976 then Fin v
              else if max64 < v then PInf else if v < - max64 then NInf else Fin v)"
proof -
  have "\<exists>v. round64 q = Fin v" if "\<bar>q\<bar> < 1152921504606846976"
  proof -
    have "\<bar>q\<bar> \<le> 1152921504606846976" using that by simp
    also have "(1152921504606846976::rat) \<le> 2 ^ 1000" by simp
    finally show ?thesis using round64_bounded by blast
  qed
  then show ?thesis by (auto simp: round64_def Let_def split: if_splits)
qed

lemma ilog2_code [code]:
  "ilog2 q = (let (n, d) = quotient_of q; k = bitlen n - bitlen d in if two_pow k \<le> q then k else k - 1)"
  by (simp add: ilog2_def bitlen_def)

text \<open>Rounding does not pass an integer.\<close>

lemma ilog2_le: "0 < q \<Longrightarrow> q < two_pow (e + 1) \<Longrightarrow> ilog2 q \<le> e"
proof (rule ccontr)
  assume q: "0 < q" "q < two_pow (e + 1)" and "\<not> ilog2 q \<le> e"
  then have "two_pow (e + 1) \<le> two_pow (ilog2 q)" by (intro two_pow_mono) simp
  with ilog2_bounds [OF q(1)] q(2) show False by linarith
qed

lemma ulp64_unit_fraction:
  assumes "0 < q" and "q < 2 ^ 53"
  shows "\<exists>n. ulp64 q = 1 / 2 ^ n"
proof -
  have "ilog2 q \<le> 52" using assms by (intro ilog2_le) (simp_all add: two_pow_def)
  then have "max (ilog2 q) (- 1022) - 52 \<le> 0" by simp
  then obtain n where "max (ilog2 q) (- 1022) - 52 = - int n" using nonpos_int_cases by blast
  then have "ulp64 q = 1 / 2 ^ n" using assms(1) by (simp add: ulp64_def two_pow_def)
  then show ?thesis by blast
qed

lemma round64_le_int:
  assumes "0 < q" and "q \<le> of_int i" and "i < 2 ^ 52"
  shows "\<exists>v. round64 q = Fin v \<and> 0 \<le> v \<and> v \<le> of_int i"
proof -
  have "of_int i < (of_int (2 ^ 52) :: rat)" using assms(3) by (simp only: of_int_less_iff)
  then have small: "q < 2 ^ 52" using assms(2) by simp
  then have "q < 2 ^ 53" by (rule less_le_trans) simp
  then obtain n where u: "ulp64 q = 1 / 2 ^ n" using ulp64_unit_fraction [OF assms(1)] by blast
  have "rne (q / ulp64 q) \<le> rne (of_int (i * 2 ^ n))"
    using assms(2) by (intro rne_mono) (simp add: u mult_right_mono)
  then have hi: "rne (q / ulp64 q) \<le> i * 2 ^ n" by (simp only: rne_of_int)
  have "rne 0 \<le> rne (q / ulp64 q)" using assms(1) by (intro rne_mono) (simp add: u)
  then have lo: "0 \<le> rne (q / ulp64 q)" using rne_of_int [of 0] by simp
  have "of_int (rne (q / ulp64 q)) * ulp64 q \<le> of_int (i * 2 ^ n) * ulp64 q"
    using hi by (intro mult_right_mono) (simp_all only: of_int_le_iff ulp64_pos less_imp_le)
  also have "\<dots> = of_int i" by (simp add: u)
  finally have "of_int (rne (q / ulp64 q)) * ulp64 q \<le> of_int i" .
  moreover have "0 \<le> of_int (rne (q / ulp64 q)) * ulp64 q"
    using lo by (intro mult_nonneg_nonneg) (simp_all add: less_imp_le)
  moreover have "\<bar>q\<bar> \<le> 2 ^ 1000"
  proof -
    have "\<bar>q\<bar> \<le> 2 ^ 52" using small assms(1) by simp
    also have "\<dots> \<le> 2 ^ 1000" by simp
    finally show ?thesis .
  qed
  moreover have "round64 q = Fin (of_int (rne (q / ulp64 q)) * ulp64 q)"
    using round64_bounded [OF calculation(3)] assms(1)
    by (auto simp: round64_def Let_def split: if_splits)
  ultimately show ?thesis by blast
qed

text \<open>A longitude reduced modulo 360 lies between 0 and 360; 360 itself occurs, for a tiny
  negative longitude.\<close>

lemma rat_fmod_nonneg: "0 \<le> a \<Longrightarrow> 0 < b \<Longrightarrow> 0 \<le> rat_fmod a b \<and> rat_fmod a b < b"
proof -
  assume ab: "0 \<le> a" "0 < b"
  have lo: "of_int \<lfloor>a / b\<rfloor> \<le> a / b" and hi: "a / b < of_int \<lfloor>a / b\<rfloor> + 1" by linarith+
  have "of_int \<lfloor>a / b\<rfloor> * b \<le> a" using lo ab by (simp only: pos_le_divide_eq)
  moreover have "a < (of_int \<lfloor>a / b\<rfloor> + 1) * b" using hi ab by (simp only: pos_divide_less_eq)
  ultimately have "of_int \<lfloor>a / b\<rfloor> * b \<le> a" "a < (of_int \<lfloor>a / b\<rfloor> + 1) * b" .
  then show ?thesis using ab by (simp add: rat_fmod_def algebra_simps)
qed

lemma rat_fmod_neg: "a < 0 \<Longrightarrow> 0 < b \<Longrightarrow> - b < rat_fmod a b \<and> rat_fmod a b \<le> 0"
proof -
  assume ab: "a < 0" "0 < b"
  have hi: "a / b \<le> of_int \<lceil>a / b\<rceil>" and lo: "of_int \<lceil>a / b\<rceil> - 1 < a / b" by linarith+
  have "a \<le> of_int \<lceil>a / b\<rceil> * b" using hi ab by (simp only: pos_divide_le_eq)
  moreover have "(of_int \<lceil>a / b\<rceil> - 1) * b < a" using lo ab by (simp only: pos_less_divide_eq)
  ultimately have "a \<le> of_int \<lceil>a / b\<rceil> * b" "(of_int \<lceil>a / b\<rceil> - 1) * b < a" .
  then show ?thesis using ab by (simp add: rat_fmod_def algebra_simps)
qed

lemma fl_mod_range:
  assumes "0 < i" and "i < 2 ^ 52"
  shows "\<exists>v. fl_mod (Fin a) (of_int i) = Fin v \<and> 0 \<le> v \<and> v \<le> of_int i"
proof -
  have i: "(0::rat) < of_int i" using assms(1) by simp
  show ?thesis
  proof (cases "rat_fmod a (of_int i) < 0")
    case True
    then have "a < 0" using rat_fmod_nonneg [OF _ i, of a] by force
    then have "0 < rat_fmod a (of_int i) + of_int i" using rat_fmod_neg [OF _ i, of a] by linarith
    then show ?thesis using True round64_le_int [OF _ _ assms(2)] by (simp add: Let_def)
  next
    case False
    moreover have "rat_fmod a (of_int i) \<le> of_int i"
      using rat_fmod_nonneg [OF _ i, of a] rat_fmod_neg [OF _ i, of a] i by linarith
    ultimately show ?thesis by (simp add: Let_def)
  qed
qed

end
