(* ===== verification/PyVal.thy ===== *)
theory PyVal
  imports Float64 "HOL-Library.Word"
begin

text \<open>
  The two dictionaries every algorithm works on. The configuration dictionary holds what
  XML and YAML files give: strings, numbers, booleans, lists and nested dictionaries
  (\<open>cval\<close>). The shared dictionary that \<^verbatim>\<open>run_chain_on_single_file\<close> passes down the chain
  also holds numpy arrays (\<open>sval\<close>). A Python dictionary keeps insertion order, so it is an
  association list: assignment to a key replaces its value in place or appends the key
  (\<open>AList.update\<close>), and a missing key raises \<^verbatim>\<open>KeyError\<close>.

  \<open>dataset\<close> stands for an open netCDF4 \<^verbatim>\<open>Dataset\<close>, a third-party object: its record fields
  are the answers of that library to the reads the algorithms make, so every definition that
  reads a file takes them as an argument.
\<close>

named_theorems dict_simps \<open>rewriting of dictionary reads and writes\<close>

section \<open>Values\<close>

datatype cval =
    CNone
  | CBool bool
  | CInt int
  | CFloat fl
  | CStr string
  | CList "cval list"
  | CDict "(string \<times> cval) list"

datatype sval =
    SNone
  | SBool bool
  | SInt int
  | SFloat fl
  | SStr string
  | SDict "(string \<times> sval) list"
  | SF "fl list"               \<comment> \<open>float64 array, one dimension\<close>
  | SI "nat list"              \<comment> \<open>index array, from \<^verbatim>\<open>np.where\<close>\<close>
  | SB "bool list"             \<comment> \<open>boolean array\<close>
  | SU8 "8 word list"          \<comment> \<open>uint8 array\<close>
  | SU64 "64 word list"        \<comment> \<open>uint array (\<^verbatim>\<open>np.uint\<close> is 64 bits wide)\<close>
  | SF2 nat "fl list list"     \<comment> \<open>two-dimensional float array: number of columns, rows\<close>
  | SNd "nat list" "fl list"   \<comment> \<open>array of three or more dimensions: shape, data\<close>
  | SLists "fl list list"      \<comment> \<open>Python list of lists of floats\<close>

type_synonym 'v dict = "(string \<times> 'v) list"
type_synonym config = "cval dict"
type_synonym shared = "sval dict"

text \<open>Truth of a configuration value in a condition.\<close>

fun truthy :: "cval \<Rightarrow> bool" where
  "truthy CNone = False"
| "truthy (CBool b) = b"
| "truthy (CInt i) = (i \<noteq> 0)"
| "truthy (CFloat x) = (x \<noteq> Fin 0)"
| "truthy (CStr s) = (s \<noteq> [])"
| "truthy (CList xs) = (xs \<noteq> [])"
| "truthy (CDict d) = (d \<noteq> [])"

section \<open>Dictionaries\<close>

definition dhas :: "'v dict \<Rightarrow> string \<Rightarrow> bool" where
  "dhas d k = (map_of d k \<noteq> None)"

definition dget :: "'v dict \<Rightarrow> string \<Rightarrow> 'v res" where
  "dget d k = of_option (KeyError k) (map_of d k)"

definition dset :: "'v dict \<Rightarrow> string \<Rightarrow> 'v \<Rightarrow> 'v dict" where
  "dset d k v = AList.update k v d"

definition dpop :: "'v dict \<Rightarrow> string \<Rightarrow> 'v dict" where
  "dpop d k = AList.delete k d"

text \<open>\<^verbatim>\<open>a | b\<close>: the entries of \<open>b\<close> override and follow those of \<open>a\<close>.\<close>

fun dmerge :: "'v dict \<Rightarrow> 'v dict \<Rightarrow> 'v dict" where
  "dmerge a [] = a"
| "dmerge a ((k, v) # b) = dmerge (dset a k v) b"

text \<open>\<^verbatim>\<open>config[a][b]\<close>: subscripting a value that is no dictionary raises \<^verbatim>\<open>TypeError\<close>.\<close>

definition as_cdict :: "cval \<Rightarrow> config res" where
  "as_cdict v = (case v of CDict d \<Rightarrow> Inr d | _ \<Rightarrow> Inl (TypeError ''not subscriptable''))"

definition cget2 :: "config \<Rightarrow> string \<Rightarrow> string \<Rightarrow> cval res" where
  "cget2 cfg a b = rbind (dget cfg a) (\<lambda>v. rbind (as_cdict v) (\<lambda>d. dget d b))"

definition cflag :: "config \<Rightarrow> string \<Rightarrow> string \<Rightarrow> bool res" where
  "cflag cfg a b = rbind (cget2 cfg a b) (\<lambda>v. Inr (truthy v))"

text \<open>\<^verbatim>\<open>"key" in config and config["key"]\<close>\<close>

definition opt_flag :: "config \<Rightarrow> string \<Rightarrow> bool" where
  "opt_flag cfg k = (case map_of cfg k of None \<Rightarrow> False | Some v \<Rightarrow> truthy v)"

section \<open>Reading values of a known kind\<close>

definition as_floats :: "sval \<Rightarrow> fl list res" where
  "as_floats v = (case v of SF xs \<Rightarrow> Inr xs | _ \<Rightarrow> Inl (TypeError ''float array expected''))"

definition as_indices :: "sval \<Rightarrow> nat list res" where
  "as_indices v = (case v of SI xs \<Rightarrow> Inr xs | _ \<Rightarrow> Inl (TypeError ''index array expected''))"

definition as_bools :: "sval \<Rightarrow> bool list res" where
  "as_bools v = (case v of SB xs \<Rightarrow> Inr xs | _ \<Rightarrow> Inl (TypeError ''boolean array expected''))"

definition as_rows :: "sval \<Rightarrow> (nat \<times> fl list list) res" where
  "as_rows v = (case v of SF2 c rows \<Rightarrow> Inr (c, rows) | _ \<Rightarrow> Inl (ValueError ''not enough values to unpack''))"

definition as_string :: "sval \<Rightarrow> string res" where
  "as_string v = (case v of SStr s \<Rightarrow> Inr s | _ \<Rightarrow> Inl (TypeError ''string expected''))"

definition as_int :: "sval \<Rightarrow> int res" where
  "as_int v = (case v of SInt i \<Rightarrow> Inr i | _ \<Rightarrow> Inl (TypeError ''int expected''))"

definition as_sdict :: "sval \<Rightarrow> shared res" where
  "as_sdict v = (case v of SDict d \<Rightarrow> Inr d | _ \<Rightarrow> Inl (TypeError ''not subscriptable''))"

text \<open>A number in a configuration, as a double.\<close>

definition as_number :: "cval \<Rightarrow> fl res" where
  "as_number v = (case v of CFloat x \<Rightarrow> Inr x | CInt i \<Rightarrow> Inr (of_intf i)
     | CBool b \<Rightarrow> Inr (Fin (if b then 1 else 0)) | _ \<Rightarrow> Inl (TypeError ''number expected''))"

definition cstring :: "cval \<Rightarrow> string res" where
  "cstring v = (case v of CStr s \<Rightarrow> Inr s | _ \<Rightarrow> Inl (TypeError ''string expected''))"

section \<open>Open netCDF files\<close>

record dataset =
  ds_isinstance :: bool                          \<comment> \<open>\<^verbatim>\<open>isinstance(l1b, Dataset)\<close>\<close>
  ds_getitem :: "string \<Rightarrow> sval res"              \<comment> \<open>\<^verbatim>\<open>l1b["name"][:].data\<close>\<close>
  ds_variables :: "string \<Rightarrow> sval option"         \<comment> \<open>\<^verbatim>\<open>l1b.variables["name"][:].data\<close>\<close>
  ds_attr :: "string \<Rightarrow> sval option"              \<comment> \<open>\<^verbatim>\<open>l1b.name\<close>, a global attribute\<close>

text \<open>\<^verbatim>\<open>l1b.variables\<close> is a dictionary.\<close>

definition nc_var :: "dataset \<Rightarrow> string \<Rightarrow> sval res" where
  "nc_var nc k = of_option (KeyError k) (ds_variables nc k)"

definition nc_floats :: "dataset \<Rightarrow> string \<Rightarrow> fl list res" where
  "nc_floats nc k = rbind (nc_var nc k) as_floats"

text \<open>The \<^verbatim>\<open>size\<close> of a variable: the number of its elements.\<close>

fun arr_size :: "sval \<Rightarrow> nat" where
  "arr_size (SF xs) = length xs"
| "arr_size (SI xs) = length xs"
| "arr_size (SB xs) = length xs"
| "arr_size (SU8 xs) = length xs"
| "arr_size (SU64 xs) = length xs"
| "arr_size (SF2 c rows) = length rows * c"
| "arr_size (SNd shape xs) = length xs"
| "arr_size _ = 1"

text \<open>A global attribute; a missing one raises \<^verbatim>\<open>AttributeError\<close>.\<close>

definition nc_attr :: "dataset \<Rightarrow> string \<Rightarrow> sval res" where
  "nc_attr nc k = of_option (AttributeError k) (ds_attr nc k)"

definition attr_number :: "sval \<Rightarrow> fl res" where
  "attr_number v = (case v of SInt i \<Rightarrow> Inr (of_intf i) | SFloat x \<Rightarrow> Inr x
     | _ \<Rightarrow> Inl (TypeError ''unsupported operand type(s) for /''))"

definition getitem_floats :: "dataset \<Rightarrow> string \<Rightarrow> fl list res" where
  "getitem_floats nc k = rbind (ds_getitem nc k) as_floats"

text \<open>A path in a configuration; it may be left empty.\<close>

definition cpath :: "cval \<Rightarrow> string option res" where
  "cpath v = (case v of CStr s \<Rightarrow> Inr (Some s) | CNone \<Rightarrow> Inr None
     | _ \<Rightarrow> Inl (TypeError ''path should be string, bytes, os.PathLike or integer''))"

section \<open>Laws\<close>

lemma map_of_dset [simp, dict_simps]: "map_of (dset d k v) = (map_of d)(k \<mapsto> v)"
  by (simp add: dset_def map_of_update)

lemma dget_dset [simp, dict_simps]: "dget (dset d k v) k' = (if k' = k then Inr v else dget d k')"
  by (simp add: dget_def)

lemma dhas_dset [simp, dict_simps]: "dhas (dset d k v) k' \<longleftrightarrow> k' = k \<or> dhas d k'"
  by (simp add: dhas_def)

lemma dget_Inr_iff [dict_simps]: "dget d k = Inr v \<longleftrightarrow> map_of d k = Some v"
  by (simp add: dget_def)

lemma dget_Inl_iff [dict_simps]: "dget d k = Inl e \<longleftrightarrow> map_of d k = None \<and> e = KeyError k"
  by (auto simp: dget_def)

lemma dget_missing: "\<not> dhas d k \<Longrightarrow> dget d k = Inl (KeyError k)"
  by (simp add: dhas_def dget_def)

lemma dhas_iff [dict_simps]: "dhas d k \<longleftrightarrow> (\<exists>v. dget d k = Inr v)"
  by (auto simp: dhas_def dget_def)

lemma map_of_dpop [simp, dict_simps]: "map_of (dpop d k) = (map_of d)(k := None)"
  by (simp add: dpop_def delete_conv')

lemma map_of_dmerge [simp, dict_simps]:
  "map_of (dmerge a b) k = (case map_of (rev b) k of None \<Rightarrow> map_of a k | Some v \<Rightarrow> Some v)"
  by (induction a b rule: dmerge.induct) (auto simp: map_add_def split: option.splits)

lemma distinct_dset: "distinct (map fst d) \<Longrightarrow> distinct (map fst (dset d k v))"
  by (simp add: dset_def distinct_update)

lemma dget_Cons [simp]: "dget ((k, v) # d) k' = (if k' = k then Inr v else dget d k')"
  by (simp add: dget_def)

lemma dget_Nil [simp]: "dget [] k = Inl (KeyError k)"
  by (simp add: dget_def)

lemma as_cdict_iff [simp, res_simps]: "as_cdict v = Inr x \<longleftrightarrow> v = CDict x" "as_cdict (CDict x) = Inr x"
  by (cases v) (auto simp: as_cdict_def)

lemma as_floats_iff [simp, res_simps]: "as_floats v = Inr x \<longleftrightarrow> v = SF x" "as_floats (SF x) = Inr x"
  by (cases v) (auto simp: as_floats_def)

lemma as_indices_iff [simp, res_simps]: "as_indices v = Inr x \<longleftrightarrow> v = SI x" "as_indices (SI x) = Inr x"
  by (cases v) (auto simp: as_indices_def)

lemma as_bools_iff [simp, res_simps]: "as_bools v = Inr x \<longleftrightarrow> v = SB x" "as_bools (SB x) = Inr x"
  by (cases v) (auto simp: as_bools_def)

lemma as_string_iff [simp, res_simps]: "as_string v = Inr x \<longleftrightarrow> v = SStr x" "as_string (SStr x) = Inr x"
  by (cases v) (auto simp: as_string_def)

lemma as_int_iff [simp, res_simps]: "as_int v = Inr x \<longleftrightarrow> v = SInt x" "as_int (SInt x) = Inr x"
  by (cases v) (auto simp: as_int_def)

lemma as_sdict_iff [simp, res_simps]: "as_sdict v = Inr x \<longleftrightarrow> v = SDict x" "as_sdict (SDict x) = Inr x"
  by (cases v) (auto simp: as_sdict_def)

lemma cstring_iff [simp, res_simps]: "cstring v = Inr x \<longleftrightarrow> v = CStr x" "cstring (CStr x) = Inr x"
  by (cases v) (auto simp: cstring_def)

lemma as_rows_iff [simp, res_simps]: "as_rows v = Inr x \<longleftrightarrow> v = SF2 (fst x) (snd x)"
    "as_rows (SF2 c rows) = Inr (c, rows)"
  by (cases v; auto simp: as_rows_def)+

text \<open>Two shared dictionaries agree except on the keys in \<open>ks\<close>.\<close>

definition agree_off :: "string set \<Rightarrow> 'v dict \<Rightarrow> 'v dict \<Rightarrow> bool" where
  "agree_off ks d d' = (\<forall>k. k \<notin> ks \<longrightarrow> map_of d' k = map_of d k)"

lemma agree_off_refl [simp, intro]: "agree_off ks d d"
  by (simp add: agree_off_def)

lemma agree_off_trans: "agree_off a x y \<Longrightarrow> agree_off b y z \<Longrightarrow> agree_off (a \<union> b) x z"
  by (simp add: agree_off_def)

lemma agree_off_dset: "agree_off ks d d' \<Longrightarrow> k \<in> ks \<Longrightarrow> agree_off ks d (dset d' k v)"
  by (auto simp: agree_off_def)

lemma agree_off_mono: "agree_off a x y \<Longrightarrow> a \<subseteq> b \<Longrightarrow> agree_off b x y"
  by (auto simp: agree_off_def)

lemma agree_offD: "agree_off ks d d' \<Longrightarrow> k \<notin> ks \<Longrightarrow> map_of d' k = map_of d k"
  by (simp add: agree_off_def)

lemma agree_off_dget: "agree_off ks d d' \<Longrightarrow> k \<notin> ks \<Longrightarrow> dget d' k = dget d k"
  by (simp add: agree_off_def dget_def)

end
