(* ===== verification/Base_Alg.thy ===== *)
theory Base_Alg
  imports PyVal
begin

text \<open>
  The algorithm framework of \<^verbatim>\<open>algorithms/base\<close>: \<^verbatim>\<open>BaseAlgorithm\<close>, from which every
  algorithm of a chain inherits, and \<^verbatim>\<open>BaseFinder\<close>, the base of the L1b file finders.

  A class (\<open>alg_class\<close>) is the module name and the \<^verbatim>\<open>init\<close> method of an algorithm; running
  \<^verbatim>\<open>init\<close> fixes the attributes the instance works with, so it yields the behaviour of the
  instance from then on (\<open>alg_impl\<close>: what \<^verbatim>\<open>process\<close> does after \<^verbatim>\<open>process_setup\<close>, and
  \<^verbatim>\<open>finalize\<close>). An instance (\<open>alg_obj\<close>) also carries the attributes the framework reads.
\<close>

section \<open>Algorithm classes and instances\<close>

record alg_impl =
  impl_body :: "dataset \<Rightarrow> shared \<Rightarrow> ((bool \<times> string) \<times> shared) res"
  impl_finalize :: "int \<Rightarrow> unit res"

record alg_class =
  cls_name :: string
  cls_init :: "config \<Rightarrow> ((bool \<times> string) \<times> alg_impl) res"

record alg_obj =
  obj_class :: alg_class
  obj_alg_name :: string
  obj_config :: config
  obj_filenum :: int
  obj_initialized :: bool
  obj_impl :: "alg_impl option"

definition base_obj :: "alg_class \<Rightarrow> config \<Rightarrow> alg_obj" where
  "base_obj cls cfg =
     \<lparr>obj_class = cls, obj_alg_name = ''clev2er.algorithms.base.base_alg'', obj_config = cfg,
      obj_filenum = 0, obj_initialized = False, obj_impl = None\<rparr>"

text \<open>\<^verbatim>\<open>self.init()\<close>: its first statement sets the name; an exception leaves the rest undone.\<close>

definition run_init :: "alg_obj \<Rightarrow> alg_obj \<times> (bool \<times> string) res" where
  "run_init a =
     (let a1 = a\<lparr>obj_alg_name := cls_name (obj_class a)\<rparr>
      in case cls_init (obj_class a) (obj_config a) of
           Inl e \<Rightarrow> (a1, Inl e)
         | Inr (r, impl) \<Rightarrow> (a1\<lparr>obj_impl := Some impl\<rparr>, Inr r))"

text \<open>\<^verbatim>\<open>BaseAlgorithm.__init__\<close>: with multi-processing the initialization is put off, unless
  shared memory is being set up. The pair \<^verbatim>\<open>init\<close> returns is discarded.\<close>

definition alg_new :: "alg_class \<Rightarrow> config \<Rightarrow> alg_obj res" where
  "alg_new cls cfg =
     (let a = base_obj cls cfg;
          initialize =
            (case run_init a of
               (a', Inl e) \<Rightarrow> Inl e
             | (a', Inr r) \<Rightarrow> Inr (a'\<lparr>obj_initialized := True\<rparr>))
      in rbind (cflag cfg ''chain'' ''use_multi_processing'') (\<lambda>mp.
           if mp then
             rbind (cflag cfg ''chain'' ''use_shared_memory'') (\<lambda>shm.
               if \<not> shm then Inr a
               else if \<not> dhas cfg ''_init_shared_mem'' then Inr a
               else initialize)
           else initialize))"

definition set_filenum :: "int \<Rightarrow> alg_obj \<Rightarrow> alg_obj" where
  "set_filenum n a = a\<lparr>obj_filenum := n\<rparr>"

text \<open>\<^verbatim>\<open>BaseAlgorithm.process_setup\<close>\<close>

definition process_setup :: "alg_obj \<Rightarrow> dataset \<Rightarrow> alg_obj \<times> (bool \<times> string) res" where
  "process_setup a l1b =
     (let check = (if ds_isinstance l1b then (True, [])
                   else (False, ''l1b parameter is not a netCDF4 Dataset type''))
      in case cflag (obj_config a) ''chain'' ''use_multi_processing'' of
           Inl e \<Rightarrow> (a, Inl e)
         | Inr mp \<Rightarrow>
             if mp then
               (case run_init a of
                  (a', Inl e) \<Rightarrow> (a', Inl e)
                | (a', Inr (rval, error_str)) \<Rightarrow>
                    if \<not> rval then (a', Inr (rval, error_str))
                    else (a'\<lparr>obj_initialized := True\<rparr>, Inr check))
             else (a, Inr check))"

text \<open>\<^verbatim>\<open>Algorithm.process\<close>: every algorithm starts with \<^verbatim>\<open>process_setup\<close> and returns its error;
  the rest is the body of the algorithm. An instance whose \<^verbatim>\<open>init\<close> never ran lacks the
  attributes the body reads.\<close>

definition alg_process ::
  "alg_obj \<Rightarrow> dataset \<Rightarrow> shared \<Rightarrow> alg_obj \<times> ((bool \<times> string) \<times> shared) res" where
  "alg_process a l1b sd =
     (case process_setup a l1b of
        (a', Inl e) \<Rightarrow> (a', Inl e)
      | (a', Inr (success, error_str)) \<Rightarrow>
          if \<not> success then (a', Inr ((False, error_str), sd))
          else (case obj_impl a' of
                  None \<Rightarrow> (a', Inl (AttributeError ''attribute set in init() is missing''))
                | Some impl \<Rightarrow> (a', impl_body impl l1b sd)))"

text \<open>\<^verbatim>\<open>obj.finalize(stage)\<close>\<close>

definition alg_finalize :: "alg_obj \<Rightarrow> int \<Rightarrow> unit res" where
  "alg_finalize a stage =
     (case obj_impl a of None \<Rightarrow> Inl (AttributeError ''attribute set in init() is missing'')
      | Some impl \<Rightarrow> impl_finalize impl stage)"

text \<open>\<^verbatim>\<open>BaseAlgorithm.finalize\<close> only logs; it is inherited by algorithms that hold no resource.\<close>

definition base_finalize :: "int \<Rightarrow> unit res" where
  "base_finalize stage = Inr ()"

section \<open>BaseFinder\<close>

record finder =
  f_months :: "int list"
  f_years :: "int list"
  f_config :: config

definition finder_new :: "config option \<Rightarrow> finder" where
  "finder_new cfg = \<lparr>f_months = [], f_years = [],
     f_config = (case cfg of None \<Rightarrow> [] | Some c \<Rightarrow> c)\<rparr>"

definition add_month :: "int \<Rightarrow> finder \<Rightarrow> finder" where
  "add_month m f = f\<lparr>f_months := f_months f @ [m]\<rparr>"

definition add_year :: "int \<Rightarrow> finder \<Rightarrow> finder res" where
  "add_year y f = (if y < 1960 then Inl (ValueError ''year must be > 1960'')
     else Inr (f\<lparr>f_years := f_years f @ [y]\<rparr>))"

section \<open>The contract of an algorithm of a chain\<close>

text \<open>
  Algorithms communicate only through the shared dictionary. What one promises to the
  others is that it writes the keys it documents as its contributions and no other.
\<close>

locale chain_algorithm =
  fixes body :: "dataset \<Rightarrow> shared \<Rightarrow> ((bool \<times> string) \<times> shared) res"
    and contributes :: "string set"
  assumes frame: "body l1b sd = Inr (r, sd') \<Longrightarrow> agree_off contributes sd sd'"
begin

lemma keeps: "body l1b sd = Inr (r, sd') \<Longrightarrow> k \<notin> contributes \<Longrightarrow> dget sd' k = dget sd k"
  using frame by (rule agree_off_dget)

lemma keeps_present:
  "body l1b sd = Inr (r, sd') \<Longrightarrow> k \<notin> contributes \<Longrightarrow> dhas sd k \<Longrightarrow> dhas sd' k"
  by (auto simp: dhas_iff keeps)

end

section \<open>Laws of the life cycle\<close>

lemma run_init_Inr: "run_init a = (a', Inr r) \<Longrightarrow>
    \<exists>impl. cls_init (obj_class a) (obj_config a) = Inr (r, impl) \<and>
      a' = a\<lparr>obj_alg_name := cls_name (obj_class a), obj_impl := Some impl\<rparr>"
  by (auto simp: run_init_def Let_def split: sum.splits prod.splits)

lemma alg_new_sequential:
  assumes "cflag cfg ''chain'' ''use_multi_processing'' = Inr False"
  shows "alg_new cls cfg =
    rbind (cls_init cls cfg) (\<lambda>(r, impl).
      Inr \<lparr>obj_class = cls, obj_alg_name = cls_name cls, obj_config = cfg, obj_filenum = 0,
        obj_initialized = True, obj_impl = Some impl\<rparr>)"
  using assms
  by (cases "cls_init cls cfg")
    (auto simp: alg_new_def run_init_def base_obj_def Let_def split: prod.splits)

lemma alg_new_mp:
  assumes "cflag cfg ''chain'' ''use_multi_processing'' = Inr True"
    and "cflag cfg ''chain'' ''use_shared_memory'' = Inr shm"
    and "\<not> dhas cfg ''_init_shared_mem''"
  shows "alg_new cls cfg = Inr (base_obj cls cfg)"
  using assms by (simp add: alg_new_def Let_def)

text \<open>In sequential mode \<^verbatim>\<open>process\<close> leaves the instance as it is.\<close>

lemma alg_process_sequential:
  assumes "cflag (obj_config a) ''chain'' ''use_multi_processing'' = Inr False"
    and "obj_impl a = Some impl" and "ds_isinstance l1b"
  shows "alg_process a l1b sd = (a, impl_body impl l1b sd)"
  using assms by (simp add: alg_process_def process_setup_def Let_def)

lemma alg_process_mp:
  assumes "cflag (obj_config a) ''chain'' ''use_multi_processing'' = Inr True"
    and "cls_init (obj_class a) (obj_config a) = Inr ((True, m), impl)" and "ds_isinstance l1b"
  shows "alg_process a l1b sd =
    (a\<lparr>obj_alg_name := cls_name (obj_class a), obj_impl := Some impl, obj_initialized := True\<rparr>,
     impl_body impl l1b sd)"
  using assms by (simp add: alg_process_def process_setup_def run_init_def Let_def)

lemma set_filenum_sel [simp]:
  "obj_class (set_filenum n a) = obj_class a" "obj_alg_name (set_filenum n a) = obj_alg_name a"
  "obj_config (set_filenum n a) = obj_config a" "obj_initialized (set_filenum n a) = obj_initialized a"
  "obj_impl (set_filenum n a) = obj_impl a" "obj_filenum (set_filenum n a) = n"
  by (simp_all add: set_filenum_def)

end
