(* ===== verification/Breakpoints.thy ===== *)
theory Breakpoints
  imports PyVal
begin

text \<open>
  \<^verbatim>\<open>utils/breakpoints/breakpoint_files.py\<close>: the shared dictionary written to a netCDF file
  when a breakpoint is reached. The file is the list of items the code asks netCDF4 to
  create, in order; the dimensions are numbered from 1 in the order they are created and are
  shared by all variables of one size (\<open>dim_sizes\<close>).
\<close>

datatype nc_item =
    NcDim nat nat                     \<comment> \<open>\<^verbatim>\<open>createDimension("dim<i>", size)\<close>\<close>
  | NcVar string "nat list"           \<comment> \<open>\<^verbatim>\<open>createVariable\<close>: name and dimension numbers\<close>
  | NcAttr string                     \<comment> \<open>\<^verbatim>\<open>setncattr\<close>\<close>
  | NcGroup string "nc_item list"     \<comment> \<open>\<^verbatim>\<open>createGroup\<close>\<close>

text \<open>The position of a size in \<^verbatim>\<open>dim_sizes\<close>: an existing dimension is reused, a new size
  appends a dimension.\<close>

fun index_of :: "'a \<Rightarrow> 'a list \<Rightarrow> nat" where
  "index_of x [] = 0"
| "index_of x (y # ys) = (if x = y then 0 else Suc (index_of x ys))"

definition use_dim :: "nat \<Rightarrow> nat list \<Rightarrow> nc_item list \<times> nat \<times> nat list" where
  "use_dim sz dim_sizes =
     (if sz \<notin> set dim_sizes
      then ([NcDim (Suc (length dim_sizes)) sz], Suc (length dim_sizes), dim_sizes @ [sz])
      else ([], Suc (index_of sz dim_sizes), dim_sizes))"

fun use_dims :: "nat list \<Rightarrow> nat list \<Rightarrow> nc_item list \<times> nat list \<times> nat list" where
  "use_dims [] ds = ([], [], ds)"
| "use_dims (s # ss) ds =
     (let (it, i, ds1) = use_dim s ds; (its, is, ds2) = use_dims ss ds1
      in (it @ its, i # is, ds2))"

text \<open>The shape of an array value; \<open>None\<close> for a value that is no array.\<close>

fun shape_of :: "sval \<Rightarrow> nat list option" where
  "shape_of (SF xs) = Some [length xs]"
| "shape_of (SI xs) = Some [length xs]"
| "shape_of (SB xs) = Some [length xs]"
| "shape_of (SU8 xs) = Some [length xs]"
| "shape_of (SU64 xs) = Some [length xs]"
| "shape_of (SF2 c rows) = Some [length rows, c]"
| "shape_of (SNd shape xs) = Some shape"
| "shape_of _ = None"

text \<open>The shape of \<^verbatim>\<open>np.array\<close> of a list of lists: lists of one length give two dimensions, the empty list
  one; lists of different lengths raise \<^verbatim>\<open>ValueError\<close>.\<close>

definition lists_shape :: "fl list list \<Rightarrow> nat list res" where
  "lists_shape xss =
     (case xss of
        [] \<Rightarrow> Inr [0]
      | r # rest \<Rightarrow>
          if list_all (\<lambda>row. length row = length r) rest then Inr [length xss, length r]
          else Inl (ValueError ''setting an array element with a sequence. The requested array has an inhomogeneous shape''))"

definition join_key :: "string \<Rightarrow> string \<Rightarrow> string" where
  "join_key parent key = (if parent \<noteq> [] then parent @ ''_'' @ key else key)"

text \<open>\<^verbatim>\<open>create_variables\<close>: a list is made an array first; arrays of up to three dimensions become
  variables, arrays of more dimensions a note in an attribute, scalars and strings attributes,
  dictionaries groups; anything else raises \<^verbatim>\<open>ValueError\<close>.\<close>

fun create_variables :: "string \<Rightarrow> shared \<Rightarrow> nat list \<Rightarrow> (nc_item list \<times> nat list) res"
  and create_variable :: "string \<Rightarrow> sval \<Rightarrow> nat list \<Rightarrow> (nc_item list \<times> nat list) res" where
  "create_variables parent [] ds = Inr ([], ds)"
| "create_variables parent ((key, v) # rest) ds =
     rbind (create_variable (join_key parent key) v ds) (\<lambda>(its, ds1).
       rbind (create_variables parent rest ds1) (\<lambda>(its', ds2). Inr (its @ its', ds2)))"
| "create_variable name (SDict d) ds =
     rbind (create_variables [] d ds) (\<lambda>(its, ds1). Inr ([NcGroup name its], ds1))"
| "create_variable name SNone ds =
     Inl (ValueError (''Unsupported data type for variable '' @ name))"
| "create_variable name (SLists xss) ds =
     rbind (lists_shape xss) (\<lambda>shape.
       let (its, is, ds1) = use_dims shape ds in Inr (its @ [NcVar name is], ds1))"
| "create_variable name v ds =
     (case shape_of v of
        Some shape \<Rightarrow>
          if 1 \<le> length shape \<and> length shape \<le> 3 then
            (let (its, is, ds1) = use_dims shape ds in Inr (its @ [NcVar name is], ds1))
          else Inr ([NcAttr name], ds)
      | None \<Rightarrow> Inr ([NcAttr name], ds))"

definition create_netcdf_file :: "shared \<Rightarrow> nc_item list res" where
  "create_netcdf_file data = rbind (create_variables [] data []) (\<lambda>(its, ds). Inr its)"

text \<open>\<^verbatim>\<open>os.path.basename\<close> and \<^verbatim>\<open>os.path.splitext(..)[0]\<close>: the last dot that is not among the
  leading dots ends the stem.\<close>

definition basename :: "string \<Rightarrow> string" where
  "basename s = last (py_split (CHR ''/'') s)"

definition splitext_stem :: "string \<Rightarrow> string" where
  "splitext_stem s =
     (let lead = takeWhile (\<lambda>c. c = CHR ''.'') s; body = dropWhile (\<lambda>c. c = CHR ''.'') s;
          tail = takeWhile (\<lambda>c. c \<noteq> CHR ''.'') (rev body)
      in if CHR ''.'' \<in> set body then lead @ rev (drop (Suc (length tail)) (rev body)) else s)"

text \<open>\<^verbatim>\<open>write_breakpoint_file\<close>: the path of the file and its contents.\<close>

definition write_breakpoint_file ::
  "config \<Rightarrow> shared \<Rightarrow> string \<Rightarrow> (string \<times> nc_item list) res" where
  "write_breakpoint_file cfg sd bp =
     rbind (if dhas cfg ''breakpoint_files''
            then rbind (cget2 cfg ''breakpoint_files'' ''default_dir'') cstring
            else Inr ''/tmp'') (\<lambda>dir.
     rbind (if dhas sd ''l1b_file_name''
            then rbind (rbind (dget sd ''l1b_file_name'') as_string) (\<lambda>f.
              Inr (dir @ ''/'' @ splitext_stem (basename f) @ ''_bkp_'' @ bp @ ''.nc''))
            else Inr (dir @ ''/breakpoint_'' @ bp @ ''.nc'')) (\<lambda>filename.
     rbind (create_netcdf_file sd) (\<lambda>its. Inr (filename, its))))"

section \<open>Lemmas\<close>

lemma index_of_nth: "x \<in> set xs \<Longrightarrow> index_of x xs < length xs \<and> xs ! index_of x xs = x"
  by (induction xs) auto

text \<open>A dimension number stands for the size it was created with.\<close>

lemma use_dim_correct:
  assumes "use_dim s ds = (it, i, ds')"
  shows "0 < i \<and> i \<le> length ds' \<and> ds' ! (i - 1) = s \<and> (\<exists>more. ds' = ds @ more) \<and>
    (distinct ds \<longrightarrow> distinct ds')"
  using assms index_of_nth [of s ds]
  by (auto simp: use_dim_def nth_append split: if_splits)

lemma use_dims_correct:
  assumes "use_dims ss ds = (its, is, ds')"
  shows "length is = length ss \<and> (\<exists>more. ds' = ds @ more) \<and> (distinct ds \<longrightarrow> distinct ds') \<and>
    (\<forall>j < length ss. 0 < is ! j \<and> is ! j \<le> length ds' \<and> ds' ! (is ! j - 1) = ss ! j)"
  using assms
proof (induction ss arbitrary: ds its "is" ds')
  case Nil
  then show ?case by simp
next
  case (Cons s ss)
  obtain it i ds1 where 1: "use_dim s ds = (it, i, ds1)" by (metis prod_cases3)
  obtain its' is' ds2 where 2: "use_dims ss ds1 = (its', is', ds2)" by (metis prod_cases3)
  with Cons.prems 1 have eq: "is = i # is'" "ds' = ds2" by auto
  note IH = Cons.IH [OF 2] and D = use_dim_correct [OF 1]
  then obtain more where more: "ds2 = ds1 @ more" by blast
  have "j < length (s # ss) \<Longrightarrow> 0 < (i # is') ! j \<and> (i # is') ! j \<le> length ds2 \<and>
      ds2 ! ((i # is') ! j - 1) = (s # ss) ! j" for j
    using D IH more by (cases j) (auto simp: nth_append)
  then show ?case using D IH eq by auto
qed

end
