(* ===== verification/Run_Chain.thy ===== *)
theory Run_Chain
  imports Base_Alg Breakpoints
begin

text \<open>
  \<^verbatim>\<open>tools/run_chain.py\<close>: running a chain of algorithms on one L1b file
  (\<^verbatim>\<open>run_chain_on_single_file\<close>) and on a list of files, sequentially or in sets of parallel
  processes (\<^verbatim>\<open>run_chain\<close>). Logging and timing have no influence on the results and are left
  out; \<^verbatim>\<open>KeyboardInterrupt\<close> is not modelled. What a child process sends back is the list of
  tuples it puts on its return queue.
\<close>

section \<open>The environment\<close>

text \<open>
  The parts outside the program: opening a netCDF file, the text of a traceback, and Python's
  import of an algorithm module (\<open>None\<close> when the import fails).
\<close>

record chain_env =
  env_open :: "string \<Rightarrow> dataset res"
  env_traceback :: "py_error \<Rightarrow> string"
  env_import :: "string \<Rightarrow> alg_class option"

type_synonym finalization = "string \<times> int"   \<comment> \<open>algorithm name, stage\<close>
type_synonym rval = "bool \<times> string"

definition caught :: "py_error \<Rightarrow> bool" where
  "caught e = (is_os_error e \<or> is_value_error e \<or> is_key_error e)"

section \<open>One file\<close>

datatype loop_exit = LoopFail string | LoopBreak | LoopEnd

text \<open>\<^verbatim>\<open>alg_name.rsplit(".", maxsplit=1)[-1]\<close>\<close>

definition last_component :: "string \<Rightarrow> string" where
  "last_component s = last (py_split (CHR ''.'') s)"

text \<open>The loop over \<^verbatim>\<open>alg_object_list\<close>; \<open>dn\<close> are the objects already run.\<close>

fun chain_loop :: "int \<Rightarrow> string \<Rightarrow> dataset \<Rightarrow> alg_obj list \<Rightarrow> alg_obj list \<Rightarrow> shared \<Rightarrow>
    alg_obj list \<times> shared \<times> loop_exit res" where
  "chain_loop filenum bp l1b dn [] sd = (dn, sd, Inr LoopEnd)"
| "chain_loop filenum bp l1b dn (a # rest) sd =
     (case alg_process (set_filenum filenum a) l1b sd of
        (a', Inl e) \<Rightarrow> (dn @ a' # rest, sd, Inl e)
      | (a', Inr ((success, error_str), sd')) \<Rightarrow>
          if \<not> success then (dn @ a' # rest, sd', Inr (LoopFail error_str))
          else if last_component (obj_alg_name a') = bp then (dn @ a' # rest, sd', Inr LoopBreak)
          else chain_loop filenum bp l1b (dn @ [a']) rest sd')"

text \<open>\<^verbatim>\<open>for alg_obj in objs: if alg_obj.initialized: alg_obj.finalize(stage)\<close>: the
  finalizations that ran, and the exception that ended the loop, if any.\<close>

fun finalize_all :: "int \<Rightarrow> alg_obj list \<Rightarrow> finalization list \<times> unit res" where
  "finalize_all stage [] = ([], Inr ())"
| "finalize_all stage (a # rest) =
     (if obj_initialized a then
        (case alg_finalize a stage of
           Inl e \<Rightarrow> ([(obj_alg_name a, stage)], Inl e)
         | Inr u \<Rightarrow> (let (ev, r) = finalize_all stage rest in ((obj_alg_name a, stage) # ev, r)))
      else finalize_all stage rest)"

record file_out =
  fo_result :: "(bool \<times> string \<times> string) res"
  fo_rvals :: "rval list"                \<comment> \<open>put on \<^verbatim>\<open>rval_queue\<close>\<close>
  fo_finalized :: "finalization list"
  fo_objs :: "alg_obj list"

definition queue_put :: "bool \<Rightarrow> bool \<Rightarrow> rval \<Rightarrow> rval list" where
  "queue_put mp has_queue v = (if mp \<and> has_queue then [v] else [])"

text \<open>The \<^verbatim>\<open>except (IOError, ValueError, KeyError)\<close> clause of the function.\<close>

definition file_except :: "chain_env \<Rightarrow> bool \<Rightarrow> bool \<Rightarrow> string \<Rightarrow> string \<Rightarrow> alg_obj list \<Rightarrow>
    rval list \<Rightarrow> finalization list \<Rightarrow> py_error \<Rightarrow> file_out" where
  "file_except env mp has_queue file bp_filename objs q ev e =
     (if caught e then
        let error_str = ''Error processing '' @ file @ '': '' @ env_traceback env e
        in \<lparr>fo_result = Inr (False, error_str, bp_filename),
            fo_rvals = q @ queue_put mp has_queue (False, error_str),
            fo_finalized = ev, fo_objs = objs\<rparr>
      else \<lparr>fo_result = Inl e, fo_rvals = q, fo_finalized = ev, fo_objs = objs\<rparr>)"

definition run_chain_on_single_file :: "chain_env \<Rightarrow> config \<Rightarrow> alg_obj list \<Rightarrow> bool \<Rightarrow>
    string \<Rightarrow> int \<Rightarrow> string \<Rightarrow> file_out" where
  "run_chain_on_single_file env cfg objs has_queue file filenum bp =
     (case cflag cfg ''chain'' ''use_multi_processing'' of
        Inl e \<Rightarrow> \<lparr>fo_result = Inl e, fo_rvals = [], fo_finalized = [], fo_objs = objs\<rparr>
      | Inr mp \<Rightarrow>
          (case env_open env file of
             Inl e \<Rightarrow> file_except env mp has_queue file [] objs [] [] e
           | Inr nc \<Rightarrow>
               (case chain_loop filenum bp nc [] objs [(''l1b_file_name'', SStr file)] of
                  (objs', sd, Inl e) \<Rightarrow> file_except env mp has_queue file [] objs' [] [] e
                | (objs', sd, Inr (LoopFail error_str)) \<Rightarrow>
                    (let q = queue_put mp has_queue (False, error_str) in
                     if mp then
                       (case finalize_all 5 objs' of
                          (ev, Inl e) \<Rightarrow> file_except env mp has_queue file [] objs' q ev e
                        | (ev, Inr u) \<Rightarrow>
                            \<lparr>fo_result = Inr (False, error_str, []), fo_rvals = q,
                             fo_finalized = ev, fo_objs = objs'\<rparr>)
                     else \<lparr>fo_result = Inr (False, error_str, []), fo_rvals = q,
                           fo_finalized = [], fo_objs = objs'\<rparr>)
                | (objs', sd, Inr exit) \<Rightarrow>
                    (case (if exit = LoopBreak then map_sum id fst (write_breakpoint_file cfg sd bp)
                           else Inr []) of
                       Inl e \<Rightarrow> file_except env mp has_queue file [] objs' [] [] e
                     | Inr bp_filename \<Rightarrow>
                         (case (if mp then finalize_all 6 objs' else ([], Inr ())) of
                            (ev, Inl e) \<Rightarrow> file_except env mp has_queue file bp_filename objs' [] ev e
                          | (ev, Inr u) \<Rightarrow>
                              \<lparr>fo_result = Inr (True, [], bp_filename),
                               fo_rvals = queue_put mp has_queue (True, []),
                               fo_finalized = ev, fo_objs = objs'\<rparr>)))))"

section \<open>Importing and creating the algorithms\<close>

datatype init_out =
    InitReturn "finalization list"           \<comment> \<open>\<^verbatim>\<open>return (False, 1, 0, 0, breakpoint_filename)\<close>\<close>
  | InitRaise py_error
  | InitDone "alg_obj list" "alg_obj list"   \<comment> \<open>the objects, and the shared-memory ones\<close>

text \<open>\<^verbatim>\<open>config | {"_init_shared_mem": True}\<close>\<close>

definition shm_config :: "config \<Rightarrow> config" where
  "shm_config cfg = dmerge cfg [(''_init_shared_mem'', CBool True)]"

definition use_shm :: "config \<Rightarrow> bool res" where
  "use_shm cfg = rbind (cflag cfg ''chain'' ''use_multi_processing'') (\<lambda>mp.
     if mp then cflag cfg ''chain'' ''use_shared_memory'' else Inr False)"

text \<open>The module path \<^verbatim>\<open>clev2er.algorithms.<chain_name>.<alg>\<close> that is imported.\<close>

definition module_path :: "config \<Rightarrow> string \<Rightarrow> string res" where
  "module_path cfg alg = rbind (rbind (cget2 cfg ''chain'' ''chain_name'') cstring)
     (\<lambda>n. Inr (''clev2er.algorithms.'' @ n @ ''.'' @ alg))"

fun init_algs :: "chain_env \<Rightarrow> config \<Rightarrow> string \<Rightarrow> string list \<Rightarrow> alg_obj list \<Rightarrow> alg_obj list \<Rightarrow>
    init_out" where
  "init_algs env cfg bp [] objs shms = InitDone objs shms"
| "init_algs env cfg bp (alg # algs) objs shms =
     (case module_path cfg alg of
        Inl e \<Rightarrow> InitRaise e
      | Inr path \<Rightarrow>
     (case env_import env path of
        None \<Rightarrow> InitReturn []
      | Some cls \<Rightarrow>
          (case alg_new cls cfg of
             Inl e \<Rightarrow> if caught e then InitReturn [] else InitRaise e
           | Inr obj \<Rightarrow>
               (case use_shm cfg of
                  Inl e \<Rightarrow> InitRaise e
                | Inr False \<Rightarrow>
                    if alg = bp then InitDone (objs @ [obj]) shms
                    else init_algs env cfg bp algs (objs @ [obj]) shms
                | Inr True \<Rightarrow>
                    (case alg_new cls (shm_config cfg) of
                       Inl e \<Rightarrow>
                         if caught e then
                           (case finalize_all 4 shms of
                              (ev, Inl e') \<Rightarrow> InitRaise e'
                            | (ev, Inr u) \<Rightarrow> InitReturn ev)
                         else InitRaise e
                     | Inr shm_obj \<Rightarrow>
                         if alg = bp then InitDone (objs @ [obj]) (shms @ [shm_obj])
                         else init_algs env cfg bp algs (objs @ [obj]) (shms @ [shm_obj]))))))"

section \<open>All files\<close>

record counts =
  num_errors :: nat
  num_files_processed :: nat
  num_skipped :: nat

definition zero_counts :: counts where
  "zero_counts = \<lparr>num_errors = 0, num_files_processed = 0, num_skipped = 0\<rparr>"

text \<open>The sequential branch: the counts, the last breakpoint file name and the objects.\<close>

fun seq_loop :: "chain_env \<Rightarrow> config \<Rightarrow> string \<Rightarrow> int \<Rightarrow> string list \<Rightarrow> alg_obj list \<Rightarrow> counts \<Rightarrow>
    string \<Rightarrow> (counts \<times> string \<times> alg_obj list) res" where
  "seq_loop env cfg bp fnum [] objs c bpf = Inr (c, bpf, objs)"
| "seq_loop env cfg bp fnum (f # fs) objs c bpf =
     (let out = run_chain_on_single_file env cfg objs False f fnum bp
      in case fo_result out of
           Inl e \<Rightarrow> Inl e
         | Inr (success, error_str, bpf') \<Rightarrow>
             (let c1 = c\<lparr>num_files_processed := num_files_processed c + 1\<rparr> in
              if \<not> success \<and> py_in ''SKIP_OK'' error_str then
                seq_loop env cfg bp (fnum + 1) fs (fo_objs out)
                  (c1\<lparr>num_skipped := num_skipped c1 + 1\<rparr>) bpf'
              else if \<not> success then
                (let c2 = c1\<lparr>num_errors := num_errors c1 + 1\<rparr> in
                 case cflag cfg ''chain'' ''stop_on_error'' of
                   Inl e \<Rightarrow> Inl e
                 | Inr True \<Rightarrow> Inr (c2, bpf', fo_objs out)
                 | Inr False \<Rightarrow> seq_loop env cfg bp (fnum + 1) fs (fo_objs out) c2 bpf')
              else seq_loop env cfg bp (fnum + 1) fs (fo_objs out) c1 bpf'))"

text \<open>\<^verbatim>\<open>np.array_split(list(range(n)), k)\<close>: the first \<open>n mod k\<close> chunks are one longer.\<close>

fun split_sizes :: "nat list \<Rightarrow> 'a list \<Rightarrow> 'a list list" where
  "split_sizes [] xs = []"
| "split_sizes (s # ss) xs = take s xs # split_sizes ss (drop s xs)"

definition array_split :: "'a list \<Rightarrow> int \<Rightarrow> 'a list list res" where
  "array_split xs k =
     (if k \<le> 0 then Inl (ValueError ''number sections must be larger than 0.'')
      else let n = length xs; m = nat k
           in Inr (split_sizes (replicate (n mod m) (n div m + 1) @ replicate (m - n mod m) (n div m)) xs))"

text \<open>\<^verbatim>\<open>ceil(n / m)\<close> on integers: the quotient is a double.\<close>

definition ceil_div :: "int \<Rightarrow> int \<Rightarrow> int res" where
  "ceil_div n m =
     (if m = 0 then Inl (ZeroDivisionError ''division by zero'')
      else case round64 (of_int n / of_int m) of
             Fin q \<Rightarrow> Inr \<lceil>q\<rceil>
           | _ \<Rightarrow> Inl (OverflowError ''integer division result too large for a float''))"

text \<open>The parent's handling of one return value of a child process.\<close>

definition count_rval :: "counts \<Rightarrow> rval \<Rightarrow> counts" where
  "count_rval c rv =
     (let (ok, s) = rv;
          c1 = (if \<not> ok \<and> \<not> py_in ''SKIP_OK'' s then c\<lparr>num_errors := num_errors c + 1\<rparr> else c);
          c2 = (if py_in ''SKIP_OK'' s then c1\<lparr>num_skipped := num_skipped c1 + 1\<rparr> else c1)
      in c2\<lparr>num_files_processed := num_files_processed c2 + 1\<rparr>)"

text \<open>One set of processes: each child works on its own copy of the objects, so its return
  values depend on its file only; the parent waits for each child with \<^verbatim>\<open>process.join()\<close> and reads
  the queues in order. A child that never ends keeps the parent waiting for ever.\<close>

definition run_chunk :: "chain_env \<Rightarrow> config \<Rightarrow> string \<Rightarrow> string list \<Rightarrow> alg_obj list \<Rightarrow> nat list \<Rightarrow>
    counts \<Rightarrow> counts res" where
  "run_chunk env cfg bp files objs idxs c =
     (let outs = map (\<lambda>i. run_chain_on_single_file env cfg objs True (files ! i) (int i) bp) idxs in
      if list_ex (\<lambda>out. fo_result out = Inl NonTermination) outs then Inl NonTermination
      else Inr (foldl count_rval c (concat (map fo_rvals outs))))"

text \<open>\<^verbatim>\<open>config["chain"]["max_processes_for_multiprocessing"]\<close>, an integer.\<close>

definition max_procs :: "config \<Rightarrow> int res" where
  "max_procs cfg = rbind (cget2 cfg ''chain'' ''max_processes_for_multiprocessing'')
     (\<lambda>v. case v of CInt i \<Rightarrow> Inr i | _ \<Rightarrow> Inl (TypeError ''unsupported operand type(s)''))"

definition mp_chunks :: "config \<Rightarrow> nat \<Rightarrow> nat list list res" where
  "mp_chunks cfg n =
     rbind (max_procs cfg) (\<lambda>m. rbind (ceil_div (int n) m) (\<lambda>k. array_split [0..<n] k))"

definition mp_run :: "chain_env \<Rightarrow> config \<Rightarrow> string \<Rightarrow> string list \<Rightarrow> alg_obj list \<Rightarrow> counts res" where
  "mp_run env cfg bp files objs =
     rbind (mp_chunks cfg (length files)) (\<lambda>chunks.
       rfold (run_chunk env cfg bp files objs) chunks zero_counts)"

record chain_result =
  cr_success :: bool
  cr_errors :: nat
  cr_processed :: nat
  cr_skipped :: nat
  cr_breakpoint :: string

definition chain_failed :: chain_result where
  "chain_failed = \<lparr>cr_success = False, cr_errors = 1, cr_processed = 0, cr_skipped = 0,
     cr_breakpoint = []\<rparr>"

definition result_of :: "counts \<Rightarrow> string \<Rightarrow> chain_result" where
  "result_of c bpf = \<lparr>cr_success = (num_errors c = 0), cr_errors = num_errors c,
     cr_processed = num_files_processed c, cr_skipped = num_skipped c, cr_breakpoint = bpf\<rparr>"

text \<open>\<^verbatim>\<open>run_chain\<close>: its result, and the finalizations run in the parent process.\<close>

definition run_chain :: "chain_env \<Rightarrow> config \<Rightarrow> string list \<Rightarrow> string list \<Rightarrow> string \<Rightarrow>
    (chain_result \<times> finalization list) res" where
  "run_chain env cfg files algorithm_list bp =
     (case init_algs env cfg bp algorithm_list [] [] of
        InitReturn ev \<Rightarrow> Inr (chain_failed, ev)
      | InitRaise e \<Rightarrow> Inl e
      | InitDone objs shms \<Rightarrow>
          rbind (cflag cfg ''chain'' ''use_multi_processing'') (\<lambda>mp.
          rbind (if mp then rbind (mp_run env cfg bp files objs) (\<lambda>c. Inr (c, [], objs))
                 else seq_loop env cfg bp 0 files objs zero_counts []) (\<lambda>(c, bpf, objs').
            (case finalize_all 2 shms of
               (ev2, Inl e) \<Rightarrow> Inl e
             | (ev2, Inr u) \<Rightarrow>
                 (case finalize_all 3 objs' of
                    (ev3, Inl e) \<Rightarrow> Inl e
                  | (ev3, Inr u') \<Rightarrow> Inr (result_of c bpf, ev2 @ ev3))))))"

section \<open>The command line's choice of mode\<close>

text \<open>\<^verbatim>\<open>--multiprocessing\<close> and \<^verbatim>\<open>--sequentialprocessing\<close> set
  \<^verbatim>\<open>config["chain"]["use_multi_processing"]\<close>.\<close>

definition set_multi_processing :: "bool \<Rightarrow> config \<Rightarrow> config res" where
  "set_multi_processing b cfg =
     rbind (dget cfg ''chain'') (\<lambda>v. rbind (as_cdict v) (\<lambda>d.
       Inr (dset cfg ''chain'' (CDict (dset d ''use_multi_processing'' (CBool b))))))"

section \<open>Sequential runs against their specification\<close>

text \<open>
  What a chain is meant to compute on one file: the bodies of its algorithms one after the
  other on one shared dictionary, stopping at the first that fails, raises, or is the
  breakpoint.
\<close>

fun pipeline :: "string \<Rightarrow> (string \<times> alg_impl) list \<Rightarrow> dataset \<Rightarrow> shared \<Rightarrow> shared \<times> loop_exit res" where
  "pipeline bp [] l1b sd = (sd, Inr LoopEnd)"
| "pipeline bp ((name, impl) # algs) l1b sd =
     (case impl_body impl l1b sd of
        Inl e \<Rightarrow> (sd, Inl e)
      | Inr ((success, error_str), sd') \<Rightarrow>
          if \<not> success then (sd', Inr (LoopFail error_str))
          else if last_component name = bp then (sd', Inr LoopBreak)
          else pipeline bp algs l1b sd')"

definition spec_file :: "chain_env \<Rightarrow> config \<Rightarrow> (string \<times> alg_impl) list \<Rightarrow> string \<Rightarrow> string \<Rightarrow>
    (bool \<times> string \<times> string) res" where
  "spec_file env cfg algs bp file =
     (let failed = (\<lambda>e. if caught e
            then Inr (False, ''Error processing '' @ file @ '': '' @ env_traceback env e, [])
            else Inl e)
      in case env_open env file of
           Inl e \<Rightarrow> failed e
         | Inr nc \<Rightarrow>
             (case pipeline bp algs nc [(''l1b_file_name'', SStr file)] of
                (sd, Inl e) \<Rightarrow> failed e
              | (sd, Inr (LoopFail error_str)) \<Rightarrow> Inr (False, error_str, [])
              | (sd, Inr LoopEnd) \<Rightarrow> Inr (True, [], [])
              | (sd, Inr LoopBreak) \<Rightarrow>
                  (case write_breakpoint_file cfg sd bp of
                     Inl e \<Rightarrow> failed e
                   | Inr (f, its) \<Rightarrow> Inr (True, [], f))))"

text \<open>An object as the sequential mode creates it.\<close>

definition seq_ready :: "alg_obj \<Rightarrow> bool" where
  "seq_ready a \<longleftrightarrow> cflag (obj_config a) ''chain'' ''use_multi_processing'' = Inr False \<and>
     obj_initialized a \<and> obj_impl a \<noteq> None"

definition view :: "alg_obj \<Rightarrow> string \<times> alg_impl" where
  "view a = (obj_alg_name a, the (obj_impl a))"

lemma view_set_filenum [simp]: "view (set_filenum n a) = view a"
  by (simp add: view_def)

lemma seq_ready_set_filenum [simp]: "seq_ready (set_filenum n a) = seq_ready a"
  by (simp add: seq_ready_def)

lemma chain_loop_seq:
  assumes "list_all seq_ready objs" and "ds_isinstance l1b"
  shows "\<exists>objs'. chain_loop n bp l1b dn objs sd = (dn @ objs', pipeline bp (map view objs) l1b sd) \<and>
    list_all seq_ready objs' \<and> map view objs' = map view objs"
  using assms
proof (induction objs arbitrary: dn sd)
  case Nil
  then show ?case by simp
next
  case (Cons a rest)
  then obtain impl where impl: "obj_impl a = Some impl" and ready: "seq_ready a"
    by (auto simp: seq_ready_def)
  let ?a = "set_filenum n a"
  have proc: "alg_process ?a l1b sd = (?a, impl_body impl l1b sd)"
    using ready impl Cons.prems by (intro alg_process_sequential) (auto simp: seq_ready_def)
  have va: "view a = (obj_alg_name a, impl)" using impl by (simp add: view_def)
  have stay: "list_all seq_ready (?a # rest)" "map view (?a # rest) = map view (a # rest)"
    using Cons.prems by simp_all
  have IH: "\<exists>objs'. chain_loop n bp l1b (dn @ [?a]) rest sd' =
        (dn @ ?a # objs', pipeline bp (map view rest) l1b sd') \<and>
      list_all seq_ready (?a # objs') \<and> map view (?a # objs') = map view (a # rest)" for sd'
    using Cons.IH [of "dn @ [?a]" sd'] Cons.prems by auto
  show ?case
  proof (cases "impl_body impl l1b sd")
    case (Inl e)
    with proc va stay show ?thesis by (auto intro!: exI [of _ "?a # rest"])
  next
    case (Inr x)
    then obtain ok err sd' where x: "impl_body impl l1b sd = Inr ((ok, err), sd')"
      by (cases x) auto
    show ?thesis
    proof (cases "ok \<and> last_component (obj_alg_name a) \<noteq> bp")
      case True
      then show ?thesis using proc va x IH [of sd'] by auto
    next
      case False
      then show ?thesis using proc va x stay by (auto intro!: exI [of _ "?a # rest"])
    qed
  qed
qed

text \<open>In sequential mode the result for one file is the specified one, whatever files were
  processed before, and the objects stay ready for the next file.\<close>

lemma single_file_seq:
  assumes "list_all seq_ready objs" and "cflag cfg ''chain'' ''use_multi_processing'' = Inr False"
    and "\<And>nc. env_open env f = Inr nc \<Longrightarrow> ds_isinstance nc"
  shows "fo_result (run_chain_on_single_file env cfg objs q f n bp) = spec_file env cfg (map view objs) bp f \<and>
    list_all seq_ready (fo_objs (run_chain_on_single_file env cfg objs q f n bp)) \<and>
    map view (fo_objs (run_chain_on_single_file env cfg objs q f n bp)) = map view objs"
proof (cases "env_open env f")
  case (Inl e)
  with assms show ?thesis
    by (simp add: run_chain_on_single_file_def file_except_def spec_file_def Let_def)
next
  case (Inr nc)
  let ?sd = "[(''l1b_file_name'', SStr f)]"
  obtain objs' where L: "chain_loop n bp nc [] objs ?sd = (objs', pipeline bp (map view objs) nc ?sd)"
    and stay: "list_all seq_ready objs'" "map view objs' = map view objs"
    using chain_loop_seq [OF assms(1) assms(3) [OF Inr], of n bp "[]" ?sd] by auto
  obtain sd r where P: "pipeline bp (map view objs) nc ?sd = (sd, r)" by (cases "pipeline bp (map view objs) nc ?sd")
  show ?thesis
    using assms(2) Inr L P stay
    by (cases r; cases "write_breakpoint_file cfg sd bp")
      (auto simp: run_chain_on_single_file_def file_except_def spec_file_def Let_def
        split: loop_exit.splits)
qed

text \<open>A successful file has an empty error string.\<close>

lemma spec_file_success: "spec_file env cfg algs bp f = Inr (True, s, b) \<Longrightarrow> s = []"
  by (auto simp: spec_file_def Let_def split: sum.splits prod.splits loop_exit.splits if_splits)

definition count_result :: "counts \<Rightarrow> bool \<times> string \<times> string \<Rightarrow> counts" where
  "count_result c r = count_rval c (fst r, fst (snd r))"

lemma not_skip_empty [simp]: "\<not> py_in ''SKIP_OK'' []"
  by simp

lemma seq_loop_spec:
  assumes "list_all seq_ready objs" and "cflag cfg ''chain'' ''use_multi_processing'' = Inr False"
    and "cflag cfg ''chain'' ''stop_on_error'' = Inr False"
    and "\<And>f nc. env_open env f = Inr nc \<Longrightarrow> ds_isinstance nc"
  shows "\<exists>objs'. list_all seq_ready objs' \<and> map view objs' = map view objs \<and>
    seq_loop env cfg bp n files objs c bpf =
      rbind (rmapM (spec_file env cfg (map view objs) bp) files) (\<lambda>rs.
        Inr (foldl count_result c rs, (if rs = [] then bpf else snd (snd (last rs))), objs'))"
  using assms(1)
proof (induction files arbitrary: n objs c bpf)
  case Nil
  then show ?case by auto
next
  case (Cons f fs)
  let ?out = "run_chain_on_single_file env cfg objs False f n bp"
  have S: "fo_result ?out = spec_file env cfg (map view objs) bp f"
    "list_all seq_ready (fo_objs ?out)" "map view (fo_objs ?out) = map view objs"
    using single_file_seq [OF Cons.prems assms(2)] assms(4) by blast+
  show ?case
  proof (cases "spec_file env cfg (map view objs) bp f")
    case (Inl e)
    then show ?thesis using S Cons.prems by (auto intro!: exI [of _ objs])
  next
    case (Inr r)
    obtain ok es b where r: "r = (ok, es, b)" by (cases r)
    have ok: "ok \<Longrightarrow> es = []" using Inr r spec_file_success by auto
    have next_c: "seq_loop env cfg bp n (f # fs) objs c bpf =
        seq_loop env cfg bp (n + 1) fs (fo_objs ?out) (count_result c r) b"
      using S Inr r assms(3) ok by (cases c) (auto simp: count_result_def count_rval_def Let_def)
    obtain objs' where "list_all seq_ready objs'" "map view objs' = map view objs"
      "seq_loop env cfg bp (n + 1) fs (fo_objs ?out) (count_result c r) b =
        rbind (rmapM (spec_file env cfg (map view objs) bp) fs) (\<lambda>rs.
          Inr (foldl count_result (count_result c r) rs, (if rs = [] then b else snd (snd (last rs))), objs'))"
      using Cons.IH [of "fo_objs ?out" "n + 1" "count_result c r" b] S by auto
    then show ?thesis using next_c Inr r
      by (cases "rmapM (spec_file env cfg (map view objs) bp) fs")
        (auto intro!: exI [of _ objs'] simp del: seq_loop.simps)
  qed
qed

section \<open>Parallel runs\<close>

text \<open>An object as a child process receives it: not initialized, its \<^verbatim>\<open>init\<close> succeeds.\<close>

definition mp_ready :: "alg_obj \<Rightarrow> bool" where
  "mp_ready a \<longleftrightarrow> cflag (obj_config a) ''chain'' ''use_multi_processing'' = Inr True \<and>
     \<not> obj_initialized a \<and>
     (\<exists>m impl. cls_init (obj_class a) (obj_config a) = Inr ((True, m), impl) \<and>
        (\<forall>stage. impl_finalize impl stage = Inr ()))"

definition mp_view :: "alg_obj \<Rightarrow> string \<times> alg_impl" where
  "mp_view a = (cls_name (obj_class a), snd (projr (cls_init (obj_class a) (obj_config a))))"

definition finalizable :: "alg_obj \<Rightarrow> bool" where
  "finalizable a \<longleftrightarrow> (obj_initialized a \<longrightarrow> (\<forall>stage. alg_finalize a stage = Inr ()))"

lemma finalize_all_ok:
  "list_all finalizable objs \<Longrightarrow> finalize_all stage objs =
     (map (\<lambda>a. (obj_alg_name a, stage)) (filter obj_initialized objs), Inr ())"
  by (induction objs) (auto simp: finalizable_def)

lemma mp_ready_finalizable: "mp_ready a \<Longrightarrow> finalizable a"
  by (auto simp: mp_ready_def finalizable_def)

lemma chain_loop_mp:
  assumes "list_all mp_ready objs" and "ds_isinstance l1b"
  shows "\<exists>objs'. chain_loop n bp l1b dn objs sd = (dn @ objs', pipeline bp (map mp_view objs) l1b sd) \<and>
    list_all finalizable objs'"
  using assms
proof (induction objs arbitrary: dn sd)
  case Nil
  then show ?case by simp
next
  case (Cons a rest)
  then obtain m impl where init: "cls_init (obj_class a) (obj_config a) = Inr ((True, m), impl)"
    and fin: "\<forall>stage. impl_finalize impl stage = Inr ()" and ready: "mp_ready a"
    by (auto simp: mp_ready_def)
  let ?a = "(set_filenum n a)\<lparr>obj_alg_name := cls_name (obj_class a), obj_impl := Some impl, obj_initialized := True\<rparr>"
  have proc: "alg_process (set_filenum n a) l1b sd = (?a, impl_body impl l1b sd)"
    using ready init Cons.prems alg_process_mp [of "set_filenum n a" m impl l1b sd] by (simp add: mp_ready_def)
  have va: "mp_view a = (cls_name (obj_class a), impl)" using init by (simp add: mp_view_def)
  have fa: "finalizable ?a" using fin by (simp add: finalizable_def alg_finalize_def)
  have rest: "list_all finalizable rest"
    using Cons.prems by (auto simp: list_all_iff intro: mp_ready_finalizable)
  have IH: "\<exists>objs'. chain_loop n bp l1b (dn @ [?a]) rest sd' =
      (dn @ ?a # objs', pipeline bp (map mp_view rest) l1b sd') \<and> list_all finalizable (?a # objs')" for sd'
    using Cons.IH [of "dn @ [?a]" sd'] Cons.prems fa by auto
  show ?case
  proof (cases "impl_body impl l1b sd")
    case (Inl e)
    with proc va fa rest show ?thesis by (auto intro!: exI [of _ "?a # rest"])
  next
    case (Inr x)
    then obtain ok err sd' where x: "impl_body impl l1b sd = Inr ((ok, err), sd')"
      by (cases x) auto
    show ?thesis
    proof (cases "ok \<and> last_component (cls_name (obj_class a)) \<noteq> bp")
      case True
      then show ?thesis using proc va x IH [of sd'] by auto
    next
      case False
      then show ?thesis using proc va x fa rest by (auto intro!: exI [of _ "?a # rest"])
    qed
  qed
qed

text \<open>A child has the specified result, and puts exactly one value on its queue, that result, or none
  when an exception leaves it that the function does not catch.\<close>

lemma single_file_mp:
  assumes "list_all mp_ready objs" and "cflag cfg ''chain'' ''use_multi_processing'' = Inr True"
    and "\<And>nc. env_open env f = Inr nc \<Longrightarrow> ds_isinstance nc"
  shows "fo_result (run_chain_on_single_file env cfg objs True f n bp) = spec_file env cfg (map mp_view objs) bp f \<and>
    fo_rvals (run_chain_on_single_file env cfg objs True f n bp) =
    (case spec_file env cfg (map mp_view objs) bp f of Inl e \<Rightarrow> [] | Inr (ok, s, b) \<Rightarrow> [(ok, s)])"
proof (cases "env_open env f")
  case (Inl e)
  with assms show ?thesis
    by (simp add: run_chain_on_single_file_def file_except_def spec_file_def queue_put_def Let_def)
next
  case (Inr nc)
  let ?sd = "[(''l1b_file_name'', SStr f)]"
  obtain objs' where L: "chain_loop n bp nc [] objs ?sd = (objs', pipeline bp (map mp_view objs) nc ?sd)"
    and fin: "list_all finalizable objs'"
    using chain_loop_mp [OF assms(1) assms(3) [OF Inr], of n bp "[]" ?sd] by auto
  obtain sd r where P: "pipeline bp (map mp_view objs) nc ?sd = (sd, r)"
    by (cases "pipeline bp (map mp_view objs) nc ?sd")
  show ?thesis
    using assms(2) Inr L P finalize_all_ok [OF fin]
    by (cases r; cases "write_breakpoint_file cfg sd bp")
      (auto simp: run_chain_on_single_file_def file_except_def spec_file_def queue_put_def Let_def
        split: loop_exit.splits)
qed

section \<open>Chunks of files\<close>

lemma concat_split_sizes: "sum_list ss = length xs \<Longrightarrow> concat (split_sizes ss xs) = xs"
  by (induction ss xs rule: split_sizes.induct) auto

lemma split_sizes_lengths: "sum_list ss \<le> length xs \<Longrightarrow> map length (split_sizes ss xs) = ss"
  by (induction ss xs rule: split_sizes.induct) auto

lemma array_split_sizes_sum:
  "0 < m \<Longrightarrow> sum_list (replicate (n mod m) (n div m + 1) @ replicate (m - n mod m) (n div m)) = (n::nat)"
proof -
  assume m: "0 < m"
  then have "n mod m \<le> m" by (simp add: less_imp_le)
  then have "n mod m * (n div m + 1) + (m - n mod m) * (n div m) = n mod m + m * (n div m)"
    by (simp add: algebra_simps flip: add_mult_distrib2)
  then show ?thesis by (simp add: sum_list_replicate)
qed

lemma array_split_correct:
  assumes "array_split xs k = Inr chunks"
  shows "concat chunks = xs \<and> int (length chunks) = k \<and>
    (\<forall>c\<in>set chunks. int (length c) \<le> (int (length xs) + k - 1) div k)"
proof -
  let ?n = "length xs" and ?m = "nat k"
  let ?ss = "replicate (?n mod ?m) (?n div ?m + 1) @ replicate (?m - ?n mod ?m) (?n div ?m)"
  from assms have k: "0 < k" and c: "chunks = split_sizes ?ss xs"
    by (auto simp: array_split_def Let_def split: if_splits)
  have sum: "sum_list ?ss = ?n" using k by (intro array_split_sizes_sum) simp
  have lens: "map length chunks = ?ss" using sum c by (simp only: split_sizes_lengths order_refl)
  have "length chunks = ?m" using k arg_cong [OF lens, of length] by (simp add: mod_less_divisor less_imp_le)
  moreover have "int s \<le> (int ?n + k - 1) div k" if "s \<in> set ?ss" for s
  proof -
    have "int s * k \<le> int ?n + k - 1"
    proof (cases "s = ?n div ?m + 1 \<and> 0 < ?n mod ?m")
      case True
      have "int ?n = int (?n div ?m) * k + int (?n mod ?m)"
        using k by (metis div_mult_mod_eq int_nat_eq of_nat_add of_nat_mult less_imp_le)
      with True show ?thesis by (simp add: algebra_simps)
    next
      case False
      with that have "s = ?n div ?m" by (auto split: if_splits)
      moreover have "int (?n div ?m) * k \<le> int ?n"
        using k by (metis div_times_less_eq_dividend int_nat_eq less_imp_le of_nat_le_iff of_nat_mult)
      ultimately show ?thesis using k by simp
    qed
    then have "(int s * k) div k \<le> (int ?n + k - 1) div k" using k by (rule zdiv_mono1)
    then show ?thesis using k by simp
  qed
  moreover have "length c \<in> set ?ss" if "c \<in> set chunks" for c
    using that lens by (metis image_eqI list.set_map)
  moreover have "concat chunks = xs" using c sum by (simp only: concat_split_sizes)
  ultimately show ?thesis using k by simp
qed

text \<open>The number of process sets: enough that no set is larger than the maximum.\<close>

lemma ceil_div_enough:
  assumes "0 < n" and "n < 2 ^ 53" and "1 \<le> m" and "m \<le> 2 ^ 53"
  shows "\<exists>k. ceil_div n m = Inr k \<and> 1 \<le> k \<and> n \<le> k * m"
proof -
  let ?q = "of_int n / of_int m :: rat"
  have m: "(0::rat) < of_int m" "of_int m \<le> (2::rat) ^ 53" and n: "(1::rat) \<le> of_int n" "of_int n < (2::rat) ^ 53"
    using assms of_int_le_iff [of m "2 ^ 53", where 'a = rat] of_int_less_iff [of n "2 ^ 53", where 'a = rat]
    by simp_all
  have lo: "two_pow (- 1022) \<le> ?q"
  proof -
    have "two_pow (- 1022) \<le> 1 / 2 ^ 53" by (simp add: two_pow_def)
    also have "\<dots> \<le> 1 / of_int m" using m by (intro divide_left_mono) auto
    also have "\<dots> \<le> ?q" using m n by (intro divide_right_mono) auto
    finally show ?thesis .
  qed
  have hi: "?q < two_pow 1023"
  proof -
    have "?q \<le> of_int n" using assms n m by (simp add: pos_divide_le_eq mult_le_cancel_left1)
    also have "\<dots> < 2 ^ 53" by (rule n(2))
    also have "(2::rat) ^ 53 \<le> two_pow 1023" by (simp add: two_pow_def)
    finally show ?thesis .
  qed
  obtain v where v: "round64 ?q = Fin v" "0 < v" "\<bar>v - ?q\<bar> \<le> ?q / 2 ^ 53"
    using round64_normal [OF lo hi] by blast
  have eq: "ceil_div n m = Inr \<lceil>v\<rceil>" using assms v by (simp add: ceil_div_def)
  have k1: "1 \<le> \<lceil>v\<rceil>" using v(2) by linarith
  have "n \<le> \<lceil>v\<rceil> * m"
  proof (rule ccontr)
    assume "\<not> n \<le> \<lceil>v\<rceil> * m"
    then have "\<lceil>v\<rceil> * m + 1 \<le> n" by linarith
    then have "of_int \<lceil>v\<rceil> * of_int m + 1 \<le> (of_int n :: rat)" by (metis of_int_1 of_int_add of_int_le_iff of_int_mult)
    then have "(of_int \<lceil>v\<rceil> * of_int m + 1) / of_int m \<le> ?q" using m by (intro divide_right_mono) auto
    then have "of_int \<lceil>v\<rceil> + 1 / of_int m \<le> ?q" using m by (simp add: add_divide_distrib)
    then have "1 / of_int m \<le> ?q - v" using le_of_int_ceiling [of v] by linarith
    also have "\<dots> \<le> ?q / 2 ^ 53" using v(3) by linarith
    also have "\<dots> < 1 / of_int m"
      using m n by (simp add: divide_simps)
    finally show False by simp
  qed
  with eq k1 show ?thesis by blast
qed

lemma mp_chunks_correct:
  assumes "max_procs cfg = Inr m" and "1 \<le> m" and "m \<le> 2 ^ 53" and "0 < n" and "n < 2 ^ 53"
  shows "\<exists>chunks. mp_chunks cfg n = Inr chunks \<and> concat chunks = [0..<n] \<and>
    (\<forall>c\<in>set chunks. int (length c) \<le> m)"
proof -
  have "0 < int n" "int n < 2 ^ 53"
    using assms(4,5) of_nat_less_iff [of n "2 ^ 53", where 'a = int] by simp_all
  then obtain k where k: "ceil_div (int n) m = Inr k" "1 \<le> k" "int n \<le> k * m"
    using ceil_div_enough assms(2,3) by blast
  then obtain chunks where c: "array_split [0..<n] k = Inr chunks"
    by (auto simp: array_split_def Let_def)
  have "(int n + k - 1) div k \<le> m"
  proof -
    have "int n + k - 1 \<le> k - 1 + m * k" using k by (simp add: algebra_simps)
    then have "(int n + k - 1) div k \<le> (k - 1 + m * k) div k" using k(2) by (intro zdiv_mono1) auto
    also have "\<dots> = m" using k(2) by simp
    finally show ?thesis .
  qed
  moreover have "int (length c) \<le> (int n + k - 1) div k" if "c \<in> set chunks" for c
    using array_split_correct [OF c] that by auto
  ultimately show ?thesis
    using array_split_correct [OF c] assms(1) k c by (force simp: mp_chunks_def)
qed

lemma rfold_run_chunk:
  "rfold (run_chunk env cfg bp files objs) chunks c =
     (let child = (\<lambda>i. run_chain_on_single_file env cfg objs True (files ! i) (int i) bp) in
      if list_ex (\<lambda>i. fo_result (child i) = Inl NonTermination) (concat chunks) then Inl NonTermination
      else Inr (foldl count_rval c (concat (map (\<lambda>i. fo_rvals (child i)) (concat chunks)))))"
  by (induction chunks arbitrary: c) (auto simp: run_chunk_def Let_def list_ex_iff o_def)

end
