(* ===== verification/Run_Chain_Props.thy ===== *)
theory Run_Chain_Props
  imports Run_Chain
begin

text \<open>
  The properties of \<^verbatim>\<open>run_chain\<close>: the sequential run computes what its specification says,
  the parallel run gives the same counts, every file belongs to exactly one process set of
  bounded size, finalization, and the error paths.
\<close>

section \<open>Creating the algorithms in the two modes\<close>

text \<open>The configuration does not otherwise change between the two modes.\<close>

lemma set_multi_processing_facts:
  assumes "set_multi_processing b cfg = Inr c"
  shows "cflag c ''chain'' ''use_multi_processing'' = Inr b"
    and "k \<noteq> ''use_multi_processing'' \<Longrightarrow> cget2 c ''chain'' k = cget2 cfg ''chain'' k"
    and "k' \<noteq> ''chain'' \<Longrightarrow> map_of c k' = map_of cfg k'"
  using assms by (auto simp: set_multi_processing_def cflag_def cget2_def rbind_eq_Inr)

lemma set_mp_module_path:
  "set_multi_processing b cfg = Inr c \<Longrightarrow> module_path c alg = module_path cfg alg"
  by (simp add: module_path_def set_multi_processing_facts(2))

lemma set_mp_max_procs: "set_multi_processing b cfg = Inr c \<Longrightarrow> max_procs c = max_procs cfg"
  by (simp add: max_procs_def set_multi_processing_facts(2))

lemma set_mp_cflag:
  "set_multi_processing b cfg = Inr c \<Longrightarrow> k \<noteq> ''use_multi_processing'' \<Longrightarrow>
     cflag c ''chain'' k = cflag cfg ''chain'' k"
  by (simp add: cflag_def set_multi_processing_facts(2))

lemma write_breakpoint_file_cong:
  "map_of c ''breakpoint_files'' = map_of c' ''breakpoint_files'' \<Longrightarrow>
     write_breakpoint_file c sd bp = write_breakpoint_file c' sd bp"
  by (simp add: write_breakpoint_file_def dhas_def cget2_def dget_def)

lemma set_mp_spec_file:
  assumes "set_multi_processing b cfg = Inr c"
  shows "spec_file env c algs bp = spec_file env cfg algs bp"
proof
  have eq: "write_breakpoint_file c = write_breakpoint_file cfg"
    using set_multi_processing_facts(3) [OF assms, of "''breakpoint_files''"]
    by (intro ext write_breakpoint_file_cong) simp
  show "spec_file env c algs bp f = spec_file env cfg algs bp f" for f
    unfolding spec_file_def eq ..
qed

text \<open>The classes of the chain, up to and including the breakpoint algorithm, and what they do
  when initialized with a configuration.\<close>

fun chain_classes :: "chain_env \<Rightarrow> config \<Rightarrow> string \<Rightarrow> string list \<Rightarrow> alg_class list res" where
  "chain_classes env cfg bp [] = Inr []"
| "chain_classes env cfg bp (alg # algs) =
     rbind (module_path cfg alg) (\<lambda>path.
     rbind (of_option (ImportError path) (env_import env path)) (\<lambda>cls.
       if alg = bp then Inr [cls]
       else rbind (chain_classes env cfg bp algs) (\<lambda>classes. Inr (cls # classes))))"

definition class_view :: "config \<Rightarrow> alg_class \<Rightarrow> string \<times> alg_impl" where
  "class_view cfg cls = (cls_name cls, snd (projr (cls_init cls cfg)))"

text \<open>An algorithm whose \<^verbatim>\<open>init\<close> raises nothing and whose \<^verbatim>\<open>finalize\<close> raises nothing.\<close>

definition sound_class :: "config \<Rightarrow> alg_class \<Rightarrow> bool" where
  "sound_class cfg cls \<longleftrightarrow> (\<exists>r impl. cls_init cls cfg = Inr (r, impl) \<and>
     (\<forall>stage. impl_finalize impl stage = Inr ()))"

text \<open>An algorithm whose initialization gives the same behaviour in both modes.\<close>

definition same_init :: "config \<Rightarrow> config \<Rightarrow> alg_class \<Rightarrow> bool" where
  "same_init cs cm cls \<longleftrightarrow> (\<exists>r m impl. cls_init cls cs = Inr (r, impl) \<and>
     cls_init cls cm = Inr ((True, m), impl) \<and> (\<forall>stage. impl_finalize impl stage = Inr ()))"

lemma same_init_sound: "same_init cs cm cls \<Longrightarrow> sound_class cs cls"
  by (auto simp: same_init_def sound_class_def)

lemma set_mp_chain_classes:
  "set_multi_processing b cfg = Inr c \<Longrightarrow> chain_classes env c bp algs = chain_classes env cfg bp algs"
  by (induction algs) (simp_all add: set_mp_module_path cong: if_cong)

lemma use_shm_off:
  "cflag c ''chain'' ''use_multi_processing'' = Inr b \<Longrightarrow>
   cflag c ''chain'' ''use_shared_memory'' = Inr False \<Longrightarrow> use_shm c = Inr False"
  by (simp add: use_shm_def)

lemma use_shm_seq: "cflag c ''chain'' ''use_multi_processing'' = Inr False \<Longrightarrow> use_shm c = Inr False"
  by (simp add: use_shm_def)

lemma init_algs_seq:
  assumes cs: "cflag cs ''chain'' ''use_multi_processing'' = Inr False"
    and "chain_classes env cs bp algs = Inr classes" and "list_all (sound_class cs) classes"
  shows "\<exists>ns. init_algs env cs bp algs os [] = InitDone (os @ ns) [] \<and> list_all seq_ready ns \<and>
    list_all finalizable ns \<and> map view ns = map (class_view cs) classes"
  using assms(2,3)
proof (induction algs arbitrary: os classes)
  case Nil
  then show ?case by simp
next
  case (Cons alg algs)
  then obtain path cls where path: "module_path cs alg = Inr path"
    and imp: "env_import env path = Some cls" by (auto simp: rbind_eq_Inr)
  with Cons.prems have "cls \<in> set classes" by (auto simp: rbind_eq_Inr split: if_splits)
  with Cons.prems obtain r impl where ic: "cls_init cls cs = Inr (r, impl)"
    and fin: "\<forall>stage. impl_finalize impl stage = Inr ()"
    by (auto simp: list_all_iff sound_class_def)
  let ?o = "\<lparr>obj_class = cls, obj_alg_name = cls_name cls, obj_config = cs, obj_filenum = 0,
        obj_initialized = True, obj_impl = Some impl\<rparr>"
  have new: "alg_new cls cs = Inr ?o" using alg_new_sequential [OF cs] ic by simp
  have one: "seq_ready ?o" "view ?o = class_view cs cls" "finalizable ?o"
    using cs ic fin by (auto simp: seq_ready_def view_def class_view_def finalizable_def alg_finalize_def)
  show ?case
  proof (cases "alg = bp")
    case True
    then show ?thesis
      using path imp new one use_shm_seq [OF cs] Cons.prems by (auto intro!: exI [of _ "[?o]"])
  next
    case False
    with Cons.prems path imp obtain cl where cl: "chain_classes env cs bp algs = Inr cl" "classes = cls # cl"
      by (auto simp: rbind_eq_Inr)
    then obtain ns where "init_algs env cs bp algs (os @ [?o]) [] = InitDone (os @ ?o # ns) []"
      "list_all seq_ready ns" "list_all finalizable ns" "map view ns = map (class_view cs) cl"
      using Cons.IH [of cl "os @ [?o]"] Cons.prems by auto
    then show ?thesis
      using False path imp new one cl use_shm_seq [OF cs] by (auto intro!: exI [of _ "?o # ns"])
  qed
qed

lemma init_algs_mp:
  assumes cm: "cflag cm ''chain'' ''use_multi_processing'' = Inr True"
    and shm: "cflag cm ''chain'' ''use_shared_memory'' = Inr False"
    and "chain_classes env cm bp algs = Inr classes" and "list_all (same_init cs cm) classes"
  shows "\<exists>nm. init_algs env cm bp algs om [] = InitDone (om @ nm) [] \<and> list_all mp_ready nm \<and>
    map mp_view nm = map (class_view cs) classes"
  using assms(3,4)
proof (induction algs arbitrary: om classes)
  case Nil
  then show ?case by simp
next
  case (Cons alg algs)
  then obtain path cls where path: "module_path cm alg = Inr path"
    and imp: "env_import env path = Some cls" by (auto simp: rbind_eq_Inr)
  with Cons.prems have "cls \<in> set classes" by (auto simp: rbind_eq_Inr split: if_splits)
  with Cons.prems have same: "same_init cs cm cls" by (auto simp: list_all_iff)
  let ?m = "base_obj cls cm"
  have new: "alg_new cls cm = Inr ?m" using cm shm by (simp add: alg_new_def Let_def)
  have one: "mp_ready ?m" "mp_view ?m = class_view cs cls"
    using cm same by (auto simp: mp_ready_def base_obj_def mp_view_def class_view_def same_init_def)
  show ?case
  proof (cases "alg = bp")
    case True
    then show ?thesis
      using path imp new one use_shm_off [OF cm shm] Cons.prems by (auto intro!: exI [of _ "[?m]"])
  next
    case False
    with Cons.prems path imp obtain cl where cl: "chain_classes env cm bp algs = Inr cl" "classes = cls # cl"
      by (auto simp: rbind_eq_Inr)
    then obtain nm where "init_algs env cm bp algs (om @ [?m]) [] = InitDone (om @ ?m # nm) []"
      "list_all mp_ready nm" "map mp_view nm = map (class_view cs) cl"
      using Cons.IH [of cl "om @ [?m]"] Cons.prems by auto
    then show ?thesis
      using False path imp new one cl use_shm_off [OF cm shm] by (auto intro!: exI [of _ "?m # nm"])
  qed
qed

lemma seq_ready_view_finalizable:
  "seq_ready a \<Longrightarrow> seq_ready b \<Longrightarrow> view a = view b \<Longrightarrow> finalizable b \<Longrightarrow> finalizable a"
  by (auto simp: finalizable_def seq_ready_def view_def alg_finalize_def)

lemma seq_ready_views_finalizable:
  "list_all finalizable ns \<Longrightarrow> list_all seq_ready ns \<Longrightarrow> list_all seq_ready os \<Longrightarrow>
     map view os = map view ns \<Longrightarrow> list_all finalizable os"
proof (induction os arbitrary: ns)
  case (Cons a as)
  then obtain b bs where "ns = b # bs" by (cases ns) auto
  with Cons show ?case
    using seq_ready_view_finalizable [of a b] by auto
qed simp

lemma finalized_views: "list_all seq_ready os \<Longrightarrow>
    map (\<lambda>a. (obj_alg_name a, s)) (filter obj_initialized os) = map (\<lambda>v. (fst v, s)) (map view os)"
  by (induction os) (auto simp: seq_ready_def view_def)

text \<open>A whole sequential run, in terms of the specification of one file.\<close>

lemma run_chain_sequential:
  assumes mp: "cflag cs ''chain'' ''use_multi_processing'' = Inr False"
    and stop: "cflag cs ''chain'' ''stop_on_error'' = Inr False"
    and classes: "chain_classes env cs bp algs = Inr classes" "list_all (sound_class cs) classes"
    and ds: "\<And>f nc. env_open env f = Inr nc \<Longrightarrow> ds_isinstance nc"
  shows "run_chain env cs files algs bp =
    rbind (rmapM (spec_file env cs (map (class_view cs) classes) bp) files) (\<lambda>rs.
      Inr (result_of (foldl count_result zero_counts rs) (if rs = [] then [] else snd (snd (last rs))),
        map (\<lambda>cls. (cls_name cls, 3)) classes))"
proof -
  obtain ns where init: "init_algs env cs bp algs [] [] = InitDone ns []" and ready: "list_all seq_ready ns"
    and fin: "list_all finalizable ns" and views: "map view ns = map (class_view cs) classes"
    using init_algs_seq [OF mp classes, of "[]"] by auto
  obtain objs' where o: "list_all seq_ready objs'" "map view objs' = map view ns"
    and sl: "seq_loop env cs bp 0 files ns zero_counts [] =
      rbind (rmapM (spec_file env cs (map view ns) bp) files) (\<lambda>rs. Inr (foldl count_result zero_counts rs,
        (if rs = [] then [] else snd (snd (last rs))), objs'))"
    using seq_loop_spec [OF ready mp stop, where env = env and bp = bp and n = 0 and c = zero_counts and
        bpf = "[]" and files = files] ds by blast
  have "list_all finalizable objs'" using seq_ready_views_finalizable [OF fin ready o] .
  then have "finalize_all 3 objs' = (map (\<lambda>cls. (cls_name cls, 3)) classes, Inr ())"
    using finalized_views [OF o(1)] o(2) views by (simp add: finalize_all_ok class_view_def o_def)
  then show ?thesis
    using mp init sl views
    by (cases "rmapM (spec_file env cs (map view ns) bp) files") (simp_all add: run_chain_def)
qed

section \<open>Counting\<close>

definition is_skip :: "bool \<times> string \<times> string \<Rightarrow> bool" where
  "is_skip r = (\<not> fst r \<and> py_in ''SKIP_OK'' (fst (snd r)))"

definition is_error :: "bool \<times> string \<times> string \<Rightarrow> bool" where
  "is_error r = (\<not> fst r \<and> \<not> py_in ''SKIP_OK'' (fst (snd r)))"

text \<open>Only a failed result carries a message.\<close>

definition wf_result :: "bool \<times> string \<times> string \<Rightarrow> bool" where
  "wf_result r = (fst r \<longrightarrow> fst (snd r) = [])"

lemma spec_file_wf: "spec_file env cfg algs bp f = Inr r \<Longrightarrow> wf_result r"
  using spec_file_success [of env cfg algs bp f] by (cases r) (auto simp: wf_result_def)

lemma count_result_wf:
  "wf_result r \<Longrightarrow> count_result c r =
     \<lparr>num_errors = num_errors c + (if is_error r then 1 else 0),
      num_files_processed = num_files_processed c + 1,
      num_skipped = num_skipped c + (if is_skip r then 1 else 0)\<rparr>"
  by (cases r; cases c) (auto simp: count_result_def count_rval_def is_error_def is_skip_def wf_result_def Let_def)

lemma count_results_wf:
  "list_all wf_result rs \<Longrightarrow> foldl count_result c rs =
     \<lparr>num_errors = num_errors c + length (filter is_error rs),
      num_files_processed = num_files_processed c + length rs,
      num_skipped = num_skipped c + length (filter is_skip rs)\<rparr>"
  by (induction rs arbitrary: c) (auto simp: count_result_wf)

lemma rmapM_spec_wf: "rmapM (spec_file env cfg algs bp) files = Inr rs \<Longrightarrow> list_all wf_result rs"
  by (induction files arbitrary: rs) (auto simp: res_simps dest: spec_file_wf)

text \<open>The results of the files whose processing returns.\<close>

definition returned :: "(string \<Rightarrow> (bool \<times> string \<times> string) res) \<Rightarrow> string list \<Rightarrow> (bool \<times> string \<times> string) list" where
  "returned f files = [r. Inr r \<leftarrow> map f files]"

lemma returned_simps:
  "returned f [] = []"
  "returned f (x # xs) = (case f x of Inl e \<Rightarrow> returned f xs | Inr r \<Rightarrow> r # returned f xs)"
  by (auto simp: returned_def split: sum.splits)

lemma returned_wf: "list_all wf_result (returned (spec_file env cfg algs bp) files)"
  by (induction files) (auto simp: returned_simps split: sum.splits dest: spec_file_wf)

lemma rvals_returned:
  "foldl count_rval c (concat (map (\<lambda>x. case f x of Inl e \<Rightarrow> [] | Inr (ok, s, b) \<Rightarrow> [(ok, s)]) files)) =
     foldl count_result c (returned f files)"
  by (induction files arbitrary: c) (auto simp: returned_simps count_result_def split: sum.splits)

lemma returned_all: "rmapM f files = Inr rs \<Longrightarrow> returned f files = rs"
  by (induction files arbitrary: rs) (auto simp: returned_simps res_simps)

lemma rmapM_no_Inl: "rmapM f xs = Inr ys \<Longrightarrow> \<not> list_ex (\<lambda>x. f x = Inl e) xs"
  by (induction xs arbitrary: ys) (auto simp: res_simps)

text \<open>A whole parallel run without shared memory, in terms of the specification of one file.\<close>

lemma run_chain_parallel:
  assumes fm: "cflag cm ''chain'' ''use_multi_processing'' = Inr True"
    and shm: "cflag cm ''chain'' ''use_shared_memory'' = Inr False"
    and procs: "max_procs cm = Inr m" "1 \<le> m" "m \<le> 2 ^ 53"
    and files: "files \<noteq> []" "length files < 2 ^ 53"
    and classes: "chain_classes env cm bp algs = Inr classes" "list_all (same_init cs cm) classes"
    and ds: "\<And>f nc. env_open env f = Inr nc \<Longrightarrow> ds_isinstance nc"
  shows "let spec = spec_file env cm (map (class_view cs) classes) bp in
    run_chain env cm files algs bp =
      (if list_ex (\<lambda>f. spec f = Inl NonTermination) files then Inl NonTermination
       else Inr (result_of (foldl count_result zero_counts (returned spec files)) [], []))"
proof -
  let ?spec = "spec_file env cm (map (class_view cs) classes) bp"
  let ?rval = "\<lambda>f. case ?spec f of Inl e \<Rightarrow> [] | Inr (ok, s, b) \<Rightarrow> [(ok, s)]"
  obtain nm where im: "init_algs env cm bp algs [] [] = InitDone nm []"
    and rm: "list_all mp_ready nm" and views: "map mp_view nm = map (class_view cs) classes"
    using init_algs_mp [OF fm shm classes, of "[]"] by auto
  have child: "fo_result (run_chain_on_single_file env cm nm True f i bp) = ?spec f"
    "fo_rvals (run_chain_on_single_file env cm nm True f i bp) = ?rval f" for f i
    using single_file_mp [OF rm fm ds] views by simp_all
  obtain chunks where ch: "mp_chunks cm (length files) = Inr chunks" "concat chunks = [0..<length files]"
    using mp_chunks_correct [of cm m "length files"] procs files by auto
  have "map (\<lambda>i. ?rval (files ! i)) [0..<length files] = map ?rval files"
    by (rule nth_equalityI) auto
  moreover have "list_ex (\<lambda>i. ?spec (files ! i) = Inl NonTermination) [0..<length files] =
      list_ex (\<lambda>f. ?spec f = Inl NonTermination) files"
    by (auto simp: list_ex_length)
  ultimately have "mp_run env cm bp files nm = (if list_ex (\<lambda>f. ?spec f = Inl NonTermination) files then Inl NonTermination
      else Inr (foldl count_result zero_counts (returned ?spec files)))"
    using ch by (simp add: mp_run_def rfold_run_chunk child rvals_returned Let_def)
  moreover have "finalize_all 3 nm = ([], Inr ())"
    using rm by (induction nm) (auto simp: mp_ready_def)
  ultimately show ?thesis using fm im by (simp add: run_chain_def Let_def)
qed

text \<open>With \<^verbatim>\<open>stop_on_error\<close> the sequential loop stops after the first error.\<close>

lemma seq_loop_stop:
  assumes "list_all seq_ready objs" and "cflag cfg ''chain'' ''use_multi_processing'' = Inr False"
    and "cflag cfg ''chain'' ''stop_on_error'' = Inr True"
    and "\<And>f nc. env_open env f = Inr nc \<Longrightarrow> ds_isinstance nc"
    and "rmapM (spec_file env cfg (map view objs) bp) (pre @ [f]) = Inr (rs @ [r])"
    and "\<forall>x\<in>set rs. \<not> is_error x" and "is_error r"
  shows "\<exists>objs'. list_all seq_ready objs' \<and> map view objs' = map view objs \<and>
    seq_loop env cfg bp n (pre @ f # post) objs c bpf =
      Inr (foldl count_result c (rs @ [r]), snd (snd r), objs')"
  using assms(1,5,6)
proof (induction pre arbitrary: n objs c bpf rs)
  case Nil
  let ?out = "run_chain_on_single_file env cfg objs False f n bp"
  have S: "fo_result ?out = spec_file env cfg (map view objs) bp f"
    "list_all seq_ready (fo_objs ?out)" "map view (fo_objs ?out) = map view objs"
    using single_file_seq [OF Nil(1) assms(2)] assms(4) by blast+
  from Nil(2) have "rs = []" "spec_file env cfg (map view objs) bp f = Inr r" by (auto simp: res_simps)
  then show ?case
    using S assms(3,7)
    by (cases r; cases c)
      (auto intro!: exI [of _ "fo_objs ?out"] simp: is_error_def count_result_def count_rval_def Let_def)
next
  case (Cons g pre)
  let ?out = "run_chain_on_single_file env cfg objs False g n bp"
  have S: "fo_result ?out = spec_file env cfg (map view objs) bp g"
    "list_all seq_ready (fo_objs ?out)" "map view (fo_objs ?out) = map view objs"
    using single_file_seq [OF Cons.prems(1) assms(2)] assms(4) by blast+
  from Cons.prems(2) obtain r0 rs0 where r0: "rs = r0 # rs0" "spec_file env cfg (map view objs) bp g = Inr r0"
    "rmapM (spec_file env cfg (map view objs) bp) (pre @ [f]) = Inr (rs0 @ [r])"
    by (cases rs) (auto simp: res_simps dest: rmapM_length)
  have wf: "wf_result r0" using r0(2) by (rule spec_file_wf)
  have ne: "\<not> is_error r0" using Cons.prems(3) r0 by auto
  have step: "seq_loop env cfg bp n ((g # pre) @ f # post) objs c bpf =
      seq_loop env cfg bp (n + 1) (pre @ f # post) (fo_objs ?out) (count_result c r0) (snd (snd r0))"
    using S r0 wf ne by (cases r0; cases c)
      (auto simp: count_result_def count_rval_def Let_def is_error_def wf_result_def)
  show ?case
    using Cons.IH [of "fo_objs ?out" rs0 "n + 1" "count_result c r0" "snd (snd r0)"] S r0 Cons.prems step
    by (auto simp del: seq_loop.simps)
qed

text \<open>Creating the algorithms of a list is creating those of its prefix first.\<close>

lemma init_algs_append:
  "bp \<notin> set pre \<Longrightarrow> init_algs env cfg bp (pre @ post) objs shms =
     (case init_algs env cfg bp pre objs shms of
        InitDone objs' shms' \<Rightarrow> init_algs env cfg bp post objs' shms' | r \<Rightarrow> r)"
  by (induction pre arbitrary: objs shms)
    (auto split: sum.splits option.splits bool.splits prod.splits init_out.splits)

section \<open>Properties\<close>

text \<open>C1: Multi-processing does not change what a run reports. If the sequential run of a chain
  returns (no exception leaves it), then the run of the same chain on the same files with
  \<^verbatim>\<open>use_multi_processing\<close> set returns too, with the same success flag and the same numbers
  of errors, processed files and skipped files. The hypotheses are those of normal operation:
  shared memory and \<^verbatim>\<open>stop_on_error\<close> are off, there is at least one file, the maximum number
  of processes is at least one, every algorithm imports and initializes to the same behaviour
  in both modes and finalizes without an exception.\<close>

theorem mp_equals_sequential:
  assumes cs: "set_multi_processing False cfg = Inr cs" and cm: "set_multi_processing True cfg = Inr cm"
    and shm: "cflag cfg ''chain'' ''use_shared_memory'' = Inr False"
    and stop: "cflag cfg ''chain'' ''stop_on_error'' = Inr False"
    and procs: "max_procs cfg = Inr m" "1 \<le> m" "m \<le> 2 ^ 53"
    and files: "files \<noteq> []" "length files < 2 ^ 53"
    and classes: "chain_classes env cfg bp algs = Inr classes" "list_all (same_init cs cm) classes"
    and ds: "\<And>f nc. env_open env f = Inr nc \<Longrightarrow> ds_isinstance nc"
    and seq: "run_chain env cs files algs bp = Inr (r, ev)"
  shows "\<exists>r' ev'. run_chain env cm files algs bp = Inr (r', ev') \<and> cr_success r' = cr_success r \<and>
    cr_errors r' = cr_errors r \<and> cr_processed r' = cr_processed r \<and> cr_skipped r' = cr_skipped r"
proof -
  note fs = set_multi_processing_facts(1) [OF cs] and fm = set_multi_processing_facts(1) [OF cm]
  let ?spec = "spec_file env cfg (map (class_view cs) classes) bp"
  have "list_all (sound_class cs) classes" using classes(2) by (auto simp: list_all_iff intro: same_init_sound)
  then obtain results where res: "rmapM ?spec files = Inr results"
    and r: "r = result_of (foldl count_result zero_counts results)
      (if results = [] then [] else snd (snd (last results)))"
    using seq run_chain_sequential [OF fs, where env = env and bp = bp and algs = algs and classes = classes]
      classes ds stop set_mp_cflag [OF cs] set_mp_chain_classes [OF cs] set_mp_spec_file [OF cs]
    by (auto simp: rbind_eq_Inr)
  have "run_chain env cm files algs bp = Inr (result_of (foldl count_result zero_counts
      (returned (spec_file env cm (map (class_view cs) classes) bp) files)) [], [])"
    using run_chain_parallel [OF fm, where env = env and bp = bp and algs = algs and classes = classes and
        files = files and m = m and cs = cs] shm procs files classes ds set_mp_cflag [OF cm] set_mp_chain_classes [OF cm]
      set_mp_max_procs [OF cm] rmapM_no_Inl [OF res, of NonTermination] by (auto simp: Let_def set_mp_spec_file [OF cm])
  then show ?thesis
    using r returned_all [OF res] by (simp add: set_mp_spec_file [OF cm] result_of_def)
qed

text \<open>A concrete chain of one algorithm that accepts every file but the one called \<open>bad\<close>, which
  it fails, and the one called \<open>far\<close>, which it skips.\<close>

definition wit_impl :: alg_impl where
  "wit_impl = \<lparr>impl_body = (\<lambda>l1b sd.
       if dget sd ''l1b_file_name'' = Inr (SStr ''bad'') then Inr ((False, ''no data''), sd)
       else if dget sd ''l1b_file_name'' = Inr (SStr ''far'') then Inr ((False, ''SKIP_OK far''), sd)
       else Inr ((True, []), sd)),
     impl_finalize = base_finalize\<rparr>"

definition wit_class :: alg_class where
  "wit_class = \<lparr>cls_name = ''clev2er.algorithms.testchain.alg1'',
     cls_init = (\<lambda>cfg. Inr ((True, []), wit_impl))\<rparr>"

definition wit_nc :: dataset where
  "wit_nc = \<lparr>ds_isinstance = True, ds_getitem = (\<lambda>k. Inl (IndexError k)),
     ds_variables = (\<lambda>k. None), ds_attr = (\<lambda>k. None)\<rparr>"

definition wit_env :: chain_env where
  "wit_env = \<lparr>env_open = (\<lambda>f. if f = ''gone'' then Inl (FileNotFoundError f) else Inr wit_nc),
     env_traceback = (\<lambda>e. ''traceback''),
     env_import = (\<lambda>m. if m = ''clev2er.algorithms.testchain.alg1'' then Some wit_class else None)\<rparr>"

definition wit_cfg :: "bool \<Rightarrow> bool \<Rightarrow> bool \<Rightarrow> config" where
  "wit_cfg mp shm stop = [(''chain'', CDict [(''use_multi_processing'', CBool mp),
     (''use_shared_memory'', CBool shm), (''stop_on_error'', CBool stop),
     (''max_processes_for_multiprocessing'', CInt 2), (''chain_name'', CStr ''testchain'')])]"

lemmas wit_defs = wit_cfg_def cflag_def cget2_def set_multi_processing_def dset_def max_procs_def
  module_path_def

lemma wit_classes: "chain_classes wit_env (wit_cfg mp shm stop) [] [''alg1''] = Inr [wit_class]"
  by (simp add: wit_defs wit_env_def)

lemma wit_same_init: "list_all (same_init c c') [wit_class]"
  by (auto simp: same_init_def wit_class_def wit_impl_def base_finalize_def)

lemma wit_opens: "env_open wit_env f = Inr nc \<Longrightarrow> ds_isinstance nc"
  by (auto simp: wit_env_def wit_nc_def split: if_splits)

theorem mp_equals_sequential_witness:
  "\<exists>r' ev'. run_chain wit_env (wit_cfg True False False) [''a'', ''bad'', ''far'', ''gone'', ''b''] [''alg1''] [] =
     Inr (r', ev') \<and> cr_success r' = False \<and> cr_errors r' = 2 \<and> cr_processed r' = 5 \<and> cr_skipped r' = 1"
proof -
  have seq: "run_chain wit_env (wit_cfg False False False) [''a'', ''bad'', ''far'', ''gone'', ''b''] [''alg1''] [] =
      Inr (\<lparr>cr_success = False, cr_errors = 2, cr_processed = 5, cr_skipped = 1, cr_breakpoint = []\<rparr>,
        [(''clev2er.algorithms.testchain.alg1'', 3)])"
    by code_simp
  show ?thesis
    using mp_equals_sequential [where cfg = "wit_cfg False False False" and cm = "wit_cfg True False False" and
        m = 2, OF _ _ _ _ _ _ _ _ _ wit_classes wit_same_init wit_opens seq]
    by (simp add: wit_defs)
qed


text \<open>C2: The sequential run refines its specification: on every list of files it returns the
  number of files, the number of files whose specified result is an error, the number of
  files skipped (\<^verbatim>\<open>SKIP_OK\<close> in the message of the failing algorithm), success exactly when
  there is no error, the breakpoint file of the last file, and it finalizes every algorithm
  once, in order, with stage 3. If an exception that is not caught leaves the processing of
  a file, it leaves the run.\<close>

theorem sequential_run_correct:
  assumes mp: "cflag cs ''chain'' ''use_multi_processing'' = Inr False"
    and stop: "cflag cs ''chain'' ''stop_on_error'' = Inr False"
    and classes: "chain_classes env cs bp algs = Inr classes" "list_all (sound_class cs) classes"
    and ds: "\<And>f nc. env_open env f = Inr nc \<Longrightarrow> ds_isinstance nc"
  shows "run_chain env cs files algs bp =
    (case rmapM (spec_file env cs (map (class_view cs) classes) bp) files of
       Inl e \<Rightarrow> Inl e
     | Inr rs \<Rightarrow> Inr (\<lparr>cr_success = (\<forall>r\<in>set rs. \<not> is_error r), cr_errors = length (filter is_error rs),
         cr_processed = length files, cr_skipped = length (filter is_skip rs),
         cr_breakpoint = (if rs = [] then [] else snd (snd (last rs)))\<rparr>,
         map (\<lambda>cls. (cls_name cls, 3)) classes))"
  using run_chain_sequential [OF mp stop classes ds]
  by (auto simp: result_of_def count_results_wf rmapM_spec_wf zero_counts_def filter_empty_conv rmapM_length
      split: sum.splits)

text \<open>C3: In multi-processing mode every file index is in exactly one process set, in order, and
  no set is larger than \<^verbatim>\<open>max_processes_for_multiprocessing\<close>, although the number of sets is
  computed with a floating-point division.\<close>

theorem process_sets_correct:
  assumes "max_procs cfg = Inr m" and "1 \<le> m" and "m \<le> 2 ^ 53" and "0 < n" and "n < 2 ^ 53"
  shows "\<exists>chunks. mp_chunks cfg n = Inr chunks \<and> concat chunks = [0..<n] \<and>
    (\<forall>c\<in>set chunks. int (length c) \<le> m)"
  using assms by (rule mp_chunks_correct)

text \<open>C4: With \<^verbatim>\<open>stop_on_error\<close> a sequential run stops after the first file that gives an error:
  it reports one error, counts the files up to and including that one, and still finalizes
  every algorithm once with stage 3.\<close>

theorem stop_on_error_stops:
  assumes mp: "cflag cs ''chain'' ''use_multi_processing'' = Inr False"
    and stop: "cflag cs ''chain'' ''stop_on_error'' = Inr True"
    and classes: "chain_classes env cs bp algs = Inr classes" "list_all (sound_class cs) classes"
    and ds: "\<And>f nc. env_open env f = Inr nc \<Longrightarrow> ds_isinstance nc"
    and results: "rmapM (spec_file env cs (map (class_view cs) classes) bp) (pre @ [f]) = Inr (rs @ [r])"
    and first: "\<forall>x\<in>set rs. \<not> is_error x" "is_error r"
  shows "run_chain env cs (pre @ f # post) algs bp =
    Inr (\<lparr>cr_success = False, cr_errors = 1, cr_processed = length pre + 1,
      cr_skipped = length (filter is_skip rs), cr_breakpoint = snd (snd r)\<rparr>,
      map (\<lambda>cls. (cls_name cls, 3)) classes)"
proof -
  obtain ns where init: "init_algs env cs bp algs [] [] = InitDone ns []" and ready: "list_all seq_ready ns"
    and fin: "list_all finalizable ns" and views: "map view ns = map (class_view cs) classes"
    using init_algs_seq [OF mp classes, of "[]"] by auto
  obtain os where os: "list_all seq_ready os" "map view os = map view ns"
    and sl: "seq_loop env cs bp 0 (pre @ f # post) ns zero_counts [] =
      Inr (foldl count_result zero_counts (rs @ [r]), snd (snd r), os)"
    using seq_loop_stop [OF ready mp stop, where env = env and bp = bp and pre = pre and f = f and rs = rs and
        r = r and post = post and n = 0 and c = zero_counts and bpf = "[]"] ds first results views by auto
  have counts: "foldl count_result zero_counts (rs @ [r]) =
      \<lparr>num_errors = 1, num_files_processed = length pre + 1, num_skipped = length (filter is_skip rs)\<rparr>"
    using first rmapM_spec_wf [OF results] rmapM_length [OF results]
    by (subst count_results_wf) (auto simp: zero_counts_def filter_empty_conv is_error_def is_skip_def)
  have "finalize_all 3 os = (map (\<lambda>cls. (cls_name cls, 3)) classes, Inr ())"
    using seq_ready_views_finalizable [OF fin ready os] finalized_views [OF os(1)] os(2) views
    by (simp add: finalize_all_ok class_view_def o_def)
  then show ?thesis using mp init sl counts by (simp add: run_chain_def result_of_def)
qed

text \<open>C5: A parallel run counts exactly the files whose child process returns. If the processing of some
  file never ends, neither does the run, as the parent waits for every child. Otherwise the run returns, and a
  file whose processing raises an exception other than \<^verbatim>\<open>IOError\<close>, \<^verbatim>\<open>ValueError\<close> and \<^verbatim>\<open>KeyError\<close> is neither
  processed, nor skipped, nor an error, so the run can succeed although the child of that file died; and no
  breakpoint file name is returned.\<close>

theorem parallel_run_counts:
  assumes "cflag cm ''chain'' ''use_multi_processing'' = Inr True"
    and "cflag cm ''chain'' ''use_shared_memory'' = Inr False"
    and "max_procs cm = Inr m" "1 \<le> m" "m \<le> 2 ^ 53"
    and "files \<noteq> []" "length files < 2 ^ 53"
    and "chain_classes env cm bp algs = Inr classes" "list_all (same_init cs cm) classes"
    and "\<And>f nc. env_open env f = Inr nc \<Longrightarrow> ds_isinstance nc"
  shows "let spec = spec_file env cm (map (class_view cs) classes) bp; rs = returned spec files
    in run_chain env cm files algs bp =
      (if list_ex (\<lambda>f. spec f = Inl NonTermination) files then Inl NonTermination
       else Inr (\<lparr>cr_success = (\<forall>r\<in>set rs. \<not> is_error r),
         cr_errors = length (filter is_error rs), cr_processed = length rs,
         cr_skipped = length (filter is_skip rs), cr_breakpoint = []\<rparr>, []))"
  using run_chain_parallel [OF assms]
  by (simp add: result_of_def count_results_wf returned_wf zero_counts_def filter_empty_conv Let_def)

text \<open>C6: The algorithms after the breakpoint do not matter: they are not imported, not created
  and not run.\<close>

theorem breakpoint_truncates:
  assumes "bp \<notin> set pre"
  shows "run_chain env cfg files (pre @ bp # post) bp = run_chain env cfg files (pre @ [bp]) bp"
proof -
  have "init_algs env cfg bp (bp # post) objs shms = init_algs env cfg bp [bp] objs shms" for objs shms
    by (simp split: sum.splits option.splits bool.splits)
  then show ?thesis
    using assms by (simp add: run_chain_def init_algs_append del: init_algs.simps(2) cong: init_out.case_cong)
qed

text \<open>C7: When an algorithm cannot be imported the run returns failure at once with one error
  and no file processed, and finalizes nothing: also not the shared-memory instances that
  the algorithms before it have already created.\<close>

theorem import_failure_finalizes_nothing:
  assumes "bp \<notin> set pre" and "init_algs env cfg bp pre [] [] = InitDone objs shms"
    and "module_path cfg alg = Inr path" and "env_import env path = None"
  shows "run_chain env cfg files (pre @ alg # post) bp = Inr (chain_failed, [])"
  using assms by (simp add: run_chain_def init_algs_append)

text \<open>When instead a shared-memory instance cannot be created because its constructor raises
  one of the caught exceptions, the instances created before it are finalized, each once,
  with stage 4.\<close>

theorem shm_failure_finalizes_all:
  assumes "bp \<notin> set pre" and "init_algs env cfg bp pre [] [] = InitDone objs shms"
    and "list_all finalizable shms"
    and "module_path cfg alg = Inr path" and "env_import env path = Some cls"
    and "alg_new cls cfg = Inr obj" and "use_shm cfg = Inr True"
    and "alg_new cls (shm_config cfg) = Inl e" and "caught e"
  shows "run_chain env cfg files (pre @ alg # post) bp =
    Inr (chain_failed, map (\<lambda>a. (obj_alg_name a, 4)) (filter obj_initialized shms))"
  using assms by (simp add: run_chain_def init_algs_append finalize_all_ok)

section \<open>Concrete runs\<close>

text \<open>The algorithm list of the witnesses, and a second algorithm whose constructor fails when
  shared memory is set up.\<close>

definition wit_files :: "string list" where
  "wit_files = [''a'', ''bad'', ''far'', ''gone'', ''b'']"

definition wit_class2 :: alg_class where
  "wit_class2 = \<lparr>cls_name = ''clev2er.algorithms.testchain.alg2'',
     cls_init = (\<lambda>cfg. if dhas cfg ''_init_shared_mem'' then Inl (FileNotFoundError ''mask file'')
       else Inr ((True, []), wit_impl))\<rparr>"

definition wit_env2 :: chain_env where
  "wit_env2 = wit_env\<lparr>env_import := (\<lambda>m. if m = ''clev2er.algorithms.testchain.alg1'' then Some wit_class
     else if m = ''clev2er.algorithms.testchain.alg2'' then Some wit_class2 else None)\<rparr>"

lemma wit_sound: "list_all (sound_class c) [wit_class]"
  by (auto simp: sound_class_def wit_class_def wit_impl_def base_finalize_def)

lemma wit_view: "map (class_view c) [wit_class] = [(''clev2er.algorithms.testchain.alg1'', wit_impl)]"
  by (simp add: class_view_def wit_class_def)

theorem sequential_run_correct_witness:
  "run_chain wit_env (wit_cfg False False False) wit_files [''alg1''] [] =
     Inr (\<lparr>cr_success = False, cr_errors = 2, cr_processed = 5, cr_skipped = 1, cr_breakpoint = []\<rparr>,
       [(''clev2er.algorithms.testchain.alg1'', 3)])"
proof -
  have "rmapM (spec_file wit_env (wit_cfg False False False) [(''clev2er.algorithms.testchain.alg1'', wit_impl)] [])
      wit_files = Inr [(True, [], []), (False, ''no data'', []), (False, ''SKIP_OK far'', []),
        (False, ''Error processing gone: traceback'', []), (True, [], [])]"
    by code_simp
  then show ?thesis
    using sequential_run_correct [where files = wit_files, OF _ _ wit_classes [of False False False] wit_sound wit_opens] wit_view
    by (simp add: wit_defs is_error_def is_skip_def wit_files_def wit_class_def)
qed

theorem process_sets_correct_witness:
  "\<exists>chunks. mp_chunks (wit_cfg True False False) 5 = Inr chunks \<and> concat chunks = [0, 1, 2, 3, 4] \<and>
     (\<forall>c\<in>set chunks. int (length c) \<le> 2)"
proof -
  have "[0..<5] = [0, 1, 2, 3, 4::nat]" by code_simp
  then show ?thesis
    using process_sets_correct [of "wit_cfg True False False" 2 5] by (simp add: wit_defs)
qed

theorem stop_on_error_stops_witness:
  "run_chain wit_env (wit_cfg False False True) [''a'', ''bad'', ''far'', ''b''] [''alg1''] [] =
     Inr (\<lparr>cr_success = False, cr_errors = 1, cr_processed = 2, cr_skipped = 0, cr_breakpoint = []\<rparr>,
       [(''clev2er.algorithms.testchain.alg1'', 3)])"
proof -
  have "rmapM (spec_file wit_env (wit_cfg False False True) [(''clev2er.algorithms.testchain.alg1'', wit_impl)] [])
      ([''a''] @ [''bad'']) = Inr ([(True, [], [])] @ [(False, ''no data'', [])])"
    by code_simp
  then show ?thesis
    using stop_on_error_stops [where cs = "wit_cfg False False True" and pre = "[''a'']" and f = "''bad''" and
        rs = "[(True, [], [])]" and r = "(False, ''no data'', [])" and post = "[''far'', ''b'']",
        OF _ _ wit_classes wit_sound wit_opens] wit_view
    by (simp add: wit_defs is_error_def is_skip_def wit_class_def)
qed

text \<open>An algorithm that fails, skips, dies or never ends, by the name of the file.\<close>

definition wit_impl3 :: alg_impl where
  "wit_impl3 = \<lparr>impl_body = (\<lambda>l1b sd.
       if dget sd ''l1b_file_name'' = Inr (SStr ''dies'') then Inl (AttributeError ''Zdem'')
       else if dget sd ''l1b_file_name'' = Inr (SStr ''hangs'') then Inl NonTermination
       else impl_body wit_impl l1b sd),
     impl_finalize = base_finalize\<rparr>"

definition wit_class3 :: alg_class where
  "wit_class3 = \<lparr>cls_name = ''clev2er.algorithms.testchain.alg1'', cls_init = (\<lambda>cfg. Inr ((True, []), wit_impl3))\<rparr>"

definition wit_env3 :: chain_env where
  "wit_env3 = wit_env\<lparr>env_import := (\<lambda>m. if m = ''clev2er.algorithms.testchain.alg1'' then Some wit_class3 else None)\<rparr>"

theorem parallel_run_counts_witness:
  "run_chain wit_env3 (wit_cfg True False False) [''a'', ''dies'', ''bad'', ''far'', ''gone''] [''alg1''] [] =
     Inr (\<lparr>cr_success = False, cr_errors = 2, cr_processed = 4, cr_skipped = 1, cr_breakpoint = []\<rparr>, []) \<and>
   run_chain wit_env3 (wit_cfg True False False) [''a'', ''dies''] [''alg1''] [] =
     Inr (\<lparr>cr_success = True, cr_errors = 0, cr_processed = 1, cr_skipped = 0, cr_breakpoint = []\<rparr>, []) \<and>
   run_chain wit_env3 (wit_cfg True False False) [''a'', ''hangs'', ''b''] [''alg1''] [] = Inl NonTermination"
proof -
  let ?c = "wit_cfg True False False"
  let ?spec = "spec_file wit_env3 ?c [(''clev2er.algorithms.testchain.alg1'', wit_impl3)] []"
  have cl: "chain_classes wit_env3 ?c [] [''alg1''] = Inr [wit_class3]" by (simp add: wit_defs wit_env3_def)
  have same: "list_all (same_init ?c ?c) [wit_class3]"
    by (auto simp: same_init_def wit_class3_def wit_impl3_def base_finalize_def)
  have view: "map (class_view ?c) [wit_class3] = [(''clev2er.algorithms.testchain.alg1'', wit_impl3)]"
    by (simp add: class_view_def wit_class3_def)
  have ds: "env_open wit_env3 f = Inr nc \<Longrightarrow> ds_isinstance nc" for f nc
    using wit_opens [of f nc] by (simp add: wit_env3_def)
  have spec: "map ?spec [''a'', ''b'', ''dies'', ''bad'', ''far'', ''gone'', ''hangs''] =
      [Inr (True, [], []), Inr (True, [], []), Inl (AttributeError ''Zdem''), Inr (False, ''no data'', []),
       Inr (False, ''SKIP_OK far'', []), Inr (False, ''Error processing gone: traceback'', []), Inl NonTermination]"
    by code_simp
  have run: "files \<noteq> [] \<Longrightarrow> length files < 2 ^ 53 \<Longrightarrow> run_chain wit_env3 ?c files [''alg1''] [] =
      (if list_ex (\<lambda>f. ?spec f = Inl NonTermination) files then Inl NonTermination
       else Inr (\<lparr>cr_success = (\<forall>r\<in>set (returned ?spec files). \<not> is_error r),
         cr_errors = length (filter is_error (returned ?spec files)), cr_processed = length (returned ?spec files),
         cr_skipped = length (filter is_skip (returned ?spec files)), cr_breakpoint = []\<rparr>, []))" for files
    using parallel_run_counts [where m = 2 and files = files, OF _ _ _ _ _ _ _ cl same ds] view
    by (simp add: wit_defs Let_def)
  show ?thesis using spec by (simp add: run returned_simps is_error_def is_skip_def)
qed

theorem breakpoint_truncates_witness:
  "run_chain wit_env (wit_cfg False False False) wit_files [''alg1'', ''no_such_alg''] ''alg1'' =
   run_chain wit_env (wit_cfg False False False) wit_files [''alg1''] ''alg1''"
  using breakpoint_truncates [of "''alg1''" "[]"] by simp

theorem import_failure_finalizes_nothing_witness:
  "run_chain wit_env (wit_cfg True True False) wit_files [''alg1'', ''alg3''] [] = Inr (chain_failed, []) \<and>
   (\<exists>objs a. init_algs wit_env (wit_cfg True True False) [] [''alg1''] [] [] = InitDone objs [a] \<and> obj_initialized a)"
proof -
  obtain objs a where init: "init_algs wit_env (wit_cfg True True False) [] [''alg1''] [] [] = InitDone objs [a]"
    and "obj_initialized a"
    by (simp add: wit_defs wit_env_def alg_new_def run_init_def base_obj_def wit_class_def use_shm_def
        shm_config_def dhas_def Let_def)
  then show ?thesis
    using import_failure_finalizes_nothing [OF _ init, of "''alg3''" _ wit_files "[]"]
    by (auto simp: wit_defs wit_env_def)
qed

theorem shm_failure_finalizes_all_witness:
  "run_chain wit_env2 (wit_cfg True True False) wit_files [''alg1'', ''alg2''] [] =
     Inr (chain_failed, [(''clev2er.algorithms.testchain.alg1'', 4)])"
proof -
  obtain objs a where init: "init_algs wit_env2 (wit_cfg True True False) [] [''alg1''] [] [] = InitDone objs [a]"
    and a: "obj_initialized a" "obj_alg_name a = ''clev2er.algorithms.testchain.alg1''" "obj_impl a = Some wit_impl"
    by (simp add: wit_defs wit_env2_def alg_new_def run_init_def base_obj_def wit_class_def use_shm_def
        shm_config_def dhas_def Let_def)
  have fin: "list_all finalizable [a]"
    using a by (simp add: finalizable_def alg_finalize_def wit_impl_def base_finalize_def)
  have new: "alg_new wit_class2 (wit_cfg True True False) = Inr (base_obj wit_class2 (wit_cfg True True False))"
    "alg_new wit_class2 (shm_config (wit_cfg True True False)) = Inl (FileNotFoundError ''mask file'')"
    by (simp_all add: wit_defs alg_new_def run_init_def base_obj_def wit_class2_def shm_config_def dhas_def Let_def)
  show ?thesis
    using shm_failure_finalizes_all [OF _ init fin _ _ new(1) _ new(2),
        where alg = "''alg2''" and files = wit_files and post = "[]"] a
    by (simp add: wit_defs wit_env2_def use_shm_def caught_def)
qed

end
