(* ===== verification/Np_Float.thy ===== *)
theory Np_Float
  imports PyVal
begin

text \<open>
  Arithmetic on numpy arrays. numpy keeps a global error mode: the retracker modules set it to
  raise on every floating-point exception (\<^verbatim>\<open>np.seterr("raise")\<close>) and the geolocation algorithms
  later switch underflow off. The mode is a value of \<open>np_err\<close> and every operation of this theory
  takes it: the result is that of \<open>Float64\<close> or a \<^verbatim>\<open>FloatingPointError\<close>. The theory also has the
  reductions and conversions that are determined by IEEE arithmetic alone (\<^verbatim>\<open>np.max\<close>,
  \<^verbatim>\<open>np.argmax\<close>, the built-in \<^verbatim>\<open>sum\<close> and \<^verbatim>\<open>float\<close>, \<^verbatim>\<open>math.sqrt\<close>); numpy functions that are not, such
  as the pairwise \<^verbatim>\<open>np.sum\<close>, are parameters, in the record \<open>np_env\<close>.
\<close>

named_theorems npf_simps \<open>rewriting of checked operations\<close>

section \<open>The error mode\<close>

record np_err =
  raise_divide :: bool
  raise_over :: bool
  raise_under :: bool
  raise_invalid :: bool

text \<open>\<^verbatim>\<open>np.seterr("raise")\<close>, \<^verbatim>\<open>np.seterr(under="ignore")\<close>, and the mode numpy starts with, in which
  nothing raises.\<close>

definition seterr_raise :: np_err where
  "seterr_raise = \<lparr>raise_divide = True, raise_over = True, raise_under = True, raise_invalid = True\<rparr>"

definition seterr_ignore_under :: "np_err \<Rightarrow> np_err" where
  "seterr_ignore_under em = em\<lparr>raise_under := False\<rparr>"

definition seterr_default :: np_err where
  "seterr_default = \<lparr>raise_divide = False, raise_over = False, raise_under = False, raise_invalid = False\<rparr>"

definition flagged :: "bool \<Rightarrow> string \<Rightarrow> fl \<Rightarrow> fl res" where
  "flagged b what r = (if b then Inl (FloatingPointError (what @ '' encountered'')) else Inr r)"

text \<open>A result underflows when, rounded to 53 bits with an unbounded exponent, it is below the
  normal range, and the double it is rounded to differs from it.\<close>

definition underflows :: "rat \<Rightarrow> fl \<Rightarrow> bool" where
  "underflows q r = (q \<noteq> 0 \<and> r \<noteq> Fin q \<and> \<bar>q\<bar> < two_pow (- 1022) - two_pow (- 1076))"

definition np_round :: "np_err \<Rightarrow> rat \<Rightarrow> fl res" where
  "np_round em q =
     (let r = round64 q in
      if \<not> is_finite r then flagged (raise_over em) ''overflow'' r
      else if underflows q r then flagged (raise_under em) ''underflow'' r
      else Inr r)"

text \<open>A NaN that no operand was makes the operation invalid.\<close>

definition np_invalid :: "np_err \<Rightarrow> fl \<Rightarrow> fl \<Rightarrow> fl \<Rightarrow> fl res" where
  "np_invalid em x y r = (if x \<noteq> NaN \<and> y \<noteq> NaN \<and> r = NaN then flagged (raise_invalid em) ''invalid value'' r else Inr r)"

section \<open>Operations\<close>

definition npf_add :: "np_err \<Rightarrow> fl \<Rightarrow> fl \<Rightarrow> fl res" where
  "npf_add em x y = (case (x, y) of (Fin a, Fin b) \<Rightarrow> np_round em (a + b) | _ \<Rightarrow> np_invalid em x y (fl_add x y))"

definition npf_sub :: "np_err \<Rightarrow> fl \<Rightarrow> fl \<Rightarrow> fl res" where
  "npf_sub em x y = npf_add em x (fl_neg y)"

definition npf_mul :: "np_err \<Rightarrow> fl \<Rightarrow> fl \<Rightarrow> fl res" where
  "npf_mul em x y = (case (x, y) of (Fin a, Fin b) \<Rightarrow> np_round em (a * b) | _ \<Rightarrow> np_invalid em x y (fl_mul x y))"

definition npf_div :: "np_err \<Rightarrow> fl \<Rightarrow> fl \<Rightarrow> fl res" where
  "npf_div em x y =
     (case (x, y) of
        (Fin a, Fin b) \<Rightarrow>
          if b \<noteq> 0 then np_round em (a / b)
          else if a \<noteq> 0 then flagged (raise_divide em) ''divide by zero'' (fl_div x y)
          else np_invalid em x y NaN
      | _ \<Rightarrow> np_invalid em x y (fl_div x y))"

text \<open>A checked operation returns the IEEE result or raises.\<close>

lemma flagged_Inr [simp, npf_simps]: "flagged b w r = Inr s \<longleftrightarrow> \<not> b \<and> s = r"
  by (auto simp: flagged_def)

lemma np_invalid_Inr: "np_invalid em x y r = Inr s \<Longrightarrow> s = r"
  by (auto simp: np_invalid_def split: if_splits)

lemma np_round_Inr: "np_round em q = Inr s \<Longrightarrow> s = round64 q"
  by (auto simp: np_round_def Let_def split: if_splits)

lemma npf_add_Inr: "npf_add em x y = Inr s \<Longrightarrow> s = fl_add x y"
  by (cases x; cases y) (auto simp: npf_add_def dest: np_invalid_Inr np_round_Inr)

lemma npf_sub_Inr: "npf_sub em x y = Inr s \<Longrightarrow> s = fl_sub x y"
  by (auto simp: npf_sub_def fl_sub_def dest: npf_add_Inr)

lemma npf_mul_Inr: "npf_mul em x y = Inr s \<Longrightarrow> s = fl_mul x y"
  by (cases x; cases y) (auto simp: npf_mul_def dest: np_invalid_Inr np_round_Inr)

lemma npf_div_Inr: "npf_div em x y = Inr s \<Longrightarrow> s = fl_div x y"
  by (cases x; cases y) (auto simp: npf_div_def inf_of_sign_def dest: np_invalid_Inr np_round_Inr split: if_splits)

lemmas npf_Inr = npf_add_Inr npf_sub_Inr npf_mul_Inr npf_div_Inr

text \<open>In the default mode nothing raises.\<close>

lemma flagged_default [simp]: "flagged False w r = Inr r"
  by (simp add: flagged_def)

lemma checks_default: "np_invalid seterr_default x y r = Inr r" "np_round seterr_default q = Inr (round64 q)"
  "\<not> raise_divide seterr_default"
  by (simp_all add: np_invalid_def np_round_def seterr_default_def Let_def)

lemma npf_default [simp, npf_simps]:
  "npf_add seterr_default x y = Inr (fl_add x y)" "npf_mul seterr_default x y = Inr (fl_mul x y)"
  by (auto simp: npf_add_def npf_mul_def checks_default split: fl.splits)

lemma npf_div_default [simp, npf_simps]: "npf_div seterr_default x y = Inr (fl_div x y)"
  by (auto simp: npf_div_def checks_default inf_of_sign_def split: fl.splits)

text \<open>NaN is quiet.\<close>

lemma npf_NaN [simp, npf_simps]:
  "npf_add em NaN y = Inr NaN" "npf_add em x NaN = Inr NaN" "npf_sub em NaN y = Inr NaN" "npf_sub em x NaN = Inr NaN"
  "npf_mul em NaN y = Inr NaN" "npf_mul em x NaN = Inr NaN" "npf_div em NaN y = Inr NaN" "npf_div em x NaN = Inr NaN"
  by (cases x; cases y; simp add: npf_add_def npf_sub_def npf_mul_def npf_div_def np_invalid_def)+

text \<open>In the normal range nothing raises.\<close>

lemma np_round_normal:
  assumes "two_pow (- 1022) \<le> q" and "q < two_pow 1023"
  shows "\<exists>v. np_round em q = Inr (Fin v) \<and> 0 < v \<and> \<bar>v - q\<bar> \<le> q / 2 ^ 53"
proof -
  obtain v where v: "round64 q = Fin v" "0 < v" "\<bar>v - q\<bar> \<le> q / 2 ^ 53"
    using round64_normal [OF assms] by blast
  have "\<not> underflows q (Fin v)"
    unfolding underflows_def using assms(1) two_pow_pos [of "- 1076"] by linarith
  with v show ?thesis by (simp add: np_round_def is_finite_def)
qed

lemma np_round_0 [simp]: "np_round em 0 = Inr (Fin 0)"
  by (simp add: np_round_def is_finite_def underflows_def)

section \<open>Elementwise operations\<close>

definition np_zip :: "('a \<Rightarrow> 'b \<Rightarrow> 'c res) \<Rightarrow> 'a list \<Rightarrow> 'b list \<Rightarrow> 'c list res" where
  "np_zip f xs ys = rbind (np_map2 f xs ys) (rmapM id)"

lemma rmapM_id_map: "rmapM id (map f xs) = rmapM f xs"
  by (induction xs) auto

lemma np_zip_nth:
  assumes "np_zip f xs ys = Inr zs" and "length xs = length ys"
  shows "length zs = length xs \<and> (\<forall>i<length xs. f (xs ! i) (ys ! i) = Inr (zs ! i))"
proof -
  have z: "rmapM id (map2 f xs ys) = Inr zs" using assms by (simp add: np_zip_def)
  show ?thesis
    using rmapM_length [OF z] rmapM_nth [OF z] assms(2) by simp
qed

text \<open>\<^verbatim>\<open>xs[i] = v\<close> on a Python list or an array, where a negative index counts from the end.\<close>

definition py_set :: "'a list \<Rightarrow> int \<Rightarrow> 'a \<Rightarrow> 'a list res" where
  "py_set xs i v =
     (if 0 \<le> i \<and> i < int (length xs) then Inr (xs[nat i := v])
      else if i < 0 \<and> - int (length xs) \<le> i then Inr (xs[nat (int (length xs) + i) := v])
      else Inl (IndexError ''assignment index out of range''))"

section \<open>Reductions\<close>

text \<open>\<^verbatim>\<open>np.max\<close>: NaN if there is one.\<close>

fun fl_max :: "fl \<Rightarrow> fl list \<Rightarrow> fl" where
  "fl_max m [] = m"
| "fl_max m (x # xs) = fl_max (if m = NaN \<or> x = NaN then NaN else if fl_lt m x then x else m) xs"

definition np_max :: "fl list \<Rightarrow> fl res" where
  "np_max xs = (case xs of
     [] \<Rightarrow> Inl (ValueError ''zero-size array to reduction operation maximum which has no identity'')
   | y # ys \<Rightarrow> Inr (fl_max y ys))"

text \<open>\<^verbatim>\<open>np.argmax\<close>: the first position of the maximum, or of the first NaN.\<close>

fun fl_argmax :: "nat \<Rightarrow> fl \<Rightarrow> nat \<Rightarrow> fl list \<Rightarrow> nat" where
  "fl_argmax best m i [] = best"
| "fl_argmax best m i (x # xs) =
     (if m = NaN then best else if x = NaN then i else if fl_lt m x then fl_argmax i x (Suc i) xs
      else fl_argmax best m (Suc i) xs)"

definition np_argmax :: "fl list \<Rightarrow> nat res" where
  "np_argmax xs = (case xs of
     [] \<Rightarrow> Inl (ValueError ''attempt to get argmax of an empty sequence'')
   | y # ys \<Rightarrow> Inr (fl_argmax 0 y 1 ys))"

text \<open>The built-in \<^verbatim>\<open>sum\<close> of numpy scalars: from the left, starting at 0.\<close>

definition py_sum :: "np_err \<Rightarrow> fl list \<Rightarrow> fl res" where
  "py_sum em xs = foldl (\<lambda>acc x. rbind acc (\<lambda>a. npf_add em a x)) (Inr (Fin 0)) xs"

text \<open>\<^verbatim>\<open>sorted\<close> on numpy scalars: a stable merge sort by \<open><\<close>. Without NaN this is the sorted list.\<close>

fun insert_sorted :: "fl \<Rightarrow> fl list \<Rightarrow> fl list" where
  "insert_sorted x [] = [x]"
| "insert_sorted x (y # ys) = (if fl_lt x y then x # y # ys else y # insert_sorted x ys)"

definition fl_sort :: "fl list \<Rightarrow> fl list" where
  "fl_sort xs = foldl (\<lambda>acc x. insert_sorted x acc) [] xs"

lemma fl_max_cases: "fl_max m xs = NaN \<or> fl_max m xs \<in> insert m (set xs)"
  by (induction xs arbitrary: m) (auto split: if_splits)

lemma fl_max_NaN: "fl_max NaN xs = NaN"
  by (induction xs) auto

lemma fl_not_lt_trans: "\<not> fl_lt a b \<Longrightarrow> \<not> fl_lt b c \<Longrightarrow> b \<noteq> NaN \<Longrightarrow> \<not> fl_lt a c"
  by (cases a; cases b; cases c) auto

lemma fl_lt_asym: "fl_lt a b \<Longrightarrow> \<not> fl_lt b a"
  using fl_lt_trans [of a b a] by auto

lemma fl_max_ge: "fl_max m xs \<noteq> NaN \<Longrightarrow> y \<in> insert m (set xs) \<Longrightarrow> y \<noteq> NaN \<and> \<not> fl_lt (fl_max m xs) y"
proof (induction xs arbitrary: m y)
  case (Cons x xs)
  have nn: "m \<noteq> NaN" "x \<noteq> NaN" using Cons.prems(1) by (auto simp: fl_max_NaN)
  define m' where "m' = (if fl_lt m x then x else m)"
  have max: "fl_max m (x # xs) = fl_max m' xs" using nn by (simp add: m'_def)
  have IH: "z \<noteq> NaN \<and> \<not> fl_lt (fl_max m' xs) z" if "z \<in> insert m' (set xs)" for z
    by (rule Cons.IH) (use Cons.prems(1) max that in metis)+
  have "\<not> fl_lt (fl_max m' xs) m \<and> \<not> fl_lt (fl_max m' xs) x"
  proof (cases "fl_lt m x")
    case True
    then have "m' = x" by (simp add: m'_def)
    then show ?thesis using IH [of x] fl_lt_asym [OF True] fl_not_lt_trans [of _ x m] by blast
  next
    case False
    then have "m' = m" by (simp add: m'_def)
    then show ?thesis using IH [of m] False fl_not_lt_trans [of _ m x] by blast
  qed
  then show ?case using Cons.prems(2) nn IH unfolding max by auto
qed simp

lemma np_max_in:
  assumes "np_max xs = Inr m" and "m \<noteq> NaN"
  shows "m \<in> set xs \<and> (\<forall>y\<in>set xs. y \<noteq> NaN \<and> \<not> fl_lt m y)"
proof -
  obtain z zs where xs: "xs = z # zs" "m = fl_max z zs" using assms(1) by (cases xs) (auto simp: np_max_def)
  then show ?thesis using fl_max_cases [of z zs] fl_max_ge [of z zs] assms(2) by auto
qed

text \<open>\<^verbatim>\<open>np.argmax\<close> of an array without NaN finds a maximum.\<close>

lemma fl_argmax_correct:
  assumes "\<forall>x\<in>set ys. x \<noteq> NaN" and "m \<noteq> NaN" and "best < i"
    and "xs = pre @ ys" "length pre = i" "xs ! best = m" "\<forall>q<i. \<not> fl_lt m (xs ! q)"
  shows "fl_argmax best m i ys < length xs \<and> (\<forall>q<length xs. \<not> fl_lt (xs ! fl_argmax best m i ys) (xs ! q))"
  using assms
proof (induction ys arbitrary: best m i pre)
  case (Cons y ys)
  have at: "xs ! i = y" using Cons.prems by (simp add: nth_append)
  have split: "xs = (pre @ [y]) @ ys" "length (pre @ [y]) = Suc i" using Cons.prems by simp_all
  show ?case
  proof (cases "fl_lt m y")
    case True
    have old: "\<not> fl_lt y (xs ! q)" if "q < i" for q
      using fl_not_lt_trans [of y m "xs ! q"] fl_lt_asym [OF True] Cons.prems that by blast
    have "\<forall>q<Suc i. \<not> fl_lt y (xs ! q)" using old at by (auto simp: less_Suc_eq)
    then show ?thesis using True Cons.IH [of y i "Suc i" "pre @ [y]"] Cons.prems split at by simp
  next
    case False
    have "\<forall>q<Suc i. \<not> fl_lt m (xs ! q)" using False at Cons.prems by (auto simp: less_Suc_eq)
    then show ?thesis using False Cons.IH [of m best "Suc i" "pre @ [y]"] Cons.prems split by simp
  qed
qed auto

lemma np_argmax_correct:
  assumes "np_argmax xs = Inr p" and "\<forall>x\<in>set xs. x \<noteq> NaN"
  shows "p < length xs \<and> (\<forall>q<length xs. \<not> fl_lt (xs ! p) (xs ! q))"
proof -
  obtain y ys where "xs = y # ys" "p = fl_argmax 0 y 1 ys" using assms(1) by (cases xs) (auto simp: np_argmax_def)
  then show ?thesis using fl_argmax_correct [of ys y 0 1 xs "[y]"] assms(2) by simp
qed

section \<open>Numbers from the configuration\<close>

text \<open>\<^verbatim>\<open>float(s)\<close> on a string.\<close>

definition decimal_part :: "string \<Rightarrow> string option" where
  "decimal_part s = (if s = [] then Some [] else digit_part s)"

definition ten_pow :: "int \<Rightarrow> rat" where
  "ten_pow e = (if 0 \<le> e then 10 ^ nat e else 1 / 10 ^ nat (- e))"

definition py_exponent :: "string \<Rightarrow> int option" where
  "py_exponent s = (case s of [] \<Rightarrow> Some 0
     | _ # r \<Rightarrow> (case split_sign r of (neg, body) \<Rightarrow>
         map_option (\<lambda>ds. (if neg then - 1 else 1) * int (digits_value 0 ds)) (digit_part body)))"

definition py_mantissa :: "string \<Rightarrow> (nat \<times> nat) option" where
  "py_mantissa s =
     (let ip = takeWhile (\<lambda>c. c \<noteq> CHR ''.'') s; fp = drop (Suc (length ip)) s in
      if ip = [] \<and> fp = [] then None
      else case (decimal_part ip, decimal_part fp) of
             (Some a, Some b) \<Rightarrow> Some (digits_value 0 (a @ b), length b)
           | _ \<Rightarrow> None)"

definition py_float :: "string \<Rightarrow> fl option" where
  "py_float s =
     (let (neg, raw) = split_sign (py_strip s); body = py_lower raw in
      if body = ''inf'' \<or> body = ''infinity'' then Some (if neg then NInf else PInf)
      else if body = ''nan'' then Some NaN
      else let m = takeWhile (\<lambda>c. c \<noteq> CHR ''e'') body in
           case (py_mantissa m, py_exponent (drop (length m) body)) of
             (Some (n, k), Some e) \<Rightarrow>
               Some (round64 ((if neg then - 1 else 1) * of_nat n * ten_pow (e - int k)))
           | _ \<Rightarrow> None)"

text \<open>\<^verbatim>\<open>float(v)\<close> on a configuration value.\<close>

definition float_of :: "cval \<Rightarrow> fl res" where
  "float_of v = (case v of
     CFloat x \<Rightarrow> Inr x
   | CInt i \<Rightarrow> if is_finite (of_intf i) then Inr (of_intf i) else Inl (OverflowError ''int too large to convert to float'')
   | CBool b \<Rightarrow> Inr (Fin (if b then 1 else 0))
   | CStr s \<Rightarrow> of_option (ValueError (''could not convert string to float: '' @ s)) (py_float s)
   | _ \<Rightarrow> Inl (TypeError ''float() argument must be a string or a real number''))"

text \<open>\<^verbatim>\<open>math.sqrt\<close>, correctly rounded: the integer square root of the argument scaled by a power of
  four, with a half added when it is not exact, has enough digits to be rounded once more.\<close>

fun isqrt :: "nat \<Rightarrow> nat" where
  "isqrt n = (if n = 0 then 0 else let r = 2 * isqrt (n div 4) in if (r + 1) * (r + 1) \<le> n then r + 1 else r)"

declare isqrt.simps [simp del]

lemma isqrt_bounds: "isqrt n * isqrt n \<le> n \<and> n < (isqrt n + 1) * (isqrt n + 1)"
proof (induction n rule: isqrt.induct)
  case (1 n)
  show ?case
  proof (cases "n = 0")
    case True
    then show ?thesis by (simp add: isqrt.simps)
  next
    case False
    define r where "r = isqrt (n div 4)"
    have IH: "r * r \<le> n div 4" "n div 4 < (r + 1) * (r + 1)" using 1 False by (auto simp: r_def)
    have "4 * (n div 4) \<le> n" "n < 4 * (n div 4) + 4" by linarith+
    with IH have "(2 * r) * (2 * r) \<le> n" "n < (2 * r + 2) * (2 * r + 2)" by (auto simp: algebra_simps)
    then show ?thesis using False by (subst (1 2 3 4) isqrt.simps) (auto simp: Let_def r_def [symmetric] algebra_simps)
  qed
qed

definition scaled_sqrt :: "rat \<Rightarrow> rat" where
  "scaled_sqrt q =
     (let k = nat (max 0 (60 - ilog2 q div 2)); s = q * 4 ^ k; r = of_nat (isqrt (nat \<lfloor>s\<rfloor>)) in
      (if r * r = s then r else r + 1 / 2) / 2 ^ k)"

fun fl_sqrt :: "fl \<Rightarrow> fl res" where
  "fl_sqrt NaN = Inr NaN"
| "fl_sqrt PInf = Inr PInf"
| "fl_sqrt NInf = Inl (ValueError ''math domain error'')"
| "fl_sqrt (Fin a) = (if a < 0 then Inl (ValueError ''math domain error'')
     else if a = 0 then Inr (Fin 0) else Inr (round64 (scaled_sqrt a)))"

end
