(* ===== verification/Load_Config.thy ===== *)
theory Load_Config
  imports Np_Float
begin

text \<open>
  Loading the configuration of a chain: \<^verbatim>\<open>utils/xml/xml_funcs.py\<close>, which gives the strings of an
  XML file their types, and \<^verbatim>\<open>utils/config/load_config_settings.py\<close>, which finds and reads the
  algorithm list, the main configuration and the chain configuration. The file system and the
  third-party parsers (\<^verbatim>\<open>xmltodict\<close>, \<^verbatim>\<open>EnvYAML\<close>) are the fields of \<open>config_env\<close>; \<^verbatim>\<open>xmltodict\<close> gives
  nested dictionaries of strings, with \<^verbatim>\<open>None\<close> for an empty element and a list for a repeated one.
\<close>

record yaml_file =
  yml_getitem :: "string \<Rightarrow> cval res"      \<comment> \<open>\<^verbatim>\<open>EnvYAML(file)[key]\<close>\<close>
  yml_export :: config                    \<comment> \<open>\<^verbatim>\<open>EnvYAML(file).export()\<close>\<close>

record config_env =
  os_environ :: "string \<Rightarrow> string option"
  os_isdir :: "string \<Rightarrow> bool"
  os_isfile :: "string \<Rightarrow> bool"
  os_exists :: "string \<Rightarrow> bool"
  py_glob :: "string \<Rightarrow> string list"
  read_text :: "string \<Rightarrow> string res"
  xml_parse :: "string \<Rightarrow> config res"
  env_yaml :: "string \<Rightarrow> yaml_file res"

section \<open>xml_funcs\<close>

definition is_word_c :: "char \<Rightarrow> bool" where
  "is_word_c c = (is_upper_c c \<or> is_lower_c c \<or> is_digit_c c \<or> c = CHR ''_'')"

text \<open>A match of \<^verbatim>\<open>\$(\w+)|\${(\w+)}\<close> after the dollar sign: the variable and what follows.\<close>

definition env_match :: "string \<Rightarrow> (string \<times> string) option" where
  "env_match s =
     (if takeWhile is_word_c s \<noteq> [] then Some (takeWhile is_word_c s, dropWhile is_word_c s)
      else case s of
             c # t \<Rightarrow>
               if c = CHR ''{'' \<and> takeWhile is_word_c t \<noteq> [] \<and> starts_with ''}'' (dropWhile is_word_c t)
               then Some (takeWhile is_word_c t, tl (dropWhile is_word_c t)) else None
           | [] \<Rightarrow> None)"

lemma env_match_shorter: "env_match s = Some (v, r) \<Longrightarrow> length r \<le> length s"
  using length_dropWhile_le [of is_word_c s] length_dropWhile_le [of is_word_c "tl s"]
  by (auto simp: env_match_def split: if_splits list.splits)

function replace_env_variables :: "(string \<Rightarrow> string option) \<Rightarrow> string \<Rightarrow> string" where
  "replace_env_variables environ [] = []"
| "replace_env_variables environ (c # cs) =
     (case (if c = CHR ''$'' then env_match cs else None) of
        Some (v, r) \<Rightarrow> (case environ v of None \<Rightarrow> [] | Some x \<Rightarrow> x) @ replace_env_variables environ r
      | None \<Rightarrow> c # replace_env_variables environ cs)"
  by pat_completeness auto
termination
  by (relation "measure (\<lambda>(e, s). length s)") (auto dest: env_match_shorter split: if_splits)

text \<open>The conversion of one string.\<close>

definition xml_string :: "(string \<Rightarrow> string option) \<Rightarrow> string \<Rightarrow> cval" where
  "xml_string environ s =
     (if py_lower s = ''false'' then CBool False
      else if py_lower s = ''true'' then CBool True
      else if py_in ''$'' s then CStr (replace_env_variables environ s)
      else case py_int s of
             Some i \<Rightarrow> CInt i
           | None \<Rightarrow> (case py_float s of Some x \<Rightarrow> CFloat x | None \<Rightarrow> CStr s))"

text \<open>A value that is neither a dictionary nor a string has no \<^verbatim>\<open>lower\<close>.\<close>

fun set_xml_dict_types :: "(string \<Rightarrow> string option) \<Rightarrow> config \<Rightarrow> config res"
  and set_xml_value :: "(string \<Rightarrow> string option) \<Rightarrow> cval \<Rightarrow> cval res" where
  "set_xml_dict_types environ [] = Inr []"
| "set_xml_dict_types environ ((k, v) # d) =
     rbind (set_xml_value environ v) (\<lambda>v'. rbind (set_xml_dict_types environ d) (\<lambda>d'. Inr ((k, v') # d')))"
| "set_xml_value environ (CDict d) = rbind (set_xml_dict_types environ d) (\<lambda>d'. Inr (CDict d'))"
| "set_xml_value environ (CStr s) = Inr (xml_string environ s)"
| "set_xml_value environ v = Inl (AttributeError ''object has no attribute lower'')"

section \<open>Finding a file by baseline and version\<close>

definition environ_get :: "config_env \<Rightarrow> string \<Rightarrow> string res" where
  "environ_get env k = of_option (KeyError k) (os_environ env k)"

text \<open>\<^verbatim>\<open>{base_dir}/config/{kind}/{chain_name}/{chain_name}_{rest}\<close>\<close>

definition chain_path :: "string \<Rightarrow> string \<Rightarrow> string \<Rightarrow> string \<Rightarrow> string" where
  "chain_path base_dir kind chain_name rest =
     base_dir @ ''/config/'' @ kind @ ''/'' @ chain_name @ ''/'' @ chain_name @ ''_'' @ rest"

definition reverse_alphabet :: "string list" where
  "reverse_alphabet = map (\<lambda>c. [c]) (rev ''ABCDEFGHIJKLMNOPQRSTUVWXYZ'')"

definition baselines :: "string \<Rightarrow> string list" where
  "baselines baseline = (if baseline \<noteq> [] then [baseline] else reverse_alphabet)"

text \<open>The loop over the baselines: the files of the first that has any, XML before YAML;
  \<open>pat b ext\<close> is the pattern searched for.\<close>

fun find_baseline :: "(string \<Rightarrow> string list) \<Rightarrow> (string \<Rightarrow> string \<Rightarrow> string) \<Rightarrow> string list \<Rightarrow> (string \<times> string list) option" where
  "find_baseline glob pat [] = None"
| "find_baseline glob pat (b # bs) =
     (if glob (pat b ''.xml'') \<noteq> [] then Some (b, glob (pat b ''.xml''))
      else if glob (pat b ''.yml'') \<noteq> [] then Some (b, glob (pat b ''.yml''))
      else find_baseline glob pat bs)"

definition exact_or_yml :: "config_env \<Rightarrow> string \<Rightarrow> string" where
  "exact_or_yml env stem = (if os_isfile env (stem @ ''.xml'') then stem @ ''.xml'' else stem @ ''.yml'')"

section \<open>load_algorithm_list\<close>

text \<open>\<^verbatim>\<open>for x in modules: if d[x] == "Disable": modules.remove(x)\<close>. The loop runs by index over the list it
  shortens, so the module after a removed one is not looked at.\<close>

definition is_setting :: "string \<Rightarrow> config \<Rightarrow> string \<Rightarrow> bool" where
  "is_setting v d x = (map_of d x = Some (CStr v))"

function remove_disabled :: "config \<Rightarrow> nat \<Rightarrow> string list \<Rightarrow> string list" where
  "remove_disabled d i xs =
     (if i < length xs
      then remove_disabled d (Suc i) (if is_setting ''Disable'' d (xs ! i) then remove1 (xs ! i) xs else xs)
      else xs)"
  by pat_completeness auto
termination
  by (relation "measure (\<lambda>(d, i, xs). length xs - i)") (auto simp: length_remove1)

text \<open>The loop over the algorithms also notes the breakpoint.\<close>

function scan_algorithms :: "config \<Rightarrow> nat \<Rightarrow> string list \<Rightarrow> string \<Rightarrow> string list \<times> string" where
  "scan_algorithms d i xs bp =
     (if i < length xs
      then scan_algorithms d (Suc i) (if is_setting ''Disable'' d (xs ! i) then remove1 (xs ! i) xs else xs)
             (if is_setting ''BreakpointAfter'' d (xs ! i) then xs ! i else bp)
      else (xs, bp))"
  by pat_completeness auto
termination
  by (relation "measure (\<lambda>(d, i, xs, bp). length xs - i)") (auto simp: length_remove1)

declare remove_disabled.simps [simp del] scan_algorithms.simps [simp del]

text \<open>\<^verbatim>\<open>x.keys()\<close>\<close>

definition keys_of :: "cval \<Rightarrow> string list res" where
  "keys_of v = (case v of CDict d \<Rightarrow> Inr (map fst d) | _ \<Rightarrow> Inl (AttributeError ''object has no attribute keys''))"

record algorithm_lists =
  al_algorithms :: cval          \<comment> \<open>a list of names; in a YAML file whatever is written there\<close>
  al_finders :: cval
  al_file :: string
  al_breakpoint :: string

definition names :: "string list \<Rightarrow> cval" where
  "names xs = CList (map CStr xs)"

definition algorithm_list_file :: "config_env \<Rightarrow> string \<Rightarrow> string \<Rightarrow> int \<Rightarrow> string res" where
  "algorithm_list_file env chain_name baseline version =
     rbind (environ_get env ''CLEV2ER_BASE_DIR'') (\<lambda>base_dir.
     rbind (guard (os_isdir env (base_dir @ ''/config/algorithm_lists'')) (OSError ''Could not find algorithm list directory'')) (\<lambda>_.
     rbind (guard (0 \<le> version \<and> version \<le> 100) (ValueError ''version must be between 1 and 100'')) (\<lambda>_.
     rbind (guard (baseline = [] \<or> py_isalpha baseline) (ValueError ''baseline must be a char between A..Z'')) (\<lambda>_.
       let b = py_upper baseline in
       if 0 < version \<and> b \<noteq> [] then Inr (exact_or_yml env (chain_path base_dir ''algorithm_lists'' chain_name (b @ show_pad 3 version)))
       else
         case find_baseline (py_glob env) (\<lambda>b ext. chain_path base_dir ''algorithm_lists'' chain_name (b @ ''*'' @ ext)) (baselines b) of
           None \<Rightarrow> Inl (OSError (''No algorithm list file found for chain '' @ chain_name))
         | Some (_, files) \<Rightarrow> Inr (last files)))))"

text \<open>Any exception of the XML parser becomes an \<^verbatim>\<open>OSError\<close> that names the file \<open>shown\<close>.\<close>

definition parse_xml :: "config_env \<Rightarrow> string \<Rightarrow> string \<Rightarrow> config res" where
  "parse_xml env shown file =
     rbind (read_text env file) (\<lambda>text.
       case xml_parse env text of Inl e \<Rightarrow> Inl (OSError (shown @ '' xml format error'')) | Inr d \<Rightarrow> Inr d)"

definition xml_algorithm_list :: "config_env \<Rightarrow> string \<Rightarrow> algorithm_lists res" where
  "xml_algorithm_list env file =
     rbind (parse_xml env file file) (\<lambda>xml.
     rbind (rbind (dget xml ''algorithm_list'') as_cdict) (\<lambda>root.
     rbind (dget root ''algorithms'') (\<lambda>algs.
     let finders = (case map_of root ''l1b_file_selectors'' of None \<Rightarrow> CDict [] | Some v \<Rightarrow> v) in
     rbind (if finders = CNone then Inr [] else rbind (keys_of finders) (\<lambda>ks.
              Inr (remove_disabled (case finders of CDict d \<Rightarrow> d | _ \<Rightarrow> []) 0 ks))) (\<lambda>finder_list.
     rbind (keys_of algs) (\<lambda>ks.
       let (alg_list, bp) = scan_algorithms (case algs of CDict d \<Rightarrow> d | _ \<Rightarrow> []) 0 ks [] in
       Inr \<lparr>al_algorithms = names alg_list, al_finders = names finder_list, al_file = file, al_breakpoint = bp\<rparr>)))))"

text \<open>A missing key is reported as \<^verbatim>\<open>KeyError\<close> again; \<^verbatim>\<open>EnvYAML\<close> raises \<^verbatim>\<open>ValueError\<close> for unset variables.\<close>

definition yml_algorithm_list :: "config_env \<Rightarrow> string \<Rightarrow> algorithm_lists res" where
  "yml_algorithm_list env file =
     rbind (env_yaml env file) (\<lambda>yml.
     rbind (yml_getitem yml ''algorithms'') (\<lambda>algs.
     rbind (yml_getitem yml ''l1b_file_selectors'') (\<lambda>finders.
       Inr \<lparr>al_algorithms = algs, al_finders = finders, al_file = file, al_breakpoint = []\<rparr>)))"

definition extension :: "string \<Rightarrow> string" where
  "extension file = py_slice file (Some (- 4)) None"

definition load_algorithm_list :: "config_env \<Rightarrow> string \<Rightarrow> string \<Rightarrow> int \<Rightarrow> string \<Rightarrow> algorithm_lists res" where
  "load_algorithm_list env chain_name baseline version alg_list_file =
     rbind (if alg_list_file \<noteq> [] then Inr alg_list_file else algorithm_list_file env chain_name baseline version) (\<lambda>file.
       if extension file = ''.xml'' then xml_algorithm_list env file
       else if extension file = ''.yml'' then yml_algorithm_list env file
       else Inl (NameError (''Wrong file extension: '' @ extension file)))"

section \<open>load_config_files\<close>

text \<open>\<^verbatim>\<open>int(chain_config_file[-7:-4])\<close>: the version in the name of a file.\<close>

definition file_version :: "string \<Rightarrow> int res" where
  "file_version file = of_option (ValueError ''invalid literal for int() with base 10'') (py_int (py_slice file (Some (- 7)) (Some (- 4))))"

text \<open>A chain configuration file that is given: its name holds the baseline and the version.\<close>

definition given_chain_config :: "string \<Rightarrow> (string \<times> int) res" where
  "given_chain_config file =
     rbind (py_index file (- 8)) (\<lambda>b.
     rbind (guard (py_isalpha [b]) (NameError ''chain config file must include a valid baseline char (end in BVVV.xml,yml)'')) (\<lambda>_.
     rbind (file_version file) (\<lambda>v.
     rbind (guard (0 \<le> v \<and> v \<le> 100) (ValueError ''chain config file must include a valid zero padded int version string VVV'')) (\<lambda>_.
       Inr ([b], v)))))"

text \<open>Otherwise it is searched for.\<close>

definition search_chain_config :: "config_env \<Rightarrow> string \<Rightarrow> string \<Rightarrow> string \<Rightarrow> int \<Rightarrow> (string \<times> int \<times> string) res" where
  "search_chain_config env base_dir chain_name baseline version =
     (if baseline \<noteq> [] \<and> version \<noteq> 0
      then Inr (baseline, version, exact_or_yml env (chain_path base_dir ''chain_configs'' chain_name (baseline @ show_pad 3 version)))
      else
        case find_baseline (py_glob env) (\<lambda>b ext. chain_path base_dir ''chain_configs'' chain_name
               (b @ (if version \<noteq> 0 then show_pad 3 version else ''*'') @ ext)) (baselines baseline) of
          None \<Rightarrow> Inl (OSError (''No chain config file found for chain '' @ chain_name))
        | Some (b, files) \<Rightarrow> rbind (file_version (last files)) (\<lambda>v. Inr (b, v, last files)))"

text \<open>The main configuration file.\<close>

definition load_main_config :: "config_env \<Rightarrow> string \<Rightarrow> config res" where
  "load_main_config env file =
     rbind (guard (os_exists env file) (OSError (file @ '' not found''))) (\<lambda>_.
     rbind (parse_xml env file file) (set_xml_dict_types (os_environ env)))"

text \<open>A file that is neither XML nor YAML leaves \<^verbatim>\<open>chain_config\<close> unbound. The message about an XML file that
  cannot be parsed names the main configuration file.\<close>

definition load_chain_config :: "config_env \<Rightarrow> string \<Rightarrow> string \<Rightarrow> config res" where
  "load_chain_config env main_file file =
     (if extension file = ''.xml'' then
        rbind (rbind (parse_xml env main_file file) (set_xml_dict_types (os_environ env))) (\<lambda>d. rbind (dget d ''configuration'') as_cdict)
      else if extension file = ''.yml'' then rbind (env_yaml env file) (\<lambda>y. Inr (yml_export y))
      else Inl (UnboundLocalError ''chain_config''))"

text \<open>The settings of the chain section that the main configuration knows are overridden.\<close>

fun override_settings :: "config \<Rightarrow> config \<Rightarrow> config" where
  "override_settings main [] = main"
| "override_settings main ((k, v) # d) = override_settings (if dhas main k then dset main k v else main) d"

definition merge_chain_section :: "config \<Rightarrow> config \<Rightarrow> config res" where
  "merge_chain_section main chain =
     rbind (case map_of chain ''chain'' of
              None \<Rightarrow> Inr (main, chain)
            | Some v \<Rightarrow>
                rbind (as_cdict v) (\<lambda>section.
                rbind (if section = [] then Inr main
                       else rbind (rbind (dget main ''chain'') as_cdict) (\<lambda>d.
                              Inr (dset main ''chain'' (CDict (override_settings d section))))) (\<lambda>main'.
                  Inr (main', dpop chain ''chain'')))) (\<lambda>(config, chain_config).
       Inr (dmerge config chain_config))"

record loaded_config =
  lc_config :: config
  lc_baseline :: string
  lc_version :: int
  lc_main_file :: string
  lc_chain_file :: string

definition load_config_files :: "config_env \<Rightarrow> string \<Rightarrow> string \<Rightarrow> int \<Rightarrow> string \<Rightarrow> string \<Rightarrow> loaded_config res" where
  "load_config_files env chain_name baseline version main_config_file chain_config_file =
     rbind (environ_get env ''CLEV2ER_BASE_DIR'') (\<lambda>base_dir.
     let main_file = (if main_config_file = [] then base_dir @ ''/config/main_config.xml'' else main_config_file) in
     rbind (load_main_config env main_file) (\<lambda>main.
     rbind (if chain_config_file = [] then search_chain_config env base_dir chain_name baseline version
            else rbind (given_chain_config chain_config_file) (\<lambda>(b, v). Inr (b, v, chain_config_file))) (\<lambda>(b, v, file).
     rbind (load_chain_config env main_file file) (\<lambda>chain.
     rbind (merge_chain_section main chain) (\<lambda>cfg.
       Inr \<lparr>lc_config = cfg, lc_baseline = b, lc_version = v, lc_main_file = main_file, lc_chain_file = file\<rparr>)))))"

section \<open>Round trip of typed settings\<close>

text \<open>A configuration written as XML: booleans and integers as strings.\<close>

fun to_xml :: "cval \<Rightarrow> cval" where
  "to_xml (CBool b) = CStr (if b then ''true'' else ''false'')"
| "to_xml (CInt i) = CStr (show_int i)"
| "to_xml (CDict d) = CDict (map (\<lambda>(k, v). (k, to_xml v)) d)"
| "to_xml v = v"

text \<open>Strings that mean nothing else, and configurations with only such strings, booleans, integers and
  dictionaries.\<close>

definition plain_string :: "string \<Rightarrow> bool" where
  "plain_string s \<longleftrightarrow> py_lower s \<notin> {''true'', ''false''} \<and> \<not> py_in ''$'' s \<and> py_int s = None \<and> py_float s = None"

fun plain_value :: "cval \<Rightarrow> bool" where
  "plain_value (CBool b) = True"
| "plain_value (CInt i) = True"
| "plain_value (CStr s) = plain_string s"
| "plain_value (CDict d) = (\<forall>(k, v)\<in>set d. plain_value v)"
| "plain_value v = False"

lemma show_int_chars: "list_all (\<lambda>c. is_digit_c c \<or> c = CHR ''-'') (show_int i)"
  using show_nat_digits by (auto simp: show_int_def list_all_iff)

lemma lower_digit: "is_digit_c c \<or> c = CHR ''-'' \<Longrightarrow> lower_c c = c \<and> c \<noteq> CHR ''$'' \<and> c \<noteq> CHR ''e''"
  by (auto simp: lower_c_def is_digit_c_def is_upper_c_def)

lemma show_int_plain: "py_lower (show_int i) = show_int i" "\<not> py_in ''$'' (show_int i)" "CHR ''e'' \<notin> set (show_int i)"
proof -
  have *: "\<forall>c\<in>set (show_int i). lower_c c = c \<and> c \<noteq> CHR ''$'' \<and> c \<noteq> CHR ''e''"
    using show_int_chars [of i] lower_digit by (auto simp: list_all_iff)
  then show "py_lower (show_int i) = show_int i" by (simp add: py_lower_def map_idI)
  show "CHR ''e'' \<notin> set (show_int i)" using * by auto
  show "\<not> py_in ''$'' (show_int i)"
  proof
    assume "py_in ''$'' (show_int i)"
    then have "CHR ''$'' \<in> set (show_int i)" by (auto simp: py_in_iff)
    then show False using * by auto
  qed
qed

lemma strip_show_int: "py_strip (show_int i) = show_int i"
proof -
  have *: "\<forall>c\<in>set (show_int i). \<not> is_space_c c"
    using show_int_chars [of i] digit_not_space by (auto simp: list_all_iff is_space_c_def)
  have dw: "dropWhile is_space_c xs = xs" if "\<forall>c\<in>set xs. \<not> is_space_c c" for xs using that by (cases xs) auto
  show ?thesis using dw [OF *] dw [of "rev (show_int i)"] * by (simp add: py_strip_def)
qed

lemma py_int_show_int: "py_int (show_int i) = Some i"
proof (cases "i < 0")
  case True
  then have "split_sign (show_int i) = (True, show_nat (nat (- i)))" by (simp add: show_int_def split_sign_def)
  moreover have "digit_part (show_nat (nat (- i))) = Some (show_nat (nat (- i)))" by (rule digit_part_digits) (simp_all add: show_nat_digits)
  ultimately show ?thesis using True by (simp add: py_int_def strip_show_int)
next
  case False
  then show ?thesis by (simp add: show_int_def)
qed

lemma xml_string_int: "xml_string environ (show_int i) = CInt i"
proof -
  have "show_int i \<noteq> ''true'' \<and> show_int i \<noteq> ''false''" using show_int_plain(3) [of i] by auto
  then show ?thesis by (simp add: xml_string_def show_int_plain py_int_show_int)
qed

lemma xml_string_bool: "xml_string environ (if b then ''true'' else ''false'') = CBool b"
proof -
  have "py_lower ''true'' = ''true''" "py_lower ''false'' = ''false''" by code_simp+
  then show ?thesis by (simp add: xml_string_def)
qed

lemma xml_round_trip_aux:
  "plain_value v \<Longrightarrow> set_xml_value environ (to_xml v) = Inr v"
proof (induction v rule: to_xml.induct)
  case (1 b)
  then show ?case using xml_string_bool by simp
next
  case (2 i)
  then show ?case by (simp add: xml_string_int)
next
  case (3 d)
  then have "set_xml_dict_types environ (map (\<lambda>(k, v). (k, to_xml v)) d) = Inr d"
    by (induction d) fastforce+
  then show ?case by simp
qed (auto simp: xml_string_def plain_string_def)

text \<open>C34: Typed settings survive XML. A configuration of booleans, integers, plain strings and nested
  dictionaries, written to XML as strings, is given back unchanged by \<^verbatim>\<open>set_xml_dict_types\<close>, whatever the
  environment variables are.\<close>

theorem xml_types_roundtrip:
  assumes "\<forall>(k, v)\<in>set cfg. plain_value v"
  shows "set_xml_dict_types environ (map (\<lambda>(k, v). (k, to_xml v)) cfg) = Inr cfg"
  using xml_round_trip_aux [of "CDict cfg" environ] assms by (auto simp: rbind_eq_Inr)

section \<open>The algorithm list\<close>

text \<open>What the loop keeps: the module after a removed one is always kept.\<close>

fun keep_modules :: "(string \<Rightarrow> bool) \<Rightarrow> string list \<Rightarrow> string list" where
  "keep_modules disabled [] = []"
| "keep_modules disabled [x] = (if disabled x then [] else [x])"
| "keep_modules disabled (x # y # xs) =
     (if disabled x then y # keep_modules disabled xs else x # keep_modules disabled (y # xs))"

lemma remove_disabled_step:
  "remove_disabled d (length pre) (pre @ x # xs) = remove_disabled d (Suc (length pre))
     (if is_setting ''Disable'' d x then remove1 x (pre @ x # xs) else pre @ x # xs)"
  by (subst remove_disabled.simps) simp

lemma remove_disabled_end: "length xs \<le> i \<Longrightarrow> remove_disabled d i xs = xs"
  by (subst remove_disabled.simps) simp

lemma remove_disabled_keep:
  "distinct (pre @ xs) \<Longrightarrow>
     remove_disabled d (length pre) (pre @ xs) = pre @ keep_modules (is_setting ''Disable'' d) xs"
proof (induction "is_setting ''Disable'' d" xs arbitrary: pre rule: keep_modules.induct)
  case 1
  then show ?case by (simp add: remove_disabled_end)
next
  case (2 x)
  then show ?case by (simp add: remove_disabled_step remove1_append remove_disabled_end)
next
  case (3 x y xs)
  show ?case
  proof (cases "is_setting ''Disable'' d x")
    case True
    then show ?thesis using "3.prems" "3.hyps"(1) [of "pre @ [y]"] by (simp add: remove_disabled_step remove1_append)
  next
    case False
    then show ?thesis using "3.prems" "3.hyps"(2) [of "pre @ [x]"] by (simp add: remove_disabled_step)
  qed
qed

lemma scan_algorithms_fst: "fst (scan_algorithms d i xs bp) = remove_disabled d i xs"
proof (induction d i xs bp rule: scan_algorithms.induct)
  case (1 d i xs bp)
  then show ?case
    by (subst scan_algorithms.simps, subst remove_disabled.simps) (cases "i < length xs"; simp)
qed

definition apart :: "(string \<Rightarrow> bool) \<Rightarrow> string list \<Rightarrow> bool" where
  "apart disabled xs \<longleftrightarrow> (\<forall>i. Suc i < length xs \<longrightarrow> \<not> (disabled (xs ! i) \<and> disabled (xs ! Suc i)))"

lemma apart_Cons: "apart disabled (x # y # xs) \<longleftrightarrow> \<not> (disabled x \<and> disabled y) \<and> apart disabled (y # xs)"
  by (auto simp: apart_def nth_Cons split: nat.splits) 

text \<open>The same with a flag that says whether the module before was removed.\<close>

fun keep_after :: "bool \<Rightarrow> (string \<Rightarrow> bool) \<Rightarrow> string list \<Rightarrow> string list" where
  "keep_after removed disabled [] = []"
| "keep_after removed disabled (x # xs) =
     (if disabled x \<and> \<not> removed then keep_after True disabled xs else x # keep_after False disabled xs)"

lemma keep_modules_after: "keep_modules disabled xs = keep_after False disabled xs"
  by (induction disabled xs rule: keep_modules.induct) simp_all

text \<open>The number of disabled modules directly before position \<open>i\<close>, and which modules stay in the list.\<close>

definition disabled_before :: "(string \<Rightarrow> bool) \<Rightarrow> string list \<Rightarrow> nat \<Rightarrow> nat" where
  "disabled_before disabled xs i = length (takeWhile disabled (rev (take i xs)))"

definition stays :: "(string \<Rightarrow> bool) \<Rightarrow> string list \<Rightarrow> nat \<Rightarrow> bool" where
  "stays disabled xs i \<longleftrightarrow> \<not> disabled (xs ! i) \<or> odd (disabled_before disabled xs i)"

lemma keep_after_stays:
  "keep_after (odd (disabled_before disabled (pre @ xs) (length pre))) disabled xs =
     map ((!) (pre @ xs)) (filter (stays disabled (pre @ xs)) [length pre..<length pre + length xs])"
proof (induction xs arbitrary: pre)
  case (Cons x xs)
  have upt: "[length pre..<length pre + length (x # xs)] = length pre # [Suc (length pre)..<Suc (length pre + length xs)]"
    by (simp add: upt_conv_Cons del: upt_Suc)
  let ?n = "disabled_before disabled (pre @ x # xs) (length pre)"
  have stays: "stays disabled (pre @ x # xs) (length pre) \<longleftrightarrow> \<not> disabled x \<or> odd ?n" by (simp add: stays_def)
  have "disabled_before disabled (pre @ x # xs) (Suc (length pre)) = (if disabled x then Suc ?n else 0)"
    by (simp add: disabled_before_def)
  with Cons [of "pre @ [x]"] show ?case unfolding upt by (cases "disabled x") (auto simp: stays simp del: upt_Suc)
qed simp

lemma keep_modules_stays:
  "keep_modules disabled xs = map ((!) xs) (filter (stays disabled xs) [0..<length xs])"
  using keep_after_stays [of disabled "[]" xs] by (simp add: keep_modules_after disabled_before_def)

lemma keep_modules_apart: "keep_modules disabled xs = filter (\<lambda>x. \<not> disabled x) xs \<longleftrightarrow> apart disabled xs"
proof (induction disabled xs rule: keep_modules.induct)
  case (3 disabled x y xs)
  have "apart disabled (y # xs) \<longleftrightarrow> apart disabled xs" if "\<not> disabled y"
    using that by (cases xs) (simp add: apart_def, simp add: apart_Cons)
  moreover have "y # keep_modules disabled xs \<noteq> filter (\<lambda>x. \<not> disabled x) xs" if "disabled y"
    using that by (metis (no_types, lifting) filter_eq_ConsD)
  ultimately show ?case using 3 by (auto simp: apart_Cons)
qed (simp_all add: apart_def)

lemma names_eq: "names xs = names ys \<longleftrightarrow> xs = ys"
proof -
  have "inj CStr" by (simp add: inj_on_def)
  then show ?thesis by (simp add: names_def inj_map_eq_map)
qed

text \<open>C35: Disabled algorithms. When an XML algorithm list is loaded, the list the chain runs is exactly the
  following, in the order of the file: every algorithm not marked \<^verbatim>\<open>Disable\<close>, and every algorithm that is
  marked but has an odd number of marked ones directly before it, because the loop removes from the
  list it runs over and so never examines the one after a removed one. The result is the enabled
  algorithms only if, and only if, no two adjacent algorithms are marked.\<close>

theorem algorithm_list_enabled:
  assumes "load_algorithm_list env name b v file = Inr r" and "extension file = ''.xml''"
    and "parse_xml env file file = Inr xml" and "dget xml ''algorithm_list'' = Inr (CDict tree)"
    and "dget tree ''algorithms'' = Inr (CDict d)" and "distinct (map fst d)"
  shows "let xs = map fst d; disabled = is_setting ''Disable'' d in
    al_algorithms r = names (map ((!) xs) (filter (\<lambda>i. \<not> disabled (xs ! i) \<or>
      odd (length (takeWhile disabled (rev (take i xs))))) [0..<length xs])) \<and>
    (al_algorithms r = names (filter (\<lambda>x. \<not> disabled x) xs) \<longleftrightarrow>
      (\<forall>i. \<not> (Suc i < length xs \<and> disabled (xs ! i) \<and> disabled (xs ! Suc i))))"
proof -
  have "file \<noteq> []" using assms(2) by (auto simp: extension_def py_slice_def)
  then have "al_algorithms r = names (fst (scan_algorithms d 0 (map fst d) []))"
    using assms by (auto simp: load_algorithm_list_def xml_algorithm_list_def rbind_eq_Inr Let_def keys_of_def case_prod_beta)
  also have "\<dots> = names (keep_modules (is_setting ''Disable'' d) (map fst d))"
    using remove_disabled_keep [of "[]" "map fst d" d] assms(6) by (simp add: scan_algorithms_fst)
  finally have r: "al_algorithms r = names (keep_modules (is_setting ''Disable'' d) (map fst d))" .
  have "al_algorithms r = names (map ((!) (map fst d)) (filter (stays (is_setting ''Disable'' d) (map fst d)) [0..<length (map fst d)]))"
    by (simp only: r keep_modules_stays)
  moreover have "al_algorithms r = names (filter (\<lambda>x. \<not> is_setting ''Disable'' d x) (map fst d)) \<longleftrightarrow>
      apart (is_setting ''Disable'' d) (map fst d)"
    by (simp only: r names_eq keep_modules_apart)
  ultimately show ?thesis unfolding Let_def stays_def [abs_def] disabled_before_def apart_def by blast
qed

section \<open>Merging the configuration files\<close>

lemma map_of_override:
  "distinct (map fst d) \<Longrightarrow> map_of (override_settings m d) k =
     (case map_of m k of None \<Rightarrow> None | Some x \<Rightarrow> Some (case map_of d k of None \<Rightarrow> x | Some y \<Rightarrow> y))"
proof (induction m d rule: override_settings.induct)
  case (2 main k' v d)
  then have "map_of d k' = None" by (auto simp: map_of_eq_None_iff)
  with 2 show ?case by (auto simp: dhas_def split: option.splits)
qed (simp split: option.splits)

lemma map_of_dmerge_distinct:
  "distinct (map fst b) \<Longrightarrow> map_of (dmerge a b) k = (case map_of b k of None \<Rightarrow> map_of a k | Some v \<Rightarrow> Some v)"
proof -
  assume "distinct (map fst b)"
  then have "map_of (rev b) = map_of b" by (intro map_of_eqI) (auto simp: rev_map [symmetric])
  then show ?thesis by simp
qed

lemma distinct_dpop: "distinct (map fst d) \<Longrightarrow> distinct (map fst (dpop d k))"
  by (simp add: dpop_def distinct_delete)

text \<open>C36: Which file decides a setting. The chain configuration file may have a section \<^verbatim>\<open>chain\<close> or not, as
  the YAML files of the repository do not. In the configuration a chain runs with, a setting outside the
  section \<^verbatim>\<open>chain\<close> has its value from the chain configuration file if it is there, and from the main file
  otherwise. In the section \<^verbatim>\<open>chain\<close> exactly the settings of the main file exist; the section of the chain
  file, if there is one, can change their values but not add any.\<close>

theorem config_precedence:
  assumes "load_config_files env name b v mf cf = Inr r"
    and "load_main_config env (lc_main_file r) = Inr main"
    and "load_chain_config env (lc_main_file r) (lc_chain_file r) = Inr chain" and "distinct (map fst chain)"
    and "dget main ''chain'' = Inr (CDict settings)"
    and "map_of chain ''chain'' = Some (CDict changes) \<or> map_of chain ''chain'' = None \<and> changes = []"
    and "distinct (map fst changes)"
  shows "(\<forall>k. k \<noteq> ''chain'' \<longrightarrow>
      map_of (lc_config r) k = (case map_of chain k of None \<Rightarrow> map_of main k | Some x \<Rightarrow> Some x)) \<and>
    (\<exists>d. dget (lc_config r) ''chain'' = Inr (CDict d) \<and>
      (\<forall>k. map_of d k = (case map_of settings k of None \<Rightarrow> None
         | Some x \<Rightarrow> Some (case map_of changes k of None \<Rightarrow> x | Some y \<Rightarrow> y))))"
proof -
  let ?d = "if changes = [] then main else dset main ''chain'' (CDict (override_settings settings changes))"
  let ?c = "if map_of chain ''chain'' = None then chain else dpop chain ''chain''"
  have "merge_chain_section main chain = Inr (lc_config r)"
    using assms(1-3) by (auto simp: load_config_files_def rbind_eq_Inr Let_def)
  then have "lc_config r = dmerge ?d ?c"
    using assms(5,6) by (cases "changes = []") (auto simp: merge_chain_section_def)
  moreover have "distinct (map fst ?c)" "map_of ?c = (map_of chain)(''chain'' := None)"
    using assms(4) distinct_dpop [OF assms(4)] by (simp_all add: fun_upd_idem)
  moreover have d: "map_of ?d = (map_of main)(''chain'' \<mapsto> CDict (override_settings settings changes))"
    using assms(5) by (auto simp: dget_Inr_iff fun_upd_idem)
  ultimately have r: "map_of (lc_config r) k = (case ((map_of chain)(''chain'' := None)) k of
      None \<Rightarrow> ((map_of main)(''chain'' \<mapsto> CDict (override_settings settings changes))) k | Some x \<Rightarrow> Some x)" for k
    by (simp only: map_of_dmerge_distinct)
  show ?thesis
    by (intro conjI allI impI exI [of _ "override_settings settings changes"])
      (simp_all add: dget_Inr_iff r map_of_override [OF assms(7)] split: option.split)
qed

text \<open>An algorithm list with three adjacent disabled algorithms; a chain configuration file with a chain
  section and one, in YAML, without.\<close>

definition wit_algs :: config where
  "wit_algs = [(''a'', CStr ''Enable''), (''b'', CStr ''Disable''), (''c'', CStr ''Disable''), (''d'', CStr ''Disable''), (''e'', CStr ''Enable'')]"

definition wit_cenv :: config_env where
  "wit_cenv = \<lparr>os_environ = [''CLEV2ER_BASE_DIR'' \<mapsto> ''/b''], os_isdir = (\<lambda>p. True), os_isfile = (\<lambda>p. True), os_exists = (\<lambda>p. True),
     py_glob = (\<lambda>p. []), read_text = (\<lambda>p. Inr p),
     xml_parse = (\<lambda>t. Inr (if t = ''l.xml'' then [(''algorithm_list'', CDict [(''algorithms'', CDict wit_algs)])]
       else if t = ''/b/config/main_config.xml'' then [(''chain'', CDict [(''stop_on_error'', CStr ''false''), (''use_multi_processing'', CStr ''True'')]), (''version'', CStr ''7''), (''mission'', CStr ''cs2'')]
       else [(''configuration'', CDict [(''chain'', CDict [(''stop_on_error'', CStr ''true''), (''chain_name'', CStr ''x'')]), (''version'', CStr ''1'')])])),
     env_yaml = (\<lambda>p. Inr \<lparr>yml_getitem = (\<lambda>k. Inl (KeyError k)), yml_export = [(''version'', CInt 2)]\<rparr>)\<rparr>"

theorem xml_types_roundtrip_witness:
  "set_xml_dict_types (\<lambda>v. None) [(''chain'', CDict [(''stop_on_error'', CStr ''true''), (''max'', CStr (show_int (- 7)))]), (''name'', CStr ''cryo'')] =
     Inr [(''chain'', CDict [(''stop_on_error'', CBool True), (''max'', CInt (- 7))]), (''name'', CStr ''cryo'')]"
proof -
  have "plain_string ''cryo''" by code_simp
  then show ?thesis
    using xml_types_roundtrip [of "[(''chain'', CDict [(''stop_on_error'', CBool True), (''max'', CInt (- 7))]), (''name'', CStr ''cryo'')]" "\<lambda>v. None"]
    by simp
qed

theorem algorithm_list_enabled_witness:
  "\<exists>r. load_algorithm_list wit_cenv ''x'' [] 0 ''l.xml'' = Inr r \<and> al_algorithms r = names [''a'', ''c'', ''e''] \<and>
     al_algorithms r \<noteq> names [''a'', ''e'']"
proof -
  have ext: "extension ''l.xml'' = ''.xml''" by code_simp
  have xml: "parse_xml wit_cenv ''l.xml'' ''l.xml'' = Inr [(''algorithm_list'', CDict [(''algorithms'', CDict wit_algs)])]"
    by (simp add: parse_xml_def wit_cenv_def)
  obtain r where r: "load_algorithm_list wit_cenv ''x'' [] 0 ''l.xml'' = Inr r"
    by (simp add: load_algorithm_list_def ext xml_algorithm_list_def xml Let_def keys_of_def case_prod_beta)
  have "al_algorithms r = names [''a'', ''c'', ''e'']"
    using algorithm_list_enabled [OF r ext xml, of "[(''algorithms'', CDict wit_algs)]" wit_algs]
    by (simp add: Let_def wit_algs_def is_setting_def upt_conv_Cons)
  then show ?thesis using r by (auto simp: names_eq)
qed

theorem config_precedence_witness:
  "(\<exists>r d. load_config_files wit_cenv ''x'' ''A'' 1 [] [] = Inr r \<and> map_of (lc_config r) ''version'' = Some (CInt 1) \<and>
     map_of (lc_config r) ''mission'' = Some (CStr ''cs2'') \<and>
     dget (lc_config r) ''chain'' = Inr (CDict d) \<and> map_of d ''stop_on_error'' = Some (CBool True) \<and>
     map_of d ''use_multi_processing'' = Some (CBool True) \<and> map_of d ''chain_name'' = None) \<and>
   (\<exists>r d. load_config_files wit_cenv ''x'' [] 0 [] ''x_C001.yml'' = Inr r \<and> map_of (lc_config r) ''version'' = Some (CInt 2) \<and>
     map_of (lc_config r) ''mission'' = Some (CStr ''cs2'') \<and>
     dget (lc_config r) ''chain'' = Inr (CDict d) \<and> map_of d ''stop_on_error'' = Some (CBool False))"
proof
  let ?main = "[(''chain'', CDict [(''stop_on_error'', CBool False), (''use_multi_processing'', CBool True)]), (''version'', CInt 7), (''mission'', CStr ''cs2'')]"
  let ?chain = "[(''chain'', CDict [(''stop_on_error'', CBool True), (''chain_name'', CStr ''x'')]), (''version'', CInt 1)]"
  let ?mf = "''/b/config/main_config.xml''" and ?cf = "''/b/config/chain_configs/x/x_A001.xml''"
  have m: "load_main_config wit_cenv ?mf = Inr ?main" and c: "load_chain_config wit_cenv ?mf ?cf = Inr ?chain" by code_simp+
  have pad: "chain_path ''/b'' ''chain_configs'' ''x'' (''A'' @ show_pad 3 1) @ ''.xml'' = ?cf" by code_simp
  have env: "environ_get wit_cenv ''CLEV2ER_BASE_DIR'' = Inr ''/b''" "os_isfile wit_cenv = (\<lambda>p. True)" "os_environ wit_cenv = [''CLEV2ER_BASE_DIR'' \<mapsto> ''/b'']"
    by (simp_all add: environ_get_def wit_cenv_def)
  obtain r where r: "load_config_files wit_cenv ''x'' ''A'' 1 [] [] = Inr r" "lc_main_file r = ?mf" "lc_chain_file r = ?cf"
    unfolding load_config_files_def env rbind_Inr Let_def search_chain_config_def exact_or_yml_def
    by (simp add: pad [simplified] m c merge_chain_section_def)
  have "distinct (map fst ?chain)" by simp
  from config_precedence [OF r(1), unfolded r(2,3), OF m c this] r(1)
  show "\<exists>r d. load_config_files wit_cenv ''x'' ''A'' 1 [] [] = Inr r \<and> map_of (lc_config r) ''version'' = Some (CInt 1) \<and>
     map_of (lc_config r) ''mission'' = Some (CStr ''cs2'') \<and>
     dget (lc_config r) ''chain'' = Inr (CDict d) \<and> map_of d ''stop_on_error'' = Some (CBool True) \<and>
     map_of d ''use_multi_processing'' = Some (CBool True) \<and> map_of d ''chain_name'' = None"
    by fastforce
  have y: "load_chain_config wit_cenv ?mf ''x_C001.yml'' = Inr [(''version'', CInt 2)]"
    and g: "given_chain_config ''x_C001.yml'' = Inr (''C'', 1)" by code_simp+
  obtain q where q: "load_config_files wit_cenv ''x'' [] 0 [] ''x_C001.yml'' = Inr q" "lc_main_file q = ?mf" "lc_chain_file q = ''x_C001.yml''"
    unfolding load_config_files_def env rbind_Inr Let_def
    by (simp add: m y g merge_chain_section_def)
  have "distinct (map fst [(''version'', CInt 2)])" by simp
  from config_precedence [OF q(1), unfolded q(2,3), OF m y this, of _ "[]"] q(1)
  show "\<exists>r d. load_config_files wit_cenv ''x'' [] 0 [] ''x_C001.yml'' = Inr r \<and> map_of (lc_config r) ''version'' = Some (CInt 2) \<and>
     map_of (lc_config r) ''mission'' = Some (CStr ''cs2'') \<and>
     dget (lc_config r) ''chain'' = Inr (CDict d) \<and> map_of d ''stop_on_error'' = Some (CBool False)"
    by fastforce
qed

end
