(* ===== verification/Finders.thy ===== *)
theory Finders
  imports Load_Config Base_Alg
begin

text \<open>
  The L1b file finders \<^verbatim>\<open>find_sin\<close> and \<^verbatim>\<open>find_lrm\<close> of the Cryo-TEMPO chain. The two modules differ in the
  name of the mode and in the option that switches them off, which are the arguments \<open>mode\<close> and
  \<open>off\<close>; the pool of processes that tests the files only speeds the test up.
\<close>

record finder_env = config_env +
  fe_open :: "string \<Rightarrow> dataset res"       \<comment> \<open>\<^verbatim>\<open>Dataset(file)\<close>\<close>

text \<open>\<^verbatim>\<open>nc.first_record_lat / 1e6\<close>\<close>

definition record_degrees :: "dataset \<Rightarrow> string \<Rightarrow> fl res" where
  "record_degrees nc k = rbind (rbind (nc_attr nc k) attr_number) (\<lambda>x. Inr (fl_div x (Fin 1000000)))"

text \<open>The test of one file; \<^verbatim>\<open>IOError\<close> counts as not over Greenland.\<close>

definition in_greenland :: "dataset \<Rightarrow> bool res" where
  "in_greenland nc =
     rbind (record_degrees nc ''first_record_lat'') (\<lambda>lat.
       if fl_lt lat (Fin 0) then Inr False
       else rbind (record_degrees nc ''first_record_lon'') (\<lambda>lon.
         Inr (\<not> fl_lt (Fin 10) lon \<and> \<not> fl_lt lon (Fin (- 90)))))"

definition test_nc_file_in_greenland :: "finder_env \<Rightarrow> string \<Rightarrow> string option res" where
  "test_nc_file_in_greenland env file =
     (case rbind (fe_open env file) in_greenland of
        Inl e \<Rightarrow> if is_os_error e then Inr None else Inl e
      | Inr b \<Rightarrow> Inr (if b then Some file else None))"

text \<open>The format \<^verbatim>\<open>{year:4d}\<close> pads with spaces.\<close>

definition show_width :: "nat \<Rightarrow> int \<Rightarrow> string" where
  "show_width w i = replicate (w - length (show_int i)) (CHR '' '') @ show_int i"

definition search_str :: "string \<Rightarrow> bool \<Rightarrow> string \<Rightarrow> string \<Rightarrow> int \<Rightarrow> int \<Rightarrow> string" where
  "search_str mode flat_search base_dir bls year month =
     base_dir @ (if flat_search then [] else ''/'' @ mode @ ''/'' @ show_width 4 year @ ''/'' @ show_pad 2 month) @
     ''/CS_*SIR_'' @ mode @ ''_1B_'' @ show_width 4 year @ show_pad 2 month @ ''*['' @ bls @ '']???.nc''"

text \<open>\<^verbatim>\<open>ProcessPoolExecutor(max_workers=n)\<close> refuses a number that is not positive.\<close>

definition pool_size :: "config \<Rightarrow> int res" where
  "pool_size cfg =
     rbind (if dhas cfg ''chain'' then
              rbind (rbind (dget cfg ''chain'') as_cdict) (\<lambda>d.
                case map_of d ''max_processes_for_multiprocessing'' of
                  None \<Rightarrow> Inr 1
                | Some v \<Rightarrow> (case v of CInt i \<Rightarrow> Inr i | _ \<Rightarrow> Inl (TypeError ''max_workers'')))
            else Inr 1) (\<lambda>n.
       rbind (guard (0 < n) (ValueError ''max_workers must be greater than 0'')) (\<lambda>_. Inr n))"

definition months_of :: "finder \<Rightarrow> int list" where
  "months_of f = (if f_months f = [] then [1, 2, 3, 4, 5, 6, 7, 8, 9, 10, 11, 12] else f_months f)"

definition only_greenland :: "finder_env \<Rightarrow> config \<Rightarrow> string list \<Rightarrow> string list res" where
  "only_greenland env cfg files =
     (if opt_flag cfg ''grn_only'' then
        rbind (pool_size cfg) (\<lambda>_. rbind (rmapM (test_nc_file_in_greenland env) files) (\<lambda>rs.
          Inr (concat (map (\<lambda>r. case r of None \<Rightarrow> [] | Some f \<Rightarrow> [f]) rs))))
      else Inr files)"

definition find_files :: "string \<Rightarrow> string \<Rightarrow> finder_env \<Rightarrow> bool \<Rightarrow> finder \<Rightarrow> string list res" where
  "find_files mode off env flat_search f =
     (let cfg = f_config f in
      if dhas cfg off then Inr []
      else
        rbind (dget cfg ''l1b_baselines'') (\<lambda>v. rbind (dget cfg ''l1b_base_dir'') (\<lambda>w.
        rbind (cstring w) (\<lambda>base_dir.
        rbind (guard (os_isdir env base_dir) (FileNotFoundError (base_dir @ '' directory not found''))) (\<lambda>_.
        rbind (guard (f_years f \<noteq> []) (ValueError ''Empty year list in find_files(). Use .add_year() first'')) (\<lambda>_.
        rbind (cstring v) (\<lambda>bls.
          only_greenland env cfg (concat (map (\<lambda>year. concat (map (\<lambda>month.
            py_glob env (search_str mode flat_search base_dir bls year month)) (months_of f))) (f_years f)))))))))) "

definition find_sin :: "finder_env \<Rightarrow> finder \<Rightarrow> string list res" where
  "find_sin env = find_files ''SIN'' ''lrm_only'' env False"

definition find_lrm :: "finder_env \<Rightarrow> finder \<Rightarrow> string list res" where
  "find_lrm env = find_files ''LRM'' ''sin_only'' env False"

section \<open>Behaviour\<close>

text \<open>The presence of the option switches a finder off, whatever its value: \<^verbatim>\<open>lrm_only:false\<close> also excludes
  the SIN files.\<close>

lemma lrm_only_false_excludes_sin: "find_sin env (f\<lparr>f_config := dset (f_config f) ''lrm_only'' (CBool False)\<rparr>) = Inr []"
  by (simp add: find_sin_def find_files_def)

lemma test_nc_file_Some: "test_nc_file_in_greenland env f = Inr (Some g) \<Longrightarrow> g = f"
  by (auto simp: test_nc_file_in_greenland_def split: sum.splits if_splits)

lemma only_greenland_subset:
  assumes "only_greenland env cfg files = Inr fs"
  shows "set fs \<subseteq> set files"
proof -
  have "p \<in> set files" if rs: "rmapM (test_nc_file_in_greenland env) files = Inr rs" "Some p \<in> set rs" for rs p
  proof -
    obtain i where "i < length files" "rs ! i = Some p"
      using rs(2) rmapM_length [OF rs(1)] by (auto simp: in_set_conv_nth)
    then have "files ! i = p" using rmapM_nth [OF rs(1)] test_nc_file_Some [of env "files ! i" p] by simp
    with \<open>i < length files\<close> show ?thesis by auto
  qed
  moreover have "set (concat (map (\<lambda>r. case r of None \<Rightarrow> [] | Some f \<Rightarrow> [f]) rs)) = {f. Some f \<in> set rs}" for rs :: "string option list"
    by (force split: option.splits)
  ultimately show ?thesis using assms unfolding only_greenland_def by (auto simp: rbind_eq_Inr simp del: set_concat split: if_splits)
qed

text \<open>Every file a finder returns matches the pattern of one of its years and months.\<close>

lemma find_files_sound:
  assumes "find_files mode off env flat f = Inr fs" and "p \<in> set fs"
  shows "\<exists>base_dir bls year month. year \<in> set (f_years f) \<and> month \<in> set (months_of f) \<and>
    p \<in> set (py_glob env (search_str mode flat base_dir bls year month))"
proof (cases "dhas (f_config f) off")
  case True
  then show ?thesis using assms by (simp add: find_files_def Let_def)
next
  case False
  then obtain base_dir bls where
    "only_greenland env (f_config f) (concat (map (\<lambda>year. concat (map (\<lambda>month.
       py_glob env (search_str mode flat base_dir bls year month)) (months_of f))) (f_years f))) = Inr fs"
    using assms(1) by (auto simp: find_files_def Let_def rbind_eq_Inr)
  from only_greenland_subset [OF this] assms(2) show ?thesis by fastforce
qed

end
