(* ===== verification/Log_Files.thy ===== *)
theory Log_Files
  imports Prelude "HOL-Library.Multiset"
begin

text \<open>
  The log-file functions of \<^verbatim>\<open>tools/run_chain.py\<close>: child processes mark their log lines with
  \<^verbatim>\<open>[fN]\<close>, the number of the file they process, and write to \<^verbatim>\<open>.mp\<close> files; after the run those
  files are sorted by \<open>N\<close> and merged into the main log files, or, after a sequential run, the marks
  are removed. A file store maps paths to the text of the files; reading a file that is not
  there raises \<^verbatim>\<open>FileNotFoundError\<close>.
\<close>

type_synonym file_store = "string \<Rightarrow> string option"

section \<open>Lines\<close>

text \<open>\<^verbatim>\<open>file.readlines()\<close>: the lines with their newline characters.\<close>

fun readlines :: "string \<Rightarrow> string list" where
  "readlines [] = []"
| "readlines (c # cs) =
     (if c = CHR 0x0A then [c] # readlines cs
      else case readlines cs of [] \<Rightarrow> [[c]] | l # ls \<Rightarrow> (c # l) # ls)"

definition read_file :: "file_store \<Rightarrow> string \<Rightarrow> string res" where
  "read_file fs p = of_option (FileNotFoundError p) (fs p)"

definition read_lines :: "file_store \<Rightarrow> string \<Rightarrow> string list res" where
  "read_lines fs p = rbind (read_file fs p) (\<lambda>s. Inr (readlines s))"

text \<open>A mark \<^verbatim>\<open>\[f(\d+)\]\<close> at the beginning of a string: its number and what follows it.\<close>

definition mark_at :: "string \<Rightarrow> (nat \<times> string) option" where
  "mark_at s =
     (if starts_with ''[f'' s then
        let ds = takeWhile is_digit_c (drop 2 s); r = dropWhile is_digit_c (drop 2 s) in
        if ds \<noteq> [] \<and> starts_with '']'' r then Some (digits_value 0 ds, tl r) else None
      else None)"

text \<open>The number in the first mark of a line, or 0.\<close>

fun custom_key :: "string \<Rightarrow> nat" where
  "custom_key [] = 0"
| "custom_key (c # cs) = (case mark_at (c # cs) of Some (n, r) \<Rightarrow> n | None \<Rightarrow> custom_key cs)"

lemma mark_at_shorter: "mark_at s = Some (n, r) \<Longrightarrow> length r < length s"
proof -
  assume "mark_at s = Some (n, r)"
  then obtain d where "dropWhile is_digit_c d = CHR '']'' # r" "s = ''[f'' @ d"
    by (auto simp: mark_at_def Let_def starts_with_iff split: if_splits)
  then show ?thesis using length_dropWhile_le [of is_digit_c d] by simp
qed

text \<open>\<^verbatim>\<open>re.sub(pattern, "", line)\<close>: every mark, from left to right, is removed.\<close>

function remove_marks :: "string \<Rightarrow> string" where
  "remove_marks [] = []"
| "remove_marks (c # cs) = (case mark_at (c # cs) of Some (n, r) \<Rightarrow> remove_marks r | None \<Rightarrow> c # remove_marks cs)"
  by pat_completeness auto
termination
  by (relation "measure length") (auto dest: mark_at_shorter)

section \<open>The functions\<close>

definition sort_file_by_number :: "string \<Rightarrow> file_store \<Rightarrow> file_store res" where
  "sort_file_by_number filename fs =
     rbind (read_lines fs filename) (\<lambda>lines. Inr (fs(filename \<mapsto> concat (sort_key custom_key lines))))"

definition insert_after :: "string \<Rightarrow> string \<Rightarrow> string list \<Rightarrow> string list" where
  "insert_after target content lines = concat (map (\<lambda>l. if py_in target l then [l, content] else [l]) lines)"

definition insert_txtfile1_in_txtfile2_after_line_containing_string ::
  "string \<Rightarrow> string \<Rightarrow> string \<Rightarrow> file_store \<Rightarrow> file_store res" where
  "insert_txtfile1_in_txtfile2_after_line_containing_string file1 file2 target fs =
     rbind (read_file fs file1) (\<lambda>content1. rbind (read_lines fs file2) (\<lambda>lines.
       Inr (fs(file2 \<mapsto> concat (insert_after target content1 lines)))))"

text \<open>Opening a file to append creates it when it is not there.\<close>

definition append_file :: "string \<Rightarrow> string \<Rightarrow> file_store \<Rightarrow> file_store res" where
  "append_file file1 file2 fs =
     rbind (read_file fs file1) (\<lambda>content1.
       Inr (fs(file2 \<mapsto> (case fs file2 of None \<Rightarrow> [] | Some t \<Rightarrow> t) @ content1)))"

definition remove_strings_from_file :: "string \<Rightarrow> file_store \<Rightarrow> file_store res" where
  "remove_strings_from_file filename fs =
     rbind (read_lines fs filename) (\<lambda>lines. Inr (fs(filename \<mapsto> concat (map remove_marks lines))))"

text \<open>\<^verbatim>\<open>os.remove\<close> of the files that exist.\<close>

definition remove_files :: "string list \<Rightarrow> file_store \<Rightarrow> file_store" where
  "remove_files ps fs = (\<lambda>p. if p \<in> set ps then None else fs p)"

record log_names =
  log_errors :: string
  log_info :: string
  log_debug :: string

definition mp_done :: string where
  "mp_done = ''MP processing completed with outputs logged:''"

definition mp_name :: "string \<Rightarrow> string" where
  "mp_name p = p @ ''.mp''"

text \<open>The treatment of the log files at the end of \<^verbatim>\<open>main\<close>.\<close>

definition finish_logs :: "bool \<Rightarrow> bool \<Rightarrow> log_names \<Rightarrow> file_store \<Rightarrow> file_store res" where
  "finish_logs multi debug nm fs =
     (let insert_mp = (\<lambda>p. insert_txtfile1_in_txtfile2_after_line_containing_string (mp_name p) p mp_done) in
      if multi then
        rbind (sort_file_by_number (mp_name (log_errors nm)) fs) (\<lambda>fs.
        rbind (sort_file_by_number (mp_name (log_info nm)) fs) (\<lambda>fs.
        rbind (if debug then sort_file_by_number (mp_name (log_debug nm)) fs else Inr fs) (\<lambda>fs.
        rbind (insert_mp (log_info nm) fs) (\<lambda>fs.
        rbind (if debug then insert_mp (log_debug nm) fs else Inr fs) (\<lambda>fs.
        rbind (append_file (mp_name (log_errors nm)) (log_errors nm) fs) (\<lambda>fs.
          Inr (remove_files [mp_name (log_errors nm), mp_name (log_info nm), mp_name (log_debug nm)] fs)))))))
      else
        rbind (remove_strings_from_file (log_info nm) fs) (\<lambda>fs.
        rbind (remove_strings_from_file (log_errors nm) fs) (\<lambda>fs.
          if debug then remove_strings_from_file (log_debug nm) fs else Inr fs)))"

section \<open>Merging the logs of parallel processes\<close>

text \<open>Paths of log files that are different from each other and from the temporary files.\<close>

definition separate_logs :: "log_names \<Rightarrow> bool" where
  "separate_logs nm \<longleftrightarrow> distinct [log_errors nm, log_info nm, log_debug nm, mp_name (log_errors nm), mp_name (log_info nm), mp_name (log_debug nm)]"

lemmas log_functions = sort_file_by_number_def insert_txtfile1_in_txtfile2_after_line_containing_string_def append_file_def
  read_lines_def read_file_def

lemma sort_file_by_number_Inr:
  "sort_file_by_number p fs = Inr fs' \<longleftrightarrow> (\<exists>t. fs p = Some t \<and> fs' = fs(p \<mapsto> concat (sort_key custom_key (readlines t))))"
  by (auto simp: log_functions rbind_eq_Inr)

lemma insert_file_Inr:
  "insert_txtfile1_in_txtfile2_after_line_containing_string p q g fs = Inr fs' \<longleftrightarrow>
     (\<exists>t u. fs p = Some t \<and> fs q = Some u \<and> fs' = fs(q \<mapsto> concat (insert_after g t (readlines u))))"
  by (auto simp: log_functions rbind_eq_Inr)

lemma append_file_Inr:
  "append_file p q fs = Inr fs' \<longleftrightarrow>
     (\<exists>t. fs p = Some t \<and> fs' = fs(q \<mapsto> (case fs q of None \<Rightarrow> [] | Some u \<Rightarrow> u) @ t))"
  by (auto simp: log_functions rbind_eq_Inr)

lemmas log_Inr = sort_file_by_number_Inr insert_file_Inr append_file_Inr

text \<open>What the number of a line means, without the search of \<open>custom_key\<close>: the line has a mark
  \<^verbatim>\<open>[fN]\<close> with the decimal number \<open>N\<close> and no mark before it, or it has no mark and counts as a line of
  file 0.\<close>

definition line_of_file :: "nat \<Rightarrow> string \<Rightarrow> bool" where
  "line_of_file n l \<longleftrightarrow>
     (\<exists>x y. l = x @ ''[f'' @ show_nat n @ '']'' @ y \<and> \<not> py_in ''[f'' x) \<or> n = 0 \<and> \<not> py_in ''[f'' l"

text \<open>The lines of a log, rearranged by input file: no line lost, added or changed, the files in the
  order of their numbers, and the lines of each file in the order they were written.\<close>

definition arranged_by_file :: "string list \<Rightarrow> string list \<Rightarrow> bool" where
  "arranged_by_file ts ls \<longleftrightarrow>
     mset ls = mset ts \<and>
     (\<forall>i j n k. i < j \<and> j < length ls \<and> line_of_file n (ls ! i) \<and> line_of_file k (ls ! j) \<longrightarrow> n \<le> k) \<and>
     (\<forall>n. filter (line_of_file n) ls = filter (line_of_file n) ts)"

lemma mark_at_show_nat: "mark_at (''[f'' @ show_nat n @ '']'' @ y) = Some (n, y)"
proof -
  have "\<not> is_digit_c (CHR '']'')" by (simp add: is_digit_c_def)
  moreover have "\<forall>c \<in> set (show_nat n). is_digit_c c" using show_nat_digits [of n] by (simp add: list_all_iff)
  ultimately have "takeWhile is_digit_c (show_nat n @ '']'' @ y) = show_nat n"
    "dropWhile is_digit_c (show_nat n @ '']'' @ y) = '']'' @ y"
    by (simp_all add: takeWhile_append dropWhile_append)
  then show ?thesis by (simp add: mark_at_def Let_def starts_with_iff)
qed

lemma mark_at_None: "\<not> starts_with ''[f'' s \<Longrightarrow> mark_at s = None"
  by (simp add: mark_at_def)

lemma custom_key_unmarked: "\<not> py_in ''[f'' l \<Longrightarrow> custom_key l = 0"
  by (induction l) (simp_all add: mark_at_None)

lemma custom_key_marked:
  "\<not> py_in ''[f'' x \<Longrightarrow> custom_key (x @ ''[f'' @ show_nat n @ '']'' @ y) = n"
proof (induction x)
  case Nil
  show ?case using mark_at_show_nat [of n y] by simp
next
  case (Cons c x)
  then have "\<not> starts_with ''[f'' ((c # x) @ ''[f'' @ show_nat n @ '']'' @ y)"
    by (cases x) (auto simp: starts_with_iff)
  then show ?case using Cons by (simp add: mark_at_None)
qed

lemma custom_key_line_of_file: "line_of_file n l \<Longrightarrow> custom_key l = n"
  by (elim disjE exE conjE line_of_file_def [THEN iffD1, elim_format]) (simp_all add: custom_key_marked [simplified] custom_key_unmarked)

lemma sorted_key_nth: "sorted (map f ls) \<Longrightarrow> i < j \<Longrightarrow> j < length ls \<Longrightarrow> f (ls ! i) \<le> f (ls ! j)"
  using sorted_nth_mono [of "map f ls" i j] by simp

lemma filter_line_of_file:
  "filter (line_of_file n) xs = filter (line_of_file n) (filter (\<lambda>l. custom_key l = n) xs)"
  by (induction xs) (auto dest: custom_key_line_of_file)

lemma arranged_sort_key: "arranged_by_file ts (sort_key custom_key ts)"
proof -
  have "n \<le> k" if "i < j" "j < length ts" "line_of_file n (sort_key custom_key ts ! i)"
    "line_of_file k (sort_key custom_key ts ! j)" for i j n k
    using that sorted_key_nth [of custom_key "sort_key custom_key ts" i j] custom_key_line_of_file by fastforce
  moreover have "filter (line_of_file n) (sort_key custom_key ts) = filter (line_of_file n) ts" for n
    using filter_line_of_file [of n ts] filter_line_of_file [of n "sort_key custom_key ts"] by (simp add: sort_key_stable)
  ultimately show ?thesis unfolding arranged_by_file_def by (simp, blast)
qed

lemma insert_after_once:
  assumes "py_in g m" and "\<not> list_ex (py_in g) (a @ b)"
  shows "insert_after g c (a @ m # b) = a @ m # c # b"
proof -
  have "concat (map (\<lambda>l. if py_in g l then [l, c] else [l]) xs) = xs" if "\<not> list_ex (py_in g) xs" for xs
    using that by (induction xs) auto
  then show ?thesis using assms by (simp add: insert_after_def)
qed

text \<open>C33: The merged logs of a parallel run. The information log of the parent has one line that
  announces the end of the processing (\<^verbatim>\<open>run_chain\<close> writes it once, at the end of its multi-processing
  branch), and none of its other lines contains that announcement. When the log files are merged after
  the run, the information log is its own lines, unchanged and in order, with the lines of the child
  processes directly after the announcement; the error log is its own text, or nothing when there was no
  such file, followed by the error lines of the child processes. In both logs the lines of the
  child processes are all there, each as often as it was written, ordered by the number \<open>N\<close> of the input
  file in their mark \<^verbatim>\<open>[fN]\<close>, those of one file in the order they were written. The temporary files are
  removed.\<close>

theorem merged_info_log:
  assumes "finish_logs True debug nm fs = Inr fs'" and "separate_logs nm"
    and "fs (mp_name (log_info nm)) = Some t" and "fs (mp_name (log_errors nm)) = Some v"
    and "fs (log_info nm) = Some u" and "readlines u = a @ m # b"
    and "py_in mp_done m" and "\<not> list_ex (py_in mp_done) (a @ b)"
  shows "(\<exists>ls. fs' (log_info nm) = Some (concat (a @ [m] @ ls @ b)) \<and> arranged_by_file (readlines t) ls) \<and>
    (\<exists>ls. fs' (log_errors nm) = Some ((case fs (log_errors nm) of None \<Rightarrow> [] | Some w \<Rightarrow> w) @ concat ls) \<and>
       arranged_by_file (readlines v) ls) \<and>
    list_all (\<lambda>p. fs' (mp_name p) = None) [log_errors nm, log_info nm, log_debug nm]"
proof -
  let ?s = "sort_key custom_key"
  have "fs' (log_info nm) = Some (concat (insert_after mp_done (concat (?s (readlines t))) (readlines u)))"
    "fs' (log_errors nm) = Some ((case fs (log_errors nm) of None \<Rightarrow> [] | Some w \<Rightarrow> w) @ concat (?s (readlines v)))"
    "list_all (\<lambda>p. fs' (mp_name p) = None) [log_errors nm, log_info nm, log_debug nm]"
    using assms(1-5) by (cases debug; auto simp: finish_logs_def rbind_eq_Inr log_Inr separate_logs_def remove_files_def)+
  moreover have "insert_after mp_done c (readlines u) = a @ m # c # b" for c
    using assms(6-8) insert_after_once by simp
  ultimately show ?thesis using arranged_sort_key by auto
qed

text \<open>The logs of two child processes, interleaved: the first file's line comes first afterwards, the
  announcement stays in its place and so does the line after it.\<close>

definition wit_names :: log_names where
  "wit_names = \<lparr>log_errors = ''e'', log_info = ''i'', log_debug = ''d''\<rparr>"

definition wit_store :: file_store where
  "wit_store = [''e.mp'' \<mapsto> ''x[f1]'' @ [CHR 0x0A], ''i'' \<mapsto> mp_done @ [CHR 0x0A] @ ''end'',
     ''i.mp'' \<mapsto> ''[f2]a'' @ [CHR 0x0A] @ ''[f1]b'' @ [CHR 0x0A]]"

theorem merged_info_log_witness:
  "\<exists>fs'. finish_logs True False wit_names wit_store = Inr fs' \<and>
     (\<exists>ls. fs' ''i'' = Some (concat ([] @ [mp_done @ [CHR 0x0A]] @ ls @ [''end''])) \<and>
        arranged_by_file [''[f2]a'' @ [CHR 0x0A], ''[f1]b'' @ [CHR 0x0A]] ls) \<and>
     fs' ''i'' = Some (mp_done @ [CHR 0x0A] @ ''[f1]b'' @ [CHR 0x0A] @ ''[f2]a'' @ [CHR 0x0A] @ ''end'') \<and>
     fs' ''e'' = Some (''x[f1]'' @ [CHR 0x0A]) \<and> fs' ''i.mp'' = None"
proof -
  let ?t = "''[f2]a'' @ [CHR 0x0A] @ ''[f1]b'' @ [CHR 0x0A]" and ?v = "''x[f1]'' @ [CHR 0x0A]"
  let ?u = "mp_done @ [CHR 0x0A] @ ''end''"
  note wit = wit_names_def wit_store_def mp_name_def
  obtain fs' where fs': "finish_logs True False wit_names wit_store = Inr fs'"
    by (simp add: finish_logs_def log_functions wit)
  have nm: "separate_logs wit_names" by (simp add: separate_logs_def wit)
  have t: "wit_store (mp_name (log_info wit_names)) = Some ?t" "wit_store (mp_name (log_errors wit_names)) = Some ?v"
    "wit_store (log_info wit_names) = Some ?u"
    by (simp_all add: wit)
  have u: "readlines ?u = [] @ (mp_done @ [CHR 0x0A]) # [''end'']" by (simp add: mp_done_def)
  have m: "py_in mp_done (mp_done @ [CHR 0x0A])" by simp
  have e: "\<not> list_ex (py_in mp_done) ([] @ [''end''])" by (simp add: mp_done_def)
  have "fs' ''i'' = Some (mp_done @ [CHR 0x0A] @ ''[f1]b'' @ [CHR 0x0A] @ ''[f2]a'' @ [CHR 0x0A] @ ''end'')"
    "fs' ''e'' = Some ?v"
    using fs' by (auto simp: finish_logs_def log_functions remove_files_def insert_after_def mp_done_def mark_at_def
        is_digit_c_def digit_val_def wit)
  with merged_info_log [OF fs' nm t u m e] fs' show ?thesis by (simp add: wit)
qed

end
