(* ===== verification/Main_Chain.thy ===== *)
theory Main_Chain
  imports Run_Chain_Props Finders Log_Files
begin

text \<open>
  \<^verbatim>\<open>main\<close> of \<^verbatim>\<open>tools/run_chain.py\<close>, from the parsed command line to the end of the run: loading and changing
  the configuration, selecting the algorithms and the input files, running the chain and merging the
  log files. \<^verbatim>\<open>sys.exit\<close> is the exception \<^verbatim>\<open>SystemExit\<close>. The command line parser, the importing of a finder
  module and the logging system are parameters; the log messages themselves and the list of
  overridden arguments that is only logged are left out.
\<close>

section \<open>The command line\<close>

record cmd_args =
  arg_name :: string
  arg_alglist :: string
  arg_mconf :: string
  arg_conf :: string
  arg_conf_opts :: "string option"
  arg_baseline :: string
  arg_version :: int
  arg_file :: "string option"
  arg_dir :: "string option"
  arg_cs2testdir :: bool
  arg_month :: "int option"
  arg_year :: "int option"
  arg_max_files :: "int option"
  arg_debug :: bool
  arg_multiprocessing :: bool
  arg_nprocs :: "int option"
  arg_sequentialprocessing :: bool
  arg_sharedmem :: bool
  arg_stop_on_error :: bool
  arg_logstring :: "string option"
  arg_breakpoint_after :: "string option"

text \<open>Truth of an argument that may be \<^verbatim>\<open>None\<close>.\<close>

definition given :: "int option \<Rightarrow> bool" where
  "given x = (case x of None \<Rightarrow> False | Some i \<Rightarrow> i \<noteq> 0)"

definition given_str :: "string option \<Rightarrow> bool" where
  "given_str x = (case x of None \<Rightarrow> False | Some s \<Rightarrow> s \<noteq> [])"

record main_env = finder_env +
  open_logs :: "log_names \<Rightarrow> unit res"                                \<comment> \<open>\<^verbatim>\<open>get_logger\<close> opens the log files\<close>
  import_finder :: "string \<Rightarrow> (finder \<Rightarrow> string list res) option"      \<comment> \<open>\<^verbatim>\<open>FileFinder.find_files\<close> of a module\<close>
  logs_after :: file_store                                            \<comment> \<open>the log files when the run has ended\<close>

definition check_args :: "cmd_args \<Rightarrow> unit res" where
  "check_args a =
     rbind (guard (arg_name a \<noteq> []) (SystemExit ''ERROR: missing command line argument --name <chain_name>'')) (\<lambda>_.
     rbind (guard (arg_baseline a = [] \<or> length (arg_baseline a) = 1 \<and> py_isalpha (arg_baseline a))
       (SystemExit ''ERROR: --baseline <BASELINE>, must be a single char A..Z'')) (\<lambda>_.
       guard (arg_version a \<le> 100) (SystemExit ''ERROR: --version <version>, must be an integer 1..100'')))"

section \<open>Loading the configuration\<close>

text \<open>\<^verbatim>\<open>except (KeyError, OSError, ValueError): sys.exit(...)\<close>\<close>

definition exit_on :: "(py_error \<Rightarrow> bool) \<Rightarrow> string \<Rightarrow> 'a res \<Rightarrow> 'a res" where
  "exit_on p msg r = (case r of Inl e \<Rightarrow> Inl (if p e then SystemExit msg else e) | Inr x \<Rightarrow> Inr x)"

text \<open>\<^verbatim>\<open>config["version"] != args.version\<close>: numbers are compared by value.\<close>

fun cval_is_int :: "cval \<Rightarrow> int \<Rightarrow> bool" where
  "cval_is_int (CInt j) i = (j = i)"
| "cval_is_int (CBool b) i = ((if b then 1 else 0) = i)"
| "cval_is_int (CFloat (Fin q)) i = (q = of_int i)"
| "cval_is_int v i = False"

definition check_baseline_version :: "cmd_args \<Rightarrow> config \<Rightarrow> unit res" where
  "check_baseline_version a cfg =
     rbind (if arg_baseline a = [] then Inr ()
            else rbind (dget cfg ''baseline'') (\<lambda>v. guard (v = CStr (arg_baseline a)) (SystemExit ''baseline does not match --baseline''))) (\<lambda>_.
       if arg_version a = 0 then Inr ()
       else rbind (dget cfg ''version'') (\<lambda>v. guard (cval_is_int v (arg_version a)) (SystemExit ''version does not match --version'')))"

text \<open>\<^verbatim>\<open>config[a][b] = v\<close>\<close>

definition cset2 :: "string \<Rightarrow> string \<Rightarrow> cval \<Rightarrow> config \<Rightarrow> config res" where
  "cset2 k j v cfg = rbind (rbind (dget cfg k) as_cdict) (\<lambda>d. Inr (dset cfg k (CDict (dset d j v))))"

definition set_if :: "bool \<Rightarrow> (config \<Rightarrow> config res) \<Rightarrow> config \<Rightarrow> config res" where
  "set_if b f cfg = (if b then f cfg else Inr cfg)"

definition apply_flags :: "cmd_args \<Rightarrow> config \<Rightarrow> config res" where
  "apply_flags a cfg =
     rbind (cset2 ''log_files'' ''debug_mode'' (CBool (arg_debug a)) cfg) (\<lambda>cfg.
     rbind (set_if (arg_multiprocessing a) (set_multi_processing True) cfg) (\<lambda>cfg.
     rbind (set_if (arg_sequentialprocessing a) (set_multi_processing False) cfg) (\<lambda>cfg.
     rbind (set_if (arg_sharedmem a) (\<lambda>cfg. rbind (cflag cfg ''chain'' ''use_multi_processing'') (\<lambda>mp.
              if mp then cset2 ''chain'' ''use_shared_memory'' (CBool True) cfg
              else Inl (SystemExit ''ERROR: --sharedmem option must be used  with multi-processing enabled''))) cfg) (\<lambda>cfg.
     rbind (set_if (given (arg_nprocs a)) (cset2 ''chain'' ''max_processes_for_multiprocessing'' (CInt (the (arg_nprocs a)))) cfg) (\<lambda>cfg.
     rbind (cset2 ''chain'' ''chain_name'' (CStr (arg_name a)) cfg) (\<lambda>cfg.
       set_if (arg_stop_on_error a) (cset2 ''chain'' ''stop_on_error'' (CBool True)) cfg))))))"

section \<open>--conf_opts\<close>

definition option_value :: "string \<Rightarrow> cval" where
  "option_value val =
     (if val = ''false'' then CBool False
      else if val = ''true'' then CBool True
      else if py_isdigit val then CInt (int (digits_value 0 val))
      else case py_float val of Some x \<Rightarrow> CFloat x | None \<Rightarrow> CStr val)"

text \<open>One option; with more than two levels of keys it is ignored.\<close>

definition apply_option :: "string \<Rightarrow> config \<Rightarrow> config res" where
  "apply_option keyval cfg =
     (case py_split (CHR '':'') keyval of
        [k] \<Rightarrow> Inr (dset cfg k (CBool True))
      | [k, v] \<Rightarrow> Inr (dset cfg k (option_value v))
      | [k, j, v] \<Rightarrow> cset2 k j (option_value v) (if dhas cfg k then cfg else dset cfg k (CDict []))
      | _ \<Rightarrow> Inr cfg)"

fun apply_options :: "string list \<Rightarrow> config \<Rightarrow> config res" where
  "apply_options [] cfg = Inr cfg"
| "apply_options (o1 # os) cfg = rbind (apply_option o1 cfg) (apply_options os)"

definition apply_conf_opts :: "cmd_args \<Rightarrow> config \<Rightarrow> config res" where
  "apply_conf_opts a cfg =
     (if given_str (arg_conf_opts a) then apply_options (py_split (CHR '','') (the (arg_conf_opts a))) cfg else Inr cfg)"

section \<open>Log files\<close>

definition check_inputs :: "cmd_args \<Rightarrow> unit res" where
  "check_inputs a =
     guard (arg_cs2testdir a \<or> given_str (arg_file a) \<or> given_str (arg_dir a) \<or> given (arg_year a) \<or> given (arg_month a))
       (SystemExit ''usage error: No inputs specified'')"

definition log_suffix :: "string \<Rightarrow> string \<Rightarrow> string" where
  "log_suffix t name = py_replace ''.log'' (''_'' @ t @ ''.log'') name"

definition log_file_name :: "cmd_args \<Rightarrow> bool \<Rightarrow> string \<Rightarrow> string" where
  "log_file_name a append_date name =
     (let n1 = (if given_str (arg_logstring a) then log_suffix (the (arg_logstring a)) name else name) in
      if append_date \<and> given (arg_year a) then
        (if given (arg_month a) then log_suffix (show_pad 2 (the (arg_month a)) @ show_int (the (arg_year a))) n1
         else log_suffix (show_int (the (arg_year a))) n1)
      else n1)"

definition log_setting :: "config \<Rightarrow> string \<Rightarrow> cval res" where
  "log_setting d k = of_option (SystemExit (''log_files:'' @ k @ '' section missing from chain config file'')) (map_of d k)"

definition set_log_names :: "cmd_args \<Rightarrow> config \<Rightarrow> (config \<times> log_names) res" where
  "set_log_names a cfg =
     rbind (rbind (of_option (SystemExit ''log_files section missing from chain configuration file'') (map_of cfg ''log_files'')) as_cdict) (\<lambda>d.
     rbind (log_setting d ''errors'') (\<lambda>e. rbind (log_setting d ''info'') (\<lambda>i. rbind (log_setting d ''debug'') (\<lambda>g.
     rbind (log_setting d ''append_year_month_to_logname'') (\<lambda>w.
     rbind (cstring e) (\<lambda>e. rbind (cstring i) (\<lambda>i. rbind (cstring g) (\<lambda>g.
       let name = log_file_name a (truthy w);
           d' = dset (dset (dset d ''errors'' (CStr (name e))) ''info'' (CStr (name i))) ''debug'' (CStr (name g))
       in Inr (dset cfg ''log_files'' (CDict d'), \<lparr>log_errors = name e, log_info = name i, log_debug = name g\<rparr>)))))))))"

section \<open>Input files\<close>

text \<open>The lists in an algorithm list file; anything that is not a list of names cannot be iterated over.\<close>

definition as_names :: "cval \<Rightarrow> string list res" where
  "as_names v = (case v of CList vs \<Rightarrow> rmapM cstring vs | _ \<Rightarrow> Inl (TypeError ''not iterable''))"

definition dates :: "cmd_args \<Rightarrow> finder \<Rightarrow> finder res" where
  "dates a f =
     (if given (arg_month a) \<and> given (arg_year a) then add_year (the (arg_year a)) (add_month (the (arg_month a)) f)
      else if given (arg_year a) \<and> arg_month a = None then
        rbind (add_year (the (arg_year a)) f) (\<lambda>f. Inr (fold add_month [1, 2, 3, 4, 5, 6, 7, 8, 9, 10, 11, 12] f))
      else Inr f)"

definition run_finder :: "main_env \<Rightarrow> cmd_args \<Rightarrow> config \<Rightarrow> string \<Rightarrow> string list res" where
  "run_finder env a cfg mname =
     rbind (module_path cfg mname) (\<lambda>path.
     case import_finder env path of
       None \<Rightarrow> Inl (SystemExit ''1'')
     | Some find_fs \<Rightarrow>
         exit_on (\<lambda>e. is_key_error e \<or> is_value_error e \<or> is_file_not_found e) ''1''
           (rbind (dates a (finder_new (Some cfg))) find_fs))"

definition select_files :: "main_env \<Rightarrow> cmd_args \<Rightarrow> config \<Rightarrow> cval \<Rightarrow> string list res" where
  "select_files env a cfg finders =
     (if arg_cs2testdir a then
        rbind (environ_get (config_env.truncate env) ''CLEV2ER_BASE_DIR'') (\<lambda>b. Inr (py_glob env (b @ ''/testdata/cs2/l1bfiles/*'')))
      else if given_str (arg_file a) then Inr [the (arg_file a)]
      else if given_str (arg_dir a) then Inr (py_glob env (the (arg_dir a) @ ''/*.nc''))
      else rbind (as_names finders) (\<lambda>ms. rbind (rmapM (run_finder env a cfg) ms) (\<lambda>fs. Inr (concat fs))))"

definition limit_files :: "cmd_args \<Rightarrow> string list \<Rightarrow> string list" where
  "limit_files a files =
     (case arg_max_files a of
        Some m \<Rightarrow> if m \<noteq> 0 \<and> m < int (length files) then py_slice files None (Some m) else files
      | None \<Rightarrow> files)"

section \<open>main\<close>

record main_out =
  mo_result :: chain_result
  mo_finalized :: "finalization list"
  mo_logs :: file_store

text \<open>The configuration after the command line has been applied.\<close>

definition prepare_config :: "main_env \<Rightarrow> cmd_args \<Rightarrow> (config \<times> string \<times> int \<times> log_names) res" where
  "prepare_config env a =
     rbind (check_args a) (\<lambda>_.
     rbind (exit_on caught ''Loading config file error''
       (load_config_files (config_env.truncate env) (arg_name a) (arg_baseline a) (arg_version a) (arg_mconf a) (arg_conf a))) (\<lambda>lc.
     rbind (check_baseline_version a (lc_config lc)) (\<lambda>_.
     rbind (apply_flags a (lc_config lc)) (\<lambda>cfg. rbind (apply_conf_opts a cfg) (\<lambda>cfg.
     rbind (check_inputs a) (\<lambda>_.
     rbind (set_log_names a cfg) (\<lambda>(cfg, nm).
       Inr (cfg, lc_baseline lc, if 0 < arg_version a then arg_version a else lc_version lc, nm))))))))"

text \<open>The run itself: the breakpoint of the algorithm list is not passed on, only that of the command line.\<close>

definition run_files :: "main_env \<Rightarrow> chain_env \<Rightarrow> cmd_args \<Rightarrow> config \<Rightarrow> algorithm_lists \<Rightarrow> (chain_result \<times> finalization list) res" where
  "run_files env cenv a cfg found =
     rbind (rbind (select_files env a cfg (al_finders found)) (\<lambda>fs. Inr (limit_files a fs))) (\<lambda>files.
     rbind (guard (\<exists>f\<in>set files. os_isfile env f) (SystemExit ''1'')) (\<lambda>_.
     rbind (cflag cfg ''chain'' ''stop_on_error'') (\<lambda>_.
     rbind (as_names (al_algorithms found)) (\<lambda>algorithm_list.
     rbind (guard (\<not> given_str (arg_breakpoint_after a) \<or> the (arg_breakpoint_after a) \<in> set algorithm_list) (SystemExit ''1'')) (\<lambda>_.
       run_chain cenv cfg files algorithm_list (case arg_breakpoint_after a of None \<Rightarrow> [] | Some b \<Rightarrow> b))))))"

definition main :: "main_env \<Rightarrow> chain_env \<Rightarrow> cmd_args \<Rightarrow> main_out res" where
  "main env cenv a =
     rbind (prepare_config env a) (\<lambda>(cfg, baseline, version, nm).
     rbind (open_logs env nm) (\<lambda>_.
     rbind (exit_on caught ''1'' (load_algorithm_list (config_env.truncate env) (arg_name a) baseline version (arg_alglist a))) (\<lambda>found.
     rbind (cflag cfg ''chain'' ''use_multi_processing'') (\<lambda>mp.
     rbind (run_files env cenv a cfg found) (\<lambda>(result, ev).
     rbind (finish_logs mp (arg_debug a) nm (logs_after env)) (\<lambda>logs.
       Inr \<lparr>mo_result = result, mo_finalized = ev, mo_logs = logs\<rparr>))))))"

section \<open>A whole run\<close>

lemma exit_on_Inr [simp]: "exit_on p m (Inr x) = Inr x" "exit_on p m r = Inr y \<longleftrightarrow> r = Inr y"
  by (auto simp: exit_on_def split: sum.splits)

lemma remove_strings_ok:
  "fs p \<noteq> None \<Longrightarrow> \<exists>fs'. remove_strings_from_file p fs = Inr fs' \<and> (\<forall>q. fs q \<noteq> None \<longrightarrow> fs' q \<noteq> None)"
  by (auto simp: remove_strings_from_file_def log_functions)

lemma finish_logs_sequential:
  assumes "fs (log_info nm) \<noteq> None" and "fs (log_errors nm) \<noteq> None" and "debug \<Longrightarrow> fs (log_debug nm) \<noteq> None"
  shows "\<exists>fs'. finish_logs False debug nm fs = Inr fs'"
proof -
  obtain fs1 where 1: "remove_strings_from_file (log_info nm) fs = Inr fs1" "\<forall>q. fs q \<noteq> None \<longrightarrow> fs1 q \<noteq> None"
    using remove_strings_ok [of fs "log_info nm"] assms(1) by blast
  obtain fs2 where 2: "remove_strings_from_file (log_errors nm) fs1 = Inr fs2" "\<forall>q. fs1 q \<noteq> None \<longrightarrow> fs2 q \<noteq> None"
    using remove_strings_ok [of fs1 "log_errors nm"] 1(2) assms(2) by blast
  have "\<exists>fs'. (if debug then remove_strings_from_file (log_debug nm) fs2 else Inr fs2) = Inr fs'"
    using remove_strings_ok [of fs2 "log_debug nm"] 1(2) 2(2) assms(3) by auto
  then show ?thesis using 1(1) 2(1) by (simp add: finish_logs_def Let_def)
qed

text \<open>What \<^verbatim>\<open>main\<close> reports is what \<^verbatim>\<open>run_chain\<close> returns for the selected files.\<close>

lemma main_sequential:
  assumes prep: "prepare_config env a = Inr (cfg, b, v, nm)" "open_logs env nm = Inr ()"
    and found: "load_algorithm_list (config_env.truncate env) (arg_name a) b v (arg_alglist a) = Inr found"
      "as_names (al_algorithms found) = Inr algs"
    and files: "select_files env a cfg (al_finders found) = Inr sel" "\<exists>f\<in>set (limit_files a sel). os_isfile env f"
    and bp: "arg_breakpoint_after a = None"
    and mode: "cflag cfg ''chain'' ''use_multi_processing'' = Inr False" "cflag cfg ''chain'' ''stop_on_error'' = Inr stop"
  shows "main env cenv a = rbind (run_chain cenv cfg (limit_files a sel) algs []) (\<lambda>(result, ev).
    rbind (finish_logs False (arg_debug a) nm (logs_after env)) (\<lambda>logs.
      Inr \<lparr>mo_result = result, mo_finalized = ev, mo_logs = logs\<rparr>))"
  using assms by (simp add: main_def run_files_def given_str_def)

lemma pipeline_no_break:
  assumes "\<forall>(name, impl)\<in>set algs. last_component name \<noteq> bp"
  shows "snd (pipeline bp algs l1b sd) \<noteq> Inr LoopBreak"
  using assms by (induction bp algs l1b sd rule: pipeline.induct) (auto split: sum.splits prod.splits)

lemma spec_file_no_break:
  assumes "\<forall>(name, impl)\<in>set algs. last_component name \<noteq> bp" and "spec_file env cfg algs bp f = Inr r"
  shows "snd (snd r) = []"
  using assms(2) pipeline_no_break [OF assms(1)]
  by (auto simp: spec_file_def Let_def split: sum.splits prod.splits if_splits loop_exit.splits) (metis snd_conv)+

lemma spec_file_uncaught: "spec_file env cfg algs bp f = Inl e \<Longrightarrow> \<not> caught e"
  by (auto simp: spec_file_def Let_def split: sum.splits prod.splits if_splits loop_exit.splits)

lemma rmapM_first_Inl: "rmapM f xs = Inl e \<Longrightarrow> \<exists>x\<in>set xs. f x = Inl e"
  by (induction xs) (auto simp: rbind_eq_Inl)

text \<open>C37: Every selected file is processed. Once the configuration is loaded, the log files are open, the
  algorithms are found and at least one selected file exists, a sequential run of \<^verbatim>\<open>main\<close> without
  \<^verbatim>\<open>stop_on_error\<close> has one of two outcomes. If no exception but those the chain catches (\<^verbatim>\<open>IOError\<close>,
  \<^verbatim>\<open>ValueError\<close>, \<^verbatim>\<open>KeyError\<close>) leaves the processing of a file, it ends normally and has processed every selected
  file, whichever of them fail, are skipped, raise a caught exception or cannot be opened; it reports as many
  errors and skipped files as there are, and each algorithm has been finalized once, in order. Otherwise it
  ends with the first other exception that the processing of a file raises.\<close>

theorem main_processes_every_file:
  assumes prep: "prepare_config env a = Inr (cfg, b, v, nm)" "open_logs env nm = Inr ()"
    and found: "load_algorithm_list (config_env.truncate env) (arg_name a) b v (arg_alglist a) = Inr found"
      "as_names (al_algorithms found) = Inr algs"
    and files: "select_files env a cfg (al_finders found) = Inr sel" "\<exists>f\<in>set (limit_files a sel). os_isfile env f"
    and bp: "arg_breakpoint_after a = None"
    and mode: "cflag cfg ''chain'' ''use_multi_processing'' = Inr False" "cflag cfg ''chain'' ''stop_on_error'' = Inr False"
    and classes: "chain_classes cenv cfg [] algs = Inr classes" "list_all (sound_class cfg) classes"
    and ds: "\<And>f nc. env_open cenv f = Inr nc \<Longrightarrow> ds_isinstance nc"
    and logs: "logs_after env (log_info nm) \<noteq> None" "logs_after env (log_errors nm) \<noteq> None"
      "arg_debug a \<Longrightarrow> logs_after env (log_debug nm) \<noteq> None"
  shows "case rmapM (spec_file cenv cfg (map (class_view cfg) classes) []) (limit_files a sel) of
      Inl e \<Rightarrow> main env cenv a = Inl e \<and> \<not> caught e \<and>
        (\<exists>f\<in>set (limit_files a sel). spec_file cenv cfg (map (class_view cfg) classes) [] f = Inl e)
    | Inr rs \<Rightarrow> \<exists>out. main env cenv a = Inr out \<and> cr_processed (mo_result out) = length (limit_files a sel) \<and>
        cr_errors (mo_result out) = length (filter is_error rs) \<and> cr_skipped (mo_result out) = length (filter is_skip rs) \<and>
        mo_finalized out = map (\<lambda>cls. (cls_name cls, 3)) classes"
proof -
  let ?spec = "spec_file cenv cfg (map (class_view cfg) classes) []"
  note run = main_sequential [OF prep found files bp mode, of cenv] run_chain_sequential [OF mode classes ds, where files = "limit_files a sel"]
  show ?thesis
  proof (cases "rmapM ?spec (limit_files a sel)")
    case (Inl e)
    obtain f where f: "f \<in> set (limit_files a sel)" "?spec f = Inl e" using rmapM_first_Inl [OF Inl] by blast
    have "main env cenv a = Inl e" using run Inl by simp
    then show ?thesis unfolding Inl sum.case using f spec_file_uncaught [OF f(2)] by blast
  next
    case (Inr rs)
    obtain fs' where "finish_logs False (arg_debug a) nm (logs_after env) = Inr fs'" using finish_logs_sequential logs by blast
    then show ?thesis
      using run Inr by (simp add: result_of_def count_results_wf [OF rmapM_spec_wf [OF Inr]] zero_counts_def rmapM_length [OF Inr])
  qed
qed

text \<open>C38: A breakpoint in the algorithm list has no effect. An algorithm list may mark an algorithm with
  \<^verbatim>\<open>BreakpointAfter\<close>. Without \<^verbatim>\<open>--breakpoint_after\<close> on the command line no breakpoint file is ever
  written by a sequential run, whatever the list marks.\<close>

theorem list_breakpoint_ignored:
  assumes ok: "main env cenv a = Inr out" and prep: "prepare_config env a = Inr (cfg, b, v, nm)"
    and found: "load_algorithm_list (config_env.truncate env) (arg_name a) b v (arg_alglist a) = Inr found"
      "as_names (al_algorithms found) = Inr algs"
    and bp: "arg_breakpoint_after a = None"
    and mode: "cflag cfg ''chain'' ''use_multi_processing'' = Inr False" "cflag cfg ''chain'' ''stop_on_error'' = Inr False"
    and classes: "chain_classes cenv cfg [] algs = Inr classes" "list_all (sound_class cfg) classes"
      "\<forall>cls\<in>set classes. last_component (cls_name cls) \<noteq> []"
    and ds: "\<And>f nc. env_open cenv f = Inr nc \<Longrightarrow> ds_isinstance nc"
  shows "cr_breakpoint (mo_result out) = []"
proof -
  obtain sel where sel: "select_files env a cfg (al_finders found) = Inr sel" "\<exists>f\<in>set (limit_files a sel). os_isfile env f"
    and logs: "open_logs env nm = Inr ()"
    using ok prep found mode by (auto simp: main_def run_files_def rbind_eq_Inr)
  obtain rs where rs: "rmapM (spec_file cenv cfg (map (class_view cfg) classes) []) (limit_files a sel) = Inr rs"
    and out: "cr_breakpoint (mo_result out) = (if rs = [] then [] else snd (snd (last rs)))"
    using ok main_sequential [OF prep logs found sel bp mode, of cenv] run_chain_sequential [OF mode classes(1,2) ds, where files = "limit_files a sel"]
    by (auto simp: rbind_eq_Inr result_of_def)
  have names: "\<forall>(name, impl)\<in>set (map (class_view cfg) classes). last_component name \<noteq> []"
    using classes(3) by (auto simp: class_view_def)
  have "snd (snd (rs ! i)) = []" if "i < length rs" for i
    using that rmapM_length [OF rs] by (intro spec_file_no_break [OF names rmapM_nth [OF rs]]) simp
  then show ?thesis using out by (cases "rs = []") (simp_all add: last_conv_nth)
qed

section \<open>Witnesses\<close>

text \<open>A chain of one algorithm, marked with \<^verbatim>\<open>BreakpointAfter\<close>, run on one file.\<close>

definition wit_menv :: main_env where
  "wit_menv = \<lparr>os_environ = [''CLEV2ER_BASE_DIR'' \<mapsto> ''/b''], os_isdir = (\<lambda>p. True), os_isfile = (\<lambda>p. True), os_exists = (\<lambda>p. True),
     py_glob = (\<lambda>p. []), read_text = (\<lambda>p. Inr p),
     xml_parse = (\<lambda>t. Inr (if t = ''l.xml'' then [(''algorithm_list'', CDict [(''algorithms'', CDict [(''alg1'', CStr ''BreakpointAfter'')])])]
       else if t = ''m.xml'' then [(''chain'', CDict [(''stop_on_error'', CStr ''false''), (''use_multi_processing'', CStr ''false'')])]
       else [(''configuration'', CDict [(''log_files'', CDict [(''errors'', CStr ''e.log''), (''info'', CStr ''i.log''), (''debug'', CStr ''d.log''),
         (''append_year_month_to_logname'', CStr ''true'')])])])),
     env_yaml = (\<lambda>p. Inl (FileNotFoundError p)), fe_open = (\<lambda>f. Inr wit_nc), open_logs = (\<lambda>nm. Inr ()),
     import_finder = (\<lambda>m. None), logs_after = (\<lambda>p. Some ''[f0]start'')\<rparr>"

definition wit_args :: cmd_args where
  "wit_args = \<lparr>arg_name = ''testchain'', arg_alglist = ''l.xml'', arg_mconf = ''m.xml'', arg_conf = ''t_A001.xml'', arg_conf_opts = None,
     arg_baseline = [], arg_version = 0, arg_file = Some ''far'', arg_dir = None, arg_cs2testdir = False, arg_month = None, arg_year = None,
     arg_max_files = None, arg_debug = False, arg_multiprocessing = False, arg_nprocs = None, arg_sequentialprocessing = False,
     arg_sharedmem = False, arg_stop_on_error = False, arg_logstring = None, arg_breakpoint_after = None\<rparr>"

definition wit_mcfg :: config where
  "wit_mcfg = [(''chain'', CDict [(''stop_on_error'', CBool False), (''use_multi_processing'', CBool False), (''chain_name'', CStr ''testchain'')]),
     (''log_files'', CDict [(''errors'', CStr ''e.log''), (''info'', CStr ''i.log''), (''debug'', CStr ''d.log''),
       (''append_year_month_to_logname'', CBool True), (''debug_mode'', CBool False)])]"

definition wit_mnames :: log_names where
  "wit_mnames = \<lparr>log_errors = ''e.log'', log_info = ''i.log'', log_debug = ''d.log''\<rparr>"

definition wit_lists :: algorithm_lists where
  "wit_lists = \<lparr>al_algorithms = names [''alg1''], al_finders = names [], al_file = ''l.xml'', al_breakpoint = ''alg1''\<rparr>"

lemma wit_main_facts:
  "prepare_config wit_menv wit_args = Inr (wit_mcfg, ''A'', 1, wit_mnames)"
  "load_algorithm_list (config_env.truncate wit_menv) (arg_name wit_args) ''A'' 1 (arg_alglist wit_args) = Inr wit_lists"
  "as_names (al_algorithms wit_lists) = Inr [''alg1'']"
  "select_files wit_menv wit_args wit_mcfg (al_finders wit_lists) = Inr [''far'']"
  "limit_files wit_args [''far''] = [''far'']"
  "cflag wit_mcfg ''chain'' ''use_multi_processing'' = Inr False" "cflag wit_mcfg ''chain'' ''stop_on_error'' = Inr False"
  by code_simp+

lemma wit_main_classes: "chain_classes wit_env wit_mcfg [] [''alg1''] = Inr [wit_class]"
  by (simp add: wit_defs wit_env_def wit_mcfg_def)

lemma wit_main_rest: "arg_breakpoint_after wit_args = None" "open_logs wit_menv nm = Inr ()" "logs_after wit_menv p \<noteq> None" "os_isfile wit_menv p"
  by (simp_all add: wit_args_def wit_menv_def)

theorem main_processes_every_file_witness:
  "\<exists>out. main wit_menv wit_env wit_args = Inr out \<and> cr_processed (mo_result out) = 1 \<and>
     cr_errors (mo_result out) = 0 \<and> cr_skipped (mo_result out) = 1 \<and> mo_finalized out = [(''clev2er.algorithms.testchain.alg1'', 3)]"
proof -
  have "spec_file wit_env wit_mcfg (map (class_view wit_mcfg) [wit_class]) [] ''far'' = Inr (False, ''SKIP_OK far'', [])"
    unfolding wit_view by code_simp
  then have ok: "rmapM (spec_file wit_env wit_mcfg (map (class_view wit_mcfg) [wit_class]) []) [''far''] = Inr [(False, ''SKIP_OK far'', [])]"
    by simp
  have "\<exists>f\<in>set (limit_files wit_args [''far'']). os_isfile wit_menv f" by (simp add: wit_main_facts(5) wit_main_rest(4))
  from main_processes_every_file [OF wit_main_facts(1) wit_main_rest(2) wit_main_facts(2-4) this wit_main_rest(1) wit_main_facts(6,7)
      wit_main_classes wit_sound wit_opens wit_main_rest(3,3,3)]
  show ?thesis unfolding wit_main_facts(5) ok by (simp add: is_error_def is_skip_def wit_class_def)
qed

theorem list_breakpoint_ignored_witness:
  "\<exists>out. al_breakpoint wit_lists = ''alg1'' \<and> main wit_menv wit_env wit_args = Inr out \<and> cr_breakpoint (mo_result out) = []"
proof -
  have "\<not> isl (main wit_menv wit_env wit_args)" by code_simp
  then obtain out where out: "main wit_menv wit_env wit_args = Inr out" by (cases "main wit_menv wit_env wit_args") auto
  have "\<forall>cls\<in>set [wit_class]. last_component (cls_name cls) \<noteq> []" by code_simp
  from list_breakpoint_ignored [OF out wit_main_facts(1-3) wit_main_rest(1) wit_main_facts(6,7) wit_main_classes wit_sound this wit_opens] out
  show ?thesis by (auto simp: wit_lists_def)
qed

end
