(* ===== verification/Masks.thy ===== *)
theory Masks
  imports PyVal
begin

text \<open>
  \<^verbatim>\<open>utils/masks/masks.py\<close>: area masks. A mask is a rectangle or an integer grid in a polar
  stereographic projection; the program asks which points lie inside it
  (\<open>points_inside\<close>) or for the grid value at each point (\<open>grid_mask_values\<close>). A grid may be
  kept in a shared-memory segment that the first process creates and later ones attach to.
  The projection (pyproj), the file system, the environment variables and the netCDF files
  are parameters, in the record \<open>mask_env\<close>. The colours of the grid values, used for plots
  only, are left out.
\<close>

section \<open>The table of masks\<close>

definition mask_list :: "string list" where
  "mask_list =
    [''greenland_area_xylimits_mask'',
     ''antarctica_bedmachine_v2_grid_mask'',
     ''greenland_bedmachine_v3_grid_mask'',
     ''antarctica_iceandland_dilated_10km_grid_mask'',
     ''greenland_iceandland_dilated_10km_grid_mask'',
     ''antarctic_grounded_and_floating_2km_grid_mask'',
     ''greenland_icesheet_2km_grid_mask'',
     ''antarctic_icesheet_2km_grid_mask_rignot2016'',
     ''greenland_icesheet_2km_grid_mask_rignot2016'',
     ''greenland_icesheet_2km_grid_mask_mouginot2019'']"

text \<open>\<^verbatim>\<open>hashlib.md5(name.encode()).hexdigest()[:8]\<close> of the supported names.\<close>

definition hash_name :: "string \<Rightarrow> string" where
  "hash_name n = (case map_of
    [(''greenland_area_xylimits_mask'', ''a4d5225f''),
     (''antarctica_bedmachine_v2_grid_mask'', ''32580e20''),
     (''greenland_bedmachine_v3_grid_mask'', ''dad1c65e''),
     (''antarctica_iceandland_dilated_10km_grid_mask'', ''5493798a''),
     (''greenland_iceandland_dilated_10km_grid_mask'', ''66e011f3''),
     (''antarctic_grounded_and_floating_2km_grid_mask'', ''c83760d6''),
     (''greenland_icesheet_2km_grid_mask'', ''54aee91b''),
     (''antarctic_icesheet_2km_grid_mask_rignot2016'', ''e62807a9''),
     (''greenland_icesheet_2km_grid_mask_rignot2016'', ''6d6f7837''),
     (''greenland_icesheet_2km_grid_mask_mouginot2019'', ''35e809a4'')] n of Some h \<Rightarrow> h | None \<Rightarrow> [])"

text \<open>How a grid is read: \<^verbatim>\<open>load_netcdf_mask\<close> with its arguments \<^verbatim>\<open>flip\<close> and \<^verbatim>\<open>nc_mask_var\<close>, or
  read from the file and transposed.\<close>

datatype grid_source = NoGrid | LoadNetcdf bool string | ReadTransposed string

record mask_info =
  mask_type :: string
  xlimits :: "int \<times> int"
  ylimits :: "int \<times> int"
  num_x :: nat
  num_y :: nat
  bad_mask_value :: int
  minxm :: int
  minym :: int
  binsize :: int
  crs_bng :: nat                        \<comment> \<open>EPSG code\<close>
  grid_value_names :: "string list"
  mask_grid_possible_values :: "int list"

record mask_def =
  md_info :: mask_info
  md_default_file :: "string \<times> string"   \<comment> \<open>environment variable, path below it\<close>
  md_path_is_none :: bool                \<comment> \<open>\<^verbatim>\<open>mask_path is None\<close> rather than \<^verbatim>\<open>not mask_path\<close>\<close>
  md_missing :: "string \<Rightarrow> string"        \<comment> \<open>message when the file does not exist\<close>
  md_source :: grid_source
  md_long_name :: "int list option \<Rightarrow> string"

definition upto_ints :: "nat \<Rightarrow> int list" where
  "upto_ints n = map int [0..<n]"

definition when_in :: "int \<Rightarrow> int list \<Rightarrow> string \<Rightarrow> string" where
  "when_in i bs s = (if i \<in> set bs then s else [])"

definition missing_plain :: "string \<Rightarrow> string" where
  "missing_plain f = ''mask file does not exist''"

definition missing_named :: "string \<Rightarrow> string" where
  "missing_named f = ''mask file '' @ f @ '' does not exist''"

definition greenland_area_xylimits_mask :: mask_def where
  "greenland_area_xylimits_mask =
    \<lparr>md_info = \<lparr>mask_type = ''xylimits'', xlimits = (- 630000, 904658), ylimits = (- 3355844, - 654853),
       num_x = 0, num_y = 0, bad_mask_value = 0, minxm = 0, minym = 0, binsize = 1, crs_bng = 3413,
       grid_value_names = [], mask_grid_possible_values = []\<rparr>,
     md_default_file = ([], []), md_path_is_none = False, md_missing = missing_plain,
     md_source = NoGrid, md_long_name = (\<lambda>b. [])\<rparr>"

definition bedmachine_v2_long_name :: "int list option \<Rightarrow> string" where
  "bedmachine_v2_long_name b = (case b of None \<Rightarrow> [] | Some bs \<Rightarrow>
     when_in 0 bs ''Ocean'' @ when_in 1 bs '' Ice-free land'' @ when_in 2 bs '' Grounded ice'' @
     when_in 3 bs '' Floating ice'' @
     (if 4 \<in> set bs \<and> 2 \<notin> set bs then '' Lake Vostok'' else []) @ '' (bedmachine v2)'')"

definition antarctica_bedmachine_v2_grid_mask :: mask_def where
  "antarctica_bedmachine_v2_grid_mask =
    \<lparr>md_info = \<lparr>mask_type = ''grid'', xlimits = (0, 0), ylimits = (0, 0),
       num_x = 13333, num_y = 13333, bad_mask_value = 255, minxm = - 3333000, minym = - 3333000,
       binsize = 500, crs_bng = 3031,
       grid_value_names = [''Ocean'', ''Ice-free land'', ''Grounded ice'', ''Floating ice'', ''Lake Vostok''],
       mask_grid_possible_values = [0, 1, 2, 3, 4]\<rparr>,
     md_default_file = (''CPDATA_DIR'', ''/RESOURCES/surface_discrimination_masks'' @
       ''/antarctica/bedmachine_v2/BedMachineAntarctica_2020-07-15_v02.nc''),
     md_path_is_none = True, md_missing = missing_plain,
     md_source = LoadNetcdf True ''mask'', md_long_name = bedmachine_v2_long_name\<rparr>"

definition bedmachine_v3_long_name :: "int list option \<Rightarrow> string" where
  "bedmachine_v3_long_name b = (case b of None \<Rightarrow> [] | Some bs \<Rightarrow>
     when_in 0 bs ''Ocean'' @ when_in 1 bs '' Ice-free land'' @ when_in 2 bs '' Grounded ice'' @
     when_in 3 bs '' Floating ice'' @ when_in 4 bs ''Non-Greenland land'' @ '' (bedmachine v3)'')"

definition greenland_bedmachine_v3_grid_mask :: mask_def where
  "greenland_bedmachine_v3_grid_mask =
    \<lparr>md_info = \<lparr>mask_type = ''grid'', xlimits = (0, 0), ylimits = (0, 0),
       num_x = 10218, num_y = 18346, bad_mask_value = 255, minxm = - 652925,
       minym = - 632675 - 18346 * 150, binsize = 150, crs_bng = 3413,
       grid_value_names = [''Ocean'', ''Ice-free land'', ''Grounded ice'', ''Floating ice'', ''Non-Greenland land''],
       mask_grid_possible_values = [0, 1, 2, 3, 4]\<rparr>,
     md_default_file = (''CPDATA_DIR'', ''/RESOURCES/surface_discrimination_masks'' @
       ''/greenland/bedmachine_v3/BedMachineGreenland-2017-09-20.nc''),
     md_path_is_none = False, md_missing = missing_plain,
     md_source = LoadNetcdf True ''mask'', md_long_name = bedmachine_v3_long_name\<rparr>"

definition antarctica_iceandland_dilated_10km_grid_mask :: mask_def where
  "antarctica_iceandland_dilated_10km_grid_mask =
    \<lparr>md_info = \<lparr>mask_type = ''grid'', xlimits = (0, 0), ylimits = (0, 0),
       num_x = 13333, num_y = 13333, bad_mask_value = 255, minxm = - 3333000, minym = - 3333000,
       binsize = 500, crs_bng = 3031,
       grid_value_names = [''outside'', ''inside Antarctic dilated mask''],
       mask_grid_possible_values = [0, 1]\<rparr>,
     md_default_file = (''CPDATA_DIR'', ''/RESOURCES/surface_discrimination_masks'' @
       ''/antarctica/bedmachine_v2/ant_dilated_grid_mask.nc''),
     md_path_is_none = False, md_missing = missing_named,
     md_source = LoadNetcdf False ''mask'', md_long_name = (\<lambda>b. ''Dilated by 10km in to  Ocean'')\<rparr>"

definition greenland_iceandland_dilated_10km_grid_mask :: mask_def where
  "greenland_iceandland_dilated_10km_grid_mask =
    \<lparr>md_info = \<lparr>mask_type = ''grid'', xlimits = (0, 0), ylimits = (0, 0),
       num_x = 10218, num_y = 18346, bad_mask_value = 255, minxm = - 652925, minym = - 3384575,
       binsize = 150, crs_bng = 3413,
       grid_value_names = [''outside'', ''inside Greenland dilated mask''],
       mask_grid_possible_values = [0, 1]\<rparr>,
     md_default_file = (''CPDATA_DIR'', ''/RESOURCES/surface_discrimination_masks'' @
       ''/greenland/bedmachine_v3/grn_dilated_grid_mask.nc''),
     md_path_is_none = False, md_missing = missing_named,
     md_source = ReadTransposed ''mask'', md_long_name = (\<lambda>b. ''Dilated by 10km in to  Ocean'')\<rparr>"

definition antarctic_grounded_and_floating_2km_grid_mask :: mask_def where
  "antarctic_grounded_and_floating_2km_grid_mask =
    \<lparr>md_info = \<lparr>mask_type = ''grid'', xlimits = (0, 0), ylimits = (0, 0),
       num_x = 2820, num_y = 2420, bad_mask_value = 255, minxm = - 2820000, minym = - 2420000,
       binsize = 2000, crs_bng = 3031,
       grid_value_names = (map (\<lambda>i. ''Basin-'' @ show_nat i) [0..<28])[0 := ''Unknown''],
       mask_grid_possible_values = upto_ints 28\<rparr>,
     md_default_file = (''CPOM_SOFTWARE_DIR'', ''/cpom/resources/drainage_basins/antarctica'' @
       ''/zwally_2012_imbie1_ant_grounded_and_floating_icesheet_basins/'' @
       ''basins/zwally_2012_imbie1_ant_grounded_and_floating_icesheet_basins_2km.nc''),
     md_path_is_none = False, md_missing = missing_plain,
     md_source = LoadNetcdf False ''ANT_ZWALLY_BASINMASK_INCFLOATING_ICE'',
     md_long_name = (\<lambda>b. ''Zwally grounded and floating ice 2km grid'')\<rparr>"

definition greenland_icesheet_2km_grid_mask :: mask_def where
  "greenland_icesheet_2km_grid_mask =
    \<lparr>md_info = \<lparr>mask_type = ''grid'', xlimits = (0, 0), ylimits = (0, 0),
       num_x = 1000, num_y = 1550, bad_mask_value = 255, minxm = - 1000000, minym = - 3500000,
       binsize = 2000, crs_bng = 3413,
       grid_value_names = [''None'', ''1.1'', ''1.2'', ''1.3'', ''1.4'', ''2.1'', ''2.2'', ''3.1'', ''3.2'',
       ''3.3'', ''4.1'', ''4.2'', ''4.3'', ''5.0'', ''6.1'', ''6.2'', ''7.1'', ''7.2'',
       ''8.1'', ''8.2''],
       mask_grid_possible_values = upto_ints 20\<rparr>,
     md_default_file = (''CPOM_SOFTWARE_DIR'', ''/cpom/resources/drainage_basins/greenland/'' @
       ''zwally_2012_grn_icesheet_basins/basins/Zwally_GIS_basins_2km.nc''),
     md_path_is_none = False, md_missing = missing_plain,
     md_source = LoadNetcdf False ''gre_basin_mask'',
     md_long_name = (\<lambda>b. ''Zwally grounded and floating ice 2km grid'')\<rparr>"

definition antarctic_icesheet_2km_grid_mask_rignot2016 :: mask_def where
  "antarctic_icesheet_2km_grid_mask_rignot2016 =
    \<lparr>md_info = \<lparr>mask_type = ''grid'', xlimits = (0, 0), ylimits = (0, 0),
       num_x = 2820, num_y = 2420, bad_mask_value = 255, minxm = - 2820000, minym = - 2420000,
       binsize = 2000, crs_bng = 3031,
       grid_value_names = [''Islands'', ''West H-Hp'', ''West F-G'', ''East E-Ep'', ''East D-Dp'', ''East Cp-D'',
       ''East B-C'', ''East A-Ap'', ''East Jpp-K'', ''West G-H'', ''East Dp-E'',
       ''East Ap-B'', ''East C-Cp'', ''East K-A'', ''West J-Jpp'', ''Peninsula Ipp-J'',
       ''Peninsula I-Ipp'', ''Peninsula Hp-I'', ''West Ep-F''],
       mask_grid_possible_values = upto_ints 19\<rparr>,
     md_default_file = (''CPOM_SOFTWARE_DIR'', ''/cpom/resources/drainage_basins/antarctica/'' @
       ''rignot_2016_imbie2_ant_grounded_icesheet_basins/basins/'' @
       ''rignot_2016_imbie2_ant_grounded_icesheet_basins_2km.nc''),
     md_path_is_none = False, md_missing = missing_plain,
     md_source = LoadNetcdf False ''basinmask'', md_long_name = (\<lambda>b. ''Rignot (2016) 2km grid'')\<rparr>"

definition greenland_icesheet_2km_grid_mask_rignot2016 :: mask_def where
  "greenland_icesheet_2km_grid_mask_rignot2016 =
    \<lparr>md_info = \<lparr>mask_type = ''grid'', xlimits = (0, 0), ylimits = (0, 0),
       num_x = 1000, num_y = 1550, bad_mask_value = 0, minxm = - 1000000, minym = - 3500000,
       binsize = 2000, crs_bng = 3413,
       grid_value_names = (map (\<lambda>i. ''Ice cap -'' @ show_nat i) [0..<57])
         [0 := ''unclassified'', 51 := ''NW'', 52 := ''CW'', 53 := ''SW'', 54 := ''SE'', 55 := ''NE'', 56 := ''NO''],
       mask_grid_possible_values = upto_ints 57\<rparr>,
     md_default_file = (''CPOM_SOFTWARE_DIR'', ''/cpom/resources/drainage_basins/greenland/'' @
       ''GRE_Basins_IMBIE2_v1.3/basins/'' @ ''rignot_2016_imbie2_grn_grounded_icesheet_basins_2km.nc''),
     md_path_is_none = False, md_missing = missing_plain,
     md_source = LoadNetcdf False ''basinmask'', md_long_name = (\<lambda>b. ''Rignot (2016) 2km grid'')\<rparr>"

definition greenland_icesheet_2km_grid_mask_mouginot2019 :: mask_def where
  "greenland_icesheet_2km_grid_mask_mouginot2019 =
    \<lparr>md_info = \<lparr>mask_type = ''grid'', xlimits = (0, 0), ylimits = (0, 0),
       num_x = 1000, num_y = 1550, bad_mask_value = 0, minxm = - 1000000, minym = - 3500000,
       binsize = 2000, crs_bng = 3413,
       grid_value_names = [''Unclassified [0]'', ''CE [1]'', ''CW [2]'', ''NO [3]'', ''NE [4]'', ''NW [5]'',
       ''SE [6]'', ''SW [7]''],
       mask_grid_possible_values = upto_ints 8\<rparr>,
     md_default_file = (''CPOM_SOFTWARE_DIR'', ''/cpom/resources/drainage_basins/greenland/'' @
       ''Mouginot/'' @ ''mouginot_2019_grn_grounded_icesheet_basins_2km.nc''),
     md_path_is_none = False, md_missing = missing_plain,
     md_source = LoadNetcdf False ''basinmask'', md_long_name = (\<lambda>b. ''Mouginot (2019) 2km grid'')\<rparr>"

definition mask_table :: "(string \<times> mask_def) list" where
  "mask_table =
    [(''greenland_area_xylimits_mask'', greenland_area_xylimits_mask),
     (''antarctica_bedmachine_v2_grid_mask'', antarctica_bedmachine_v2_grid_mask),
     (''greenland_bedmachine_v3_grid_mask'', greenland_bedmachine_v3_grid_mask),
     (''antarctica_iceandland_dilated_10km_grid_mask'', antarctica_iceandland_dilated_10km_grid_mask),
     (''greenland_iceandland_dilated_10km_grid_mask'', greenland_iceandland_dilated_10km_grid_mask),
     (''antarctic_grounded_and_floating_2km_grid_mask'', antarctic_grounded_and_floating_2km_grid_mask),
     (''greenland_icesheet_2km_grid_mask'', greenland_icesheet_2km_grid_mask),
     (''antarctic_icesheet_2km_grid_mask_rignot2016'', antarctic_icesheet_2km_grid_mask_rignot2016),
     (''greenland_icesheet_2km_grid_mask_rignot2016'', greenland_icesheet_2km_grid_mask_rignot2016),
     (''greenland_icesheet_2km_grid_mask_mouginot2019'', greenland_icesheet_2km_grid_mask_mouginot2019)]"

section \<open>Masks\<close>

record mask_env =
  me_environ :: "string \<Rightarrow> string option"
  me_isfile :: "string \<Rightarrow> bool"
  me_nc_grid :: "string \<Rightarrow> string \<Rightarrow> int list list res"   \<comment> \<open>file, variable: rows of the grid\<close>
  me_project :: "nat \<Rightarrow> fl \<Rightarrow> fl \<Rightarrow> fl \<times> fl"            \<comment> \<open>EPSG code, lon, lat: x and y\<close>

record mask =
  nomask :: bool
  mask_name :: string
  mask_long_name :: string
  mask_grid :: "int list list"
  mask_basin_numbers :: "int list option"
  store_in_shared_memory :: bool
  shared_mem :: "string option"
  shared_mem_child :: bool
  info :: mask_info

text \<open>The shared-memory segments of the machine: their bytes, by name.\<close>

type_synonym shm = "string \<rightharpoonup> 8 word list"

definition to_u8 :: "int \<Rightarrow> 8 word" where
  "to_u8 v = word_of_int v"

definition to_i1 :: "int \<Rightarrow> int" where
  "to_i1 v = sint (word_of_int v :: 8 word)"

text \<open>The rows of a buffer seen as an array of shape \<open>(r, c)\<close>.\<close>

fun rows_of :: "nat \<Rightarrow> nat \<Rightarrow> 'a list \<Rightarrow> 'a list list" where
  "rows_of 0 c xs = []"
| "rows_of (Suc r) c xs = take c xs # rows_of r c (drop c xs)"

fun transpose_rows :: "'a list list \<Rightarrow> 'a list list" where
  "transpose_rows [] = []"
| "transpose_rows (r # rs) = map (\<lambda>j. map (\<lambda>row. row ! j) (r # rs)) [0..<length r]"

definition flipud :: "bool \<Rightarrow> 'a list list \<Rightarrow> 'a list list" where
  "flipud flip g = (if flip then rev g else g)"

definition load_netcdf_mask :: "mask_env \<Rightarrow> string \<Rightarrow> bool \<Rightarrow> string \<Rightarrow> mask \<Rightarrow> shm \<Rightarrow> (mask \<times> shm) res" where
  "load_netcdf_mask env mask_file flip nc_mask_var m sh =
     (if store_in_shared_memory m then
        (let h = hash_name (mask_name m); ny = num_y (info m); nx = num_x (info m) in
         case sh h of
           Some seg \<Rightarrow>
             if length seg < ny * nx then Inl (TypeError ''buffer is too small for requested array'')
             else Inr (m\<lparr>mask_grid := map (map uint) (rows_of ny nx seg), shared_mem := Some h,
                        shared_mem_child := True\<rparr>, sh)
         | None \<Rightarrow>
             rbind (me_nc_grid env mask_file nc_mask_var) (\<lambda>g.
               let g8 = flipud flip (map (map to_u8) g) in
               if concat g8 = []
               then Inl (ValueError ''size must be a positive number different from zero'')
               else Inr (m\<lparr>mask_grid := map (map uint) g8, shared_mem := Some h\<rparr>, sh(h \<mapsto> concat g8))))
      else
        rbind (me_nc_grid env mask_file nc_mask_var) (\<lambda>g. Inr (m\<lparr>mask_grid := flipud flip g\<rparr>, sh)))"

text \<open>The data file of a mask: the given path, or the default one below an environment variable.\<close>

definition mask_file_of :: "mask_env \<Rightarrow> mask_def \<Rightarrow> string option \<Rightarrow> string res" where
  "mask_file_of env d mask_path =
     (let default = rbind (of_option (KeyError (fst (md_default_file d)))
                      (me_environ env (fst (md_default_file d)))) (\<lambda>dir. Inr (dir @ snd (md_default_file d)))
      in case mask_path of
           None \<Rightarrow> default
         | Some p \<Rightarrow> if p = [] \<and> \<not> md_path_is_none d then default else Inr p)"

definition blank_mask :: "string \<Rightarrow> int list option \<Rightarrow> bool \<Rightarrow> mask_def \<Rightarrow> mask" where
  "blank_mask name basins shm d =
     \<lparr>nomask = False, mask_name = name, mask_long_name = md_long_name d basins, mask_grid = [],
      mask_basin_numbers = basins, store_in_shared_memory = shm, shared_mem = None,
      shared_mem_child = False, info = md_info d\<rparr>"

text \<open>\<^verbatim>\<open>Mask.__init__\<close>\<close>

definition mask_new :: "mask_env \<Rightarrow> string \<Rightarrow> int list option \<Rightarrow> string option \<Rightarrow> bool \<Rightarrow> shm \<Rightarrow>
    (mask \<times> shm) res" where
  "mask_new env name basins mask_path shm sh =
     (if name = [] then
        Inr ((blank_mask [] None False greenland_area_xylimits_mask)\<lparr>nomask := True\<rparr>, sh)
      else if name \<notin> set mask_list then Inl (ValueError (name @ '' not in supported mask_list''))
      else case map_of mask_table name of
             None \<Rightarrow> Inl (ValueError (''mask name: '' @ name @ '' not supported''))
           | Some d \<Rightarrow>
               (let m = blank_mask name basins shm d in
                if md_source d = NoGrid then Inr (m, sh)
                else
                  rbind (mask_file_of env d mask_path) (\<lambda>f.
                    if \<not> me_isfile env f then Inl (FileNotFoundError (md_missing d f))
                    else case md_source d of
                           NoGrid \<Rightarrow> Inr (m, sh)
                         | LoadNetcdf flip var \<Rightarrow> load_netcdf_mask env f flip var m sh
                         | ReadTransposed var \<Rightarrow>
                             rbind (me_nc_grid env f var) (\<lambda>g.
                               Inr (m\<lparr>mask_grid := transpose_rows (map (map to_i1) g)\<rparr>, sh)))))"

section \<open>Queries\<close>

definition latlon_to_xy :: "mask_env \<Rightarrow> mask \<Rightarrow> fl list \<Rightarrow> fl list \<Rightarrow> (fl list \<times> fl list) res" where
  "latlon_to_xy env m lats lons =
     (if length lats \<noteq> length lons then Inl (RuntimeError ''x, y must be the same size'')
      else let ps = map2 (\<lambda>lon lat. me_project env (crs_bng (info m)) lon lat) lons lats
           in Inr (map fst ps, map snd ps))"

text \<open>\<^verbatim>\<open>int(np.around((x - minxm) / binsize))\<close>\<close>

definition cell_index :: "mask_info \<Rightarrow> int \<Rightarrow> fl \<Rightarrow> int res" where
  "cell_index mi origin v = int_around (fl_div (fl_sub v (of_intf origin)) (of_intf (binsize mi)))"

text \<open>The grid value of the cell of a point; \<open>None\<close> outside the grid. The read of the \<open>y\<close> array
  comes after the index of \<open>x\<close> is computed.\<close>

definition cell_value :: "mask \<Rightarrow> fl \<Rightarrow> fl res \<Rightarrow> int option res" where
  "cell_value m x yr =
     rbind (cell_index (info m) (minxm (info m)) x) (\<lambda>ii.
     rbind (rbind yr (cell_index (info m) (minym (info m)))) (\<lambda>jj.
       if ii < 0 \<or> int (num_x (info m)) \<le> ii then Inr None
       else if jj < 0 \<or> int (num_y (info m)) \<le> jj then Inr None
       else rbind (arr_at (mask_grid m) (nat jj)) (\<lambda>row. rbind (arr_at row (nat ii)) (\<lambda>v. Inr (Some v)))))"

text \<open>One point of a grid mask: whether it is inside, and what it adds to \<^verbatim>\<open>n_inside\<close>, once for
  every element of \<^verbatim>\<open>basin_numbers\<close> equal to its value.\<close>

definition grid_point :: "mask \<Rightarrow> int list \<Rightarrow> fl \<Rightarrow> fl res \<Rightarrow> (bool \<times> nat) res" where
  "grid_point m basins x yr =
     rbind (cell_value m x yr) (\<lambda>cv. case cv of
        None \<Rightarrow> Inr (False, 0)
      | Some v \<Rightarrow>
          if basins \<noteq> [] then Inr (v \<in> set basins, length (filter (\<lambda>basin. v = basin) basins))
          else if v > 0 then Inr (True, 1) else Inr (False, 0))"

definition xylimits_point :: "mask_info \<Rightarrow> fl \<Rightarrow> fl res \<Rightarrow> (bool \<times> nat) res" where
  "xylimits_point mi x yr =
     (if fl_le (of_intf (fst (xlimits mi))) x \<and> fl_le x (of_intf (snd (xlimits mi))) then
        rbind yr (\<lambda>y.
          if fl_le (of_intf (fst (ylimits mi))) y \<and> fl_le y (of_intf (snd (ylimits mi)))
          then Inr (True, 1) else Inr (False, 0))
      else Inr (False, 0))"

definition opt_list :: "'a list option \<Rightarrow> 'a list" where
  "opt_list b = (case b of None \<Rightarrow> [] | Some xs \<Rightarrow> xs)"

definition effective_basins :: "mask \<Rightarrow> int list option \<Rightarrow> int list" where
  "effective_basins m basins =
     (if opt_list (mask_basin_numbers m) \<noteq> [] \<and> opt_list basins = []
      then opt_list (mask_basin_numbers m) else opt_list basins)"

definition points_inside :: "mask_env \<Rightarrow> mask \<Rightarrow> fl list \<Rightarrow> fl list \<Rightarrow> int list option \<Rightarrow> bool \<Rightarrow>
    (bool list \<times> nat) res" where
  "points_inside env m lats lons basins inputs_are_xy =
     (if nomask m then Inl (AttributeError ''mask_name'')
      else if mask_name m = [] then Inr (replicate (length lats) False, 0)
      else
        rbind (if inputs_are_xy then Inr (lats, lons) else latlon_to_xy env m lats lons) (\<lambda>(x, y).
          let point = (\<lambda>i. if mask_type (info m) = ''xylimits'' then xylimits_point (info m) (x ! i) (arr_at y i)
                 else grid_point m (effective_basins m basins) (x ! i) (arr_at y i))
          in if mask_type (info m) = ''xylimits'' \<or> mask_type (info m) = ''grid'' then
               rbind (rmapM point [0..<length x]) (\<lambda>rs. Inr (map fst rs, sum_list (map snd rs)))
             else Inr (replicate (length lats) False, 0)))"

text \<open>The value of one point, a \<^verbatim>\<open>uint8\<close>.\<close>

definition mask_value_at :: "mask \<Rightarrow> 8 word \<Rightarrow> fl list \<Rightarrow> fl list \<Rightarrow> nat \<Rightarrow> 8 word res" where
  "mask_value_at m unknown x y i =
     (if \<not> is_finite (x ! i) then Inr unknown
      else rbind (cell_value m (x ! i) (arr_at y i)) (\<lambda>cv.
             Inr (case cv of None \<Rightarrow> unknown | Some v \<Rightarrow> to_u8 v)))"

definition grid_mask_values :: "mask_env \<Rightarrow> mask \<Rightarrow> fl list \<Rightarrow> fl list \<Rightarrow> bool \<Rightarrow> int \<Rightarrow> 8 word list res" where
  "grid_mask_values env m lats lons inputs_are_xy unknown_value =
     (if nomask m then Inl (AttributeError ''mask_type'')
      else if mask_type (info m) \<noteq> ''grid'' then
        Inl (ValueError ''grid_mask_values can only be used on grid mask types. Use points_inside() for other masks'')
      else
        rbind (if inputs_are_xy then Inr (lats, lons) else latlon_to_xy env m lats lons) (\<lambda>(x, y).
          rmapM (mask_value_at m (to_u8 unknown_value) x y) [0..<length lats]))"

text \<open>\<^verbatim>\<open>Mask.clean_up\<close>: a child closes its handle, the creator also removes the segment. Any
  exception is turned into an \<^verbatim>\<open>IOError\<close>.\<close>

definition clean_up :: "mask \<Rightarrow> shm \<Rightarrow> shm res" where
  "clean_up m sh =
     (if nomask m then Inl (AttributeError ''store_in_shared_memory'')
      else if store_in_shared_memory m then
        (case shared_mem m of
           None \<Rightarrow> Inr sh
         | Some h \<Rightarrow>
             if shared_mem_child m then Inr sh
             else if sh h = None then Inl (OSError (''Shared memory for '' @ mask_name m @ '' could not be closed''))
             else Inr (sh(h := None)))
      else Inr sh)"

section \<open>Laws\<close>

lemma mask_table_names: "map fst mask_table = mask_list"
  by (simp add: mask_table_def mask_list_def)

lemma rows_of_concat: "\<forall>r\<in>set g. length r = c \<Longrightarrow> rows_of (length g) c (concat g) = g"
  by (induction g) auto

lemma rows_of_append: "\<forall>r\<in>set g. length r = c \<Longrightarrow> rows_of (length g) c (concat g @ xs) = g"
  by (induction g) auto

lemma length_concat_rows: "\<forall>r\<in>set g. length r = c \<Longrightarrow> length (concat g) = length g * c"
  by (induction g) auto

lemma to_u8_uint [simp]: "to_u8 (uint w) = w"
  by (simp add: to_u8_def)

lemma length_latlon_to_xy:
  "latlon_to_xy env m lats lons = Inr (x, y) \<Longrightarrow>
     length lons = length lats \<and> length x = length lats \<and> length y = length lats"
  by (auto simp: latlon_to_xy_def Let_def split: if_splits)

lemma distinct_count: "distinct xs \<Longrightarrow> length (filter (\<lambda>b. v = b) xs) = (if v \<in> set xs then 1 else 0)"
  by (induction xs) auto


lemma grid_point_count: "grid_point m basins x yr = Inr (b, n) \<Longrightarrow> n \<noteq> 0 \<Longrightarrow> b"
  by (auto simp: grid_point_def rbind_eq_Inr filter_empty_conv split: option.splits if_splits)

lemma xylimits_point_count: "xylimits_point mi x yr = Inr (b, n) \<Longrightarrow> n \<noteq> 0 \<Longrightarrow> b"
  by (auto simp: xylimits_point_def rbind_eq_Inr split: if_splits)

text \<open>The mask has one entry per point, and a positive count comes from a point inside.\<close>

lemma points_inside_length:
  "points_inside env m lats lons b False = Inr (inmask, n) \<Longrightarrow> length inmask = length lats"
  by (auto simp: points_inside_def rbind_eq_Inr Let_def dest!: rmapM_length length_latlon_to_xy split: if_splits)

lemma counted_some:
  "rmapM f is = Inr rs \<Longrightarrow> (\<And>i b n. f i = Inr (b, n) \<Longrightarrow> n \<noteq> 0 \<Longrightarrow> b) \<Longrightarrow> sum_list (map snd rs) \<noteq> (0::nat) \<Longrightarrow>
     True \<in> fst ` set rs"
proof (induction "is" arbitrary: rs)
  case (Cons i "is")
  then obtain b n rs' where rs: "f i = Inr (b, n)" "rmapM f is = Inr rs'" "rs = (b, n) # rs'"
    by (auto simp: rbind_eq_Inr)
  show ?case
  proof (cases "n = 0")
    case True
    then have "True \<in> fst ` set rs'" using Cons.IH [OF rs(2) Cons.prems(2)] Cons.prems(3) rs(3) by auto
    then show ?thesis using rs(3) by auto
  next
    case False
    then have "b" using Cons.prems(2) [OF rs(1)] by simp
    then show ?thesis using rs(3) by auto
  qed
qed auto

lemma points_inside_some:
  assumes "points_inside env m lats lons b xy = Inr (inmask, n)" and "n \<noteq> 0"
  shows "True \<in> set inmask"
proof -
  obtain x y rs where "rmapM (\<lambda>i. if mask_type (info m) = ''xylimits'' then xylimits_point (info m) (x ! i) (arr_at y i)
      else grid_point m (effective_basins m b) (x ! i) (arr_at y i)) [0..<length x] = Inr rs"
    and rs: "inmask = map fst rs" "n = sum_list (map snd rs)"
    using assms by (auto simp: points_inside_def rbind_eq_Inr Let_def split: if_splits)
  from this(1) have "True \<in> fst ` set rs"
  proof (rule counted_some)
    show "sum_list (map snd rs) \<noteq> 0" using assms(2) rs(2) by simp
  qed (auto dest: grid_point_count xylimits_point_count split: if_splits)
  then show ?thesis using rs(1) by simp
qed

text \<open>The rectangle of a grid mask is well formed when its parameters are of the sizes of the
  table, and its grid has the declared shape.\<close>

definition grid_shape :: "nat \<Rightarrow> nat \<Rightarrow> 'a list list \<Rightarrow> bool" where
  "grid_shape ny nx g \<longleftrightarrow> length g = ny \<and> (\<forall>r\<in>set g. length r = nx)"

definition wf_info :: "mask_info \<Rightarrow> bool" where
  "wf_info mi \<longleftrightarrow> \<bar>minxm mi\<bar> < 2 ^ 53 \<and> \<bar>minym mi\<bar> < 2 ^ 53 \<and> 1 \<le> binsize mi \<and> binsize mi < 2 ^ 53"

lemma masks_wf:
  "wf_info (md_info greenland_area_xylimits_mask)"
  "wf_info (md_info antarctica_bedmachine_v2_grid_mask)"
  "wf_info (md_info greenland_bedmachine_v3_grid_mask)"
  "wf_info (md_info antarctica_iceandland_dilated_10km_grid_mask)"
  "wf_info (md_info greenland_iceandland_dilated_10km_grid_mask)"
  "wf_info (md_info antarctic_grounded_and_floating_2km_grid_mask)"
  "wf_info (md_info greenland_icesheet_2km_grid_mask)"
  "wf_info (md_info antarctic_icesheet_2km_grid_mask_rignot2016)"
  "wf_info (md_info greenland_icesheet_2km_grid_mask_rignot2016)"
  "wf_info (md_info greenland_icesheet_2km_grid_mask_mouginot2019)"
  unfolding wf_info_def mask_def.select_convs mask_info.select_convs
    greenland_area_xylimits_mask_def
    antarctica_bedmachine_v2_grid_mask_def
    greenland_bedmachine_v3_grid_mask_def
    antarctica_iceandland_dilated_10km_grid_mask_def
    greenland_iceandland_dilated_10km_grid_mask_def
    antarctic_grounded_and_floating_2km_grid_mask_def
    greenland_icesheet_2km_grid_mask_def
    antarctic_icesheet_2km_grid_mask_rignot2016_def
    greenland_icesheet_2km_grid_mask_rignot2016_def
    greenland_icesheet_2km_grid_mask_mouginot2019_def
  by simp_all

lemma mask_table_wf: "\<forall>d\<in>snd ` set mask_table. wf_info (md_info d)"
  unfolding mask_table_def list.set image_insert image_empty snd_conv ball_simps
  by (intro conjI masks_wf TrueI)

text \<open>A projected coordinate of a size that occurs: finite and of less than 800 bits.\<close>

definition coordinate :: "fl \<Rightarrow> bool" where
  "coordinate v \<longleftrightarrow> (\<exists>a. v = Fin a \<and> \<bar>a\<bar> \<le> 2 ^ 800)"

lemma cell_index_total:
  assumes "coordinate v" and "\<bar>org\<bar> < 2 ^ 53" and "1 \<le> binsize mi" and "binsize mi < 2 ^ 53"
  shows "\<exists>i. cell_index mi org v = Inr i"
proof -
  obtain a where a: "v = Fin a" "\<bar>a\<bar> \<le> 2 ^ 800" using assms(1) by (auto simp: coordinate_def)
  have "\<bar>of_int org :: rat\<bar> \<le> 2 ^ 800"
  proof -
    have "\<bar>of_int org :: rat\<bar> < of_int (2 ^ 53)" using assms(2) unfolding of_int_abs [symmetric] of_int_less_iff .
    also have "of_int (2 ^ 53) \<le> (2::rat) ^ 800" by simp
    finally show ?thesis by simp
  qed
  with a have "\<bar>a + - of_int org\<bar> \<le> 2 ^ 800 + 2 ^ 800" by linarith
  also have "\<dots> \<le> (2::rat) ^ 899" by simp
  finally have "moderate (round64 (a + - of_int org))" by (rule round64_moderate)
  then obtain d where d: "round64 (a + - of_int org) = Fin d" "\<bar>d\<bar> \<le> 2 ^ 900" by (auto simp: moderate_def)
  have b: "1 \<le> (of_int (binsize mi) :: rat)" using assms(3) by simp
  then have "\<bar>d / of_int (binsize mi)\<bar> \<le> \<bar>d\<bar> / 1" by (simp add: abs_divide divide_left_mono del: div_by_1)
  also have "\<dots> \<le> 2 ^ 900" using d(2) by simp
  also have "(2::rat) ^ 900 \<le> 2 ^ 1000" by (simp add: power_increasing)
  finally obtain q where "round64 (d / of_int (binsize mi)) = Fin q" using round64_bounded by blast
  then show ?thesis using a d assms b by (simp add: cell_index_def fl_sub_def of_intf_exact)
qed

text \<open>On coordinates and a grid of the declared shape the cell of a point is found, or the point
  is outside.\<close>

lemma cell_value_total:
  assumes "coordinate x" "coordinate y" "wf_info (info m)"
    and "grid_shape (num_y (info m)) (num_x (info m)) (mask_grid m)"
  shows "\<exists>cv. cell_value m x (Inr y) = Inr cv"
proof -
  obtain ii jj where ij: "cell_index (info m) (minxm (info m)) x = Inr ii"
    "cell_index (info m) (minym (info m)) y = Inr jj"
    using cell_index_total assms(1-3) by (metis wf_info_def)
  have "length (mask_grid m ! nat jj) = num_x (info m)" if "nat jj < num_y (info m)"
    using assms(4) that by (auto simp: grid_shape_def)
  then show ?thesis using ij assms(4) by (auto simp: cell_value_def arr_at_def grid_shape_def)
qed

definition point_xy :: "mask_env \<Rightarrow> mask \<Rightarrow> fl list \<Rightarrow> fl list \<Rightarrow> nat \<Rightarrow> fl \<times> fl" where
  "point_xy env m lats lons i = me_project env (crs_bng (info m)) (lons ! i) (lats ! i)"

lemma latlon_to_xy_eq:
  "length lons = length lats \<Longrightarrow> latlon_to_xy env m lats lons =
     Inr (map (fst \<circ> point_xy env m lats lons) [0..<length lats],
          map (snd \<circ> point_xy env m lats lons) [0..<length lats])"
  by (auto simp: latlon_to_xy_def point_xy_def Let_def intro!: nth_equalityI)

text \<open>What \<^verbatim>\<open>points_inside\<close> answers for one point of a grid mask.\<close>

definition selected :: "int list \<Rightarrow> int option \<Rightarrow> bool" where
  "selected basins cv = (case cv of None \<Rightarrow> False
     | Some v \<Rightarrow> if basins = [] then 0 < v else v \<in> set basins)"

lemma grid_point_eq:
  "cell_value m x yr = Inr cv \<Longrightarrow> distinct basins \<Longrightarrow>
     grid_point m basins x yr = Inr (selected basins cv, if selected basins cv then 1 else 0)"
  by (auto simp: grid_point_def selected_def distinct_count split: option.splits)

lemma sum_if_count: "sum_list (map (\<lambda>b. if b then 1 else 0) bs) = count_true bs"
  by (induction bs) (auto simp: count_true_def)

lemma rmapM_grid_points:
  assumes "\<And>i. i \<in> set is \<Longrightarrow> cell_value m (xs i) (yr i) = Inr (cv i)" and "distinct basins"
  shows "rmapM (\<lambda>i. grid_point m basins (xs i) (yr i)) is =
    Inr (map (\<lambda>i. (selected basins (cv i), if selected basins (cv i) then 1 else 0)) is)"
  using assms by (intro rmapM_total) (simp add: grid_point_eq)

section \<open>Properties\<close>

text \<open>C8: On a grid mask whose grid has the declared shape, \<^verbatim>\<open>points_inside\<close> returns for any points
  whose projected coordinates are finite: a point is inside exactly when its grid cell
  exists and holds a selected value (one of the basin numbers, or a positive value when
  none are given), and the count is the number of points inside, provided no basin number
  is given twice.\<close>

theorem points_inside_grid:
  assumes m: "\<not> nomask m" "mask_name m \<noteq> []" "mask_type (info m) = ''grid''" "wf_info (info m)"
    and shape: "grid_shape (num_y (info m)) (num_x (info m)) (mask_grid m)"
    and len: "length lons = length lats" and basins: "distinct (effective_basins m b)"
    and xy: "\<forall>i<length lats. coordinate (fst (point_xy env m lats lons i)) \<and> coordinate (snd (point_xy env m lats lons i))"
  shows "\<exists>inmask. points_inside env m lats lons b False = Inr (inmask, count_true inmask) \<and>
    length inmask = length lats \<and>
    (\<forall>i<length lats. \<exists>cv. cell_value m (fst (point_xy env m lats lons i)) (Inr (snd (point_xy env m lats lons i))) = Inr cv \<and>
       inmask ! i = selected (effective_basins m b) cv)"
proof -
  let ?x = "\<lambda>i. fst (point_xy env m lats lons i)" and ?y = "\<lambda>i. snd (point_xy env m lats lons i)"
  have "\<forall>i. \<exists>cv. i < length lats \<longrightarrow> cell_value m (?x i) (Inr (?y i)) = Inr cv"
    using cell_value_total xy m(4) shape by blast
  then obtain cv where cv: "i < length lats \<Longrightarrow> cell_value m (?x i) (Inr (?y i)) = Inr (cv i)" for i
    by metis
  let ?s = "\<lambda>i. selected (effective_basins m b) (cv i)"
  have point: "grid_point m (effective_basins m b) (map ?x [0..<length lats] ! i)
      (arr_at (map ?y [0..<length lats]) i) = Inr (?s i, if ?s i then 1 else 0)"
    if "i \<in> set [0..<length lats]" for i
    using that cv [of i] basins by (simp add: arr_at_def grid_point_eq)
  have "rmapM (\<lambda>i. grid_point m (effective_basins m b) (map ?x [0..<length lats] ! i)
      (arr_at (map ?y [0..<length lats]) i)) [0..<length lats] =
      Inr (map (\<lambda>i. (?s i, if ?s i then 1 else 0)) [0..<length lats])"
    using point by (rule rmapM_total)
  then have "points_inside env m lats lons b False = Inr (map ?s [0..<length lats], count_true (map ?s [0..<length lats]))"
    using m len by (simp add: points_inside_def latlon_to_xy_eq o_def Let_def sum_if_count [symmetric])
  then show ?thesis using cv by (auto intro!: exI [of _ "map ?s [0..<length lats]"])
qed

text \<open>Keeping a mask grid in shared memory does not change the values it gives: the process
  that creates the segment and a process that loads the same file privately get the same
  result from \<^verbatim>\<open>grid_mask_values\<close> at all points, although the segment holds the file's
  values reduced to \<^verbatim>\<open>uint8\<close>.\<close>

theorem grid_mask_values_shared:
  assumes "load_netcdf_mask env f flip var (m\<lparr>store_in_shared_memory := True\<rparr>) sh = Inr (m1, sh1)"
    and "sh (hash_name (mask_name m)) = None"
    and "load_netcdf_mask env f flip var (m\<lparr>store_in_shared_memory := False\<rparr>) sh = Inr (m2, sh2)"
  shows "grid_mask_values env m1 lats lons xy u = grid_mask_values env m2 lats lons xy u"
proof -
  obtain g where g: "me_nc_grid env f var = Inr g" using assms(3) by (auto simp: load_netcdf_mask_def rbind_eq_Inr)
  have m1: "m1 = m\<lparr>store_in_shared_memory := True, mask_grid := map (map uint) (flipud flip (map (map to_u8) g)),
      shared_mem := Some (hash_name (mask_name m))\<rparr>"
    using assms(1,2) g by (auto simp: load_netcdf_mask_def Let_def split: if_splits)
  have m2: "m2 = m\<lparr>store_in_shared_memory := False, mask_grid := flipud flip g\<rparr>"
    using assms(3) g by (auto simp: load_netcdf_mask_def)
  have grids: "mask_grid m1 = map (map (\<lambda>v. uint (to_u8 v))) (mask_grid m2)"
    by (simp add: m1 m2 flipud_def rev_map o_def)
  have "info m1 = info m2" "nomask m1 = nomask m2" by (simp_all add: m1 m2)
  moreover have "mask_value_at m1 = mask_value_at m2"
    using \<open>info m1 = info m2\<close>
    by (intro ext) (auto simp: mask_value_at_def cell_value_def arr_at_def grids rbind_def to_u8_def split: sum.splits)
  ultimately show ?thesis by (simp add: grid_mask_values_def latlon_to_xy_def)
qed

text \<open>C9: The life of a shared grid. When one process has created the segment from a file of the
  declared shape, any other process that loads the mask gets the same grid without reading
  the file and without a new segment; when it cleans up, the segment stays; when the creator
  cleans up, the segments are as before.\<close>

theorem shared_mask_life_cycle:
  assumes create: "load_netcdf_mask env f flip var m sh = Inr (parent, sh1)"
    and m: "store_in_shared_memory m" "\<not> nomask m" "\<not> shared_mem_child m"
    and fresh: "sh (hash_name (mask_name m)) = None"
    and shape: "\<forall>g. me_nc_grid env f var = Inr g \<longrightarrow> grid_shape (num_y (info m)) (num_x (info m)) g"
  shows "\<exists>child. load_netcdf_mask env' f' flip' var' m sh1 = Inr (child, sh1) \<and>
    mask_grid child = mask_grid parent \<and> clean_up child sh1 = Inr sh1 \<and> clean_up parent sh1 = Inr sh"
proof -
  obtain g where g: "me_nc_grid env f var = Inr g" using create m fresh
    by (auto simp: load_netcdf_mask_def rbind_eq_Inr Let_def)
  let ?h = "hash_name (mask_name m)" and ?g8 = "flipud flip (map (map to_u8) g)"
  have P: "parent = m\<lparr>mask_grid := map (map uint) ?g8, shared_mem := Some ?h\<rparr>" "sh1 = sh(?h \<mapsto> concat ?g8)"
    using create m fresh g by (auto simp: load_netcdf_mask_def Let_def split: if_splits)
  have shape8: "length ?g8 = num_y (info m)" "\<forall>r\<in>set ?g8. length r = num_x (info m)"
    using shape g by (auto simp: flipud_def grid_shape_def)
  let ?c = "m\<lparr>mask_grid := map (map uint) ?g8, shared_mem := Some ?h, shared_mem_child := True\<rparr>"
  have "load_netcdf_mask env' f' flip' var' m sh1 = Inr (?c, sh1)"
    using m P(2) rows_of_concat [OF shape8(2)] length_concat_rows [OF shape8(2)] shape8(1)
    by (simp add: load_netcdf_mask_def Let_def)
  moreover have "clean_up ?c sh1 = Inr sh1" using m by (simp add: clean_up_def)
  moreover have "clean_up parent sh1 = Inr sh" using m P fresh by (simp add: clean_up_def fun_upd_idem)
  moreover have "mask_grid ?c = mask_grid parent" using P by simp
  ultimately show ?thesis by blast
qed

text \<open>On a grid mask \<^verbatim>\<open>points_inside\<close> raises as soon as it meets a point whose projected
  \<open>x\<close> coordinate is infinite (as pyproj returns for points it cannot project), after points
  whose coordinates are finite: for an infinite coordinate this is an \<^verbatim>\<open>OverflowError\<close>, which
  is none of the exceptions that the chain catches.\<close>

theorem points_inside_not_finite:
  assumes m: "\<not> nomask m" "mask_name m \<noteq> []" "mask_type (info m) = ''grid''" "wf_info (info m)"
    and shape: "grid_shape (num_y (info m)) (num_x (info m)) (mask_grid m)"
    and len: "length lons = length lats" and k: "k < length lats"
    and inf: "fst (point_xy env m lats lons k) = PInf"
    and before: "\<forall>i<k. coordinate (fst (point_xy env m lats lons i)) \<and> coordinate (snd (point_xy env m lats lons i))"
  shows "points_inside env m lats lons b False = Inl (OverflowError ''cannot convert float infinity to integer'')"
proof -
  let ?x = "map (\<lambda>i. fst (point_xy env m lats lons i)) [0..<length lats]"
    and ?y = "map (\<lambda>i. snd (point_xy env m lats lons i)) [0..<length lats]"
  let ?f = "\<lambda>i. grid_point m (effective_basins m b) (?x ! i) (arr_at ?y i)"
  have "\<exists>r. ?f i = Inr r" if i: "i < k" for i
  proof -
    have "coordinate (fst (point_xy env m lats lons i))" "coordinate (snd (point_xy env m lats lons i))"
      using before i by auto
    then obtain cv where "cell_value m (?x ! i) (arr_at ?y i) = Inr cv"
      using cell_value_total [OF _ _ m(4) shape] i k by (fastforce simp: arr_at_def)
    then show ?thesis by (auto simp: grid_point_def split: option.splits)
  qed
  then obtain rs where pre: "rmapM ?f [0..<k] = Inr rs" using rmapM_ex [of "[0..<k]" ?f] by auto
  have "?f k = Inl (OverflowError ''cannot convert float infinity to integer'')"
    using k inf m(4)
    by (simp add: grid_point_def cell_value_def cell_index_def fl_sub_def of_intf_exact wf_info_def
        inf_of_sign_def)
  then have "rmapM ?f ([0..<k] @ k # [Suc k..<length lats]) = Inl (OverflowError ''cannot convert float infinity to integer'')"
    using pre by (simp add: rmapM_append)
  moreover have "[0..<length lats] = [0..<k] @ k # [Suc k..<length lats]"
    using k by (metis less_imp_le upt_add_eq_append upt_conv_Cons le_add_diff_inverse zero_le)
  ultimately have "rmapM ?f [0..<length lats] = Inl (OverflowError ''cannot convert float infinity to integer'')"
    by (simp only:)
  then show ?thesis using m len by (simp add: points_inside_def latlon_to_xy_eq o_def Let_def)
qed

section \<open>Concrete masks\<close>

text \<open>A grid of two rows and two columns with cells of 10 m, projected by the identity.\<close>

definition wit_info :: mask_info where
  "wit_info = \<lparr>mask_type = ''grid'', xlimits = (0, 0), ylimits = (0, 0), num_x = 2, num_y = 2,
     bad_mask_value = 255, minxm = 0, minym = 0, binsize = 10, crs_bng = 3413,
     grid_value_names = [], mask_grid_possible_values = []\<rparr>"

definition wit_mask :: "bool \<Rightarrow> mask" where
  "wit_mask shm = \<lparr>nomask = False, mask_name = ''greenland_icesheet_2km_grid_mask'', mask_long_name = [],
     mask_grid = [[0, 3], [7, 1]], mask_basin_numbers = Some [7, 3], store_in_shared_memory = shm,
     shared_mem = None, shared_mem_child = False, info = wit_info\<rparr>"

definition wit_mask_env :: mask_env where
  "wit_mask_env = \<lparr>me_environ = (\<lambda>v. None), me_isfile = (\<lambda>f. True),
     me_nc_grid = (\<lambda>f v. Inr [[0, 3], [7, - 1]]), me_project = (\<lambda>epsg lon lat. (lon, lat))\<rparr>"

lemmas wit_mask_simps = wit_mask_def wit_info_def wit_mask_env_def

lemma wit_mask_sel [simp]:
  "\<not> nomask (wit_mask b)" "mask_name (wit_mask b) = ''greenland_icesheet_2km_grid_mask''"
  "mask_type (info (wit_mask b)) = ''grid''" "wf_info (info (wit_mask b))"
  "effective_basins (wit_mask b) None = [7, 3]" "shared_mem_child (wit_mask b) = False"
  "store_in_shared_memory (wit_mask b) = b"
  "grid_shape (num_y (info (wit_mask b))) (num_x (info (wit_mask b))) (mask_grid (wit_mask b))"
  by (simp_all add: wit_mask_simps wf_info_def grid_shape_def effective_basins_def opt_list_def)

lemma wit_point: "point_xy wit_mask_env m lats lons i = (lons ! i, lats ! i)"
  by (simp add: point_xy_def wit_mask_env_def)

lemma coordinate_small: "\<bar>a\<bar> \<le> 100 \<Longrightarrow> coordinate (Fin a)"
proof -
  assume "\<bar>a\<bar> \<le> 100"
  also have "(100::rat) \<le> 2 ^ 800" by simp
  finally show ?thesis by (simp add: coordinate_def)
qed

theorem points_inside_grid_witness:
  "\<exists>inmask. points_inside wit_mask_env (wit_mask False) [Fin 0, Fin 12, Fin 55] [Fin 9, Fin 1, Fin 0] None False =
     Inr (inmask, count_true inmask) \<and> length inmask = 3 \<and> inmask ! 0 \<and> inmask ! 1 \<and> \<not> inmask ! 2"
proof -
  have cells: "cell_value (wit_mask False) (Fin 9) (Inr (Fin 0)) = Inr (Some 3)"
    "cell_value (wit_mask False) (Fin 1) (Inr (Fin 12)) = Inr (Some 7)"
    "cell_value (wit_mask False) (Fin 0) (Inr (Fin 55)) = Inr None"
    by code_simp+
  show ?thesis
    using points_inside_grid [of "wit_mask False" "[Fin 9, Fin 1, Fin 0]" "[Fin 0, Fin 12, Fin 55]" None wit_mask_env]
    by (simp add: wit_point All_less_Suc cells coordinate_small selected_def eval_nat_numeral) blast
qed

theorem grid_mask_values_shared_witness:
  "\<exists>m1 m2 sh1. load_netcdf_mask wit_mask_env ''f'' True ''mask'' (wit_mask True) Map.empty = Inr (m1, sh1) \<and>
     load_netcdf_mask wit_mask_env ''f'' True ''mask'' (wit_mask False) Map.empty = Inr (m2, Map.empty) \<and>
     grid_mask_values wit_mask_env m1 [Fin 12] [Fin 11] False 0 = grid_mask_values wit_mask_env m2 [Fin 12] [Fin 11] False 0"
proof -
  have w: "wit_mask b = (wit_mask False)\<lparr>store_in_shared_memory := b\<rparr>" for b
    by (simp add: wit_mask_simps)
  obtain m1 sh1 where 1: "load_netcdf_mask wit_mask_env ''f'' True ''mask'' (wit_mask True) Map.empty = Inr (m1, sh1)"
    by (simp add: load_netcdf_mask_def wit_mask_simps flipud_def Let_def)
  obtain m2 where 2: "load_netcdf_mask wit_mask_env ''f'' True ''mask'' (wit_mask False) Map.empty = Inr (m2, Map.empty)"
    by (simp add: load_netcdf_mask_def wit_mask_simps)
  show ?thesis
    using grid_mask_values_shared [of wit_mask_env "''f''" True "''mask''" "wit_mask False"] 1 2 w [of True] w [of False]
    by auto
qed

theorem shared_mask_life_cycle_witness:
  "\<exists>parent child sh1. load_netcdf_mask wit_mask_env ''a'' True ''mask'' (wit_mask True) Map.empty = Inr (parent, sh1) \<and>
     load_netcdf_mask wit_mask_env ''b'' False ''other'' (wit_mask True) sh1 = Inr (child, sh1) \<and>
     mask_grid child = mask_grid parent \<and> clean_up child sh1 = Inr sh1 \<and> clean_up parent sh1 = Inr Map.empty"
proof -
  obtain parent sh1 where 1: "load_netcdf_mask wit_mask_env ''a'' True ''mask'' (wit_mask True) Map.empty = Inr (parent, sh1)"
    by (simp add: load_netcdf_mask_def wit_mask_simps flipud_def Let_def)
  have "\<forall>g. me_nc_grid wit_mask_env ''a'' ''mask'' = Inr g \<longrightarrow>
      grid_shape (num_y (info (wit_mask True))) (num_x (info (wit_mask True))) g"
    by (simp add: wit_mask_simps grid_shape_def)
  then show ?thesis
    using shared_mask_life_cycle [OF 1, of wit_mask_env "''b''" False "''other''"] 1 by auto
qed

theorem points_inside_not_finite_witness:
  "points_inside wit_mask_env (wit_mask False) [Fin 0, PInf] [Fin 0, PInf] None False =
     Inl (OverflowError ''cannot convert float infinity to integer'')"
  using points_inside_not_finite [of "wit_mask False" "[Fin 0, PInf]" "[Fin 0, PInf]" 1 wit_mask_env None]
  by (simp add: wit_point coordinate_small)

end
