(* ===== verification/Algs_Input.thy ===== *)
theory Algs_Input
  imports Base_Alg Masks
begin

text \<open>
  The algorithms at the head of the chain, which identify a file and decide whether it is to
  be processed at all: \<^verbatim>\<open>alg_identify_file\<close>, \<^verbatim>\<open>alg_skip_on_mode\<close> and
  \<^verbatim>\<open>alg_skip_on_area_bounds\<close>. Each has its \<^verbatim>\<open>process\<close> body, the class that the framework
  creates, and an interpretation of the contract \<open>chain_algorithm\<close> with the keys it
  contributes to the shared dictionary. \<open>fail\<close> and \<open>pass\<close> are the two ways a body returns.
\<close>

type_synonym alg_out = "((bool \<times> string) \<times> shared) res"

definition fail :: "shared \<Rightarrow> string \<Rightarrow> alg_out" where
  "fail sd msg = Inr ((False, msg), sd)"

definition pass :: "shared \<Rightarrow> alg_out" where
  "pass sd = Inr ((True, []), sd)"

lemma fail_iff [simp]: "fail sd msg = Inr (r, sd') \<longleftrightarrow> r = (False, msg) \<and> sd' = sd"
  by (auto simp: fail_def)

lemma pass_iff [simp]: "pass sd = Inr (r, sd') \<longleftrightarrow> r = (True, []) \<and> sd' = sd"
  by (auto simp: pass_def)

text \<open>A calculus for the frame of a body: \<open>frames ks sd r\<close> says that the outcome \<open>r\<close> of a body started
  on \<open>sd\<close> has written the keys \<open>ks\<close> only. The rules follow the shape of the bodies.\<close>

named_theorems frame_intros \<open>introduction rules for the frame of a body\<close>

definition frames :: "string set \<Rightarrow> shared \<Rightarrow> alg_out \<Rightarrow> bool" where
  "frames ks sd r \<longleftrightarrow> (\<forall>x sd'. r = Inr (x, sd') \<longrightarrow> agree_off ks sd sd')"

lemma framesD: "frames ks sd r \<Longrightarrow> r = Inr (x, sd') \<Longrightarrow> agree_off ks sd sd'"
  by (auto simp: frames_def)

lemma frames_fail [frame_intros]: "agree_off ks sd sd' \<Longrightarrow> frames ks sd (fail sd' m)"
  by (auto simp: frames_def)

lemma frames_pass [frame_intros]: "agree_off ks sd sd' \<Longrightarrow> frames ks sd (pass sd')"
  by (auto simp: frames_def)

lemma frames_Inl [frame_intros]: "frames ks sd (Inl e)"
  by (auto simp: frames_def)

lemma frames_Inr [frame_intros]: "agree_off ks sd sd' \<Longrightarrow> frames ks sd (Inr (r, sd'))"
  by (auto simp: frames_def)

lemma frames_rbind [frame_intros]: "(\<And>x. r = Inr x \<Longrightarrow> frames ks sd (f x)) \<Longrightarrow> frames ks sd (rbind r f)"
  by (auto simp: frames_def rbind_eq_Inr)

lemma frames_if [frame_intros]:
  "(c \<Longrightarrow> frames ks sd a) \<Longrightarrow> (\<not> c \<Longrightarrow> frames ks sd b) \<Longrightarrow> frames ks sd (if c then a else b)"
  by auto

lemma frames_Let [frame_intros]: "frames ks sd (f v) \<Longrightarrow> frames ks sd (Let v f)"
  by simp

lemma frames_sum [frame_intros]:
  "(\<And>e. r = Inl e \<Longrightarrow> frames ks sd (f e)) \<Longrightarrow> (\<And>x. r = Inr x \<Longrightarrow> frames ks sd (g x)) \<Longrightarrow>
     frames ks sd (case r of Inl e \<Rightarrow> f e | Inr x \<Rightarrow> g x)"
  by (auto split: sum.splits)

lemma frames_option [frame_intros]:
  "(r = None \<Longrightarrow> frames ks sd f) \<Longrightarrow> (\<And>x. r = Some x \<Longrightarrow> frames ks sd (g x)) \<Longrightarrow>
     frames ks sd (case r of None \<Rightarrow> f | Some x \<Rightarrow> g x)"
  by (auto split: option.splits)

lemma frames_prod [frame_intros]:
  "(\<And>a b. r = (a, b) \<Longrightarrow> frames ks sd (f a b)) \<Longrightarrow> frames ks sd (case r of (a, b) \<Rightarrow> f a b)"
  by (auto split: prod.splits)

lemma frames_list [frame_intros]:
  "(r = [] \<Longrightarrow> frames ks sd f) \<Longrightarrow> (\<And>x xs. r = x # xs \<Longrightarrow> frames ks sd (g x xs)) \<Longrightarrow>
     frames ks sd (case r of [] \<Rightarrow> f | x # xs \<Rightarrow> g x xs)"
  by (auto split: list.splits)

section \<open>alg_identify_file\<close>

text \<open>The instrument mode named by the attribute \<^verbatim>\<open>sir_op_mode\<close>.\<close>

definition instr_mode_of :: "string \<Rightarrow> string option" where
  "instr_mode_of op_mode =
     (if py_in ''LRM'' op_mode then Some ''LRM''
      else if py_in ''SARIN'' op_mode then Some ''SIN''
      else if py_in ''SAR'' op_mode then Some ''SAR''
      else None)"

definition identify_file :: "dataset \<Rightarrow> shared \<Rightarrow> alg_out" where
  "identify_file l1b sd =
     (case ds_getitem l1b ''lat_20_ku'' of
        Inl e \<Rightarrow> if is_key_error e then fail sd ''lat_20_ku could not be read'' else Inl e
      | Inr v \<Rightarrow>
          (let sd1 = dset sd ''num_20hz_records'' (SInt (int (arr_size v))) in
           case nc_attr l1b ''sir_op_mode'' of
             Inl e \<Rightarrow> fail sd1 ''Missing attribute .sir_op_mode in L1b file''
           | Inr a \<Rightarrow>
               rbind (as_string a) (\<lambda>m.
                 case instr_mode_of m of
                   Some mode \<Rightarrow> pass (dset sd1 ''instr_mode'' (SStr mode))
                 | None \<Rightarrow> fail sd1 (''Invalid mode attribute .sir_op_mode in L1b file '' @ m))))"

definition alg_identify_file :: alg_class where
  "alg_identify_file = \<lparr>cls_name = ''clev2er.algorithms.cryotempo.alg_identify_file'',
     cls_init = (\<lambda>cfg. Inr ((True, []), \<lparr>impl_body = identify_file, impl_finalize = base_finalize\<rparr>))\<rparr>"

section \<open>alg_skip_on_mode\<close>

definition skip_on_mode :: "config \<Rightarrow> dataset \<Rightarrow> shared \<Rightarrow> alg_out" where
  "skip_on_mode cfg l1b sd =
     (case dget sd ''instr_mode'' of
        Inl e \<Rightarrow> fail sd ''instr_mode not in shared_dict''
      | Inr mode \<Rightarrow>
          if mode = SStr ''SAR'' then fail sd ''SKIP_OK: SAR mode file not required''
          else if opt_flag cfg ''lrm_only'' \<and> mode \<noteq> SStr ''LRM'' then
            fail sd ''SKIP_OK: config:lrm_only specified''
          else if opt_flag cfg ''sin_only'' \<and> mode \<noteq> SStr ''SIN'' then
            fail sd ''SKIP_OK: config:sin_only specified''
          else pass sd)"

definition alg_skip_on_mode :: alg_class where
  "alg_skip_on_mode = \<lparr>cls_name = ''clev2er.algorithms.cryotempo.alg_skip_on_mode'',
     cls_init = (\<lambda>cfg. Inr ((True, []), \<lparr>impl_body = skip_on_mode cfg, impl_finalize = base_finalize\<rparr>))\<rparr>"

section \<open>alg_skip_on_area_bounds\<close>

definition million :: fl where
  "million = Fin 1000000"

text \<open>\<^verbatim>\<open>l1b.first_record_lat / 1e6\<close> and the same of the last record.\<close>

definition record_lats :: "dataset \<Rightarrow> (fl \<times> fl) res" where
  "record_lats l1b =
     rbind (rbind (nc_attr l1b ''first_record_lat'') attr_number) (\<lambda>a.
     rbind (rbind (nc_attr l1b ''last_record_lat'') attr_number) (\<lambda>b.
       Inr (fl_div a million, fl_div b million)))"

text \<open>The hemisphere flags \<open>(southern, northern)\<close> set by the loop over the latitudes, which stops
  at the first one beyond 55 degrees.\<close>

fun hemisphere_loop :: "fl list \<Rightarrow> bool \<times> bool" where
  "hemisphere_loop [] = (False, False)"
| "hemisphere_loop (lat # lats) =
     (if fl_lt lat (Fin (- 55)) then (True, False)
      else if fl_lt (Fin 55) lat then (False, True)
      else hemisphere_loop lats)"

definition outside_msg :: "fl \<Rightarrow> fl \<Rightarrow> string" where
  "outside_msg a b = ''SKIP_OK, file outside cryosphere, ['' @ fmt_2f a @ ''N -> '' @ fmt_2f b @ ''N]''"

definition mod360 :: "fl list \<Rightarrow> fl list" where
  "mod360 lons = map (\<lambda>x. fl_mod x 360) lons"

definition set_hemisphere :: "bool \<times> bool \<Rightarrow> shared \<Rightarrow> shared" where
  "set_hemisphere flags sd =
     (if fst flags then dset sd ''hemisphere'' (SStr ''south'')
      else if snd flags then dset sd ''hemisphere'' (SStr ''north'') else sd)"

text \<open>The end of \<^verbatim>\<open>process\<close>: files of the north must touch the rectangular Greenland mask, and
  \<^verbatim>\<open>grn_only\<close> refuses the south. \<open>grn\<close> is the mask, \<open>None\<close> when its creation failed.\<close>

definition greenland_check :: "mask_env \<Rightarrow> mask option \<Rightarrow> config \<Rightarrow> bool \<times> bool \<Rightarrow> fl list \<Rightarrow> fl list \<Rightarrow>
    shared \<Rightarrow> alg_out" where
  "greenland_check env grn cfg flags lats lons sd =
     rbind (if snd flags then
              (case grn of
                 None \<Rightarrow> Inl (AttributeError ''greenland_mask'')
               | Some m \<Rightarrow> rbind (points_inside env m lats lons None False) (\<lambda>(inmask, n_inside). Inr (n_inside = 0)))
            else Inr False) (\<lambda>outside.
       if outside then fail sd ''SKIP_OK, No locations within Greenland rectangular mask ''
       else if opt_flag cfg ''grn_only'' \<and> fst flags then fail sd ''SKIP_OK, grn_only specificed ''
       else pass sd)"

text \<open>The part of \<^verbatim>\<open>process\<close> after the test of the first and last latitude.\<close>

definition area_bounds_rest :: "mask_env \<Rightarrow> mask option \<Rightarrow> config \<Rightarrow> dataset \<Rightarrow> shared \<Rightarrow> alg_out" where
  "area_bounds_rest env grn cfg l1b sd =
     rbind (getitem_floats l1b ''lat_20_ku'') (\<lambda>lat_20_ku.
     rbind (getitem_floats l1b ''lon_20_ku'') (\<lambda>lon.
       let lon_20_ku = mod360 lon;
           flags = hemisphere_loop lat_20_ku;
           sd1 = set_hemisphere flags sd
       in if snd flags \<and> fst flags then fail sd1 ''File is in both northern and southern polar areas''
          else if \<not> dhas sd1 ''hemisphere'' then fail sd1 ''hemisphere of file could not be determined''
          else greenland_check env grn cfg flags lat_20_ku lon_20_ku
                 (dset (dset sd1 ''lats_nadir'' (SF lat_20_ku)) ''lons_nadir'' (SF lon_20_ku))))"

definition skip_on_area_bounds :: "mask_env \<Rightarrow> mask option \<Rightarrow> config \<Rightarrow> dataset \<Rightarrow> shared \<Rightarrow> alg_out" where
  "skip_on_area_bounds env grn cfg l1b sd =
     (case record_lats l1b of
        Inl e \<Rightarrow> if is_attribute_error e then fail sd ''Missing attribute .sir_op_mode in L1b file'' else Inl e
      | Inr (first_lat, last_lat) \<Rightarrow>
          (case dget sd ''instr_mode'' of
             Inl e \<Rightarrow> fail sd ''instr_mode missing from shared dict''
           | Inr mode \<Rightarrow>
               if mode = SStr ''LRM'' \<and> fl_lt first_lat (Fin 62) \<and> fl_lt (Fin (- 69)) first_lat then
                 fail sd (outside_msg first_lat last_lat)
               else if mode = SStr ''SIN'' \<and> fl_lt first_lat (Fin 58) \<and> fl_lt (Fin (- 59)) first_lat then
                 fail sd (outside_msg first_lat last_lat)
               else area_bounds_rest env grn cfg l1b sd))"

text \<open>\<^verbatim>\<open>init\<close>: a \<^verbatim>\<open>ValueError\<close>, \<^verbatim>\<open>FileNotFoundError\<close> or \<^verbatim>\<open>KeyError\<close> is logged only.\<close>

definition init_skip_on_area_bounds :: "mask_env \<Rightarrow> shm \<Rightarrow> (mask option) res" where
  "init_skip_on_area_bounds env sh =
     (case mask_new env ''greenland_area_xylimits_mask'' None None False sh of
        Inl e \<Rightarrow> if is_value_error e \<or> is_file_not_found e \<or> is_key_error e then Inr None else Inl e
      | Inr (m, sh') \<Rightarrow> Inr (Some m))"

definition alg_skip_on_area_bounds :: "mask_env \<Rightarrow> shm \<Rightarrow> alg_class" where
  "alg_skip_on_area_bounds env sh = \<lparr>cls_name = ''clev2er.algorithms.cryotempo.alg_skip_on_area_bounds'',
     cls_init = (\<lambda>cfg. rbind (init_skip_on_area_bounds env sh) (\<lambda>grn.
       Inr ((True, []), \<lparr>impl_body = skip_on_area_bounds env grn cfg, impl_finalize = base_finalize\<rparr>)))\<rparr>"

section \<open>The contract\<close>

interpretation identify_file: chain_algorithm identify_file "{''num_20hz_records'', ''instr_mode''}"
  by unfold_locales
    (auto simp: identify_file_def rbind_eq_Inr Let_def intro!: agree_off_dset split: sum.splits option.splits if_splits)

interpretation skip_on_mode: chain_algorithm "skip_on_mode cfg" "{}"
  by unfold_locales (auto simp: skip_on_mode_def split: sum.splits if_splits)

lemma greenland_check_keeps: "greenland_check env grn cfg flags lats lons sd = Inr (r, sd') \<Longrightarrow> sd' = sd"
  by (auto simp: greenland_check_def rbind_eq_Inr split: if_splits)

lemma set_hemisphere_frame: "agree_off {''hemisphere'', ''lats_nadir'', ''lons_nadir''} sd (set_hemisphere flags sd)"
  by (auto simp: set_hemisphere_def intro: agree_off_dset)

lemma area_bounds_rest_frame:
  "area_bounds_rest env grn cfg l1b sd = Inr (r, sd') \<Longrightarrow>
     agree_off {''hemisphere'', ''lats_nadir'', ''lons_nadir''} sd sd'"
  by (auto simp: area_bounds_rest_def rbind_eq_Inr Let_def dest!: greenland_check_keeps split: if_splits
      intro!: agree_off_dset set_hemisphere_frame)

interpretation skip_on_area_bounds: chain_algorithm "skip_on_area_bounds env grn cfg"
  "{''hemisphere'', ''lats_nadir'', ''lons_nadir''}"
  by unfold_locales
    (auto simp: skip_on_area_bounds_def dest: area_bounds_rest_frame split: sum.splits if_splits prod.splits)

section \<open>Behaviour\<close>

lemma identify_file_success:
  assumes "identify_file l1b sd = Inr ((True, m), sd')"
  shows "\<exists>v a mode. ds_getitem l1b ''lat_20_ku'' = Inr v \<and> ds_attr l1b ''sir_op_mode'' = Some (SStr a) \<and>
    instr_mode_of a = Some mode \<and>
    sd' = dset (dset sd ''num_20hz_records'' (SInt (int (arr_size v)))) ''instr_mode'' (SStr mode)"
  using assms
  by (auto simp: identify_file_def nc_attr_def rbind_eq_Inr Let_def split: sum.splits option.splits if_splits)

lemma instr_mode_of_cases: "instr_mode_of m = Some mode \<Longrightarrow> mode \<in> {''LRM'', ''SIN'', ''SAR''}"
  by (auto simp: instr_mode_of_def split: if_splits)

lemma skip_on_mode_success:
  "skip_on_mode cfg l1b sd = Inr ((True, m), sd') \<longleftrightarrow> sd' = sd \<and> m = [] \<and>
     (\<exists>mode. dget sd ''instr_mode'' = Inr mode \<and> mode \<noteq> SStr ''SAR'' \<and>
       (opt_flag cfg ''lrm_only'' \<longrightarrow> mode = SStr ''LRM'') \<and> (opt_flag cfg ''sin_only'' \<longrightarrow> mode = SStr ''SIN''))"
  by (auto simp: skip_on_mode_def split: sum.splits if_splits)

lemma hemisphere_loop_not_both: "\<not> (fst (hemisphere_loop lats) \<and> snd (hemisphere_loop lats))"
  by (induction lats) auto

lemma area_bounds_success:
  assumes "skip_on_area_bounds env grn cfg l1b sd = Inr ((True, m), sd')" and "\<not> dhas sd ''hemisphere''"
  shows "\<exists>lats lons hem. getitem_floats l1b ''lat_20_ku'' = Inr lats \<and> getitem_floats l1b ''lon_20_ku'' = Inr lons \<and>
    hem \<in> {''south'', ''north''} \<and> dget sd' ''hemisphere'' = Inr (SStr hem) \<and>
    (opt_flag cfg ''grn_only'' \<longrightarrow> hem = ''north'') \<and>
    dget sd' ''lats_nadir'' = Inr (SF lats) \<and> dget sd' ''lons_nadir'' = Inr (SF (mod360 lons))"
proof -
  have "area_bounds_rest env grn cfg l1b sd = Inr ((True, m), sd')"
    using assms(1) by (auto simp: skip_on_area_bounds_def split: sum.splits if_splits prod.splits)
  then obtain lats lons where ll: "getitem_floats l1b ''lat_20_ku'' = Inr lats" "getitem_floats l1b ''lon_20_ku'' = Inr lons"
    and has: "dhas (set_hemisphere (hemisphere_loop lats) sd) ''hemisphere''"
    and chk: "greenland_check env grn cfg (hemisphere_loop lats) lats (mod360 lons)
      (dset (dset (set_hemisphere (hemisphere_loop lats) sd) ''lats_nadir'' (SF lats)) ''lons_nadir'' (SF (mod360 lons)))
      = Inr ((True, m), sd')"
    by (auto simp: area_bounds_rest_def rbind_eq_Inr Let_def split: if_splits)
  have sd': "sd' = dset (dset (set_hemisphere (hemisphere_loop lats) sd) ''lats_nadir'' (SF lats)) ''lons_nadir'' (SF (mod360 lons))"
    using greenland_check_keeps [OF chk] .
  have grn: "opt_flag cfg ''grn_only'' \<longrightarrow> \<not> fst (hemisphere_loop lats)"
    using chk by (auto simp: greenland_check_def rbind_eq_Inr split: if_splits)
  let ?hem = "if fst (hemisphere_loop lats) then ''south'' else ''north''"
  have "dget sd' ''hemisphere'' = Inr (SStr ?hem)"
    using has assms(2) by (auto simp: sd' set_hemisphere_def split: if_splits)
  then show ?thesis using ll grn sd' by (intro exI [of _ lats] exI [of _ lons] exI [of _ ?hem]) auto
qed

lemma mod360_range: "x \<in> set (mod360 lons) \<Longrightarrow> x = NaN \<or> (\<exists>v. x = Fin v \<and> 0 \<le> v \<and> v \<le> 360)"
proof -
  assume "x \<in> set (mod360 lons)"
  then obtain y where "x = fl_mod y 360" by (auto simp: mod360_def)
  then show ?thesis using fl_mod_range [of 360] by (cases y) (auto simp del: fl_mod.simps(1))
qed

section \<open>Properties\<close>

text \<open>C10: The head of the chain is a gate. When the bodies of \<^verbatim>\<open>alg_identify_file\<close>,
  \<^verbatim>\<open>alg_skip_on_mode\<close> and \<^verbatim>\<open>alg_skip_on_area_bounds\<close>, run one after the other as in the chain
  on a fresh shared dictionary, all succeed, then the file is in LRM or SIN mode and in the
  one mode the configuration asks for, if any; the hemisphere is set, and is the north with
  \<^verbatim>\<open>grn_only\<close>; and the nadir latitudes are the file's, the nadir longitudes the file's
  modulo 360, each NaN or between 0 and 360.\<close>

theorem input_gate:
  assumes 1: "identify_file l1b [(''l1b_file_name'', SStr f)] = Inr ((True, m1), sd1)"
    and 2: "skip_on_mode cfg l1b sd1 = Inr ((True, m2), sd2)"
    and 3: "skip_on_area_bounds env grn cfg l1b sd2 = Inr ((True, m3), sd3)"
  shows "\<exists>mode hem lats lons. dget sd3 ''instr_mode'' = Inr (SStr mode) \<and> mode \<in> {''LRM'', ''SIN''} \<and>
    (opt_flag cfg ''lrm_only'' \<longrightarrow> mode = ''LRM'') \<and> (opt_flag cfg ''sin_only'' \<longrightarrow> mode = ''SIN'') \<and>
    dget sd3 ''hemisphere'' = Inr (SStr hem) \<and> hem \<in> {''north'', ''south''} \<and>
    (opt_flag cfg ''grn_only'' \<longrightarrow> hem = ''north'') \<and>
    getitem_floats l1b ''lat_20_ku'' = Inr lats \<and> dget sd3 ''lats_nadir'' = Inr (SF lats) \<and>
    dget sd3 ''lons_nadir'' = Inr (SF lons) \<and>
    (\<forall>x\<in>set lons. x = NaN \<or> (\<exists>v. x = Fin v \<and> 0 \<le> v \<and> v \<le> 360)) \<and>
    dget sd3 ''l1b_file_name'' = Inr (SStr f)"
proof -
  obtain v a mode where I: "instr_mode_of a = Some mode"
    "sd1 = dset (dset [(''l1b_file_name'', SStr f)] ''num_20hz_records'' (SInt (int (arr_size v)))) ''instr_mode'' (SStr mode)"
    using identify_file_success [OF 1] by blast
  have S: "sd2 = sd1" "mode \<noteq> ''SAR''" "opt_flag cfg ''lrm_only'' \<longrightarrow> mode = ''LRM''"
    "opt_flag cfg ''sin_only'' \<longrightarrow> mode = ''SIN''"
    using 2 I(2) by (auto simp: skip_on_mode_success)
  have "\<not> dhas sd2 ''hemisphere''" using S(1) I(2) by (simp add: dhas_def)
  note A = area_bounds_success [OF 3 this]
  have "dget sd3 ''instr_mode'' = Inr (SStr mode)" "dget sd3 ''l1b_file_name'' = Inr (SStr f)"
    using skip_on_area_bounds.keeps [OF 3] S(1) I(2) by simp_all
  moreover have "mode \<in> {''LRM'', ''SIN''}" using instr_mode_of_cases [OF I(1)] S(2) by auto
  moreover have "\<forall>x\<in>set (mod360 lons). x = NaN \<or> (\<exists>v. x = Fin v \<and> 0 \<le> v \<and> v \<le> 360)" for lons
    using mod360_range by blast
  ultimately show ?thesis using A S(3,4) by blast
qed

text \<open>A file over no polar area is always refused, never processed further: if no nadir
  latitude is beyond 55 degrees north or south, \<^verbatim>\<open>alg_skip_on_area_bounds\<close> fails on a
  dictionary in which no hemisphere is set.\<close>

theorem area_bounds_refuses:
  assumes "getitem_floats l1b ''lat_20_ku'' = Inr lats"
    and "\<forall>x\<in>set lats. \<not> fl_lt x (Fin (- 55)) \<and> \<not> fl_lt (Fin 55) x" and "\<not> dhas sd ''hemisphere''"
  shows "skip_on_area_bounds env grn cfg l1b sd \<noteq> Inr ((True, m), sd')"
proof
  assume "skip_on_area_bounds env grn cfg l1b sd = Inr ((True, m), sd')"
  then have rest: "area_bounds_rest env grn cfg l1b sd = Inr ((True, m), sd')"
    by (auto simp: skip_on_area_bounds_def split: sum.splits if_splits prod.splits)
  have "hemisphere_loop lats = (False, False)" using assms(2) by (induction lats) auto
  with rest assms show False by (simp add: area_bounds_rest_def rbind_eq_Inr Let_def set_hemisphere_def fail_def)
qed

section \<open>Concrete runs\<close>

definition wit_l1b :: "string \<Rightarrow> fl list \<Rightarrow> fl list \<Rightarrow> dataset" where
  "wit_l1b mode lats lons = \<lparr>ds_isinstance = True,
     ds_getitem = (\<lambda>k. if k = ''lat_20_ku'' then Inr (SF lats) else if k = ''lon_20_ku'' then Inr (SF lons)
       else Inl (IndexError k)),
     ds_variables = (\<lambda>k. None),
     ds_attr = (\<lambda>k. if k = ''sir_op_mode'' then Some (SStr mode)
       else if k = ''first_record_lat'' then Some (SInt (- 75000000))
       else if k = ''last_record_lat'' then Some (SInt (- 80000000)) else None)\<rparr>"

definition wit_env0 :: mask_env where
  "wit_env0 = \<lparr>me_environ = (\<lambda>v. None), me_isfile = (\<lambda>f. False), me_nc_grid = (\<lambda>f v. Inl (OSError f)),
     me_project = (\<lambda>e lon lat. (lon, lat))\<rparr>"

theorem input_gate_witness:
  "\<exists>sd3. dget sd3 ''instr_mode'' = Inr (SStr ''SIN'') \<and> dget sd3 ''hemisphere'' = Inr (SStr ''south'') \<and>
     dget sd3 ''lats_nadir'' = Inr (SF [Fin (- 75), Fin (- 80)])"
proof -
  let ?l1b = "wit_l1b ''SIR_SARIN_L1B'' [Fin (- 75), Fin (- 80)] [Fin (- 10), Fin 20]"
  let ?sd = "dset (dset [(''l1b_file_name'', SStr ''f'')] ''num_20hz_records'' (SInt 2)) ''instr_mode'' (SStr ''SIN'')"
  have 1: "identify_file ?l1b [(''l1b_file_name'', SStr ''f'')] = Inr ((True, []), ?sd)"
    by (simp add: identify_file_def wit_l1b_def nc_attr_def instr_mode_of_def pass_def)
  have 2: "skip_on_mode [] ?l1b ?sd = Inr ((True, []), ?sd)"
    by (simp add: skip_on_mode_def opt_flag_def pass_def)
  have lat: "record_lats ?l1b = Inr (Fin (- 75), Fin (- 80))" by code_simp
  have nc: "getitem_floats ?l1b ''lat_20_ku'' = Inr [Fin (- 75), Fin (- 80)]"
    "getitem_floats ?l1b ''lon_20_ku'' = Inr [Fin (- 10), Fin 20]"
    by (simp_all add: getitem_floats_def wit_l1b_def)
  have loop: "hemisphere_loop [Fin (- 75), Fin (- 80)] = (True, False)" by simp
  define sd3 where "sd3 = dset (dset (dset ?sd ''hemisphere'' (SStr ''south'')) ''lats_nadir'' (SF [Fin (- 75), Fin (- 80)]))
      ''lons_nadir'' (SF (mod360 [Fin (- 10), Fin 20]))"
  have 3: "skip_on_area_bounds wit_env0 None [] ?l1b ?sd = Inr ((True, []), sd3)"
    unfolding skip_on_area_bounds_def area_bounds_rest_def lat nc rbind_Inr Let_def loop
    by (simp add: greenland_check_def set_hemisphere_def opt_flag_def pass_def dhas_def sd3_def)
  show ?thesis using input_gate [OF 1 2 3] by (intro exI [of _ sd3]) (simp add: sd3_def)
qed

theorem area_bounds_refuses_witness:
  "skip_on_area_bounds wit_env0 None [] (wit_l1b ''LRM'' [Fin 10, Fin 20] [Fin 1, Fin 1]) [] \<noteq> Inr ((True, []), [])"
  by (rule area_bounds_refuses [of _ "[Fin 10, Fin 20]"])
    (simp_all add: getitem_floats_def wit_l1b_def dhas_def)

end
