(* ===== verification/Algs_Masks.thy ===== *)
theory Algs_Masks
  imports Algs_Input
begin

text \<open>
  The algorithms that classify the nadir or echo points of a file with area masks:
  \<^verbatim>\<open>alg_surface_type\<close>, \<^verbatim>\<open>alg_dilated_coastal_mask\<close> and \<^verbatim>\<open>alg_basin_ids\<close>. Their \<^verbatim>\<open>init\<close> creates
  masks, which may create or attach to shared memory; their \<^verbatim>\<open>finalize\<close> cleans the masks up.
  The state of the shared-memory segments is passed explicitly.
\<close>

section \<open>Shared parts\<close>

text \<open>The path of a mask in the configuration; a missing key is logged and raised again.\<close>

definition config_mask :: "mask_env \<Rightarrow> config \<Rightarrow> string \<Rightarrow> string \<Rightarrow> shm \<Rightarrow> (mask \<times> shm) res" where
  "config_mask env cfg sect name sh =
     rbind (cget2 cfg sect name) (\<lambda>v. rbind (cpath v) (\<lambda>p.
       mask_new env name None p (dhas cfg ''_init_shared_mem'') sh))"

text \<open>A mask that is not created when only Greenland is processed.\<close>

definition unless_grn_only :: "config \<Rightarrow> (mask \<times> shm) res \<Rightarrow> shm \<Rightarrow> (mask option \<times> shm) res" where
  "unless_grn_only cfg r sh =
     (if opt_flag cfg ''grn_only'' then Inr (None, sh) else rbind r (\<lambda>(m, sh'). Inr (Some m, sh')))"

definition clean_up_opt :: "mask option \<Rightarrow> shm \<Rightarrow> shm res" where
  "clean_up_opt mo sh = (case mo of None \<Rightarrow> Inr sh | Some m \<Rightarrow> clean_up m sh)"

definition sget_floats :: "shared \<Rightarrow> string \<Rightarrow> fl list res" where
  "sget_floats sd k = rbind (dget sd k) as_floats"

definition sget_int :: "shared \<Rightarrow> string \<Rightarrow> int res" where
  "sget_int sd k = rbind (dget sd k) as_int"

section \<open>alg_surface_type\<close>

record surface_masks =
  antarctic_surface_mask :: "mask option"
  greenland_surface_mask :: mask

definition init_surface_type :: "mask_env \<Rightarrow> config \<Rightarrow> shm \<Rightarrow> (surface_masks \<times> shm) res" where
  "init_surface_type env cfg sh =
     rbind (unless_grn_only cfg (config_mask env cfg ''surface_type_masks'' ''antarctica_bedmachine_v2_grid_mask'' sh) sh)
       (\<lambda>(ant, sh1).
     rbind (config_mask env cfg ''surface_type_masks'' ''greenland_bedmachine_v3_grid_mask'' sh1) (\<lambda>(grn, sh2).
       Inr (\<lparr>antarctic_surface_mask = ant, greenland_surface_mask = grn\<rparr>, sh2)))"

text \<open>The values of the mask mapped to those of Cryo-TEMPO, by assignment through the indices found
  before any assignment; in the south the value 4 is then replaced too.\<close>

definition map_surface_types :: "bool \<Rightarrow> 8 word list \<Rightarrow> 8 word list" where
  "map_surface_types south vals =
     (let icefree = np_where (\<lambda>v. v = 1) vals;
          grounded = np_where (\<lambda>v. v = 2) vals;
          floating = np_where (\<lambda>v. v = 3) vals;
          v1 = np_put vals icefree 3;
          v2 = np_put v1 grounded 1;
          v3 = np_put v2 floating 2
      in if south then np_put v3 (np_where (\<lambda>v. v = 4) v3) 1 else v3)"

definition surface_type :: "mask_env \<Rightarrow> surface_masks \<Rightarrow> dataset \<Rightarrow> shared \<Rightarrow> alg_out" where
  "surface_type env masks l1b sd =
     (case dget sd ''hemisphere'' of
        Inl e \<Rightarrow> fail sd ''hemisphere not set in shared_dict''
      | Inr hem \<Rightarrow>
          (let south = (hem = SStr ''south'');
               surface_mask = (if south then antarctic_surface_mask masks else Some (greenland_surface_mask masks))
           in rbind (case surface_mask of
                       None \<Rightarrow> Inr []
                     | Some m \<Rightarrow> rbind (sget_floats sd ''lats_nadir'') (\<lambda>lats. rbind (sget_floats sd ''lons_nadir'') (\<lambda>lons.
                         grid_mask_values env m lats lons False 0)))
                (\<lambda>vals.
             let types = map_surface_types south vals in
             if np_where (\<lambda>v. v = 2) vals = [] \<and> np_where (\<lambda>v. v = 3) vals = [] \<and> np_where (\<lambda>v. v = 1) vals = [] then
               rbind (rbind (dget sd ''l1b_file_name'') as_string) (\<lambda>f.
                 fail sd (''SKIP_OK, No grounded or floating ice or icefree_land in file '' @ f))
             else
               let sd1 = dset sd ''cryotempo_surface_type'' (SU8 types);
                   sd2 = dset sd1 ''ocean_locations'' (SI (np_where (\<lambda>v. v = 0) types));
                   sd3 = dset sd2 ''grounded_ice_locations'' (SI (np_where (\<lambda>v. v = 1) types));
                   sd4 = dset sd3 ''floating_ice_locations'' (SI (np_where (\<lambda>v. v = 2) types));
                   sd5 = dset sd4 ''icefree_land_locations'' (SI (np_where (\<lambda>v. v = 3) types));
                   sd6 = dset sd5 ''non_grn_land_locations'' (SI (np_where (\<lambda>v. v = 4) types))
               in rbind (sget_int sd6 ''num_20hz_records'') (\<lambda>total_records.
                    if total_records = 0 then Inl (ZeroDivisionError ''float division by zero'') else pass sd6))))"

text \<open>\<^verbatim>\<open>finalize\<close>: an \<^verbatim>\<open>AttributeError\<close> is only logged.\<close>

definition finalize_surface_type :: "surface_masks \<Rightarrow> shm \<Rightarrow> shm res" where
  "finalize_surface_type masks sh =
     (case clean_up (greenland_surface_mask masks) sh of
        Inl e \<Rightarrow> if is_attribute_error e then Inr sh else Inl e
      | Inr sh1 \<Rightarrow>
          (case clean_up_opt (antarctic_surface_mask masks) sh1 of
             Inl e \<Rightarrow> if is_attribute_error e then Inr sh1 else Inl e
           | Inr sh2 \<Rightarrow> Inr sh2))"

definition alg_surface_type :: "mask_env \<Rightarrow> shm \<Rightarrow> alg_class" where
  "alg_surface_type env sh = \<lparr>cls_name = ''clev2er.algorithms.cryotempo.alg_surface_type'',
     cls_init = (\<lambda>cfg. rbind (init_surface_type env cfg sh) (\<lambda>(masks, sh1).
       Inr ((True, []), \<lparr>impl_body = surface_type env masks,
         impl_finalize = (\<lambda>stage. map_sum id (\<lambda>_. ()) (finalize_surface_type masks sh1))\<rparr>)))\<rparr>"

section \<open>alg_dilated_coastal_mask\<close>

record dilated_masks =
  greenland_dilated_mask :: mask
  antarctic_dilated_mask :: "mask option"

definition init_dilated_coastal_mask :: "mask_env \<Rightarrow> config \<Rightarrow> shm \<Rightarrow> (dilated_masks \<times> shm) res" where
  "init_dilated_coastal_mask env cfg sh =
     rbind (config_mask env cfg ''surface_type_masks'' ''greenland_iceandland_dilated_10km_grid_mask'' sh) (\<lambda>(grn, sh1).
     rbind (cget2 cfg ''surface_type_masks'' ''antarctica_iceandland_dilated_10km_grid_mask'') (\<lambda>v.
     rbind (unless_grn_only cfg
         (config_mask env cfg ''surface_type_masks'' ''antarctica_iceandland_dilated_10km_grid_mask'' sh1) sh1) (\<lambda>(ant, sh2).
       Inr (\<lparr>greenland_dilated_mask = grn, antarctic_dilated_mask = ant\<rparr>, sh2))))"

definition dilated_coastal_mask :: "mask_env \<Rightarrow> dilated_masks \<Rightarrow> dataset \<Rightarrow> shared \<Rightarrow> alg_out" where
  "dilated_coastal_mask env masks l1b sd =
     (case dget sd ''hemisphere'' of
        Inl e \<Rightarrow> fail sd ''hemisphere not set in shared_dict''
      | Inr hem \<Rightarrow>
          (let inside = (\<lambda>m. rbind (sget_floats sd ''lats_nadir'') (\<lambda>lats. rbind (sget_floats sd ''lons_nadir'') (\<lambda>lons.
                  rbind (points_inside env m lats lons None False) (\<lambda>(inmask, n). Inr (Some inmask, n)))))
           in rbind (if hem = SStr ''south'' then
                       (case antarctic_dilated_mask masks of None \<Rightarrow> Inr (None, 0) | Some m \<Rightarrow> inside m)
                     else inside (greenland_dilated_mask masks)) (\<lambda>(required_surface_mask, n_inside).
                if n_inside = 0 then fail sd ''SKIP_OK, no locations inside dilated mask''
                else rbind (sget_int sd ''num_20hz_records'') (\<lambda>num_records.
                  if num_records = 0 then Inl (ZeroDivisionError ''float division by zero'')
                  else pass (dset sd ''dilated_surface_mask''
                    (case required_surface_mask of None \<Rightarrow> SNone | Some bs \<Rightarrow> SB bs))))))"

definition finalize_dilated_coastal_mask :: "dilated_masks \<Rightarrow> shm \<Rightarrow> shm res" where
  "finalize_dilated_coastal_mask masks sh =
     rbind (clean_up (greenland_dilated_mask masks) sh) (\<lambda>sh1. clean_up_opt (antarctic_dilated_mask masks) sh1)"

definition alg_dilated_coastal_mask :: "mask_env \<Rightarrow> shm \<Rightarrow> alg_class" where
  "alg_dilated_coastal_mask env sh = \<lparr>cls_name = ''clev2er.algorithms.cryotempo.alg_dilated_coastal_mask'',
     cls_init = (\<lambda>cfg. rbind (init_dilated_coastal_mask env cfg sh) (\<lambda>(masks, sh1).
       Inr ((True, []), \<lparr>impl_body = dilated_coastal_mask env masks,
         impl_finalize = (\<lambda>stage. map_sum id (\<lambda>_. ()) (finalize_dilated_coastal_mask masks sh1))\<rparr>)))\<rparr>"

section \<open>alg_basin_ids\<close>

record basin_masks =
  zwally_basin_mask_ant :: "mask option"
  mouginot_basin_mask_grn :: mask
  rignot_basin_mask_ant :: "mask option"
  rignot_basin_mask_grn :: mask

definition required_masks :: "string list" where
  "required_masks = [''antarctic_grounded_and_floating_2km_grid_mask'',
     ''greenland_icesheet_2km_grid_mask_mouginot2019'', ''antarctic_icesheet_2km_grid_mask_rignot2016'',
     ''greenland_icesheet_2km_grid_mask_rignot2016'']"

text \<open>A key error of the lookup is raised again with another message.\<close>

definition basin_mask_path :: "config \<Rightarrow> string \<Rightarrow> cval res" where
  "basin_mask_path cfg name = (case cget2 cfg ''basin_masks'' name of
     Inl e \<Rightarrow> if is_key_error e then Inl (KeyError (''surface_type_masks:'' @ name @ '' not in config file'')) else Inl e
   | Inr v \<Rightarrow> Inr v)"

definition init_basin_ids :: "mask_env \<Rightarrow> config \<Rightarrow> shm \<Rightarrow> (basin_masks \<times> shm) res" where
  "init_basin_ids env cfg sh =
     rbind (rmapM (basin_mask_path cfg) required_masks) (\<lambda>paths.
     rbind (unless_grn_only cfg (config_mask env cfg ''basin_masks'' ''antarctic_grounded_and_floating_2km_grid_mask'' sh) sh)
       (\<lambda>(zwally, sh1).
     rbind (config_mask env cfg ''basin_masks'' ''greenland_icesheet_2km_grid_mask_mouginot2019'' sh1) (\<lambda>(mouginot, sh2).
     rbind (unless_grn_only cfg (config_mask env cfg ''basin_masks'' ''antarctic_icesheet_2km_grid_mask_rignot2016'' sh2) sh2)
       (\<lambda>(rignot_ant, sh3).
     rbind (config_mask env cfg ''basin_masks'' ''greenland_icesheet_2km_grid_mask_rignot2016'' sh3) (\<lambda>(rignot_grn, sh4).
       Inr (\<lparr>zwally_basin_mask_ant = zwally, mouginot_basin_mask_grn = mouginot,
             rignot_basin_mask_ant = rignot_ant, rignot_basin_mask_grn = rignot_grn\<rparr>, sh4))))))"

text \<open>The two renumbering loops over \<^verbatim>\<open>uint8\<close> values.\<close>

definition renumber_rignot_ant :: "8 word \<Rightarrow> 8 word" where
  "renumber_rignot_ant m = (if 0 \<le> m \<and> m \<le> 18 then m + 1 else 0)"

definition renumber_rignot_grn :: "8 word \<Rightarrow> 8 word" where
  "renumber_rignot_grn m = (if 1 \<le> m \<and> m \<le> 50 then 1 else if 51 \<le> m \<and> m \<le> 56 then (m - 50) + 1 else 0)"

definition to_uint :: "8 word list \<Rightarrow> sval" where
  "to_uint ws = SU64 (map ucast ws)"

definition basin_ids :: "mask_env \<Rightarrow> basin_masks \<Rightarrow> dataset \<Rightarrow> shared \<Rightarrow> alg_out" where
  "basin_ids env masks l1b sd =
     rbind (dget sd ''hemisphere'') (\<lambda>hem.
       let vals = (\<lambda>m u. rbind (sget_floats sd ''latitudes'') (\<lambda>lats. rbind (sget_floats sd ''longitudes'') (\<lambda>lons.
                 grid_mask_values env m lats lons False u)))
       in if hem = SStr ''south'' then
            rbind (of_option (ValueError ''zwally_basin_mask_ant should not be None'') (zwally_basin_mask_ant masks)) (\<lambda>zm.
            rbind (vals zm 0) (\<lambda>zwally.
            rbind (of_option (ValueError ''rignot_basin_mask_ant should not be None'') (rignot_basin_mask_ant masks)) (\<lambda>rm.
            rbind (vals rm 999) (\<lambda>rignot.
              pass (dset (dset (dset sd ''basin_mask_values_rignot'' (to_uint (map renumber_rignot_ant rignot)))
                ''basin_mask_values_zwally'' (to_uint zwally)) ''basin_mask_values_mouginot'' SNone)))))
          else
            rbind (vals (mouginot_basin_mask_grn masks) 0) (\<lambda>mouginot.
            rbind (vals (rignot_basin_mask_grn masks) 0) (\<lambda>rignot.
              pass (dset (dset (dset sd ''basin_mask_values_rignot'' (to_uint (map renumber_rignot_grn rignot)))
                ''basin_mask_values_zwally'' SNone) ''basin_mask_values_mouginot'' (to_uint mouginot)))))"

definition finalize_basin_ids :: "basin_masks \<Rightarrow> shm \<Rightarrow> shm res" where
  "finalize_basin_ids masks sh =
     rbind (clean_up_opt (zwally_basin_mask_ant masks) sh) (\<lambda>sh1.
     rbind (clean_up (mouginot_basin_mask_grn masks) sh1) (\<lambda>sh2.
     rbind (clean_up_opt (rignot_basin_mask_ant masks) sh2) (\<lambda>sh3.
       clean_up (rignot_basin_mask_grn masks) sh3)))"

definition alg_basin_ids :: "mask_env \<Rightarrow> shm \<Rightarrow> alg_class" where
  "alg_basin_ids env sh = \<lparr>cls_name = ''clev2er.algorithms.cryotempo.alg_basin_ids'',
     cls_init = (\<lambda>cfg. rbind (init_basin_ids env cfg sh) (\<lambda>(masks, sh1).
       Inr ((True, []), \<lparr>impl_body = basin_ids env masks,
         impl_finalize = (\<lambda>stage. map_sum id (\<lambda>_. ()) (finalize_basin_ids masks sh1))\<rparr>)))\<rparr>"

section \<open>The contract\<close>

definition surface_type_keys :: "string set" where
  "surface_type_keys = {''cryotempo_surface_type'', ''ocean_locations'', ''grounded_ice_locations'',
     ''floating_ice_locations'', ''icefree_land_locations'', ''non_grn_land_locations''}"

interpretation surface_type: chain_algorithm "surface_type env masks" surface_type_keys
  by unfold_locales
    (auto simp: surface_type_def surface_type_keys_def rbind_eq_Inr Let_def intro!: agree_off_dset
      split: sum.splits if_splits)

interpretation dilated_coastal_mask: chain_algorithm "dilated_coastal_mask env masks" "{''dilated_surface_mask''}"
  by unfold_locales
    (auto simp: dilated_coastal_mask_def rbind_eq_Inr Let_def intro!: agree_off_dset split: sum.splits if_splits)

interpretation basin_ids: chain_algorithm "basin_ids env masks"
  "{''basin_mask_values_rignot'', ''basin_mask_values_zwally'', ''basin_mask_values_mouginot''}"
  by unfold_locales (auto simp: basin_ids_def rbind_eq_Inr Let_def intro!: agree_off_dset split: if_splits)

section \<open>Behaviour\<close>

text \<open>The mapping of surface types, value by value.\<close>

definition cryotempo_type :: "bool \<Rightarrow> 8 word \<Rightarrow> 8 word" where
  "cryotempo_type south v =
     (if v = 1 then 3 else if v = 2 then 1 else if v = 3 then 2 else if v = 4 \<and> south then 1 else v)"

lemma map_surface_types_eq: "map_surface_types south vals = map (cryotempo_type south) vals"
  by (rule nth_equalityI) (auto simp: map_surface_types_def cryotempo_type_def Let_def np_simps)


text \<open>What \<^verbatim>\<open>surface_type\<close> reads of the mask, as a function of the shared dictionary.\<close>

definition surface_values :: "mask_env \<Rightarrow> surface_masks \<Rightarrow> shared \<Rightarrow> 8 word list res" where
  "surface_values env masks sd =
     rbind (dget sd ''hemisphere'') (\<lambda>hem.
       case (if hem = SStr ''south'' then antarctic_surface_mask masks else Some (greenland_surface_mask masks)) of
         None \<Rightarrow> Inr []
       | Some m \<Rightarrow> rbind (sget_floats sd ''lats_nadir'') (\<lambda>lats. rbind (sget_floats sd ''lons_nadir'') (\<lambda>lons.
           grid_mask_values env m lats lons False 0)))"

definition is_south :: "shared \<Rightarrow> bool" where
  "is_south sd = (dget sd ''hemisphere'' = Inr (SStr ''south''))"

lemma surface_type_success:
  assumes "surface_type env masks l1b sd = Inr ((True, m), sd')"
  shows "\<exists>vals. surface_values env masks sd = Inr vals \<and> (\<exists>v\<in>set vals. v \<in> {1, 2, 3}) \<and>
    (let types = map (cryotempo_type (is_south sd)) vals in
      dget sd' ''cryotempo_surface_type'' = Inr (SU8 types) \<and>
      dget sd' ''ocean_locations'' = Inr (SI (np_where (\<lambda>v. v = 0) types)) \<and>
      dget sd' ''grounded_ice_locations'' = Inr (SI (np_where (\<lambda>v. v = 1) types)) \<and>
      dget sd' ''floating_ice_locations'' = Inr (SI (np_where (\<lambda>v. v = 2) types)) \<and>
      dget sd' ''icefree_land_locations'' = Inr (SI (np_where (\<lambda>v. v = 3) types)) \<and>
      dget sd' ''non_grn_land_locations'' = Inr (SI (np_where (\<lambda>v. v = 4) types)))"
proof -
  obtain hem where hem: "dget sd ''hemisphere'' = Inr hem"
    using assms by (auto simp: surface_type_def split: sum.splits)
  obtain vals where vals: "surface_values env masks sd = Inr vals"
    using assms hem by (auto simp: surface_type_def surface_values_def rbind_eq_Inr Let_def split: if_splits option.splits)
  have some: "\<exists>v\<in>set vals. v \<in> {1, 2, 3}"
    using assms hem vals
    by (auto simp: surface_type_def surface_values_def rbind_eq_Inr Let_def np_where_Nil_iff split: if_splits)
  have south: "is_south sd = (hem = SStr ''south'')" using hem by (simp add: is_south_def)
  show ?thesis
    using assms hem vals some
    by (intro exI [of _ vals])
      (auto simp: surface_type_def surface_values_def rbind_eq_Inr Let_def south map_surface_types_eq split: if_splits)
qed

lemma surface_type_skip:
  assumes "surface_values env masks sd = Inr vals" and "\<forall>v\<in>set vals. v \<notin> {1, 2, 3}"
    and "dget sd ''l1b_file_name'' = Inr (SStr f)"
  shows "surface_type env masks l1b sd = fail sd (''SKIP_OK, No grounded or floating ice or icefree_land in file '' @ f)"
proof -
  have "np_where (\<lambda>v. v = k) vals = []" if "k \<in> {1, 2, 3}" for k
    using assms(2) that by (auto simp: np_where_Nil_iff)
  then show ?thesis
    using assms(1,3) by (auto simp: surface_type_def surface_values_def rbind_eq_Inr Let_def)
qed

text \<open>\<open>releases cl h sh sh1\<close>: the step from \<open>sh\<close> to \<open>sh1\<close> created at most the segment \<open>h\<close>, and the
  clean-up \<open>cl\<close> takes that away again and nothing else.\<close>

definition releases :: "(shm \<Rightarrow> shm res) \<Rightarrow> string \<Rightarrow> shm \<Rightarrow> shm \<Rightarrow> bool" where
  "releases cl h sh sh1 \<longleftrightarrow> (sh1 = sh \<and> (\<forall>s. cl s = Inr s)) \<or>
    (\<exists>seg. sh1 = sh(h \<mapsto> seg) \<and> (\<forall>s. s h \<noteq> None \<longrightarrow> cl s = Inr (s(h := None))))"

lemma mask_new_releases:
  assumes "mask_new env name b p shm sh = Inr (m, sh1)" and "sh (hash_name name) = None" and "name \<noteq> []"
  shows "releases (clean_up m) (hash_name name) sh sh1"
  using assms
  by (auto simp: releases_def mask_new_def Let_def rbind_eq_Inr load_netcdf_mask_def blank_mask_def clean_up_def
      split: if_splits option.splits grid_source.splits)

lemma config_mask_releases:
  assumes "config_mask env cfg sect name sh = Inr (m, sh1)" and "sh (hash_name name) = None" and "name \<noteq> []"
  shows "releases (clean_up m) (hash_name name) sh sh1"
  using assms by (auto simp: config_mask_def rbind_eq_Inr intro: mask_new_releases)

lemma clean_up_opt_simps [simp]: "clean_up_opt (Some m) = clean_up m" "clean_up_opt None = Inr"
  by (auto simp: clean_up_opt_def)

lemma opt_mask_releases:
  assumes "unless_grn_only cfg (config_mask env cfg sect name sh) sh = Inr (mo, sh1)"
    and "sh (hash_name name) = None" and "name \<noteq> []"
  shows "releases (clean_up_opt mo) (hash_name name) sh sh1"
proof (cases mo)
  case None
  then show ?thesis
    using assms(1) by (auto simp: unless_grn_only_def rbind_eq_Inr releases_def split: if_splits)
next
  case (Some m)
  then have "config_mask env cfg sect name sh = Inr (m, sh1)"
    using assms(1) by (auto simp: unless_grn_only_def rbind_eq_Inr split: if_splits)
  then show ?thesis using config_mask_releases assms(2,3) Some by simp
qed

text \<open>A clean-up works in any later state that still has the segment, and a step leaves the other
  segments alone.\<close>

lemma releases_later:
  assumes "releases cl h sh sh1" and "\<And>k. k = h \<Longrightarrow> s k = sh1 k" and "sh h = None"
  shows "cl s = Inr (s(h := None))"
  using assms by (auto simp: releases_def intro: fun_upd_idem [symmetric])

lemma releases_other: "releases cl h sh sh1 \<Longrightarrow> k \<noteq> h \<Longrightarrow> sh1 k = sh k"
  by (auto simp: releases_def)

lemma hash_names:
  "hash_name ''antarctica_bedmachine_v2_grid_mask'' = ''32580e20''"
  "hash_name ''greenland_bedmachine_v3_grid_mask'' = ''dad1c65e''"
  "hash_name ''antarctic_grounded_and_floating_2km_grid_mask'' = ''c83760d6''"
  "hash_name ''greenland_icesheet_2km_grid_mask_mouginot2019'' = ''35e809a4''"
  "hash_name ''antarctic_icesheet_2km_grid_mask_rignot2016'' = ''e62807a9''"
  "hash_name ''greenland_icesheet_2km_grid_mask_rignot2016'' = ''6d6f7837''"
  by (simp_all add: hash_name_def)

lemma unat_ucast_u64: "unat (ucast (w :: 8 word) :: 64 word) = unat w"
  using unsigned_less [of w, where 'a = nat] by (simp add: unsigned_ucast_eq take_bit_nat_eq_self)

lemma word_le_4_cases: "x \<le> 4 \<Longrightarrow> x \<in> {0, 1, 2, 3, 4}" for x :: "8 word"
proof -
  assume "x \<le> 4"
  then have "unat x \<le> 4" by (simp add: word_le_nat_alt)
  then have "unat x \<in> {0, 1, 2, 3, 4}" by auto
  then show ?thesis by (auto simp: word_unat_eq_iff)
qed

lemma np_where_cover:
  "\<forall>x\<in>set xs. x = a \<or> x = b \<or> x = c \<or> x = d \<or> x = e \<Longrightarrow>
     set (np_where (\<lambda>v. v = a) xs) \<union> set (np_where (\<lambda>v. v = b) xs) \<union> set (np_where (\<lambda>v. v = c) xs) \<union>
     set (np_where (\<lambda>v. v = d) xs) \<union> set (np_where (\<lambda>v. v = e) xs) = {..<length xs}"
  by (fastforce simp: set_np_where)

lemma count_five:
  "\<forall>x\<in>set xs. x \<in> {0, 1, 2, 3, 4 :: 8 word} \<Longrightarrow>
     length (filter (\<lambda>v. v = 0) xs) + length (filter (\<lambda>v. v = 1) xs) + length (filter (\<lambda>v. v = 2) xs) +
     length (filter (\<lambda>v. v = 3) xs) + length (filter (\<lambda>v. v = 4) xs) = length xs"
  by (induction xs) auto

section \<open>Properties\<close>

text \<open>C11: Surface types. When \<^verbatim>\<open>alg_surface_type\<close> succeeds on mask values of the documented range
  0 to 4, the five index arrays it stores (ocean, grounded ice, floating ice, ice-free
  land, non-Greenland land) partition the points of the file, each point is in the array
  of its type under the Cryo-TEMPO numbering, the file has at least one point on ice or
  ice-free land, and in the south no point is non-Greenland land.\<close>

theorem surface_type_partition:
  assumes ok: "surface_type env masks l1b sd = Inr ((True, m), sd')"
    and range: "\<forall>vals. surface_values env masks sd = Inr vals \<longrightarrow> (\<forall>v\<in>set vals. v \<le> 4)"
  shows "\<exists>types oc gr fl ic ng. dget sd' ''cryotempo_surface_type'' = Inr (SU8 types) \<and>
    dget sd' ''ocean_locations'' = Inr (SI oc) \<and> dget sd' ''grounded_ice_locations'' = Inr (SI gr) \<and>
    dget sd' ''floating_ice_locations'' = Inr (SI fl) \<and> dget sd' ''icefree_land_locations'' = Inr (SI ic) \<and>
    dget sd' ''non_grn_land_locations'' = Inr (SI ng) \<and>
    set oc \<union> set gr \<union> set fl \<union> set ic \<union> set ng = {..<length types} \<and>
    length oc + length gr + length fl + length ic + length ng = length types \<and>
    (\<exists>i. i \<in> set gr \<union> set fl \<union> set ic) \<and> (is_south sd \<longrightarrow> ng = [])"
proof -
  obtain vals where v: "surface_values env masks sd = Inr vals" "\<exists>v\<in>set vals. v \<in> {1, 2, 3}"
    and d: "let types = map (cryotempo_type (is_south sd)) vals in
      dget sd' ''cryotempo_surface_type'' = Inr (SU8 types) \<and>
      dget sd' ''ocean_locations'' = Inr (SI (np_where (\<lambda>v. v = 0) types)) \<and>
      dget sd' ''grounded_ice_locations'' = Inr (SI (np_where (\<lambda>v. v = 1) types)) \<and>
      dget sd' ''floating_ice_locations'' = Inr (SI (np_where (\<lambda>v. v = 2) types)) \<and>
      dget sd' ''icefree_land_locations'' = Inr (SI (np_where (\<lambda>v. v = 3) types)) \<and>
      dget sd' ''non_grn_land_locations'' = Inr (SI (np_where (\<lambda>v. v = 4) types))"
    using surface_type_success [OF ok] by blast
  let ?t = "map (cryotempo_type (is_south sd)) vals"
  have small: "x \<in> {0, 1, 2, 3, 4}" if "x \<le> 4" for x :: "8 word"
    using that by (intro word_le_4_cases)
  have le4: "\<forall>x\<in>set vals. x \<le> 4" using range v(1) by blast
  have t4: "\<forall>x\<in>set ?t. x \<in> {0, 1, 2, 3, 4}"
    using le4 small by (fastforce simp: cryotempo_type_def)
  have un: "set (np_where (\<lambda>v. v = 0) ?t) \<union> set (np_where (\<lambda>v. v = 1) ?t) \<union> set (np_where (\<lambda>v. v = 2) ?t) \<union>
      set (np_where (\<lambda>v. v = 3) ?t) \<union> set (np_where (\<lambda>v. v = 4) ?t) = {..<length ?t}"
    using t4 by (intro np_where_cover) auto
  have len: "length (np_where (\<lambda>v. v = 0) ?t) + length (np_where (\<lambda>v. v = 1) ?t) + length (np_where (\<lambda>v. v = 2) ?t) +
      length (np_where (\<lambda>v. v = 3) ?t) + length (np_where (\<lambda>v. v = 4) ?t) = length ?t"
    using count_five [OF t4] by (simp add: length_np_where)
  have some: "\<exists>i. i \<in> set (np_where (\<lambda>v. v = 1) ?t) \<union> set (np_where (\<lambda>v. v = 2) ?t) \<union> set (np_where (\<lambda>v. v = 3) ?t)"
  proof -
    obtain i where i: "i < length vals" "vals ! i \<in> {1, 2, 3}" using v(2) by (auto simp: in_set_conv_nth)
    then have "?t ! i \<in> {1, 2, 3}" by (auto simp: cryotempo_type_def)
    then show ?thesis using i(1) by (intro exI [of _ i]) (auto simp: set_np_where)
  qed
  have south: "is_south sd \<longrightarrow> np_where (\<lambda>v. v = 4) ?t = []"
    using le4 by (auto simp: np_where_Nil_iff cryotempo_type_def)
  note d = d [unfolded Let_def]
  show ?thesis
    using d un len some south
    by - (rule exI [of _ ?t], rule exI [of _ "np_where (\<lambda>v. v = 0) ?t"],
        rule exI [of _ "np_where (\<lambda>v. v = 1) ?t"], rule exI [of _ "np_where (\<lambda>v. v = 2) ?t"],
        rule exI [of _ "np_where (\<lambda>v. v = 3) ?t"], rule exI [of _ "np_where (\<lambda>v. v = 4) ?t"],
        intro conjI; simp only:)
qed

text \<open>A file none of whose points has mask value 1, 2 or 3 is skipped, whatever the other
  values: also a southern file whose points all lie on Lake Vostok (value 4), although the
  code maps this value to grounded ice.\<close>

theorem surface_type_skips:
  assumes "surface_values env masks sd = Inr vals" and "\<forall>v\<in>set vals. v = 0 \<or> v = 4"
    and "dget sd ''l1b_file_name'' = Inr (SStr f)"
  shows "surface_type env masks l1b sd =
    Inr ((False, ''SKIP_OK, No grounded or floating ice or icefree_land in file '' @ f), sd)"
proof -
  have "\<forall>v\<in>set vals. v \<notin> {1, 2, 3}" using assms(2) by auto
  then show ?thesis using surface_type_skip [OF assms(1) _ assms(3)] by (simp add: fail_def)
qed

text \<open>The value of the grid cell of a point; \<open>None\<close> for a point without finite coordinates or outside the grid.\<close>

definition cell_of_point :: "mask_env \<Rightarrow> mask \<Rightarrow> fl list \<Rightarrow> fl list \<Rightarrow> nat \<Rightarrow> int option res" where
  "cell_of_point env m lats lons i =
     (if is_finite (fst (point_xy env m lats lons i))
      then cell_value m (fst (point_xy env m lats lons i)) (Inr (snd (point_xy env m lats lons i))) else Inr None)"

lemma grid_mask_values_nth:
  assumes "grid_mask_values env m lats lons False u = Inr ws"
  shows "length ws = length lats \<and> (\<forall>i<length lats. \<exists>c. cell_of_point env m lats lons i = Inr c \<and>
    ws ! i = (case c of None \<Rightarrow> to_u8 u | Some v \<Rightarrow> to_u8 v))"
proof -
  let ?x = "map (fst \<circ> point_xy env m lats lons) [0..<length lats]"
  let ?y = "map (snd \<circ> point_xy env m lats lons) [0..<length lats]"
  have len: "length lats = length lons" using assms by (auto simp: grid_mask_values_def latlon_to_xy_def split: if_splits)
  then have ws: "rmapM (mask_value_at m (to_u8 u) ?x ?y) [0..<length lats] = Inr ws"
    using assms by (simp add: grid_mask_values_def latlon_to_xy_eq split: if_splits)
  have "\<exists>c. cell_of_point env m lats lons i = Inr c \<and> ws ! i = (case c of None \<Rightarrow> to_u8 u | Some v \<Rightarrow> to_u8 v)"
    if "i < length lats" for i
    using rmapM_nth [OF ws, of i] that
    by (auto simp: mask_value_at_def cell_of_point_def arr_at_def rbind_eq_Inr split: if_splits)
  then show ?thesis using rmapM_length [OF ws] by simp
qed

lemma unat_to_u8: "unat (to_u8 v) = nat (v mod 256)"
  by (simp add: to_u8_def unsigned_of_int take_bit_eq_mod)

text \<open>The numbers of the product for the value of a cell, \<open>None\<close> outside the mask: the masks hold bytes.
  Zwally and Mouginot basins keep their number and 0 is unknown. The Rignot basins of Antarctica are
  counted from 1, and those of Greenland after one number for all ice caps.\<close>

definition basin_number :: "int option \<Rightarrow> nat" where
  "basin_number c = (case c of None \<Rightarrow> 0 | Some v \<Rightarrow> nat (v mod 256))"

definition rignot_number :: "bool \<Rightarrow> int option \<Rightarrow> nat" where
  "rignot_number south c =
     (case c of None \<Rightarrow> 0
      | Some v \<Rightarrow> let b = nat (v mod 256) in
          if south then (if b \<le> 18 then b + 1 else 0)
          else if 1 \<le> b \<and> b \<le> 50 then 1 else if 51 \<le> b \<and> b \<le> 56 then b - 49 else 0)"

lemma renumber_ant_unat: "unat (renumber_rignot_ant v) = (if unat v \<le> 18 then unat v + 1 else 0)"
proof (cases "v \<le> 18")
  case True
  then have v: "unat v \<le> 18" by (simp add: word_le_nat_alt)
  then have "unat (v + 1) = unat v + 1" by (subst unat_add_lem [THEN iffD1]) simp_all
  then show ?thesis using True v by (simp add: renumber_rignot_ant_def)
qed (simp add: renumber_rignot_ant_def word_le_nat_alt)

lemma renumber_grn_unat:
  "unat (renumber_rignot_grn v) =
     (if 1 \<le> unat v \<and> unat v \<le> 50 then 1 else if 51 \<le> unat v \<and> unat v \<le> 56 then unat v - 49 else 0)"
proof (cases "51 \<le> v \<and> v \<le> 56")
  case True
  then have v: "51 \<le> unat v" "unat v \<le> 56" by (simp_all add: word_le_nat_alt)
  then have d: "unat (v - 50) = unat v - 50" using True by (subst unat_sub) (simp_all add: word_le_nat_alt)
  then have "unat (v - 50 + 1) = unat v - 49" using v by (subst unat_add_lem [THEN iffD1]) simp_all
  then show ?thesis using True v by (simp add: renumber_rignot_grn_def word_le_nat_alt)
qed (auto simp: renumber_rignot_grn_def word_le_nat_alt)

lemma basin_numbers_of_byte:
  "unat (case c of None \<Rightarrow> to_u8 0 | Some v \<Rightarrow> to_u8 v) = basin_number c"
  "unat (renumber_rignot_ant (case c of None \<Rightarrow> to_u8 999 | Some v \<Rightarrow> to_u8 v)) = rignot_number True c"
  "unat (renumber_rignot_grn (case c of None \<Rightarrow> to_u8 0 | Some v \<Rightarrow> to_u8 v)) = rignot_number False c"
  by (simp_all add: basin_number_def rignot_number_def renumber_ant_unat renumber_grn_unat unat_to_u8 Let_def split: option.split)

lemma basin_number_range: "c = None \<or> c = Some v \<and> 0 \<le> v \<and> v \<le> int n \<Longrightarrow> basin_number c \<le> n"
  using zmod_le_nonneg_dividend [of v 256] by (auto simp: basin_number_def nat_le_iff)

lemma rignot_number_range: "rignot_number south c \<le> (if south then 19 else 7)"
  by (auto simp: rignot_number_def Let_def split: option.split)

text \<open>The masks of a hemisphere: the one of Rignot and the other one, with the key of its numbers, the
  key that gets no numbers and the number of basins.\<close>

definition rignot_mask :: "bool \<Rightarrow> basin_masks \<Rightarrow> mask option" where
  "rignot_mask south masks = (if south then rignot_basin_mask_ant masks else Some (rignot_basin_mask_grn masks))"

definition other_mask :: "bool \<Rightarrow> basin_masks \<Rightarrow> mask option" where
  "other_mask south masks = (if south then zwally_basin_mask_ant masks else Some (mouginot_basin_mask_grn masks))"

lemma basin_ids_stored:
  assumes "basin_ids env masks l1b sd = Inr ((ok, msg), sd')"
    and "sget_floats sd ''latitudes'' = Inr lats" and "sget_floats sd ''longitudes'' = Inr lons"
  shows "ok \<and> (\<exists>rm om rignot other. rignot_mask (is_south sd) masks = Some rm \<and> other_mask (is_south sd) masks = Some om \<and>
    grid_mask_values env rm lats lons False (if is_south sd then 999 else 0) = Inr rignot \<and>
    grid_mask_values env om lats lons False 0 = Inr other \<and>
    dget sd' ''basin_mask_values_rignot'' =
      Inr (SU64 (map (\<lambda>w. ucast (if is_south sd then renumber_rignot_ant w else renumber_rignot_grn w)) rignot)) \<and>
    dget sd' (if is_south sd then ''basin_mask_values_zwally'' else ''basin_mask_values_mouginot'') = Inr (SU64 (map ucast other)) \<and>
    dget sd' (if is_south sd then ''basin_mask_values_mouginot'' else ''basin_mask_values_zwally'') = Inr SNone)"
proof (cases "is_south sd")
  case True
  then show ?thesis
    using assms by (auto simp: basin_ids_def is_south_def rbind_eq_Inr Let_def to_uint_def rignot_mask_def other_mask_def comp_def)
next
  case False
  then show ?thesis
    using assms by (auto simp: basin_ids_def is_south_def rbind_eq_Inr Let_def to_uint_def rignot_mask_def other_mask_def comp_def)
qed

text \<open>C12: The basin numbers stored by \<^verbatim>\<open>alg_basin_ids\<close>. For every point of the file the numbers stored
  under both schemes are those of the grid cell of the point in the mask of its hemisphere: the Rignot
  numbers, counted from 1 in the south and after one number for all ice caps in the north, lie in the
  documented ranges 0 to 19 and 0 to 7 for any contents of the mask; the Zwally numbers (south) and
  Mouginot numbers (north) are the bytes of the mask itself, so they lie in the documented
  ranges 0 to 27 and 0 to 7 when the values of the mask do. A point outside the mask has number 0 under
  both, although the value 999 meant for it does not fit the \<^verbatim>\<open>uint8\<close> array it is written to. The third
  array, of the other hemisphere, is empty.\<close>

theorem basin_ids_ranges:
  assumes "basin_ids env masks l1b sd = Inr ((ok, msg), sd')"
    and "sget_floats sd ''latitudes'' = Inr lats" and "sget_floats sd ''longitudes'' = Inr lons"
  shows "ok \<and> (\<exists>rs os rm om. dget sd' ''basin_mask_values_rignot'' = Inr (SU64 rs) \<and>
    dget sd' (if is_south sd then ''basin_mask_values_zwally'' else ''basin_mask_values_mouginot'') = Inr (SU64 os) \<and>
    dget sd' (if is_south sd then ''basin_mask_values_mouginot'' else ''basin_mask_values_zwally'') = Inr SNone \<and>
    rignot_mask (is_south sd) masks = Some rm \<and> other_mask (is_south sd) masks = Some om \<and>
    length rs = length lats \<and> length os = length lats \<and>
    (\<forall>i<length lats. \<exists>c d. cell_of_point env rm lats lons i = Inr c \<and> cell_of_point env om lats lons i = Inr d \<and>
      unat (rs ! i) = rignot_number (is_south sd) c \<and> unat (rs ! i) \<le> (if is_south sd then 19 else 7) \<and>
      unat (os ! i) = basin_number d \<and>
      (d = None \<or> (\<exists>v. d = Some v \<and> 0 \<le> v \<and> v \<le> (if is_south sd then 27 else 7)) \<longrightarrow>
        unat (os ! i) \<le> (if is_south sd then 27 else 7))))"
proof -
  obtain rm om rignot other where ok: ok
    and m: "rignot_mask (is_south sd) masks = Some rm" "other_mask (is_south sd) masks = Some om"
    and v: "grid_mask_values env rm lats lons False (if is_south sd then 999 else 0) = Inr rignot"
      "grid_mask_values env om lats lons False 0 = Inr other"
    and d: "dget sd' ''basin_mask_values_rignot'' =
        Inr (SU64 (map (\<lambda>w. ucast (if is_south sd then renumber_rignot_ant w else renumber_rignot_grn w)) rignot))"
      "dget sd' (if is_south sd then ''basin_mask_values_zwally'' else ''basin_mask_values_mouginot'') = Inr (SU64 (map ucast other))"
      "dget sd' (if is_south sd then ''basin_mask_values_mouginot'' else ''basin_mask_values_zwally'') = Inr SNone"
    using basin_ids_stored [OF assms] by metis
  note r = grid_mask_values_nth [OF v(1)] and t = grid_mask_values_nth [OF v(2)]
  let ?r = "map (\<lambda>w. ucast (if is_south sd then renumber_rignot_ant w else renumber_rignot_grn w) :: 64 word) rignot"
  let ?o = "map ucast other :: 64 word list"
  let ?n = "if is_south sd then 27 else 7 :: nat"
  have point: "\<exists>c d. cell_of_point env rm lats lons i = Inr c \<and> cell_of_point env om lats lons i = Inr d \<and>
      unat (?r ! i) = rignot_number (is_south sd) c \<and> unat (?r ! i) \<le> (if is_south sd then 19 else 7) \<and>
      unat (?o ! i) = basin_number d \<and>
      (d = None \<or> (\<exists>v. d = Some v \<and> 0 \<le> v \<and> v \<le> (if is_south sd then 27 else 7)) \<longrightarrow> unat (?o ! i) \<le> ?n)"
    if i: "i < length lats" for i
  proof -
    obtain c d where c: "cell_of_point env rm lats lons i = Inr c"
      "rignot ! i = (case c of None \<Rightarrow> to_u8 (if is_south sd then 999 else 0) | Some v \<Rightarrow> to_u8 v)"
      and d: "cell_of_point env om lats lons i = Inr d" "other ! i = (case d of None \<Rightarrow> to_u8 0 | Some v \<Rightarrow> to_u8 v)"
      using r t i by metis
    have "unat (?r ! i) = rignot_number (is_south sd) c" "unat (?o ! i) = basin_number d"
      using c d r t i by (simp_all add: unat_ucast_u64 basin_numbers_of_byte)
    moreover have "basin_number d \<le> ?n" if "d = None \<or> (\<exists>v. d = Some v \<and> 0 \<le> v \<and> v \<le> (if is_south sd then 27 else 7))"
      using that basin_number_range [of d _ ?n] by auto
    ultimately show ?thesis using c(1) d(1) rignot_number_range [of "is_south sd" c]
      by (intro exI [of _ c] exI [of _ d]) simp
  qed
  have len: "length ?r = length lats" "length ?o = length lats" using r t by simp_all
  show ?thesis
    by (intro conjI exI [of _ ?r] exI [of _ ?o] exI [of _ rm] exI [of _ om] allI impI) (erule point | rule ok m d len)+
qed

text \<open>Resources. Whatever of the four basin masks \<^verbatim>\<open>alg_basin_ids.init\<close> creates in shared memory
  is removed by its \<^verbatim>\<open>finalize\<close>: starting without segments of these masks, the shared-memory
  state afterwards is the one before, and \<^verbatim>\<open>finalize\<close> raises nothing.\<close>

theorem basin_ids_releases_memory:
  assumes init: "init_basin_ids env cfg sh = Inr (masks, sh')"
    and fresh: "\<forall>n\<in>set required_masks. sh (hash_name n) = None"
  shows "finalize_basin_ids masks sh' = Inr sh"
proof -
  let ?z = "''c83760d6''" and ?m = "''35e809a4''" and ?ra = "''e62807a9''" and ?rg = "''6d6f7837''"
  have free: "sh ?z = None" "sh ?m = None" "sh ?ra = None" "sh ?rg = None"
    using fresh by (simp_all add: required_masks_def hash_names)
  obtain sh1 sh2 sh3 where
    z: "unless_grn_only cfg (config_mask env cfg ''basin_masks'' ''antarctic_grounded_and_floating_2km_grid_mask'' sh) sh =
      Inr (zwally_basin_mask_ant masks, sh1)" and
    m: "config_mask env cfg ''basin_masks'' ''greenland_icesheet_2km_grid_mask_mouginot2019'' sh1 =
      Inr (mouginot_basin_mask_grn masks, sh2)" and
    ra: "unless_grn_only cfg (config_mask env cfg ''basin_masks'' ''antarctic_icesheet_2km_grid_mask_rignot2016'' sh2) sh2 =
      Inr (rignot_basin_mask_ant masks, sh3)" and
    rg: "config_mask env cfg ''basin_masks'' ''greenland_icesheet_2km_grid_mask_rignot2016'' sh3 =
      Inr (rignot_basin_mask_grn masks, sh')"
    using init by (auto simp: init_basin_ids_def rbind_eq_Inr)
  have Z: "releases (clean_up_opt (zwally_basin_mask_ant masks)) ?z sh sh1"
    using opt_mask_releases [OF z] free by (simp add: hash_names)
  have free1: "sh1 k = sh k" if "k \<noteq> ?z" for k using releases_other [OF Z that] .
  have M: "releases (clean_up (mouginot_basin_mask_grn masks)) ?m sh1 sh2"
    using config_mask_releases [OF m] free free1 [of ?m] by (simp add: hash_names)
  have free2: "sh2 k = sh k" if "k \<noteq> ?z" "k \<noteq> ?m" for k using releases_other [OF M] free1 that by simp
  have RA: "releases (clean_up_opt (rignot_basin_mask_ant masks)) ?ra sh2 sh3"
    using opt_mask_releases [OF ra] free free2 [of ?ra] by (simp add: hash_names)
  have free3: "sh3 k = sh k" if "k \<noteq> ?z" "k \<noteq> ?m" "k \<noteq> ?ra" for k using releases_other [OF RA] free2 that by simp
  have RG: "releases (clean_up (rignot_basin_mask_grn masks)) ?rg sh3 sh'"
    using config_mask_releases [OF rg] free free3 [of ?rg] by (simp add: hash_names)
  have keep: "sh' ?z = sh1 ?z" "sh' ?m = sh2 ?m" "sh' ?ra = sh3 ?ra"
    using releases_other [OF RG] releases_other [OF RA] releases_other [OF M] by simp_all
  have s1: "clean_up_opt (zwally_basin_mask_ant masks) sh' = Inr (sh'(?z := None))"
    using releases_later [OF Z] keep free by simp
  have s2: "clean_up (mouginot_basin_mask_grn masks) (sh'(?z := None)) = Inr (sh'(?z := None, ?m := None))"
    using releases_later [OF M] keep free free1 [of ?m] by simp
  have s3: "clean_up_opt (rignot_basin_mask_ant masks) (sh'(?z := None, ?m := None)) =
      Inr (sh'(?z := None, ?m := None, ?ra := None))"
    using releases_later [OF RA] keep free free2 [of ?ra] by simp
  have s4: "clean_up (rignot_basin_mask_grn masks) (sh'(?z := None, ?m := None, ?ra := None)) =
      Inr (sh'(?z := None, ?m := None, ?ra := None, ?rg := None))"
    using releases_later [OF RG] free free3 [of ?rg] by simp
  have "sh'(?z := None, ?m := None, ?ra := None, ?rg := None) = sh"
    using free free3 releases_other [OF RG] by (auto simp: fun_eq_iff)
  then show ?thesis by (simp add: finalize_basin_ids_def s1 s2 s3 s4)
qed

text \<open>When \<^verbatim>\<open>alg_dilated_coastal_mask\<close> succeeds, the mask it stores has one entry per nadir point
  and at least one of them is set.\<close>

theorem dilated_mask_nonempty:
  assumes "dilated_coastal_mask env masks l1b sd = Inr ((True, m), sd')"
    and "dget sd ''lats_nadir'' = Inr (SF lats)"
  shows "\<exists>bs. dget sd' ''dilated_surface_mask'' = Inr (SB bs) \<and> length bs = length lats \<and> True \<in> set bs"
proof -
  obtain mk lons inmask n where p: "points_inside env mk lats lons None False = Inr (inmask, n)" "n \<noteq> 0"
    and d: "dget sd' ''dilated_surface_mask'' = Inr (SB inmask)"
    using assms
    by (auto simp: dilated_coastal_mask_def sget_floats_def rbind_eq_Inr Let_def split: sum.splits if_splits option.splits)
  then show ?thesis using points_inside_length [OF p(1)] points_inside_some [OF p] by blast
qed

section \<open>Concrete runs\<close>

text \<open>Three points on the grid of two rows and columns of \<open>Masks\<close>.\<close>

definition wit_smask :: "int list list \<Rightarrow> mask" where
  "wit_smask g = (wit_mask False)\<lparr>mask_grid := g, mask_basin_numbers := None\<rparr>"

definition wit_sd :: "string \<Rightarrow> shared" where
  "wit_sd hem = [(''l1b_file_name'', SStr ''f''), (''num_20hz_records'', SInt 3), (''hemisphere'', SStr hem),
     (''lats_nadir'', SF [Fin 0, Fin 12, Fin 10]), (''lons_nadir'', SF [Fin 9, Fin 1, Fin 11]),
     (''latitudes'', SF [Fin 0, Fin 12, Fin 10]), (''longitudes'', SF [Fin 9, Fin 1, Fin 11])]"

definition wit_nc0 :: dataset where
  "wit_nc0 = \<lparr>ds_isinstance = True, ds_getitem = (\<lambda>k. Inl (IndexError k)), ds_variables = (\<lambda>k. None),
     ds_attr = (\<lambda>k. None)\<rparr>"

definition wit_smasks :: "int list list \<Rightarrow> surface_masks" where
  "wit_smasks g = \<lparr>antarctic_surface_mask = Some (wit_smask g), greenland_surface_mask = wit_smask g\<rparr>"

text \<open>The outcome of a body, for evaluation.\<close>

definition succeeds :: "alg_out \<Rightarrow> bool" where
  "succeeds r = (case r of Inl e \<Rightarrow> False | Inr ((ok, m), sd) \<Rightarrow> ok)"

lemma succeedsE: "succeeds r \<Longrightarrow> (\<And>m sd. r = Inr ((True, m), sd) \<Longrightarrow> P) \<Longrightarrow> P"
  by (auto simp: succeeds_def split: sum.splits)

theorem surface_type_partition_witness:
  "\<exists>sd' types oc gr fl ic ng.
     surface_type wit_mask_env (wit_smasks [[0, 3], [2, 1]]) wit_nc0 (wit_sd ''south'') = Inr ((True, []), sd') \<and>
     dget sd' ''cryotempo_surface_type'' = Inr (SU8 types) \<and>
     set oc \<union> set gr \<union> set fl \<union> set ic \<union> set ng = {..<length types} \<and> ng = []"
proof -
  let ?m = "wit_smasks [[0, 3], [2, 1]]"
  have vals: "surface_values wit_mask_env ?m (wit_sd ''south'') = Inr [3, 2, 1]" by code_simp
  have "succeeds (surface_type wit_mask_env ?m wit_nc0 (wit_sd ''south''))" by code_simp
  then obtain m sd' where ok: "surface_type wit_mask_env ?m wit_nc0 (wit_sd ''south'') = Inr ((True, m), sd')"
    by (rule succeedsE)
  have m: "m = []" using ok by (auto simp: surface_type_def rbind_eq_Inr Let_def split: sum.splits if_splits)
  have south: "is_south (wit_sd ''south'')" by (simp add: is_south_def wit_sd_def)
  have range: "\<forall>vs. surface_values wit_mask_env ?m (wit_sd ''south'') = Inr vs \<longrightarrow> (\<forall>v\<in>set vs. v \<le> 4)"
    by (simp add: vals)
  show ?thesis using surface_type_partition [OF ok range] south ok unfolding m by blast
qed

theorem surface_type_skips_witness:
  "surface_type wit_mask_env (wit_smasks [[4, 4], [4, 4]]) wit_nc0 (wit_sd ''south'') =
     Inr ((False, ''SKIP_OK, No grounded or floating ice or icefree_land in file f''), wit_sd ''south'')"
proof -
  have "surface_values wit_mask_env (wit_smasks [[4, 4], [4, 4]]) (wit_sd ''south'') = Inr [4, 4, 4]" by code_simp
  then show ?thesis
    using surface_type_skips [of wit_mask_env "wit_smasks [[4, 4], [4, 4]]" "wit_sd ''south''" "[4, 4, 4]" "''f''" wit_nc0]
    by (simp add: wit_sd_def)
qed

definition wit_bmasks :: basin_masks where
  "wit_bmasks = \<lparr>zwally_basin_mask_ant = Some (wit_smask [[0, 3], [27, 1]]),
     mouginot_basin_mask_grn = wit_smask [[0, 3], [7, 1]],
     rignot_basin_mask_ant = Some (wit_smask [[0, 18], [255, 1]]),
     rignot_basin_mask_grn = wit_smask [[0, 50], [56, 1]]\<rparr>"

theorem basin_ids_ranges_witness:
  "\<exists>sd' rs os. basin_ids wit_mask_env wit_bmasks wit_nc0 (wit_sd ''south'') = Inr ((True, []), sd') \<and>
     dget sd' ''basin_mask_values_rignot'' = Inr (SU64 rs) \<and> map unat rs = [19, 0, 2] \<and>
     dget sd' ''basin_mask_values_zwally'' = Inr (SU64 os) \<and> map unat os = [3, 27, 1]"
proof -
  let ?lats = "[Fin 0, Fin 12, Fin 10]" and ?lons = "[Fin 9, Fin 1, Fin 11]"
  have "succeeds (basin_ids wit_mask_env wit_bmasks wit_nc0 (wit_sd ''south''))" by code_simp
  then obtain m sd' where ok: "basin_ids wit_mask_env wit_bmasks wit_nc0 (wit_sd ''south'') = Inr ((True, m), sd')"
    by (rule succeedsE)
  have m: "m = []" using ok by (auto simp: basin_ids_def rbind_eq_Inr Let_def split: if_splits)
  have south: "is_south (wit_sd ''south'')" by (simp add: is_south_def wit_sd_def)
  have ll: "sget_floats (wit_sd ''south'') ''latitudes'' = Inr ?lats" "sget_floats (wit_sd ''south'') ''longitudes'' = Inr ?lons"
    by (simp_all add: sget_floats_def wit_sd_def)
  have masks: "rignot_mask True wit_bmasks = Some (wit_smask [[0, 18], [255, 1]])" "other_mask True wit_bmasks = Some (wit_smask [[0, 3], [27, 1]])"
    by (simp_all add: rignot_mask_def other_mask_def wit_bmasks_def)
  let ?rm = "wit_smask [[0, 18], [255, 1]]" and ?om = "wit_smask [[0, 3], [27, 1]]"
  obtain rs os where d: "dget sd' ''basin_mask_values_rignot'' = Inr (SU64 rs)" "dget sd' ''basin_mask_values_zwally'' = Inr (SU64 os)"
    and len: "length rs = length ?lats" "length os = length ?lats"
    and v: "\<forall>i<length ?lats. \<exists>c d. cell_of_point wit_mask_env ?rm ?lats ?lons i = Inr c \<and>
        cell_of_point wit_mask_env ?om ?lats ?lons i = Inr d \<and>
        unat (rs ! i) = rignot_number True c \<and> unat (os ! i) = basin_number d"
    using basin_ids_ranges [OF ok ll, unfolded south [THEN eqTrueI] if_True masks option.inject] by metis
  have cells: "cell_of_point wit_mask_env ?rm ?lats ?lons 0 = Inr (Some 18)" "cell_of_point wit_mask_env ?om ?lats ?lons 0 = Inr (Some 3)"
    "cell_of_point wit_mask_env ?rm ?lats ?lons 1 = Inr (Some 255)" "cell_of_point wit_mask_env ?om ?lats ?lons 1 = Inr (Some 27)"
    "cell_of_point wit_mask_env ?rm ?lats ?lons 2 = Inr (Some 1)" "cell_of_point wit_mask_env ?om ?lats ?lons 2 = Inr (Some 1)"
    by code_simp+
  have "unat (rs ! i) = rignot_number True c \<and> unat (os ! i) = basin_number d"
    if "cell_of_point wit_mask_env ?rm ?lats ?lons i = Inr c" "cell_of_point wit_mask_env ?om ?lats ?lons i = Inr d" "i < length ?lats" for i c d
    using v that by fastforce
  note n = this [OF cells(1,2)] this [OF cells(3,4)] this [OF cells(5,6)]
  have "unat (rs ! 0) = 19 \<and> unat (os ! 0) = 3" "unat (rs ! 1) = 0 \<and> unat (os ! 1) = 27" "unat (rs ! 2) = 2 \<and> unat (os ! 2) = 1"
    using n by (simp_all add: rignot_number_def basin_number_def)
  moreover have "map unat xs = [unat (xs ! 0), unat (xs ! 1), unat (xs ! 2)]" if "length xs = length ?lats" for xs :: "64 word list"
    using that by (auto simp: length_Suc_conv)
  ultimately have "map unat rs = [19, 0, 2]" "map unat os = [3, 27, 1]" by (simp_all only: len)
  then show ?thesis using ok [unfolded m] d by (intro exI conjI)
qed

definition wit_bcfg :: config where
  "wit_bcfg = [(''_init_shared_mem'', CBool True), (''grn_only'', CBool True),
     (''basin_masks'', CDict (map (\<lambda>n. (n, CStr ''path'')) required_masks))]"

lemma wit_basin_mask_new:
  assumes "n = ''greenland_icesheet_2km_grid_mask_mouginot2019'' \<or> n = ''greenland_icesheet_2km_grid_mask_rignot2016''"
    and "sh (hash_name n) = None"
  shows "\<exists>m seg. mask_new wit_mask_env n None (Some ''path'') True sh = Inr (m, sh(hash_name n \<mapsto> seg))"
proof -
  obtain d where d: "map_of mask_table n = Some d" "md_source d = LoadNetcdf False ''basinmask''"
    using assms(1)
    by (auto simp: mask_table_def greenland_icesheet_2km_grid_mask_mouginot2019_def
        greenland_icesheet_2km_grid_mask_rignot2016_def simp del: upt.simps map_of_eq_Some_iff)
  have "n \<in> set mask_list" "n \<noteq> []" using assms(1) by (auto simp: mask_list_def)
  then show ?thesis
    using d assms(2)
    by (simp add: mask_new_def mask_file_of_def load_netcdf_mask_def blank_mask_def flipud_def wit_mask_env_def Let_def)
      blast
qed

theorem basin_ids_releases_memory_witness:
  "\<exists>masks sh'. init_basin_ids wit_mask_env wit_bcfg Map.empty = Inr (masks, sh') \<and> sh' ''6d6f7837'' \<noteq> None \<and>
     finalize_basin_ids masks sh' = Inr Map.empty"
proof -
  let ?mo = "''greenland_icesheet_2km_grid_mask_mouginot2019''" and ?ri = "''greenland_icesheet_2km_grid_mask_rignot2016''"
  have cm: "config_mask wit_mask_env wit_bcfg ''basin_masks'' n sh = mask_new wit_mask_env n None (Some ''path'') True sh"
    if "n = ?mo \<or> n = ?ri" for n sh
    using that by (auto simp: config_mask_def wit_bcfg_def cget2_def cpath_def dhas_def required_masks_def)
  obtain m1 seg1 where 1: "mask_new wit_mask_env ?mo None (Some ''path'') True Map.empty = Inr (m1, [''35e809a4'' \<mapsto> seg1])"
    using wit_basin_mask_new [of ?mo Map.empty] by (auto simp: hash_names)
  obtain m2 seg2 where 2: "mask_new wit_mask_env ?ri None (Some ''path'') True [''35e809a4'' \<mapsto> seg1] =
      Inr (m2, [''35e809a4'' \<mapsto> seg1, ''6d6f7837'' \<mapsto> seg2])"
    using wit_basin_mask_new [of ?ri "[''35e809a4'' \<mapsto> seg1]"] by (auto simp: hash_names)
  have paths: "\<exists>ps. rmapM (basin_mask_path wit_bcfg) required_masks = Inr ps"
    by (simp add: required_masks_def basin_mask_path_def wit_bcfg_def cget2_def)
  have grn: "opt_flag wit_bcfg ''grn_only''" by (simp add: opt_flag_def wit_bcfg_def)
  obtain masks where init: "init_basin_ids wit_mask_env wit_bcfg Map.empty =
      Inr (masks, [''35e809a4'' \<mapsto> seg1, ''6d6f7837'' \<mapsto> seg2])"
    using paths by (auto simp: init_basin_ids_def unless_grn_only_def grn cm 1 2)
  then show ?thesis using basin_ids_releases_memory [OF init] by auto
qed

definition wit_dmasks :: dilated_masks where
  "wit_dmasks = \<lparr>greenland_dilated_mask = wit_smask [[0, 1], [0, 1]], antarctic_dilated_mask = None\<rparr>"

theorem dilated_mask_nonempty_witness:
  "\<exists>sd' bs. dilated_coastal_mask wit_mask_env wit_dmasks wit_nc0 (wit_sd ''north'') = Inr ((True, []), sd') \<and>
     dget sd' ''dilated_surface_mask'' = Inr (SB bs) \<and> length bs = 3 \<and> True \<in> set bs"
proof -
  have "succeeds (dilated_coastal_mask wit_mask_env wit_dmasks wit_nc0 (wit_sd ''north''))" by code_simp
  then obtain m sd' where ok: "dilated_coastal_mask wit_mask_env wit_dmasks wit_nc0 (wit_sd ''north'') = Inr ((True, m), sd')"
    by (rule succeedsE)
  have "m = []" using ok by (auto simp: dilated_coastal_mask_def rbind_eq_Inr Let_def split: sum.splits if_splits)
  then show ?thesis using dilated_mask_nonempty [OF ok, of "[Fin 0, Fin 12, Fin 10]"] ok by (auto simp: wit_sd_def)
qed

end
