(* ===== verification/Algs_Corrections.thy ===== *)
theory Algs_Corrections
  imports Algs_Masks
begin

text \<open>
  The range corrections: \<^verbatim>\<open>alg_fes2014b_tide_correction\<close> and \<^verbatim>\<open>alg_cats2008a_tide_correction\<close> read
  tide files that belong to the L1b file, \<^verbatim>\<open>alg_geo_corrections\<close> adds up all corrections for
  each measurement. The file system (directories, \<^verbatim>\<open>glob\<close>, opening a netCDF file) is the
  parameter \<open>tide_env\<close>.
\<close>

record tide_env =
  te_isdir :: "string \<Rightarrow> bool"
  te_glob :: "string \<Rightarrow> string list"
  te_open :: "string \<Rightarrow> dataset res"

section \<open>File names\<close>

text \<open>\<^verbatim>\<open>Path(s).name\<close>: the last component that is neither empty nor a single dot.\<close>

definition path_name :: "string \<Rightarrow> string" where
  "path_name s = (case filter (\<lambda>c. c \<noteq> [] \<and> c \<noteq> ''.'') (py_split (CHR ''/'') s) of [] \<Rightarrow> [] | c # cs \<Rightarrow> last (c # cs))"

definition py_int_res :: "string \<Rightarrow> int res" where
  "py_int_res s = of_option (ValueError (''invalid literal for int() with base 10: '' @ s)) (py_int s)"

text \<open>The year and month at the start of the time part of an L1b file name.\<close>

definition year_month :: "string \<Rightarrow> (int \<times> int) res" where
  "year_month time_string =
     rbind (py_int_res (py_slice time_string None (Some 4))) (\<lambda>year.
     rbind (py_int_res (py_slice time_string (Some 4) (Some 6))) (\<lambda>month. Inr (year, month)))"

definition bad_month :: "int \<Rightarrow> int \<Rightarrow> bool" where
  "bad_month year month = (month < 1 \<or> 12 < month \<or> year < 2010)"

definition sget_string :: "shared \<Rightarrow> string \<Rightarrow> string res" where
  "sget_string sd k = rbind (dget sd k) as_string"

definition sget_indices :: "shared \<Rightarrow> string \<Rightarrow> nat list res" where
  "sget_indices sd k = rbind (dget sd k) as_indices"

section \<open>alg_fes2014b_tide_correction\<close>

text \<open>\<^verbatim>\<open>init\<close>: the attribute for the base directory, which stays unset when the configuration has
  none, and the pair that is returned.\<close>

definition init_tide :: "tide_env \<Rightarrow> config \<Rightarrow> string \<Rightarrow> (string option \<times> bool \<times> string) res" where
  "init_tide env cfg key =
     (let missing = (None, False, ''tides.'' @ key @ '' missing from config file'') in
      case map_of cfg ''tides'' of
        None \<Rightarrow> Inr missing
      | Some v \<Rightarrow> rbind (as_cdict v) (\<lambda>d.
          case map_of d key of
            None \<Rightarrow> Inr missing
          | Some w \<Rightarrow> rbind (cstring w) (\<lambda>dir.
              if te_isdir env dir then Inr (Some dir, True, [])
              else Inr (Some dir, False, ''tides.'' @ key @ '' '' @ dir @ '' not found''))))"

text \<open>An algorithm whose body needs the base directory.\<close>

definition tide_class :: "string \<Rightarrow> string \<Rightarrow> tide_env \<Rightarrow> (string \<Rightarrow> dataset \<Rightarrow> shared \<Rightarrow> alg_out) \<Rightarrow> alg_class" where
  "tide_class name key env body = \<lparr>cls_name = name,
     cls_init = (\<lambda>cfg. rbind (init_tide env cfg key) (\<lambda>(dir, r).
       Inr (r, \<lparr>impl_body = (case dir of Some d \<Rightarrow> body d | None \<Rightarrow> (\<lambda>l1b sd. Inl (AttributeError key))),
         impl_finalize = base_finalize\<rparr>)))\<rparr>"

definition fes_filename :: "string \<Rightarrow> string \<Rightarrow> string \<Rightarrow> int \<Rightarrow> int \<Rightarrow> string" where
  "fes_filename base mode l1b_name year month =
     base @ ''/'' @ mode @ ''/'' @ show_int year @ ''/'' @ show_pad 2 month @ ''/'' @
     py_slice (path_name l1b_name) None (Some (- 3)) @ ''.fes2014b.nc''"

definition fes_read :: "tide_env \<Rightarrow> string \<Rightarrow> (fl list \<times> fl list \<times> fl list) res" where
  "fes_read env fname =
     rbind (te_open env fname) (\<lambda>nc.
     rbind (nc_floats nc ''ocean_tide_20'') (\<lambda>ocean.
     rbind (nc_floats nc ''ocean_tide_eq_20'') (\<lambda>ocean_eq.
     rbind (nc_floats nc ''load_tide_20'') (\<lambda>load. Inr (ocean, ocean_eq, load)))))"

definition fes2014b_tide_correction :: "tide_env \<Rightarrow> string \<Rightarrow> dataset \<Rightarrow> shared \<Rightarrow> alg_out" where
  "fes2014b_tide_correction env base l1b sd =
     rbind (sget_string sd ''l1b_file_name'') (\<lambda>f.
     rbind (year_month (py_slice (path_name f) (Some 19) (Some (- 8)))) (\<lambda>(year, month).
       if bad_month year month then fail sd ''Could not determine correct month from L1b file name''
       else
         rbind (sget_string sd ''instr_mode'') (\<lambda>mode.
           let fname = fes_filename base mode f year month in
           case fes_read env fname of
             Inl e \<Rightarrow> if is_os_error e then fail sd (''Error reading FES2014b file '' @ fname) else Inl e
           | Inr (ocean, ocean_eq, load) \<Rightarrow>
               rbind (sget_int sd ''num_20hz_records'') (\<lambda>n.
                 if int (length ocean) \<noteq> n then fail sd ''FES2014b array length error''
                 else pass (dset sd ''fes2014b_corrections'' (SDict [(''ocean_tide_20'', SF ocean),
                   (''ocean_tide_eq_20'', SF ocean_eq), (''load_tide_20'', SF load)]))))))"

definition alg_fes2014b_tide_correction :: "tide_env \<Rightarrow> alg_class" where
  "alg_fes2014b_tide_correction env = tide_class ''clev2er.algorithms.cryotempo.alg_fes2014b_tide_correction''
     ''fes2014b_base_dir'' env (fes2014b_tide_correction env)"

section \<open>alg_cats2008a_tide_correction\<close>

definition cats_pattern :: "string \<Rightarrow> string \<Rightarrow> int \<Rightarrow> int \<Rightarrow> string" where
  "cats_pattern base time_string year month =
     base @ ''/'' @ show_int year @ ''/'' @ show_pad 2 month @ ''/*'' @ time_string @ ''*.nc''"

definition cats_read :: "tide_env \<Rightarrow> string \<Rightarrow> fl list res" where
  "cats_read env fname = rbind (te_open env fname) (\<lambda>nc. nc_floats nc ''cats_tide'')"

text \<open>The part of \<^verbatim>\<open>process\<close> that is run when the correction is needed.\<close>

definition cats_tide_file :: "tide_env \<Rightarrow> string \<Rightarrow> shared \<Rightarrow> alg_out" where
  "cats_tide_file env base sd =
     rbind (sget_string sd ''l1b_file_name'') (\<lambda>f.
       let time_string = py_slice (path_name f) (Some 19) (Some (- 3)) in
       rbind (year_month time_string) (\<lambda>(year, month).
         if bad_month year month then fail sd ''Could not determine correct month from L1b file name''
         else case te_glob env (cats_pattern base time_string year month) of
                [fname] \<Rightarrow>
                  (case cats_read env fname of
                     Inl e \<Rightarrow> if is_os_error e \<or> is_key_error e then fail sd ''Error reading Dataset'' else Inl e
                   | Inr cats \<Rightarrow>
                       rbind (sget_int sd ''num_20hz_records'') (\<lambda>n.
                         if int (length cats) \<noteq> n
                         then fail sd ''CATS2008a tide array length mismatch to L1b record size''
                         else pass (dset (dset sd ''cats_tide'' (SF (map nan_to_num cats)))
                           ''cats_tide_required'' (SBool True))))
              | _ \<Rightarrow> fail sd ''Missing CATS2008a tide correction file''))"

definition cats2008a_tide_correction :: "tide_env \<Rightarrow> string \<Rightarrow> dataset \<Rightarrow> shared \<Rightarrow> alg_out" where
  "cats2008a_tide_correction env base l1b sd =
     (let sd1 = dset sd ''cats_tide_required'' (SBool False) in
      rbind (dget sd1 ''hemisphere'') (\<lambda>hem.
        if hem = SStr ''north'' then
          Inr ((True, ''no CATS tide correction required for northern hemisphere''), sd1)
        else
          rbind (sget_string sd1 ''instr_mode'') (\<lambda>mode.
            if mode \<noteq> ''SIN'' then Inr ((True, ''No CATS tide correction required for '' @ mode @ '' mode''), sd1)
            else
              rbind (sget_indices sd1 ''floating_ice_locations'') (\<lambda>floating.
              rbind (if floating = [] then rbind (sget_indices sd1 ''ocean_locations'') (\<lambda>ocean. Inr (ocean = [])) else Inr False)
                (\<lambda>none.
                if none then
                  Inr ((True, ''no CATS tide correction required as not over ocean or floating ice''), sd1)
                else cats_tide_file env base sd1)))))"

definition alg_cats2008a_tide_correction :: "tide_env \<Rightarrow> alg_class" where
  "alg_cats2008a_tide_correction env = tide_class ''clev2er.algorithms.cryotempo.alg_cats2008a_tide_correction''
     ''cats2008a_base_dir'' env (cats2008a_tide_correction env)"

section \<open>alg_geo_corrections\<close>

definition np_add :: "fl list res \<Rightarrow> fl list res \<Rightarrow> fl list res" where
  "np_add a b = rbind a (\<lambda>xs. rbind b (\<lambda>ys. np_map2 fl_add xs ys))"

text \<open>\<^verbatim>\<open>l1b.variables[name][:].data[ind_meas_1hz_20_ku]\<close>: the 1 Hz values at 20 Hz.\<close>

definition at_20hz :: "dataset \<Rightarrow> nat list \<Rightarrow> string \<Rightarrow> fl list res" where
  "at_20hz l1b ind name = rbind (nc_floats l1b name) (\<lambda>xs. gather xs ind)"

text \<open>\<^verbatim>\<open>xs[idx] += (...)\<close> with the sum of the corrections at the indices.\<close>

definition add_at :: "fl list \<Rightarrow> nat list \<Rightarrow> fl list list \<Rightarrow> fl list res" where
  "add_at xs idx cors =
     rbind (gather xs idx) (\<lambda>old.
     rbind (rmapM (\<lambda>c. gather c idx) cors) (\<lambda>vals.
       case vals of
         [] \<Rightarrow> Inr xs
       | v # vs \<Rightarrow> Inr (scatter xs idx (map2 fl_add old (foldl (map2 fl_add) v vs)))))"

text \<open>\<^verbatim>\<open>if idx.size > 0: sum[idx] += ...\<close>\<close>

definition add_at_some :: "nat list \<Rightarrow> fl list list \<Rightarrow> fl list \<Rightarrow> fl list res" where
  "add_at_some idx cors xs = (if idx = [] then Inr xs else add_at xs idx cors)"

text \<open>The five corrections of the L1b file, in the order they are read.\<close>

definition l1b_corrections :: "dataset \<Rightarrow> nat list \<Rightarrow> (fl list list) res" where
  "l1b_corrections l1b ind =
     rmapM (at_20hz l1b ind) [''mod_dry_tropo_cor_01'', ''mod_wet_tropo_cor_01'', ''iono_cor_gim_01'',
       ''solid_earth_tide_01'', ''pole_tide_01'']"

definition base_sum :: "fl list list \<Rightarrow> fl list \<Rightarrow> fl list res" where
  "base_sum cors load =
     (case cors of
        [dry, wet, gim, solid, pole] \<Rightarrow>
          np_add (np_add (np_add (np_add (np_add (Inr dry) (Inr wet)) (Inr gim)) (Inr load)) (Inr solid)) (Inr pole)
      | _ \<Rightarrow> Inl (KeyError ''corrections''))"

definition none_index :: py_error where
  "none_index = TypeError ''NoneType object is not subscriptable''"

text \<open>The ocean corrections added over floating ice and ocean; \<^verbatim>\<open>hf_fluct_total_cor_20\<close> is read only
  when there are such points.\<close>

definition add_cats :: "sval \<Rightarrow> fl list \<Rightarrow> nat list \<Rightarrow> fl list \<Rightarrow> fl list res" where
  "add_cats cats dac idx xs =
     (if idx = [] then Inr xs else case cats of SF ct \<Rightarrow> add_at xs idx [dac, ct] | _ \<Rightarrow> Inl none_index)"

definition ocean_corrections :: "dataset \<Rightarrow> nat list \<Rightarrow> shared \<Rightarrow> fl list \<Rightarrow> fl list \<Rightarrow> sval \<Rightarrow> fl list \<Rightarrow> fl list res" where
  "ocean_corrections l1b ind sd ocean_eq ocean cats sum0 =
     rbind (sget_indices sd ''floating_ice_locations'') (\<lambda>floating.
     rbind (sget_indices sd ''ocean_locations'') (\<lambda>oc.
     rbind (if length floating + length oc > 0 then at_20hz l1b ind ''hf_fluct_total_cor_01'' else Inr []) (\<lambda>dac.
     rbind (dget sd ''hemisphere'') (\<lambda>hem.
     rbind (if hem = SStr ''north'' then
              rbind (add_at_some floating [dac, ocean_eq, ocean] sum0) (add_at_some oc [dac, ocean_eq, ocean])
            else Inr sum0) (\<lambda>sum1.
       if hem = SStr ''south'' then
         rbind (dget sd ''instr_mode'') (\<lambda>mode.
           if mode = SStr ''SIN'' then rbind (add_cats cats dac floating sum1) (add_cats cats dac oc)
           else Inr sum1)
       else Inr sum1)))))"

definition fes_entry :: "shared \<Rightarrow> string \<Rightarrow> sval res" where
  "fes_entry sd k = rbind (dget sd ''fes2014b_corrections'') (\<lambda>v. rbind (as_sdict v) (\<lambda>d. dget d k))"

definition fes_entries :: "shared \<Rightarrow> (sval \<times> sval \<times> sval) res" where
  "fes_entries sd =
     rbind (fes_entry sd ''load_tide_20'') (\<lambda>a. rbind (fes_entry sd ''ocean_tide_20'') (\<lambda>b.
     rbind (fes_entry sd ''ocean_tide_eq_20'') (\<lambda>c. Inr (a, b, c))))"

text \<open>The sum itself, once the tides have been found. The corrections are numbers of a few metres: their sum is
  rounded, and the floating-point exceptions of the error mode of numpy are left out here.\<close>

definition sum_corrections :: "dataset \<Rightarrow> shared \<Rightarrow> nat list \<Rightarrow> fl list \<Rightarrow> fl list \<Rightarrow> fl list \<Rightarrow> sval \<Rightarrow> alg_out" where
  "sum_corrections l1b sd ind load ocean ocean_eq cats =
     (case l1b_corrections l1b ind of
        Inl e \<Rightarrow> if is_key_error e then fail sd ''Error reading l1b tide variables'' else Inl e
      | Inr cors \<Rightarrow>
          rbind (base_sum cors load) (\<lambda>sum0.
          rbind (ocean_corrections l1b ind sd ocean_eq ocean cats sum0) (\<lambda>sum1.
            if sum1 = [] then Inl (ZeroDivisionError ''division by zero'')
            else pass (dset (dset sd ''invalid_corrections_locs'' (SI (np_where is_nan sum1)))
              ''sum_cor_20_ku'' (SF sum1)))))"

definition geo_corrections :: "dataset \<Rightarrow> shared \<Rightarrow> alg_out" where
  "geo_corrections l1b sd =
     rbind (rbind (nc_var l1b ''ind_meas_1hz_20_ku'') as_indices) (\<lambda>ind.
       case fes_entries sd of
         Inl e \<Rightarrow> if is_key_error e then fail sd ''fes2014b_corrections.load_tide_20 missing from shared_dict'' else Inl e
       | Inr (load_v, ocean_v, ocean_eq_v) \<Rightarrow>
           rbind (as_floats load_v) (\<lambda>load. rbind (as_floats ocean_v) (\<lambda>ocean. rbind (as_floats ocean_eq_v) (\<lambda>ocean_eq.
           rbind (dget sd ''cats_tide_required'') (\<lambda>req.
             if req = SBool True \<and> \<not> dhas sd ''cats_tide'' then fail sd ''cats_tide missing from shared_dict''
             else
               rbind (if req = SBool True then dget sd ''cats_tide'' else Inr SNone)
                 (sum_corrections l1b sd ind load ocean ocean_eq))))))"

definition alg_geo_corrections :: alg_class where
  "alg_geo_corrections = \<lparr>cls_name = ''clev2er.algorithms.cryotempo.alg_geo_corrections'',
     cls_init = (\<lambda>cfg. Inr ((True, []), \<lparr>impl_body = geo_corrections, impl_finalize = base_finalize\<rparr>))\<rparr>"

section \<open>The contract\<close>

interpretation fes2014b: chain_algorithm "fes2014b_tide_correction env base" "{''fes2014b_corrections''}"
  by (unfold_locales, erule framesD [rotated], unfold fes2014b_tide_correction_def, intro frame_intros)
    (auto intro: agree_off_dset)

lemma cats_tide_file_frame: "frames {''cats_tide'', ''cats_tide_required''} sd (cats_tide_file env base sd)"
  by (unfold cats_tide_file_def, intro frame_intros) (auto intro: agree_off_dset)

lemma cats_frame: "frames {''cats_tide'', ''cats_tide_required''} sd (cats2008a_tide_correction env base l1b sd)"
proof -
  have "frames {''cats_tide'', ''cats_tide_required''} sd (cats_tide_file env base (dset sd ''cats_tide_required'' v))" for v
    using cats_tide_file_frame [of "dset sd ''cats_tide_required'' v" env base]
    by (auto simp: frames_def agree_off_def)
  then show ?thesis
    by (unfold cats2008a_tide_correction_def, intro frame_intros) (auto intro: agree_off_dset)
qed

interpretation cats2008a: chain_algorithm "cats2008a_tide_correction env base" "{''cats_tide'', ''cats_tide_required''}"
  using cats_frame by unfold_locales (rule framesD)

interpretation geo_corrections: chain_algorithm geo_corrections "{''invalid_corrections_locs'', ''sum_cor_20_ku''}"
  by (unfold_locales, erule framesD [rotated], unfold geo_corrections_def sum_corrections_def, intro frame_intros)
    (auto intro: agree_off_dset)

section \<open>Behaviour\<close>

lemma map2_map_same: "map2 f (map g xs) (map h xs) = map (\<lambda>x. f (g x) (h x)) xs"
  by (induction xs) auto

lemma foldl_map2_gather:
  "foldl (map2 f) (map g idx) (map (\<lambda>d. map ((!) d) idx) cs) = map (\<lambda>i. foldl f (g i) (map (\<lambda>d. d ! i) cs)) idx"
  by (induction cs arbitrary: g) (simp_all add: map2_map_same)

lemma rmapM_gather:
  "rmapM (\<lambda>c. gather c idx) cs = Inr vals \<Longrightarrow> vals = map (\<lambda>d. map ((!) d) idx) cs"
  by (induction cs arbitrary: vals) (auto simp: rbind_eq_Inr gather_Inr)

text \<open>\<^verbatim>\<open>xs[idx] += c + ...\<close> changes exactly the points of \<open>idx\<close>.\<close>

lemma add_at_nth:
  assumes "add_at xs idx (c # cs) = Inr ys" and "distinct idx"
  shows "length ys = length xs \<and> (\<forall>i<length xs. ys ! i =
    (if i \<in> set idx then fl_add (xs ! i) (foldl fl_add (c ! i) (map (\<lambda>d. d ! i) cs)) else xs ! i))"
proof -
  obtain old v vs where o: "gather xs idx = Inr old" and v: "gather c idx = Inr v" "rmapM (\<lambda>c. gather c idx) cs = Inr vs"
    and ys: "ys = scatter xs idx (map2 fl_add old (foldl (map2 fl_add) v vs))"
    using assms(1) by (auto simp: add_at_def rbind_assoc rbind_eq_Inr)
  have "ys = scatter xs idx (map (\<lambda>i. fl_add (xs ! i) (foldl fl_add (c ! i) (map (\<lambda>d. d ! i) cs))) idx)"
    using rmapM_gather [OF v(2)] v(1) o ys by (simp add: gather_Inr foldl_map2_gather map2_map_same)
  then show ?thesis using assms(2) by (simp add: nth_scatter_map)
qed

lemma add_at_some_nth:
  assumes "add_at_some idx (c # cs) xs = Inr ys" and "distinct idx"
  shows "length ys = length xs \<and> (\<forall>i<length xs. ys ! i =
    (if i \<in> set idx then fl_add (xs ! i) (foldl fl_add (c ! i) (map (\<lambda>d. d ! i) cs)) else xs ! i))"
  using assms add_at_nth by (auto simp: add_at_some_def split: if_splits)

lemma add_cats_nth:
  assumes "add_cats (SF ct) dac idx xs = Inr ys" and "distinct idx"
  shows "length ys = length xs \<and>
    (\<forall>i<length xs. ys ! i = (if i \<in> set idx then fl_add (xs ! i) (fl_add (dac ! i) (ct ! i)) else xs ! i))"
  using assms add_at_nth [of xs idx dac "[ct]" ys] by (auto simp: add_cats_def split: if_splits)

text \<open>What is added at one point: the six corrections of every measurement, and over ocean and
  floating ice the ocean corrections of the hemisphere.\<close>

definition point_base :: "fl list list \<Rightarrow> fl list \<Rightarrow> nat \<Rightarrow> fl" where
  "point_base cors load i = fl_add (fl_add (fl_add (fl_add (fl_add (cors ! 0 ! i) (cors ! 1 ! i)) (cors ! 2 ! i))
     (load ! i)) (cors ! 3 ! i)) (cors ! 4 ! i)"

definition point_sum :: "bool \<Rightarrow> bool \<Rightarrow> bool \<Rightarrow> fl list \<Rightarrow> fl list \<Rightarrow> fl list \<Rightarrow> fl list \<Rightarrow> nat \<Rightarrow> fl \<Rightarrow> fl" where
  "point_sum north south_sin over_water dac ocean_eq ocean cats i base =
     (if over_water \<and> north then fl_add base (fl_add (fl_add (dac ! i) (ocean_eq ! i)) (ocean ! i))
      else if over_water \<and> south_sin then fl_add base (fl_add (dac ! i) (cats ! i))
      else base)"

lemma l1b_corrections_shape:
  assumes "l1b_corrections l1b ind = Inr cors"
  shows "\<exists>a b c d e. cors = [a, b, c, d, e] \<and> (\<forall>x\<in>set cors. length x = length ind)"
  using assms by (auto simp: l1b_corrections_def at_20hz_def rbind_eq_Inr dest!: gather_length)

lemma base_sum_nth:
  assumes "l1b_corrections l1b ind = Inr cors" and "length load = length ind"
  shows "base_sum cors load = Inr (map (point_base cors load) [0..<length ind])"
proof -
  obtain a b c d e where cors: "cors = [a, b, c, d, e]" and len: "\<forall>x\<in>set cors. length x = length ind"
    using l1b_corrections_shape [OF assms(1)] by blast
  then show ?thesis
    using assms(2)
    by (auto simp: base_sum_def np_add_def point_base_def eval_nat_numeral intro!: nth_equalityI)
qed

text \<open>Which errors a computation cannot raise.\<close>

lemma rbind_neq_Inl: "r \<noteq> Inl e \<Longrightarrow> (\<And>x. r = Inr x \<Longrightarrow> f x \<noteq> Inl e) \<Longrightarrow> rbind r f \<noteq> Inl e"
  by (auto simp: rbind_eq_Inl)

lemma if_neq_Inl: "(P \<Longrightarrow> a \<noteq> Inl e) \<Longrightarrow> (\<not> P \<Longrightarrow> b \<noteq> Inl e) \<Longrightarrow> (if P then a else b) \<noteq> Inl e"
  by simp

lemma gather_neq_none: "gather xs idx \<noteq> Inl none_index"
  by (induction idx) (auto simp: gather_def none_index_def arr_at_def rbind_eq_Inl)

lemma rmapM_neq_Inl: "(\<And>x. x \<in> set xs \<Longrightarrow> f x \<noteq> Inl e) \<Longrightarrow> rmapM f xs \<noteq> Inl e"
  by (induction xs) (auto simp: rbind_eq_Inl)

lemma readers_neq_none:
  "dget d k \<noteq> Inl none_index" "as_indices v \<noteq> Inl none_index" "as_floats v \<noteq> Inl none_index"
  "as_sdict v \<noteq> Inl none_index" "nc_var nc k \<noteq> Inl none_index"
  by (auto simp: dget_def as_indices_def as_floats_def as_sdict_def nc_var_def none_index_def of_option_def
      split: sval.splits option.splits)

lemma at_20hz_neq_none: "at_20hz l1b ind k \<noteq> Inl none_index"
  by (auto simp: at_20hz_def nc_floats_def rbind_eq_Inl readers_neq_none gather_neq_none)

lemma add_at_neq_none: "add_at xs idx cors \<noteq> Inl none_index"
  unfolding add_at_def
  by (intro rbind_neq_Inl rmapM_neq_Inl gather_neq_none) (auto split: list.splits)

lemma np_add_neq_none: "a \<noteq> Inl none_index \<Longrightarrow> b \<noteq> Inl none_index \<Longrightarrow> np_add a b \<noteq> Inl none_index"
  unfolding np_add_def
  by (intro rbind_neq_Inl) (auto simp: np_map2_def none_index_def split: list.splits)

lemma base_sum_neq_none: "base_sum cors load \<noteq> Inl none_index"
proof (cases "\<exists>a b c d e. cors = [a, b, c, d, e]")
  case True
  then obtain a b c d e where "cors = [a, b, c, d, e]" by blast
  then show ?thesis by (simp add: base_sum_def np_add_neq_none)
next
  case False
  then show ?thesis by (auto simp: base_sum_def none_index_def split: list.splits)
qed

lemma ocean_corrections_nth:
  assumes ok: "ocean_corrections l1b ind sd ocean_eq ocean cats sum0 = Inr s"
    and f: "dget sd ''floating_ice_locations'' = Inr (SI fl)" "distinct fl"
    and o: "dget sd ''ocean_locations'' = Inr (SI oc)" "distinct oc" and disj: "set fl \<inter> set oc = {}"
  shows "\<exists>hem dac ct. dget sd ''hemisphere'' = Inr hem \<and> length s = length sum0 \<and>
    (set fl \<union> set oc \<noteq> {} \<longrightarrow> at_20hz l1b ind ''hf_fluct_total_cor_01'' = Inr dac) \<and>
    (set fl \<union> set oc \<noteq> {} \<and> hem = SStr ''south'' \<and> dget sd ''instr_mode'' = Inr (SStr ''SIN'') \<longrightarrow> cats = SF ct) \<and>
    (\<forall>i<length sum0. s ! i = point_sum (hem = SStr ''north'')
       (hem = SStr ''south'' \<and> dget sd ''instr_mode'' = Inr (SStr ''SIN'')) (i \<in> set fl \<union> set oc)
       dac ocean_eq ocean ct i (sum0 ! i))"
proof -
  obtain dac hem sum1 where dac: "(if length fl + length oc > 0 then at_20hz l1b ind ''hf_fluct_total_cor_01'' else Inr []) = Inr dac"
    and hem: "dget sd ''hemisphere'' = Inr hem"
    and sum1: "(if hem = SStr ''north'' then
        rbind (add_at_some fl [dac, ocean_eq, ocean] sum0) (add_at_some oc [dac, ocean_eq, ocean]) else Inr sum0) = Inr sum1"
    and s: "(if hem = SStr ''south'' then rbind (dget sd ''instr_mode'') (\<lambda>mode.
        if mode = SStr ''SIN'' then rbind (add_cats cats dac fl sum1) (add_cats cats dac oc) else Inr sum1) else Inr sum1) = Inr s"
    using ok f(1) o(1) by (auto simp: ocean_corrections_def sget_indices_def rbind_eq_Inr)
  have dac': "set fl \<union> set oc \<noteq> {} \<longrightarrow> at_20hz l1b ind ''hf_fluct_total_cor_01'' = Inr dac"
    using dac by (auto split: if_splits)
  consider (north) "hem = SStr ''north''" | (sin) "hem = SStr ''south''" "dget sd ''instr_mode'' = Inr (SStr ''SIN'')"
    | (other) "hem \<noteq> SStr ''north''" "hem \<noteq> SStr ''south'' \<or> dget sd ''instr_mode'' \<noteq> Inr (SStr ''SIN'')" by blast
  then show ?thesis
  proof cases
    case north
    then obtain t where t: "add_at_some fl [dac, ocean_eq, ocean] sum0 = Inr t" "add_at_some oc [dac, ocean_eq, ocean] t = Inr s"
      using sum1 s by (auto simp: rbind_eq_Inr)
    then show ?thesis
      using add_at_some_nth [OF t(1) f(2)] add_at_some_nth [OF t(2) o(2)] disj north dac' hem
      by (intro exI [of _ hem] exI [of _ dac]) (auto simp: point_sum_def)
  next
    case sin
    then have sum1: "sum1 = sum0" using sum1 by simp
    show ?thesis
    proof (cases "set fl \<union> set oc = {}")
      case True
      then show ?thesis using sin s sum1 hem by (auto simp: point_sum_def add_cats_def)
    next
      case False
      then obtain ct where ct: "cats = SF ct"
        using s sin by (auto simp: add_cats_def rbind_eq_Inr split: if_splits sval.splits)
      obtain t where t: "add_cats (SF ct) dac fl sum0 = Inr t" "add_cats (SF ct) dac oc t = Inr s"
        using s sin sum1 ct by (auto simp: rbind_eq_Inr)
      show ?thesis
        using add_cats_nth [OF t(1) f(2)] add_cats_nth [OF t(2) o(2)] disj sin dac' hem ct
        by (intro exI [of _ hem] exI [of _ dac] exI [of _ ct]) (auto simp: point_sum_def)
    qed
  next
    case other
    then have "s = sum0" using sum1 s by (auto simp: rbind_eq_Inr split: if_splits)
    then show ?thesis using other dac' hem by (intro exI [of _ hem] exI [of _ dac]) (auto simp: point_sum_def)
  qed
qed

lemma cats_tide_contract_aux:
  assumes "cats2008a_tide_correction env base l1b sd = Inr ((True, m), sd')"
    and "dget sd ''num_20hz_records'' = Inr (SInt n)"
  shows "dget sd' ''cats_tide_required'' = Inr (SBool False) \<or>
    dget sd' ''cats_tide_required'' = Inr (SBool True) \<and>
    (\<exists>xs. dget sd' ''cats_tide'' = Inr (SF xs) \<and> int (length xs) = n \<and> list_all is_finite xs)"
proof -
  let ?sd1 = "dset sd ''cats_tide_required'' (SBool False)"
  have "sd' = ?sd1 \<or> cats_tide_file env base ?sd1 = Inr ((True, m), sd')"
    using assms(1) by (auto simp: cats2008a_tide_correction_def rbind_eq_Inr Let_def split: if_splits)
  moreover have "\<exists>cats. sd' = dset (dset ?sd1 ''cats_tide'' (SF (map nan_to_num cats))) ''cats_tide_required'' (SBool True) \<and>
      int (length cats) = n" if "cats_tide_file env base ?sd1 = Inr ((True, m), sd')"
    using that assms(2)
    by (auto simp: cats_tide_file_def sget_int_def rbind_eq_Inr Let_def split: if_splits sum.splits prod.splits list.splits)
  ultimately show ?thesis by (auto simp: list_all_iff nan_to_num_finite)
qed

section \<open>Properties\<close>

text \<open>C13: The sum of the geophysical corrections, point by point. When \<^verbatim>\<open>alg_geo_corrections\<close> succeeds,
  with ocean and floating-ice index arrays that have no point twice or in common (as
  \<^verbatim>\<open>alg_surface_type\<close> stores them), the correction of each measurement is the sum of its six
  basic corrections, to which are added, over ocean and floating ice only and exactly once,
  the dynamic atmosphere and the FES2014b ocean tides in the north, and the dynamic
  atmosphere and the CATS2008a tide in the south in SIN mode; and the stored invalid
  locations are exactly the points whose sum is NaN.\<close>

theorem geo_corrections_pointwise:
  assumes ok: "geo_corrections l1b sd = Inr ((True, m), sd')"
    and f: "dget sd ''floating_ice_locations'' = Inr (SI fl)" "distinct fl"
    and o: "dget sd ''ocean_locations'' = Inr (SI oc)" "distinct oc" and disj: "set fl \<inter> set oc = {}"
    and ind: "nc_var l1b ''ind_meas_1hz_20_ku'' = Inr (SI ind)"
    and fes: "fes_entries sd = Inr (SF load, SF ocean, SF ocean_eq)" and len: "length load = length ind"
  shows "\<exists>cors hem dac ct s. l1b_corrections l1b ind = Inr cors \<and> dget sd ''hemisphere'' = Inr hem \<and>
    (set fl \<union> set oc \<noteq> {} \<longrightarrow> at_20hz l1b ind ''hf_fluct_total_cor_01'' = Inr dac) \<and>
    (set fl \<union> set oc \<noteq> {} \<and> hem = SStr ''south'' \<and> dget sd ''instr_mode'' = Inr (SStr ''SIN'') \<longrightarrow>
       dget sd ''cats_tide'' = Inr (SF ct)) \<and>
    dget sd' ''sum_cor_20_ku'' = Inr (SF s) \<and> length s = length ind \<and>
    (\<forall>i<length ind. s ! i = point_sum (hem = SStr ''north'')
       (hem = SStr ''south'' \<and> dget sd ''instr_mode'' = Inr (SStr ''SIN'')) (i \<in> set fl \<union> set oc)
       dac ocean_eq ocean ct i (point_base cors load i)) \<and>
    dget sd' ''invalid_corrections_locs'' = Inr (SI (np_where is_nan s))"
proof -
  obtain req where "dget sd ''cats_tide_required'' = Inr req"
    using ok ind fes by (auto simp: geo_corrections_def rbind_eq_Inr)
  then obtain cats where cats: "(if req = SBool True then dget sd ''cats_tide'' else Inr SNone) = Inr cats"
    and "sum_corrections l1b sd ind load ocean ocean_eq cats = Inr ((True, m), sd')"
    using ok ind fes by (auto simp: geo_corrections_def rbind_eq_Inr split: if_splits)
  then obtain cors sum0 s where cors: "l1b_corrections l1b ind = Inr cors" and sum0: "base_sum cors load = Inr sum0" and
    s: "ocean_corrections l1b ind sd ocean_eq ocean cats sum0 = Inr s" and
    sd': "sd' = dset (dset sd ''invalid_corrections_locs'' (SI (np_where is_nan s))) ''sum_cor_20_ku'' (SF s)"
    by (auto simp: sum_corrections_def rbind_eq_Inr split: if_splits sum.splits)
  note sum0' = sum0 [unfolded base_sum_nth [OF cors len], symmetric]
  obtain hem dac ct where H: "dget sd ''hemisphere'' = Inr hem" "length s = length sum0"
    "set fl \<union> set oc \<noteq> {} \<longrightarrow> at_20hz l1b ind ''hf_fluct_total_cor_01'' = Inr dac"
    "set fl \<union> set oc \<noteq> {} \<and> hem = SStr ''south'' \<and> dget sd ''instr_mode'' = Inr (SStr ''SIN'') \<longrightarrow> cats = SF ct"
    "\<forall>i<length sum0. s ! i = point_sum (hem = SStr ''north'')
       (hem = SStr ''south'' \<and> dget sd ''instr_mode'' = Inr (SStr ''SIN'')) (i \<in> set fl \<union> set oc)
       dac ocean_eq ocean ct i (sum0 ! i)"
    using ocean_corrections_nth [OF s f o disj] by blast
  have ct: "cats = SF ct \<Longrightarrow> dget sd ''cats_tide'' = Inr (SF ct)" using cats by (auto split: if_splits)
  have len0: "length sum0 = length ind" and nth0: "\<forall>i<length ind. sum0 ! i = point_base cors load i"
    using sum0' by simp_all
  have out: "dget sd' ''sum_cor_20_ku'' = Inr (SF s)" "dget sd' ''invalid_corrections_locs'' = Inr (SI (np_where is_nan s))"
    using sd' by simp_all
  show ?thesis
    by (intro exI [of _ cors] exI [of _ hem] exI [of _ dac] exI [of _ ct] exI [of _ s] conjI cors H(1,3) out)
      (use H(2,4,5) ct len0 nth0 in simp_all)
qed

text \<open>C14: The CATS2008a tide. When \<^verbatim>\<open>alg_cats2008a_tide_correction\<close> succeeds, either the tide is marked
  as not required, or it is stored with one value per measurement, none of them NaN or
  infinite.\<close>

theorem cats_tide_contract:
  assumes "cats2008a_tide_correction env base l1b sd = Inr ((True, m), sd')"
    and "dget sd ''num_20hz_records'' = Inr (SInt n)"
  shows "dget sd' ''cats_tide_required'' = Inr (SBool False) \<or>
    dget sd' ''cats_tide_required'' = Inr (SBool True) \<and>
    (\<exists>xs. dget sd' ''cats_tide'' = Inr (SF xs) \<and> int (length xs) = n \<and> list_all is_finite xs)"
  using assms by (rule cats_tide_contract_aux)

text \<open>The two tide algorithms and the corrections fit together: on the dictionary left by a
  successful \<^verbatim>\<open>alg_cats2008a_tide_correction\<close>, \<^verbatim>\<open>alg_geo_corrections\<close> never indexes the missing
  CATS tide (a \<^verbatim>\<open>None\<close>), which would be an exception the chain does not catch: the tide is
  marked as not required only where \<^verbatim>\<open>alg_geo_corrections\<close> does not use it.\<close>

theorem cats_then_geo_corrections:
  assumes cats: "cats2008a_tide_correction env base l1b sd = Inr ((True, m), sd')"
    and n: "dget sd ''num_20hz_records'' = Inr (SInt n)"
  shows "geo_corrections l1b' sd' \<noteq> Inl none_index"
proof -
  let ?sd1 = "dset sd ''cats_tide_required'' (SBool False)"
  have keep: "dget sd' k = dget sd k" if "k \<noteq> ''cats_tide''" "k \<noteq> ''cats_tide_required''" for k
    using cats2008a.keeps [OF cats] that by simp
  have water: "dget sd' ''cats_tide_required'' = Inr (SBool True) \<or> dget sd ''hemisphere'' \<noteq> Inr (SStr ''south'') \<or>
      dget sd ''instr_mode'' \<noteq> Inr (SStr ''SIN'') \<or>
      dget sd ''floating_ice_locations'' = Inr (SI []) \<and> dget sd ''ocean_locations'' = Inr (SI [])"
  proof -
    have "cats_tide_file env base ?sd1 = Inr ((True, m), sd') \<Longrightarrow> dget sd' ''cats_tide_required'' = Inr (SBool True)"
      by (auto simp: cats_tide_file_def rbind_eq_Inr Let_def split: if_splits sum.splits prod.splits list.splits)
    then show ?thesis
      using cats by (auto simp: cats2008a_tide_correction_def sget_string_def sget_indices_def rbind_eq_Inr Let_def split: if_splits)
  qed
  have req: "\<exists>b. dget sd' ''cats_tide_required'' = Inr (SBool b) \<and> (b \<longrightarrow> (\<exists>xs. dget sd' ''cats_tide'' = Inr (SF xs)))"
    using cats_tide_contract_aux [OF cats n] by blast
  have ocean: "ocean_corrections l1b' ind sd' oe oc c s0 \<noteq> Inl none_index"
    if c: "(if dget sd' ''cats_tide_required'' = Inr (SBool True) then dget sd' ''cats_tide'' else Inr SNone) = Inr c" for ind oe oc c s0
  proof -
    have some: "add_at_some idx cs xs \<noteq> Inl none_index" for idx cs xs by (simp add: add_at_some_def add_at_neq_none)
    have "add_cats c dac idx xs \<noteq> Inl none_index"
      if "dget sd' ''hemisphere'' = Inr (SStr ''south'')" "dget sd' ''instr_mode'' = Inr (SStr ''SIN'')"
        "dget sd' ''floating_ice_locations'' = Inr (SI f)" "dget sd' ''ocean_locations'' = Inr (SI g)" "idx = f \<or> idx = g"
      for dac idx xs f g
      using that c water req keep [of "''hemisphere''"] keep [of "''instr_mode''"] keep [of "''floating_ice_locations''"]
        keep [of "''ocean_locations''"]
      by (auto simp: add_cats_def add_at_neq_none split: if_splits)
    then show ?thesis
      unfolding ocean_corrections_def sget_indices_def
      by (intro rbind_neq_Inl if_neq_Inl readers_neq_none at_20hz_neq_none some) (auto simp: rbind_eq_Inr)
  qed
  have l1b: "l1b_corrections l1b' ind \<noteq> Inl none_index" for ind
    unfolding l1b_corrections_def by (intro rmapM_neq_Inl at_20hz_neq_none)
  have sum: "sum_corrections l1b' sd' ind load oc oe c \<noteq> Inl none_index"
    if "(if dget sd' ''cats_tide_required'' = Inr (SBool True) then dget sd' ''cats_tide'' else Inr SNone) = Inr c" for ind load oc oe c
  proof (cases "l1b_corrections l1b' ind")
    case (Inl e)
    then show ?thesis using l1b [of ind] by (auto simp: sum_corrections_def fail_def)
  next
    case (Inr cors)
    show ?thesis unfolding sum_corrections_def Inr sum.case
      by (intro rbind_neq_Inl if_neq_Inl base_sum_neq_none ocean [OF that]) (simp_all add: pass_def none_index_def)
  qed
  have fes: "fes_entries sd' \<noteq> Inl none_index"
    unfolding fes_entries_def fes_entry_def by (intro rbind_neq_Inl readers_neq_none) simp
  obtain b where b: "dget sd' ''cats_tide_required'' = Inr (SBool b)" using req by blast
  show ?thesis
  proof (cases "fes_entries sd'")
    case (Inl e)
    with fes show ?thesis
      unfolding geo_corrections_def
      by (simp only: sum.case, intro rbind_neq_Inl if_neq_Inl readers_neq_none) (auto simp: fail_def)
  next
    case (Inr abc)
    obtain x y z where "abc = (x, y, z)" by (cases abc) auto
    with Inr show ?thesis
      unfolding geo_corrections_def
      by (simp only: sum.case prod.case, intro rbind_neq_Inl if_neq_Inl readers_neq_none sum)
        (auto simp: b fail_def none_index_def)
  qed
qed

text \<open>The year and month in a file name. A file name that has the acquisition start written with
  four digits for the year and two for the month after its 19th character gives back that
  year and month, whatever surrounds them.\<close>

theorem year_month_of_filename:
  assumes "length pre = 19" and "8 \<le> length rest" and "y < 10000" and "mo < 100"
  shows "year_month (py_slice (pre @ show_pad 4 (int y) @ show_pad 2 (int mo) @ rest) (Some 19) (Some (- 8))) =
    Inr (int y, int mo)"
proof -
  have len: "length (show_pad 4 (int y)) = 4" "length (show_pad 2 (int mo)) = 2"
    using length_show_pad [of y 4] length_show_pad [of mo 2] assms by simp_all
  then have "py_slice (pre @ show_pad 4 (int y) @ show_pad 2 (int mo) @ rest) (Some 19) (Some (- 8)) =
      show_pad 4 (int y) @ show_pad 2 (int mo) @ take (length rest - 8) rest"
    using assms by (auto simp: py_slice_def slice_index_def Let_def intro!: arg_cong [where f = "\<lambda>k. take k rest"])
  then show ?thesis
    using len by (simp add: year_month_def py_int_res_def of_option_def py_slice_def slice_index_def)
qed

section \<open>Concrete runs\<close>

definition wit_cors_nc :: dataset where
  "wit_cors_nc = wit_nc0\<lparr>ds_variables := (\<lambda>k. if k = ''ind_meas_1hz_20_ku'' then Some (SI [0, 0]) else Some (SF [Fin 1]))\<rparr>"

definition wit_tides :: sval where
  "wit_tides = SDict [(''ocean_tide_20'', SF [Fin 2, Fin 2]), (''ocean_tide_eq_20'', SF [Fin 4, Fin 4]), (''load_tide_20'', SF [Fin 8, NaN])]"

definition wit_cors_sd :: "string \<Rightarrow> shared" where
  "wit_cors_sd hem = [(''floating_ice_locations'', SI [0]), (''ocean_locations'', SI []), (''hemisphere'', SStr hem), (''instr_mode'', SStr ''SIN''),
     (''num_20hz_records'', SInt 2), (''l1b_file_name'', SStr ''d/CS_OFFL_SIR_SIN_1B_20200913T100000.nc''),
     (''fes2014b_corrections'', wit_tides), (''cats_tide_required'', SBool False)]"

theorem geo_corrections_pointwise_witness:
  "\<exists>sd' s. geo_corrections wit_cors_nc (wit_cors_sd ''north'') = Inr ((True, []), sd') \<and>
     dget sd' ''sum_cor_20_ku'' = Inr (SF s) \<and> length s = 2 \<and> dget sd' ''invalid_corrections_locs'' = Inr (SI (np_where is_nan s))"
proof -
  let ?sd = "wit_cors_sd ''north''"
  have "succeeds (geo_corrections wit_cors_nc ?sd)" by code_simp
  then obtain m sd' where ok: "geo_corrections wit_cors_nc ?sd = Inr ((True, m), sd')" by (rule succeedsE)
  have sd: "dget ?sd ''floating_ice_locations'' = Inr (SI [0])" "dget ?sd ''ocean_locations'' = Inr (SI [])"
    "fes_entries ?sd = Inr (SF [Fin 8, NaN], SF [Fin 2, Fin 2], SF [Fin 4, Fin 4])"
    "nc_var wit_cors_nc ''ind_meas_1hz_20_ku'' = Inr (SI [0, 0])"
    by (simp_all add: wit_cors_sd_def wit_tides_def fes_entries_def fes_entry_def wit_cors_nc_def nc_var_def of_option_def)
  have "map_sum (\<lambda>e. ()) fst (geo_corrections wit_cors_nc ?sd) = Inr (True, [])" by code_simp
  then have "m = []" using ok by simp
  then show ?thesis
    using geo_corrections_pointwise [OF ok sd(1) _ sd(2) _ _ sd(4) sd(3)] ok by auto
qed

text \<open>A file system in which every file holds the same tide.\<close>

definition wit_tide_env :: tide_env where
  "wit_tide_env = \<lparr>te_isdir = (\<lambda>d. True), te_glob = (\<lambda>p. [p]),
     te_open = (\<lambda>f. Inr (wit_nc0\<lparr>ds_variables := (\<lambda>k. Some (SF [Fin 1, NaN]))\<rparr>))\<rparr>"

lemma wit_cats_ok:
  obtains m sd' where "cats2008a_tide_correction wit_tide_env ''c'' wit_nc0 (wit_cors_sd ''south'') = Inr ((True, m), sd')"
proof -
  have "succeeds (cats2008a_tide_correction wit_tide_env ''c'' wit_nc0 (wit_cors_sd ''south''))" by code_simp
  then show ?thesis using that by (rule succeedsE)
qed

theorem cats_tide_contract_witness:
  "\<exists>m sd'. cats2008a_tide_correction wit_tide_env ''c'' wit_nc0 (wit_cors_sd ''south'') = Inr ((True, m), sd') \<and>
     (dget sd' ''cats_tide_required'' = Inr (SBool False) \<or>
      (\<exists>xs. dget sd' ''cats_tide'' = Inr (SF xs) \<and> length xs = 2 \<and> list_all is_finite xs))"
proof -
  obtain m sd' where ok: "cats2008a_tide_correction wit_tide_env ''c'' wit_nc0 (wit_cors_sd ''south'') = Inr ((True, m), sd')"
    by (rule wit_cats_ok)
  moreover have "dget (wit_cors_sd ''south'') ''num_20hz_records'' = Inr (SInt 2)" by (simp add: wit_cors_sd_def)
  ultimately show ?thesis using cats_tide_contract [OF ok] by fastforce
qed

theorem cats_then_geo_corrections_witness:
  "\<exists>m sd'. cats2008a_tide_correction wit_tide_env ''c'' wit_nc0 (wit_cors_sd ''south'') = Inr ((True, m), sd') \<and>
     geo_corrections wit_cors_nc sd' \<noteq> Inl none_index"
proof -
  obtain m sd' where ok: "cats2008a_tide_correction wit_tide_env ''c'' wit_nc0 (wit_cors_sd ''south'') = Inr ((True, m), sd')"
    by (rule wit_cats_ok)
  moreover have "dget (wit_cors_sd ''south'') ''num_20hz_records'' = Inr (SInt 2)" by (simp add: wit_cors_sd_def)
  ultimately show ?thesis using cats_then_geo_corrections [OF ok] by blast
qed

theorem year_month_of_filename_witness:
  "year_month (py_slice (''CS_OFFL_SIR_SIN_1B_'' @ show_pad 4 2020 @ show_pad 2 9 @ ''13T100000_E001.nc'') (Some 19) (Some (- 8))) =
     Inr (2020, 9)"
  using year_month_of_filename [of "''CS_OFFL_SIR_SIN_1B_''" "''13T100000_E001.nc''" 2020 9] by simp

end
