(* ===== verification/Waveform_QC.thy ===== *)
theory Waveform_QC
  imports Np_Float Algs_Corrections
begin

text \<open>
  The waveform quality checks of \<^verbatim>\<open>waveform_qc_checks.py\<close> and the algorithm
  \<^verbatim>\<open>alg_waveform_quality\<close> that combines them with the dilated surface mask. Waveform counts are
  integers below \<open>2 ^ 16\<close> and are represented exactly as doubles. numpy's sums, means and powers
  are fields of \<open>np_env\<close>, together with the error mode.
\<close>

record np_env =
  np_mode :: np_err
  np_sum :: "fl list \<Rightarrow> fl res"
  np_mean :: "fl list \<Rightarrow> fl res"
  np_power :: "fl \<Rightarrow> fl \<Rightarrow> fl res"

section \<open>Checks of one waveform\<close>

text \<open>\<^verbatim>\<open>pwr_waveform * echo_scale_factor * (2.0**echo_scale_pwr)\<close>\<close>

definition power_watts :: "np_env \<Rightarrow> fl list \<Rightarrow> fl \<Rightarrow> fl \<Rightarrow> fl list res" where
  "power_watts env wv factor scale =
     rbind (rmapM (\<lambda>c. npf_mul (np_mode env) c factor) wv) (\<lambda>a.
     rbind (np_power env (Fin 2) scale) (\<lambda>p. rmapM (\<lambda>v. npf_mul (np_mode env) v p) a))"

text \<open>\<^verbatim>\<open>n * np.max(wv) / np.sum(wv)\<close>\<close>

definition wf_peakiness :: "np_env \<Rightarrow> int \<Rightarrow> fl list \<Rightarrow> fl res" where
  "wf_peakiness env n wv =
     rbind (np_max wv) (\<lambda>m. rbind (npf_mul (np_mode env) (of_intf n) m) (\<lambda>a.
     rbind (np_sum env wv) (\<lambda>s. npf_div (np_mode env) a s)))"

text \<open>Comparisons with a number from the configuration.\<close>

definition below :: "fl \<Rightarrow> cval \<Rightarrow> bool res" where
  "below x v = rbind (as_number v) (\<lambda>t. Inr (fl_lt x t))"

definition above :: "fl \<Rightarrow> cval \<Rightarrow> bool res" where
  "above x v = rbind (as_number v) (\<lambda>t. Inr (fl_lt t x))"

definition if_res :: "bool res \<Rightarrow> 'a res \<Rightarrow> 'a res \<Rightarrow> 'a res" where
  "if_res c a b = rbind c (\<lambda>t. if t then a else b)"

record sarin_thresholds =
  st_total_power :: fl
  st_low_peakiness :: cval
  st_low_position :: cval
  st_high_position :: cval

text \<open>The received power with the noise removed: negative values become zero.\<close>

definition remove_noise :: "np_env \<Rightarrow> fl \<Rightarrow> fl list \<Rightarrow> fl list res" where
  "remove_noise env noise watts =
     rbind (npf_div (np_mode env) noise (Fin 10)) (\<lambda>d.
     rbind (np_power env (Fin 10) d) (\<lambda>t.
     rbind (rmapM (\<lambda>x. npf_sub (np_mode env) x t) watts) (\<lambda>w.
       Inr (np_put w (np_where (\<lambda>x. fl_lt x (Fin 0)) w) (Fin 0)))))"

definition sarin_waveform_ok :: "np_env \<Rightarrow> sarin_thresholds \<Rightarrow> fl list \<Rightarrow> fl \<Rightarrow> fl \<Rightarrow> fl res \<Rightarrow> bool res" where
  "sarin_waveform_ok env th wv factor scale noise =
     rbind (power_watts env wv factor scale) (\<lambda>watts.
     rbind (np_sum env watts) (\<lambda>total.
       if fl_lt total (st_total_power th) then Inr False
       else
         rbind noise (\<lambda>nz. rbind (remove_noise env nz watts) (\<lambda>clean.
         rbind (np_sum env clean) (\<lambda>total2.
           if fl_lt total2 (st_total_power th) then Inr False
           else
             rbind (wf_peakiness env 768 wv) (\<lambda>pk.
             if_res (below pk (st_low_peakiness th)) (Inr False)
               (rbind (np_argmax wv) (\<lambda>pos.
                if_res (below (of_intf (int pos)) (st_low_position th)) (Inr False)
                  (rbind (above (of_intf (int pos)) (st_high_position th)) (\<lambda>b. Inr (\<not> b))))))))))) "

record lrm_thresholds =
  lt_total_power :: fl
  lt_low_peakiness :: cval
  lt_high_peakiness :: cval

text \<open>The last check: the power left of bin 32 must not exceed half of the power right of it.\<close>

definition leading_edge_ok :: "np_env \<Rightarrow> fl list \<Rightarrow> bool res" where
  "leading_edge_ok env wv =
     rbind (np_sum env (take 32 wv)) (\<lambda>left.
     rbind (np_sum env (take 96 (drop 32 wv))) (\<lambda>right.
     rbind (npf_mul (np_mode env) (Fin (1 / 2)) right) (\<lambda>h. Inr (\<not> fl_lt h left))))"

definition lrm_waveform_ok :: "np_env \<Rightarrow> lrm_thresholds \<Rightarrow> fl list \<Rightarrow> (fl \<times> fl) res option \<Rightarrow> bool res" where
  "lrm_waveform_ok env th wv scaling =
     if_res (case scaling of
               None \<Rightarrow> Inr False
             | Some r \<Rightarrow> rbind r (\<lambda>(factor, scale).
                 rbind (power_watts env wv factor scale) (\<lambda>watts.
                 rbind (np_sum env watts) (\<lambda>total. Inr (fl_lt total (lt_total_power th))))))
       (Inr False)
       (rbind (wf_peakiness env 64 wv) (\<lambda>pk.
        if_res (below pk (lt_low_peakiness th)) (Inr False)
          (if_res (above pk (lt_high_peakiness th)) (Inr False) (leading_edge_ok env wv))))"

section \<open>Checks of a file\<close>

text \<open>\<^verbatim>\<open>np.any\<close> on the waveforms; NaN counts as true.\<close>

fun np_any :: "sval \<Rightarrow> bool" where
  "np_any (SF xs) = list_ex (\<lambda>x. x \<noteq> Fin 0) xs"
| "np_any (SF2 c rows) = list_ex (list_ex (\<lambda>x. x \<noteq> Fin 0)) rows"
| "np_any (SNd shape xs) = list_ex (\<lambda>x. x \<noteq> Fin 0) xs"
| "np_any v = True"

text \<open>The tests at the head of both functions: they end the process with \<^verbatim>\<open>sys.exit()\<close>. The result
  is the rows and whether they are LRM waveforms.\<close>

definition qc_waveforms :: "sval \<Rightarrow> (bool \<times> fl list list) res" where
  "qc_waveforms pwr =
     (if \<not> np_any pwr then Inl (SystemExit [])
      else rbind (as_rows pwr) (\<lambda>(size, rows).
        if size = 128 then Inr (True, rows) else if size = 1024 then Inr (False, rows) else Inl (SystemExit [])))"

definition sarin_waveform_qc_checks ::
  "np_env \<Rightarrow> sarin_thresholds \<Rightarrow> sval \<Rightarrow> fl list \<Rightarrow> fl list \<Rightarrow> fl list \<Rightarrow> bool list res" where
  "sarin_waveform_qc_checks env th pwr factor scale noise =
     rbind (qc_waveforms pwr) (\<lambda>(lrm_mode, rows).
       if lrm_mode then Inr (map (\<lambda>w. True) rows)
       else rmapM (\<lambda>(i, wv). rbind (arr_at factor i) (\<lambda>f. rbind (arr_at scale i) (\<lambda>p.
              sarin_waveform_ok env th wv f p (arr_at noise i)))) (enumerate 0 rows))"

definition lrm_waveform_qc_checks ::
  "np_env \<Rightarrow> lrm_thresholds \<Rightarrow> sval \<Rightarrow> fl list option \<Rightarrow> fl list \<Rightarrow> bool list res" where
  "lrm_waveform_qc_checks env th pwr factor scale =
     rbind (qc_waveforms pwr) (\<lambda>(lrm_mode, rows).
       if \<not> lrm_mode then Inr (map (\<lambda>w. True) rows)
       else rmapM (\<lambda>(i, wv). lrm_waveform_ok env th wv
              (map_option (\<lambda>fs. rbind (arr_at fs i) (\<lambda>f. rbind (arr_at scale i) (\<lambda>p. Inr (f, p)))) factor))
              (enumerate 0 rows))"

section \<open>alg_waveform_quality\<close>

definition sarin_config :: "config \<Rightarrow> sarin_thresholds res" where
  "sarin_config cfg =
     (let q = ''sin_waveform_quality_tests'' in
      rbind (rbind (cget2 cfg q ''total_power_threshold'') float_of) (\<lambda>t.
      rbind (cget2 cfg q ''low_peakiness_threshold'') (\<lambda>l.
      rbind (cget2 cfg q ''low_position_max_power'') (\<lambda>a.
      rbind (cget2 cfg q ''high_position_max_power'') (\<lambda>b.
        Inr \<lparr>st_total_power = t, st_low_peakiness = l, st_low_position = a, st_high_position = b\<rparr>)))))"

definition lrm_config :: "config \<Rightarrow> lrm_thresholds res" where
  "lrm_config cfg =
     (let q = ''lrm_waveform_quality_tests'' in
      rbind (cget2 cfg q ''low_peakiness_threshold'') (\<lambda>l.
      rbind (cget2 cfg q ''high_peakiness_threshold'') (\<lambda>h.
      rbind (rbind (cget2 cfg q ''total_power_threshold'') float_of) (\<lambda>t.
        Inr \<lparr>lt_total_power = t, lt_low_peakiness = l, lt_high_peakiness = h\<rparr>))))"

definition waveforms_ok :: "np_env \<Rightarrow> config \<Rightarrow> dataset \<Rightarrow> shared \<Rightarrow> bool list res" where
  "waveforms_ok env cfg l1b sd =
     rbind (nc_var l1b ''pwr_waveform_20_ku'') (\<lambda>pwr.
     rbind (nc_floats l1b ''echo_scale_factor_20_ku'') (\<lambda>factor.
     rbind (nc_floats l1b ''echo_scale_pwr_20_ku'') (\<lambda>scale.
     rbind (dget sd ''instr_mode'') (\<lambda>mode.
       if mode = SStr ''SIN'' then
         rbind (nc_floats l1b ''noise_power_20_ku'') (\<lambda>noise.
         rbind (sarin_config cfg) (\<lambda>th. sarin_waveform_qc_checks env th pwr factor scale noise))
       else rbind (lrm_config cfg) (\<lambda>th. lrm_waveform_qc_checks env th pwr (Some factor) scale)))))"

definition waveform_quality :: "np_env \<Rightarrow> config \<Rightarrow> dataset \<Rightarrow> shared \<Rightarrow> alg_out" where
  "waveform_quality env cfg l1b sd =
     rbind (waveforms_ok env cfg l1b sd) (\<lambda>ok.
     rbind (rbind (dget sd ''dilated_surface_mask'') as_bools) (\<lambda>inside.
     rbind (np_map2 (\<and>) ok inside) (\<lambda>incl. pass (dset sd ''waveforms_to_include'' (SB incl)))))"

definition alg_waveform_quality :: "np_env \<Rightarrow> alg_class" where
  "alg_waveform_quality env = \<lparr>cls_name = ''clev2er.algorithms.cryotempo.alg_waveform_quality'',
     cls_init = (\<lambda>cfg. Inr ((True, []), \<lparr>impl_body = waveform_quality env cfg, impl_finalize = base_finalize\<rparr>))\<rparr>"

interpretation waveform_quality: chain_algorithm "waveform_quality env cfg" "{''waveforms_to_include''}"
  by (unfold_locales, erule framesD [rotated], unfold waveform_quality_def, intro frame_intros)
    (auto intro: agree_off_dset)

section \<open>Behaviour\<close>

lemma if_res_Inr: "if_res c a b = Inr r \<longleftrightarrow> (c = Inr True \<and> a = Inr r) \<or> (c = Inr False \<and> b = Inr r)"
  by (auto simp: if_res_def rbind_eq_Inr)

text \<open>What the checks ask of one waveform, each of them written as a condition on the quantities it compares,
  with the thresholds as the configuration gives them: its total power, before and after the noise is removed,
  is not below the threshold, its peakiness is not too low, and the bin of its largest count is
  neither too early nor too late.\<close>

definition cfg_number :: "config \<Rightarrow> string \<Rightarrow> string \<Rightarrow> fl res" where
  "cfg_number cfg q k = rbind (cget2 cfg q k) as_number"

definition power_threshold :: "config \<Rightarrow> string \<Rightarrow> fl res" where
  "power_threshold cfg q = rbind (cget2 cfg q ''total_power_threshold'') float_of"

definition enough_power :: "np_env \<Rightarrow> fl \<Rightarrow> fl list \<Rightarrow> bool" where
  "enough_power env t watts \<longleftrightarrow> (\<exists>total. np_sum env watts = Inr total \<and> \<not> fl_lt total t)"

definition peakiness_is :: "np_env \<Rightarrow> int \<Rightarrow> fl list \<Rightarrow> fl \<Rightarrow> bool" where
  "peakiness_is env n wv pk \<longleftrightarrow>
     (\<exists>m a s. np_max wv = Inr m \<and> npf_mul (np_mode env) (of_intf n) m = Inr a \<and> np_sum env wv = Inr s \<and>
        npf_div (np_mode env) a s = Inr pk)"

definition good_sarin :: "np_env \<Rightarrow> config \<Rightarrow> fl list \<Rightarrow> fl \<Rightarrow> fl \<Rightarrow> fl \<Rightarrow> bool" where
  "good_sarin env cfg wv factor scale noise \<longleftrightarrow>
     (let q = ''sin_waveform_quality_tests'' in
      \<exists>t low_pk lo hi watts clean pk pos. power_threshold cfg q = Inr t \<and>
        cfg_number cfg q ''low_peakiness_threshold'' = Inr low_pk \<and>
        cfg_number cfg q ''low_position_max_power'' = Inr lo \<and> cfg_number cfg q ''high_position_max_power'' = Inr hi \<and>
        power_watts env wv factor scale = Inr watts \<and> enough_power env t watts \<and>
        remove_noise env noise watts = Inr clean \<and> enough_power env t clean \<and>
        peakiness_is env 768 wv pk \<and> \<not> fl_lt pk low_pk \<and>
        np_argmax wv = Inr pos \<and> \<not> fl_lt (of_intf (int pos)) lo \<and> \<not> fl_lt hi (of_intf (int pos)))"

text \<open>For LRM the noise is not removed, the peakiness has bounds on both sides, and instead of a
  position the power of the 32 bins before the nominal edge is compared with the power after it.\<close>

definition good_lrm :: "np_env \<Rightarrow> config \<Rightarrow> fl list \<Rightarrow> fl \<Rightarrow> fl \<Rightarrow> bool" where
  "good_lrm env cfg wv factor scale \<longleftrightarrow>
     (let q = ''lrm_waveform_quality_tests'' in
      \<exists>t low_pk high_pk watts pk before after half. power_threshold cfg q = Inr t \<and>
        cfg_number cfg q ''low_peakiness_threshold'' = Inr low_pk \<and> cfg_number cfg q ''high_peakiness_threshold'' = Inr high_pk \<and>
        power_watts env wv factor scale = Inr watts \<and> enough_power env t watts \<and>
        peakiness_is env 64 wv pk \<and> \<not> fl_lt pk low_pk \<and> \<not> fl_lt high_pk pk \<and>
        np_sum env (take 32 wv) = Inr before \<and> np_sum env (take 96 (drop 32 wv)) = Inr after \<and>
        npf_mul (np_mode env) (Fin (1 / 2)) after = Inr half \<and> \<not> fl_lt half before)"

lemma wf_peakiness_iff: "wf_peakiness env n wv = Inr pk \<longleftrightarrow> peakiness_is env n wv pk"
  by (auto simp: wf_peakiness_def peakiness_is_def rbind_eq_Inr)

lemma sarin_config_Inr:
  "sarin_config cfg = Inr th \<Longrightarrow> power_threshold cfg ''sin_waveform_quality_tests'' = Inr (st_total_power th) \<and>
     cget2 cfg ''sin_waveform_quality_tests'' ''low_peakiness_threshold'' = Inr (st_low_peakiness th) \<and>
     cget2 cfg ''sin_waveform_quality_tests'' ''low_position_max_power'' = Inr (st_low_position th) \<and>
     cget2 cfg ''sin_waveform_quality_tests'' ''high_position_max_power'' = Inr (st_high_position th)"
  by (auto simp: sarin_config_def power_threshold_def rbind_eq_Inr Let_def)

lemma lrm_config_Inr:
  "lrm_config cfg = Inr th \<Longrightarrow> power_threshold cfg ''lrm_waveform_quality_tests'' = Inr (lt_total_power th) \<and>
     cget2 cfg ''lrm_waveform_quality_tests'' ''low_peakiness_threshold'' = Inr (lt_low_peakiness th) \<and>
     cget2 cfg ''lrm_waveform_quality_tests'' ''high_peakiness_threshold'' = Inr (lt_high_peakiness th)"
  by (auto simp: lrm_config_def power_threshold_def rbind_eq_Inr Let_def)

lemma sarin_waveform_ok_iff:
  assumes "sarin_waveform_ok env th wv f p noise = Inr b" and "sarin_config cfg = Inr th"
  shows "b \<longleftrightarrow> (\<exists>nz. noise = Inr nz \<and> good_sarin env cfg wv f p nz)"
proof
  assume b
  then show "\<exists>nz. noise = Inr nz \<and> good_sarin env cfg wv f p nz"
    using assms(1) sarin_config_Inr [OF assms(2)]
    by (auto simp: sarin_waveform_ok_def rbind_eq_Inr if_res_Inr below_def above_def good_sarin_def cfg_number_def
        enough_power_def wf_peakiness_iff Let_def split: if_splits)
next
  assume "\<exists>nz. noise = Inr nz \<and> good_sarin env cfg wv f p nz"
  then show b
    using assms(1) sarin_config_Inr [OF assms(2)]
    by (auto simp: sarin_waveform_ok_def if_res_def below_def above_def good_sarin_def cfg_number_def
        enough_power_def wf_peakiness_iff [symmetric] Let_def)
qed

lemma lrm_waveform_ok_iff:
  assumes "lrm_waveform_ok env th wv (Some scaling) = Inr b" and "lrm_config cfg = Inr th"
  shows "b \<longleftrightarrow> (\<exists>f p. scaling = Inr (f, p) \<and> good_lrm env cfg wv f p)"
proof
  assume b
  then show "\<exists>f p. scaling = Inr (f, p) \<and> good_lrm env cfg wv f p"
    using assms(1) lrm_config_Inr [OF assms(2)]
    by (auto simp: lrm_waveform_ok_def leading_edge_ok_def rbind_eq_Inr if_res_Inr below_def above_def good_lrm_def cfg_number_def
        enough_power_def wf_peakiness_iff Let_def)
next
  assume "\<exists>f p. scaling = Inr (f, p) \<and> good_lrm env cfg wv f p"
  then show b
    using assms(1) lrm_config_Inr [OF assms(2)]
    by (auto simp: lrm_waveform_ok_def leading_edge_ok_def if_res_def below_def above_def good_lrm_def cfg_number_def
        enough_power_def wf_peakiness_iff [symmetric] Let_def)
qed

lemma sarin_checks_rows:
  assumes "sarin_waveform_qc_checks env th (SF2 w rows) factor scale noise = Inr ok" and "sarin_config cfg = Inr th"
  shows "(w = 128 \<or> w = 1024) \<and> length ok = length rows \<and> (\<forall>i<length rows. ok ! i \<longleftrightarrow> (w = 128 \<or>
    i < length noise \<and> good_sarin env cfg (rows ! i) (factor ! i) (scale ! i) (noise ! i)))"
proof (cases "w = 128")
  case True
  then show ?thesis
    using assms by (auto simp: sarin_waveform_qc_checks_def qc_waveforms_def as_rows_def split: if_splits)
next
  case False
  let ?g = "\<lambda>(i, wv). rbind (arr_at factor i) (\<lambda>f. rbind (arr_at scale i) (\<lambda>p.
              sarin_waveform_ok env th wv f p (arr_at noise i)))"
  have w: "w = 1024" and m: "rmapM ?g (enumerate 0 rows) = Inr ok"
    using assms False by (auto simp: sarin_waveform_qc_checks_def qc_waveforms_def as_rows_def split: if_splits)
  have "ok ! i \<longleftrightarrow> i < length noise \<and> good_sarin env cfg (rows ! i) (factor ! i) (scale ! i) (noise ! i)" if "i < length rows" for i
  proof -
    have "sarin_waveform_ok env th (rows ! i) (factor ! i) (scale ! i) (arr_at noise i) = Inr (ok ! i)"
      using rmapM_nth [OF m, of i] that by (auto simp: nth_enumerate_eq rbind_eq_Inr arr_at_def split: if_splits)
    from sarin_waveform_ok_iff [OF this assms(2)] show ?thesis by (auto simp: arr_at_def)
  qed
  then show ?thesis using rmapM_length [OF m] w by simp
qed

lemma lrm_checks_rows:
  assumes "lrm_waveform_qc_checks env th (SF2 w rows) (Some factor) scale = Inr ok" and "lrm_config cfg = Inr th"
  shows "(w = 128 \<or> w = 1024) \<and> length ok = length rows \<and> (\<forall>i<length rows. ok ! i \<longleftrightarrow> (w = 1024 \<or>
    i < length factor \<and> i < length scale \<and> good_lrm env cfg (rows ! i) (factor ! i) (scale ! i)))"
proof (cases "w = 128")
  case False
  then show ?thesis
    using assms by (auto simp: lrm_waveform_qc_checks_def qc_waveforms_def as_rows_def split: if_splits)
next
  case True
  let ?s = "\<lambda>i. rbind (arr_at factor i) (\<lambda>f. rbind (arr_at scale i) (\<lambda>p. Inr (f, p)))"
  have m: "rmapM (\<lambda>(i, wv). lrm_waveform_ok env th wv (Some (?s i))) (enumerate 0 rows) = Inr ok"
    using assms True by (auto simp: lrm_waveform_qc_checks_def qc_waveforms_def as_rows_def split: if_splits)
  have "ok ! i \<longleftrightarrow> i < length factor \<and> i < length scale \<and> good_lrm env cfg (rows ! i) (factor ! i) (scale ! i)" if "i < length rows" for i
  proof -
    have "lrm_waveform_ok env th (rows ! i) (Some (?s i)) = Inr (ok ! i)"
      using rmapM_nth [OF m, of i] that by (simp add: nth_enumerate_eq)
    from lrm_waveform_ok_iff [OF this assms(2)] show ?thesis by (auto simp: rbind_eq_Inr arr_at_def split: if_splits)
  qed
  then show ?thesis using rmapM_length [OF m] True by simp
qed

section \<open>Properties\<close>

text \<open>C15: The waveforms that are retracked. When \<^verbatim>\<open>alg_waveform_quality\<close> succeeds on waveforms of width 128
  or 1024 (other widths end the run), it stores one flag per waveform: a waveform is included
  exactly if it lies inside the dilated mask and passes every check of the mode. For a SIN file of width
  1024 these are: the power in Watts, also after removing the noise, is not below
  \<^verbatim>\<open>total_power_threshold\<close>, the peakiness is not below \<^verbatim>\<open>low_peakiness_threshold\<close>, and the bin of the largest count
  is between \<^verbatim>\<open>low_position_max_power\<close> and \<^verbatim>\<open>high_position_max_power\<close>. For an LRM file of width 128: the power
  is not below the threshold, the peakiness is between the low and the high threshold, and the power of
  the first 32 bins is not above half of the power of the following 96. Waveforms of the width of the other
  mode are not checked at all.\<close>

theorem included_waveforms:
  assumes ok: "waveform_quality env cfg l1b sd = Inr ((res, msg), sd')"
    and md: "dget sd ''instr_mode'' = Inr mode"
    and pwr: "nc_var l1b ''pwr_waveform_20_ku'' = Inr (SF2 w rows)"
    and nc: "nc_floats l1b ''echo_scale_factor_20_ku'' = Inr factor" "nc_floats l1b ''echo_scale_pwr_20_ku'' = Inr scale"
      "nc_floats l1b ''noise_power_20_ku'' = Inr noise"
    and inside: "dget sd ''dilated_surface_mask'' = Inr (SB inside)" "length inside = length rows"
  shows "res \<and> (w = 128 \<or> w = 1024) \<and> (\<exists>incl. dget sd' ''waveforms_to_include'' = Inr (SB incl) \<and> length incl = length rows \<and>
    (\<forall>i<length rows. incl ! i \<longleftrightarrow> inside ! i \<and>
      (if mode = SStr ''SIN''
       then w = 128 \<or> i < length noise \<and> good_sarin env cfg (rows ! i) (factor ! i) (scale ! i) (noise ! i)
       else w = 1024 \<or> i < length factor \<and> i < length scale \<and> good_lrm env cfg (rows ! i) (factor ! i) (scale ! i))))"
proof -
  obtain flags incl where flags: "waveforms_ok env cfg l1b sd = Inr flags" and incl: "np_map2 (\<and>) flags inside = Inr incl"
    and r: "res" "sd' = dset sd ''waveforms_to_include'' (SB incl)"
    using ok inside(1) by (auto simp: waveform_quality_def rbind_eq_Inr)
  have "(w = 128 \<or> w = 1024) \<and> length flags = length rows \<and> (\<forall>i<length rows. flags ! i \<longleftrightarrow> (if mode = SStr ''SIN''
       then w = 128 \<or> i < length noise \<and> good_sarin env cfg (rows ! i) (factor ! i) (scale ! i) (noise ! i)
       else w = 1024 \<or> i < length factor \<and> i < length scale \<and> good_lrm env cfg (rows ! i) (factor ! i) (scale ! i)))"
  proof (cases "mode = SStr ''SIN''")
    case True
    then show ?thesis
      using flags md pwr nc sarin_checks_rows by (fastforce simp: waveforms_ok_def rbind_eq_Inr)
  next
    case False
    then show ?thesis
      using flags md pwr nc lrm_checks_rows by (fastforce simp: waveforms_ok_def rbind_eq_Inr)
  qed
  then show ?thesis using r incl inside(2) by auto
qed

section \<open>Concrete runs\<close>

text \<open>A numpy that adds from the right and knows the powers with exponent zero.\<close>

definition wit_np :: np_env where
  "wit_np = \<lparr>np_mode = seterr_default, np_sum = (\<lambda>xs. Inr (foldr fl_add xs (Fin 0))),
     np_mean = (\<lambda>xs. Inr (fl_div (foldr fl_add xs (Fin 0)) (of_intf (int (length xs))))),
     np_power = (\<lambda>x y. Inr (if y = Fin 0 then Fin 1 else NaN))\<rparr>"

text \<open>Waveforms of 1024 bins with their peak at bin 2 and at bin 0, which is too early.\<close>

definition wit_wave :: "bool \<Rightarrow> fl list" where
  "wit_wave early = (if early then Fin 5 # Fin 0 # Fin 0 # replicate 1021 (Fin 0)
     else Fin 0 # Fin 0 # Fin 5 # replicate 1021 (Fin 0))"

definition wit_qc_cfg :: config where
  "wit_qc_cfg = [(''sin_waveform_quality_tests'', CDict [(''total_power_threshold'', CStr ''5e-17''),
     (''low_peakiness_threshold'', CFloat (Fin (9 / 10))), (''low_position_max_power'', CInt 2),
     (''high_position_max_power'', CInt 1011)])]"

definition wit_qc_nc :: "fl list list \<Rightarrow> dataset" where
  "wit_qc_nc rows = wit_nc0\<lparr>ds_variables := (\<lambda>k. if k = ''pwr_waveform_20_ku'' then Some (SF2 1024 rows)
     else if k = ''echo_scale_factor_20_ku'' then Some (SF [Fin 1, Fin 1, Fin 1]) else Some (SF [Fin 0, Fin 0, Fin 0]))\<rparr>"

definition wit_qc_sd :: shared where
  "wit_qc_sd = [(''instr_mode'', SStr ''SIN''), (''dilated_surface_mask'', SB [True, True, False])]"

lemma sum_zeros: "(fl_add (Fin 0) ^^ n) (Fin 0) = Fin 0"
  by (induction n) auto

lemma max_of_zeros: "fl_max (Fin 5) (replicate n (Fin 0)) = Fin 5"
  by (induction n) auto

lemma argmax_of_zeros: "fl_argmax best (Fin 5) i (replicate n (Fin 0)) = best"
  by (induction n arbitrary: i) auto

lemma wit_rounds: "round64 5 = Fin 5" "round64 4 = Fin 4" "round64 (- 1) = Fin (- 1)"
  by code_simp+

lemma wit_threshold: "float_of (CStr ''5e-17'') = Inr t \<Longrightarrow> fl_lt (Fin 5) t = False \<and> fl_lt (Fin 4) t = False"
proof -
  have "case float_of (CStr ''5e-17'') of Inr t \<Rightarrow> \<not> fl_lt (Fin 5) t \<and> \<not> fl_lt (Fin 4) t | Inl e \<Rightarrow> False" by code_simp
  then show "float_of (CStr ''5e-17'') = Inr t \<Longrightarrow> ?thesis" by simp
qed

lemma wit_watts: "power_watts wit_np (wit_wave e) (Fin 1) (Fin 0) = Inr (wit_wave e)"
  by (simp add: power_watts_def wit_np_def wit_wave_def wit_rounds)

lemma wit_sum: "np_sum wit_np (wit_wave e) = Inr (Fin 5)"
  by (simp add: wit_np_def wit_wave_def sum_zeros wit_rounds)

definition wit_clean :: "bool \<Rightarrow> fl list" where
  "wit_clean early = (if early then Fin 4 # Fin 0 # Fin 0 # replicate 1021 (Fin 0)
     else Fin 0 # Fin 0 # Fin 4 # replicate 1021 (Fin 0))"

lemma wit_remove_noise: "remove_noise wit_np (Fin 0) (wit_wave e) = Inr (wit_clean e)"
proof -
  have w: "np_put (map (\<lambda>x. fl_add x (Fin (- 1))) (wit_wave e)) (np_where (\<lambda>x. fl_lt x (Fin 0)) (map (\<lambda>x. fl_add x (Fin (- 1))) (wit_wave e))) (Fin 0) =
      map (\<lambda>x. if fl_lt (fl_add x (Fin (- 1))) (Fin 0) then Fin 0 else fl_add x (Fin (- 1))) (wit_wave e)"
    by (simp add: np_put_where map2_map_same comp_def)
  show ?thesis
    unfolding remove_noise_def
    by (simp add: wit_np_def npf_sub_def w [unfolded wit_np_def]) (simp add: wit_wave_def wit_clean_def wit_rounds)
qed

lemma wit_waveform_ok:
  assumes "float_of (CStr ''5e-17'') = Inr t"
  shows "sarin_waveform_ok wit_np \<lparr>st_total_power = t, st_low_peakiness = CFloat (Fin (9 / 10)), st_low_position = CInt 2,
    st_high_position = CInt 1011\<rparr> (wit_wave e) (Fin 1) (Fin 0) (Inr (Fin 0)) = Inr (\<not> e)"
proof -
  have clean: "np_sum wit_np (wit_clean e) = Inr (Fin 4)"
    by (simp add: wit_clean_def wit_np_def sum_zeros wit_rounds)
  have "fl_lt (fl_div (fl_mul (of_intf 768) (Fin 5)) (Fin 5)) (Fin (9 / 10)) = False" by code_simp
  moreover have m: "np_max (wit_wave e) = Inr (Fin 5)" by (simp add: np_max_def wit_wave_def max_of_zeros)
  ultimately have peak: "if_res (below pk (CFloat (Fin (9 / 10)))) a b = b" if "wf_peakiness wit_np 768 (wit_wave e) = Inr pk" for pk and a b :: "bool res"
    using that wit_sum by (simp add: wf_peakiness_def wit_np_def if_res_def below_def as_number_def)
  obtain pk where pk: "wf_peakiness wit_np 768 (wit_wave e) = Inr pk"
    using wit_sum m by (simp add: wf_peakiness_def wit_np_def)
  have pos: "np_argmax (wit_wave e) = Inr (if e then 0 else 2)" by (simp add: np_argmax_def wit_wave_def argmax_of_zeros)
  show ?thesis
    using wit_threshold [OF assms]
    by (simp add: sarin_waveform_ok_def wit_watts wit_sum wit_remove_noise clean pk peak pos)
      (simp add: if_res_def below_def above_def as_number_def of_intf_exact)
qed

theorem included_waveforms_witness:
  "\<exists>sd'. waveform_quality wit_np wit_qc_cfg (wit_qc_nc [wit_wave False, wit_wave True, wit_wave False]) wit_qc_sd = Inr ((True, []), sd') \<and>
     dget sd' ''waveforms_to_include'' = Inr (SB [True, False, False]) \<and>
     good_sarin wit_np wit_qc_cfg (wit_wave False) (Fin 1) (Fin 0) (Fin 0) \<and>
     \<not> good_sarin wit_np wit_qc_cfg (wit_wave True) (Fin 1) (Fin 0) (Fin 0)"
proof -
  have "case float_of (CStr ''5e-17'') of Inr t \<Rightarrow> True | Inl e \<Rightarrow> False" by code_simp
  then obtain t where t: "float_of (CStr ''5e-17'') = Inr t" by (cases "float_of (CStr ''5e-17'')") auto
  let ?rows = "[wit_wave False, wit_wave True, wit_wave False]"
  let ?nc = "wit_qc_nc ?rows" and ?one = "[Fin 1, Fin 1, Fin 1]" and ?zero = "[Fin 0, Fin 0, Fin 0]"
  have any: "np_any (SF2 1024 ?rows)" by (simp add: wit_wave_def)
  have cfg: "sarin_config wit_qc_cfg = Inr \<lparr>st_total_power = t, st_low_peakiness = CFloat (Fin (9 / 10)), st_low_position = CInt 2,
      st_high_position = CInt 1011\<rparr>"
    using t by (simp add: sarin_config_def wit_qc_cfg_def cget2_def)
  have ok: "waveform_quality wit_np wit_qc_cfg ?nc wit_qc_sd = Inr ((True, []), dset wit_qc_sd ''waveforms_to_include'' (SB [True, False, False]))"
    using any wit_waveform_ok [OF t]
    by (simp add: waveform_quality_def waveforms_ok_def cfg wit_qc_nc_def wit_qc_sd_def nc_var_def nc_floats_def
        sarin_waveform_qc_checks_def qc_waveforms_def as_rows_def arr_at_def pass_def enumerate_simps)
  have sd: "dget wit_qc_sd ''instr_mode'' = Inr (SStr ''SIN'')" "dget wit_qc_sd ''dilated_surface_mask'' = Inr (SB [True, True, False])"
    by (simp_all add: wit_qc_sd_def)
  have nc: "nc_var ?nc ''pwr_waveform_20_ku'' = Inr (SF2 1024 ?rows)" "nc_floats ?nc ''echo_scale_factor_20_ku'' = Inr ?one"
    "nc_floats ?nc ''echo_scale_pwr_20_ku'' = Inr ?zero" "nc_floats ?nc ''noise_power_20_ku'' = Inr ?zero"
    by (simp_all add: wit_qc_nc_def nc_var_def nc_floats_def)
  show ?thesis
    using included_waveforms [OF ok sd(1) nc sd(2)] ok by (simp add: All_less_Suc)
qed

end
