(* ===== verification/Fastsmooth.thy ===== *)
theory Fastsmooth
  imports Waveform_QC
begin

text \<open>
  The boxcar smoothing of \<^verbatim>\<open>fastsmooth.py\<close>, a port from Matlab that the maximum coherence
  retracker applies to the coherence waveform, and what its window really is.
\<close>

section \<open>Model\<close>

text \<open>One pass of the loop: the sum of the window is stored at bin \<open>k + halfw - 1\<close> and the window is
  moved by one.\<close>

definition smooth_step :: "np_err \<Rightarrow> fl list \<Rightarrow> nat \<Rightarrow> int \<Rightarrow> nat \<Rightarrow> fl \<times> fl list \<Rightarrow> (fl \<times> fl list) res" where
  "smooth_step em ys width halfw k = (\<lambda>(sum_points, sss).
     rbind (py_set sss (int k + halfw - 1) sum_points) (\<lambda>sss'.
     rbind (arr_at ys k) (\<lambda>a. rbind (npf_sub em sum_points a) (\<lambda>s1.
     rbind (arr_at ys (k + width)) (\<lambda>b. rbind (npf_add em s1 b) (\<lambda>s2. Inr (s2, sss')))))))"

text \<open>The ends of the signal.\<close>

definition taper_step :: "np_env \<Rightarrow> fl list \<Rightarrow> nat \<Rightarrow> fl list \<Rightarrow> fl list res" where
  "taper_step env ys k out =
     rbind (np_sum env (take (2 * k + 1) ys)) (\<lambda>s.
     rbind (npf_div (np_mode env) s (of_intf (2 * int k + 1))) (\<lambda>v.
     rbind (py_set out (int k) v) (\<lambda>out1.
     rbind (np_mean env (py_slice ys (Some (int (length ys) - 2 * int k)) (Some (int (length ys) - 1)))) (\<lambda>m.
       py_set out1 (int (length ys) - 1 - int k) m))))"

definition fastsmooth :: "np_env \<Rightarrow> fl list \<Rightarrow> nat \<Rightarrow> fl list res" where
  "fastsmooth env ys smoothwidth =
     (if smoothwidth = 0 \<or> length ys < smoothwidth then Inr ys
      else
        let len = length ys; width = (if len \<le> smoothwidth then len - 1 else smoothwidth);
            halfw = rne (of_nat width / 2); em = np_mode env in
        rbind (np_sum env (take width ys)) (\<lambda>sum0.
        rbind (rfold (smooth_step em ys width halfw) [0..<len - width] (sum0, replicate len (Fin 0))) (\<lambda>(sum_points, sss).
        rbind (np_sum env (drop (len - width + 1) ys)) (\<lambda>rest.
        rbind (py_set sss (int (len - width) - 1 + halfw) rest) (\<lambda>sss'.
        rbind (rmapM (\<lambda>s. npf_div em s (of_intf (int width))) sss') (\<lambda>out.
        rbind (rbind (arr_at ys 0) (\<lambda>a. rbind (arr_at ys 1) (\<lambda>b. rbind (npf_add em a b) (\<lambda>ab. npf_div em ab (Fin 2))))) (\<lambda>v.
        rbind (py_set out 0 v) (\<lambda>out0.
          rfold (taper_step env ys) [1..<(width + 1) div 2] out0))))))))"

section \<open>The window\<close>

text \<open>A waveform of integers small enough for every sum to be exact, and a numpy whose sums of such
  arrays are exact.\<close>

definition int_wave :: "int list \<Rightarrow> fl list" where
  "int_wave xs = map of_intf xs"

definition small_wave :: "int list \<Rightarrow> bool" where
  "small_wave xs = (list_all (\<lambda>x. 0 \<le> x) xs \<and> sum_list (map abs xs) < 2 ^ 50)"

definition window :: "int list \<Rightarrow> nat \<Rightarrow> nat \<Rightarrow> int" where
  "window xs k width = sum_list (take width (drop k xs))"

lemma sum_list_abs_le: "\<bar>sum_list xs\<bar> \<le> sum_list (map abs xs)" for xs :: "int list"
  by (induction xs) auto

lemma sum_abs_take_drop: "sum_list (map abs (take n (drop k xs))) \<le> sum_list (map abs xs)" for xs :: "int list"
proof -
  have nn: "0 \<le> sum_list (map abs ys)" for ys :: "int list" by (induction ys) auto
  have "sum_list (map abs xs) = sum_list (map abs (take k xs)) + sum_list (map abs (take n (drop k xs))) +
      sum_list (map abs (drop n (drop k xs)))"
    by (metis append_take_drop_id map_append sum_list_append add.assoc)
  then show ?thesis using nn by (metis add_increasing2 add_increasing order_refl)
qed

lemma window_small: "small_wave xs \<Longrightarrow> \<bar>window xs k w\<bar> < 2 ^ 50"
  using sum_list_abs_le [of "take w (drop k xs)"] sum_abs_take_drop [of w k xs] by (simp add: small_wave_def window_def)

lemma nth_small: "small_wave xs \<Longrightarrow> k < length xs \<Longrightarrow> \<bar>xs ! k\<bar> < 2 ^ 50"
  using window_small [of xs k 1] by (simp add: window_def take_Suc_conv_app_nth hd_drop_conv_nth take_Suc)

lemma window_shift:
  assumes "k + w < length xs"
  shows "window xs (Suc k) w = window xs k w - xs ! k + xs ! (k + w)"
proof (cases w)
  case (Suc v)
  have "take w (drop k xs) = xs ! k # take v (drop (Suc k) xs)"
    using assms Suc by (simp add: Cons_nth_drop_Suc [symmetric])
  moreover have "take w (drop (Suc k) xs) = take v (drop (Suc k) xs) @ [xs ! (k + w)]"
    using assms Suc by (simp add: take_Suc_conv_app_nth)
  ultimately show ?thesis by (simp add: window_def)
qed (simp add: window_def)

lemma np_round_int: "\<bar>i\<bar> < 2 ^ 53 \<Longrightarrow> np_round em (of_int i) = Inr (Fin (of_int i))"
  by (simp add: np_round_def round64_of_int is_finite_def underflows_def)

lemma npf_add_int:
  assumes "\<bar>a\<bar> < 2 ^ 51" "\<bar>b\<bar> < 2 ^ 51"
  shows "npf_add em (of_intf a) (of_intf b) = Inr (of_intf (a + b))" "npf_sub em (of_intf a) (of_intf b) = Inr (of_intf (a - b))"
proof -
  have "\<bar>a + b\<bar> < 2 ^ 53" "\<bar>a - b\<bar> < 2 ^ 53" "\<bar>a\<bar> < 2 ^ 53" "\<bar>b\<bar> < 2 ^ 53" using assms by (auto simp: abs_less_iff)
  then show "npf_add em (of_intf a) (of_intf b) = Inr (of_intf (a + b))" "npf_sub em (of_intf a) (of_intf b) = Inr (of_intf (a - b))"
    using np_round_int [of "a + b" em] np_round_int [of "a - b" em] by (simp_all add: npf_add_def npf_sub_def of_intf_exact)
qed

lemma window_nonneg: "small_wave xs \<Longrightarrow> 0 \<le> window xs k w"
  unfolding window_def small_wave_def
  by (rule sum_list_nonneg) (auto simp: list_all_iff dest!: in_set_takeD in_set_dropD)

text \<open>A quotient of such numbers raises nothing.\<close>

lemma npf_div_int:
  assumes "0 \<le> a" "a < 2 ^ 51" "0 < b" "b < 2 ^ 51"
  shows "npf_div em (of_intf a) (of_intf b) = Inr (fl_div (of_intf a) (of_intf b))"
proof (cases "a = 0")
  case False
  have exact: "of_intf a = Fin (of_int a)" "of_intf b = Fin (of_int b)" using assms by (auto simp: of_intf_exact abs_less_iff)
  have "(of_int 1 :: rat) \<le> of_int a" "(of_int b :: rat) < of_int (2 ^ 51)" "(of_int a :: rat) < of_int (2 ^ 51)" "(of_int 1 :: rat) \<le> of_int b"
    using assms False by (simp_all only: of_int_le_iff of_int_less_iff)
  then have ab: "1 \<le> (of_int a :: rat)" "(of_int b :: rat) < 2 ^ 51" "(of_int a :: rat) < 2 ^ 51" "1 \<le> (of_int b :: rat)" by simp_all
  have "two_pow (- 1022) \<le> 1 / 2 ^ 51" using two_pow_mono [of "- 1022" "- 51"] by (simp add: two_pow_def)
  also have "\<dots> \<le> of_int a / of_int b" using ab by (intro frac_le) auto
  finally have lo: "two_pow (- 1022) \<le> of_int a / of_int b" .
  have "of_int a / (of_int b :: rat) \<le> of_int a" using ab by (simp add: divide_le_eq mult_right_mono)
  moreover have "(2 ^ 51 :: rat) \<le> two_pow 1023" using two_pow_mono [of 51 1023] by (simp add: two_pow_def)
  ultimately have hi: "of_int a / of_int b < two_pow 1023" using ab by linarith
  obtain v where v: "np_round em (of_int a / of_int b) = Inr (Fin v)" using np_round_normal [OF lo hi] by blast
  then have "round64 (of_int a / of_int b) = Fin v" by (auto dest: np_round_Inr)
  then show ?thesis using v exact assms by (simp add: npf_div_def)
qed (use assms in \<open>simp add: npf_div_def of_intf_exact abs_less_iff\<close>)

lemma length_int_wave [simp]: "length (int_wave xs) = length xs"
  by (simp add: int_wave_def)

lemma py_set_nat: "i < length xs \<Longrightarrow> py_set xs (int i) v = Inr (xs[i := v])"
  by (simp add: py_set_def)

text \<open>The loop stores the window that starts at \<open>k\<close> at bin \<open>k + halfw - 1\<close>.\<close>

lemma smooth_loop:
  assumes small: "small_wave xs" and w: "width < length xs" and h: "1 \<le> h" "h \<le> width" and n: "n \<le> length xs - width"
  shows "rfold (smooth_step em (int_wave xs) width (int h)) [0..<n] (of_intf (window xs 0 width), replicate (length xs) (Fin 0)) =
    Inr (of_intf (window xs n width), map (\<lambda>j. if h \<le> Suc j \<and> Suc j < n + h then of_intf (window xs (Suc j - h) width) else Fin 0)
      [0..<length xs])"
  using n
proof (induction n)
  case 0
  have "\<not> (h \<le> Suc j \<and> Suc j < h)" for j by simp
  then show ?case by (auto intro!: nth_equalityI)
next
  case (Suc n)
  let ?m = "\<lambda>n. map (\<lambda>j. if h \<le> Suc j \<and> Suc j < n + h then of_intf (window xs (Suc j - h) width) else Fin 0) [0..<length xs]"
  have n: "n + width < length xs" using Suc.prems w by linarith
  have idx: "int n + int h - 1 = int (n + h - 1)" "n + h - 1 < length xs" using h n by linarith+
  have set: "py_set (?m n) (int n + int h - 1) (of_intf (window xs n width)) = Inr (?m (Suc n))"
  proof -
    have "(?m n)[n + h - 1 := of_intf (window xs n width)] = ?m (Suc n)"
    proof (rule nth_equalityI)
      fix j assume "j < length ((?m n)[n + h - 1 := of_intf (window xs n width)])"
      then have j: "j < length xs" by simp
      show "(?m n)[n + h - 1 := of_intf (window xs n width)] ! j = ?m (Suc n) ! j"
        using h j by (cases "j = n + h - 1") (simp_all add: less_Suc_eq, linarith)
    qed simp
    then show ?thesis unfolding idx(1) using idx(2) by (simp add: py_set_nat)
  qed
  have b: "\<bar>window xs n width\<bar> < 2 ^ 51" "\<bar>xs ! n\<bar> < 2 ^ 51" "\<bar>xs ! (n + width)\<bar> < 2 ^ 51" "\<bar>window xs n width - xs ! n\<bar> < 2 ^ 51"
    using window_small [OF small, of n width] nth_small [OF small, of n] nth_small [OF small, of "n + width"] n by auto
  have "smooth_step em (int_wave xs) width (int h) n (of_intf (window xs n width), ?m n) =
      Inr (of_intf (window xs (Suc n) width), ?m (Suc n))"
    using n b window_shift [OF n]
    by (simp add: smooth_step_def set arr_at_def int_wave_def npf_add_int)
  then show ?case using Suc by (simp add: rfold_append)
qed

lemma taper_step_eq:
  assumes k: "0 < k" "k < length ys" and len: "length out = length ys"
    and s: "rbind (np_sum env (take (2 * k + 1) ys)) (\<lambda>s. npf_div (np_mode env) s (of_intf (2 * int k + 1))) = Inr v"
    and m: "np_mean env (py_slice ys (Some (int (length ys) - 2 * int k)) (Some (int (length ys) - 1))) = Inr m"
  shows "taper_step env ys k out = Inr (out[k := v, length ys - 1 - k := m])"
proof -
  obtain t where "np_sum env (take (2 * k + 1) ys) = Inr t" "npf_div (np_mode env) t (of_intf (2 * int k + 1)) = Inr v"
    using s by (auto simp: rbind_eq_Inr)
  moreover have "py_set (out[k := v]) (int (length ys) - 1 - int k) m = Inr (out[k := v, length ys - 1 - k := m])"
    using k len py_set_nat [of "length ys - 1 - k" "out[k := v]" m] by (simp add: of_nat_diff algebra_simps)
  ultimately show ?thesis using k len m by (simp add: taper_step_def py_set_nat)
qed

text \<open>The tapered ends do not overlap, so each bin keeps the value of its own pass.\<close>

lemma taper_loop:
  assumes "\<forall>k\<in>set ks. 0 < k \<and> k < length ys" and "\<forall>k\<in>set ks. \<forall>k'\<in>set ks. Suc (k + k') \<noteq> length ys"
    and "length out = length ys"
    and "\<And>k. k \<in> set ks \<Longrightarrow> rbind (np_sum env (take (2 * k + 1) ys)) (\<lambda>s. npf_div (np_mode env) s (of_intf (2 * int k + 1))) = Inr (hv k)"
    and "\<And>k. k \<in> set ks \<Longrightarrow> np_mean env (py_slice ys (Some (int (length ys) - 2 * int k)) (Some (int (length ys) - 1))) = Inr (tv k)"
  shows "\<exists>out'. rfold (taper_step env ys) ks out = Inr out' \<and> length out' = length ys \<and>
    (\<forall>j<length ys. out' ! j = (if j \<in> set ks then hv j else if length ys - 1 - j \<in> set ks then tv (length ys - 1 - j) else out ! j))"
  using assms
proof (induction ks arbitrary: out)
  case (Cons k ks)
  let ?L = "length ys" and ?o = "out[k := hv k, length ys - 1 - k := tv k]"
  have 1: "taper_step env ys k out = Inr ?o" using Cons.prems by (intro taper_step_eq) simp_all
  obtain out' where out': "rfold (taper_step env ys) ks ?o = Inr out'" "length out' = ?L"
    "\<forall>j<?L. out' ! j = (if j \<in> set ks then hv j else if ?L - 1 - j \<in> set ks then tv (?L - 1 - j) else ?o ! j)"
    using Cons.IH [of ?o] Cons.prems by auto
  have k: "0 < k" "k < ?L" "Suc (k + k) \<noteq> ?L" "?L - 1 - k \<notin> set ks" using Cons.prems(1,2) by force+
  have "out' ! j = (if j \<in> set (k # ks) then hv j else if ?L - 1 - j \<in> set (k # ks) then tv (?L - 1 - j) else out ! j)"
    if j: "j < ?L" for j
  proof (cases "j = k \<or> ?L - 1 - j = k")
    case True
    then show ?thesis using out'(3) j k Cons.prems(3) by (auto simp: nth_list_update)
  next
    case False
    then have "?L - 1 - k \<noteq> j" using j k by linarith
    with False have "?o ! j = out ! j" by simp
    then show ?thesis using out'(3) j False by simp
  qed
  then show ?case using 1 out'(1,2) by simp
qed simp

lemma halfw_bounds:
  assumes "2 \<le> w"
  shows "\<exists>h. rne (of_nat w / 2) = int h \<and> 1 \<le> h \<and> h < w \<and> h \<le> (w + 1) div 2 \<and> w - 1 \<le> 2 * h"
proof -
  let ?r = "rne (of_nat w / 2 :: rat)"
  have "of_int (2 * ?r) \<le> (of_int (int w + 1) :: rat)" "(of_int (int w - 1) :: rat) \<le> of_int (2 * ?r)"
    using rne_bounds [of "of_nat w / 2 :: rat"] by simp_all
  then have b: "2 * ?r \<le> int w + 1" "int w - 1 \<le> 2 * ?r" by (simp_all only: of_int_le_iff)
  then have r: "?r = int (nat ?r)" using assms by linarith
  show ?thesis by (rule exI [of _ "nat ?r"]) (use b assms in linarith)
qed

text \<open>The values before the division, as integers.\<close>

definition window_row :: "int list \<Rightarrow> nat \<Rightarrow> nat \<Rightarrow> int list" where
  "window_row xs h w = (map (\<lambda>j. if h \<le> Suc j \<and> Suc j < length xs - w + h then window xs (Suc j - h) w else 0)
     [0..<length xs])[length xs - w + h - 1 := window xs (length xs - w + 1) (length xs)]"

lemma window_row_small: "small_wave xs \<Longrightarrow> i \<in> set (window_row xs h w) \<Longrightarrow> 0 \<le> i \<and> i < 2 ^ 50"
  using window_small [of xs] window_nonneg [of xs]
  by (auto simp: window_row_def abs_less_iff dest!: subsetD [OF set_update_subset_insert])

lemma smoothed_sums:
  assumes small: "small_wave xs" and w: "2 \<le> w" "w < length xs" and h: "1 \<le> h" "h < w"
    and sums: "\<And>k n. np_sum env (take n (drop k (int_wave xs))) = Inr (of_intf (window xs k n))"
  shows "rbind (np_sum env (take w (int_wave xs))) (\<lambda>sum0.
      rbind (rfold (smooth_step em (int_wave xs) w (int h)) [0..<length xs - w] (sum0, replicate (length xs) (Fin 0))) (\<lambda>(sum_points, sss).
      rbind (np_sum env (drop (length xs - w + 1) (int_wave xs))) (\<lambda>rest.
        py_set sss (int (length xs - w) - 1 + int h) rest))) = Inr (map of_intf (window_row xs h w))"
proof -
  have s0: "np_sum env (take w (int_wave xs)) = Inr (of_intf (window xs 0 w))" using sums [of w 0] by simp
  have rest: "np_sum env (drop (length xs - w + 1) (int_wave xs)) = Inr (of_intf (window xs (length xs - w + 1) (length xs)))"
    using sums [of "length xs" "length xs - w + 1"] by simp
  have idx: "int (length xs - w) - 1 + int h = int (length xs - w + h - 1)" "length xs - w + h - 1 < length xs"
    using w h by linarith+
  have zero: "of_intf 0 = Fin 0" by (simp add: of_intf_def)
  show ?thesis
    using smooth_loop [OF small w(2) h(1) less_imp_le [OF h(2)] order_refl, of em] idx(2)
    unfolding s0 rest idx(1) by (simp add: py_set_nat window_row_def map_update o_def if_distrib [of of_intf] zero cong: if_cong)
qed

lemma window_row_div:
  assumes "small_wave xs" and "0 < int w" "int w < 2 ^ 51"
  shows "rmapM (\<lambda>s. npf_div em s (of_intf (int w))) (map of_intf (window_row xs h w)) =
    Inr (map (\<lambda>i. fl_div (of_intf i) (of_intf (int w))) (window_row xs h w))"
proof -
  have "npf_div em (of_intf i) (of_intf (int w)) = Inr (fl_div (of_intf i) (of_intf (int w)))" if "i \<in> set (window_row xs h w)" for i
    using window_row_small [OF assms(1) that] assms(2,3) by (intro npf_div_int) auto
  then have "rmapM (\<lambda>s. npf_div em s (of_intf (int w))) (map of_intf (window_row xs h w)) =
      Inr (map (\<lambda>s. fl_div s (of_intf (int w))) (map of_intf (window_row xs h w)))" by (intro rmapM_total) auto
  then show ?thesis by (simp add: o_def)
qed

text \<open>A mean: the sum of the \<open>n\<close> bins from \<open>k\<close> on, divided by \<open>d\<close>.\<close>

definition window_mean :: "int list \<Rightarrow> nat \<Rightarrow> nat \<Rightarrow> nat \<Rightarrow> fl" where
  "window_mean xs k n d = fl_div (of_intf (window xs k n)) (of_intf (int d))"

lemma window_two: "1 < length xs \<Longrightarrow> window xs 0 2 = xs ! 0 + xs ! 1"
  by (cases xs rule: remdups_adj.cases) (simp_all add: window_def eval_nat_numeral)

lemma ends_eq:
  assumes small: "small_wave xs" and "1 < length xs"
  shows "rbind (arr_at (int_wave xs) 0) (\<lambda>a. rbind (arr_at (int_wave xs) 1) (\<lambda>b.
    rbind (npf_add (np_mode env) a b) (\<lambda>ab. npf_div (np_mode env) ab (Fin 2)))) = Inr (window_mean xs 0 2 2)"
proof -
  let ?em = "np_mode env"
  have b: "0 \<le> xs ! i" "xs ! i < 2 ^ 50" if "i < length xs" for i
    using nth_small [OF small that] small that by (auto simp: small_wave_def list_all_length)
  have ne: "0 < length xs" "1 < length xs" using assms by auto
  note b01 = b [OF ne(1)] b [OF ne(2)]
  have "npf_div ?em (of_intf (xs ! 0 + xs ! 1)) (of_intf 2) = Inr (fl_div (of_intf (xs ! 0 + xs ! 1)) (of_intf 2))"
    using b01 by (intro npf_div_int) auto
  moreover have "npf_add ?em (of_intf (xs ! 0)) (of_intf (xs ! 1)) = Inr (of_intf (xs ! 0 + xs ! 1))"
    using b01 by (intro npf_add_int) auto
  moreover have "of_intf 2 = Fin 2" by (simp add: of_intf_exact)
  ultimately show ?thesis using ne window_two [OF ne(2)] by (simp add: arr_at_def int_wave_def window_mean_def)
qed

lemma head_mean_eq:
  assumes small: "small_wave xs" and sums: "\<And>k n. np_sum env (take n (drop k (int_wave xs))) = Inr (of_intf (window xs k n))"
    and k: "k < length xs" "length xs < 2 ^ 50"
  shows "rbind (np_sum env (take (2 * k + 1) (int_wave xs))) (\<lambda>s. npf_div (np_mode env) s (of_intf (2 * int k + 1))) =
    Inr (window_mean xs 0 (2 * k + 1) (2 * k + 1))"
proof -
  have "npf_div (np_mode env) (of_intf (window xs 0 (2 * k + 1))) (of_intf (2 * int k + 1)) =
      Inr (fl_div (of_intf (window xs 0 (2 * k + 1))) (of_intf (2 * int k + 1)))"
    using window_small [OF small, of 0 "2 * k + 1"] window_nonneg [OF small, of 0 "2 * k + 1"] k
    by (intro npf_div_int) auto
  then show ?thesis using sums [of "2 * k + 1" 0] by (simp add: window_mean_def add.commute)
qed

lemma tail_slice:
  "0 < k \<Longrightarrow> 2 * k \<le> length ys \<Longrightarrow>
     py_slice ys (Some (int (length ys) - 2 * int k)) (Some (int (length ys) - 1)) = take (2 * k - 1) (drop (length ys - 2 * k) ys)"
  by (auto simp: py_slice_def slice_index_def Let_def nat_diff_distrib nat_mult_distrib intro!: arg_cong2 [of _ _ _ _ take])

text \<open>The smoothed waveform, bin by bin, for the window width \<open>w\<close> with half width \<open>h\<close>: the two ends
  are tapered over \<open>(w + 1) div 2\<close> bins, the last bin is 0, and one bin where the windows end is the sum of
  only \<open>w - 1\<close> bins, but still divided by \<open>w\<close>.\<close>

definition smooth_bin :: "int list \<Rightarrow> nat \<Rightarrow> nat \<Rightarrow> nat \<Rightarrow> fl" where
  "smooth_bin xs w h j =
     (let L = length xs; s = (w + 1) div 2; k = L - 1 - j in
      if k = 0 then Fin 0
      else if j = 0 then window_mean xs 0 2 2
      else if j < s then window_mean xs 0 (2 * j + 1) (2 * j + 1)
      else if k < s then window_mean xs (L - 2 * k) (2 * k - 1) (2 * k - 1)
      else if j + 1 - h + w < L then window_mean xs (j + 1 - h) w w
      else window_mean xs (L - w + 1) (w - 1) w)"

lemma window_row_nth:
  assumes w: "2 \<le> w" "w < length xs" and h: "1 \<le> h" "h < w" "h \<le> (w + 1) div 2" "w - 1 \<le> 2 * h" and j: "j < length xs"
    and k: "(w + 1) div 2 \<le> j" "length xs \<noteq> Suc j" "\<not> length xs - 1 - j < (w + 1) div 2"
  shows "fl_div (of_intf (window_row xs h w ! j)) (of_intf (int w)) = smooth_bin xs w h j"
proof (cases "Suc j < length xs - w + h")
  case True
  then have "window_row xs h w ! j = window xs (j + 1 - h) w" using h w j k by (auto simp: window_row_def nth_list_update)
  moreover have "j + 1 - h + w < length xs" using True w h k by linarith
  ultimately show ?thesis using j k w by (auto simp: smooth_bin_def window_mean_def Let_def)
next
  case False
  then have j': "j = length xs - w + h - 1" using k h w j by linarith
  moreover have "window xs (length xs - w + 1) (length xs) = window xs (length xs - w + 1) (w - 1)"
    using w by (simp add: window_def)
  ultimately have "window_row xs h w ! j = window xs (length xs - w + 1) (w - 1)" using w h by (auto simp: window_row_def)
  moreover have "\<not> j + 1 - h + w < length xs" using False w h by linarith
  ultimately show ?thesis using j k w by (auto simp: smooth_bin_def window_mean_def Let_def)
qed

section \<open>Properties\<close>

text \<open>C16: The boxcar smoothing, bin by bin. On a waveform of non-negative integers whose sum is below \<open>2 ^ 50\<close>, with
  a numpy whose sums and means of parts of it are exact before the division, \<^verbatim>\<open>fastsmooth\<close> of a width \<open>w\<close> between 2
  and the length of the waveform, which keeps a running sum, returns an array of the same length, every bin of which
  is the direct mean of a window of the input, except the last, which is always 0. Bin \<open>j\<close> away from the
  ends is the mean of the \<open>w\<close> bins from \<open>j + 1 - halfw\<close> on, where \<open>halfw\<close> is \<open>w / 2\<close> rounded half to even; the windows of
  the tapered ends, and the one bin that divides a sum of \<open>w - 1\<close> bins by \<open>w\<close>, are given by \<open>smooth_bin\<close>. For
  the configured width of 9, \<open>halfw\<close> is 4: the window is the bins \<open>j - 3 .. j + 5\<close>, one bin off the centred
  window that the Matlab original has.\<close>

theorem fastsmooth_window:
  assumes small: "small_wave xs" and w: "2 \<le> w" "w < length xs" "length xs < 2 ^ 50"
    and sums: "\<And>k n. np_sum env (take n (drop k (int_wave xs))) = Inr (of_intf (window xs k n))"
    and means: "\<And>k n. 0 < n \<Longrightarrow> k + n \<le> length xs \<Longrightarrow>
      np_mean env (take n (drop k (int_wave xs))) = Inr (fl_div (of_intf (window xs k n)) (of_intf (int n)))"
  shows "fastsmooth env (int_wave xs) w = Inr (map (smooth_bin xs w (nat (rne (of_nat w / 2)))) [0..<length xs])"
proof -
  obtain h where rne: "rne (of_nat w / 2) = int h" and h: "1 \<le> h" "h < w" "h \<le> (w + 1) div 2" "w - 1 \<le> 2 * h"
    using halfw_bounds [OF w(1)] by blast
  let ?ys = "int_wave xs" and ?em = "np_mode env" and ?L = "length xs" and ?s = "(w + 1) div 2"
  let ?hv = "\<lambda>k. window_mean xs 0 (2 * k + 1) (2 * k + 1)" and ?tv = "\<lambda>k. window_mean xs (?L - 2 * k) (2 * k - 1) (2 * k - 1)"
  define out where "out = map (\<lambda>i. fl_div (of_intf i) (of_intf (int w))) (window_row xs h w)"
  have len: "length out = ?L" by (simp add: out_def window_row_def)
  have "int w < int (2 ^ 50)" using w by (simp only: of_nat_less_iff)
  then have w': "0 < int w" "int w < 2 ^ 51" using w by simp_all
  note div = window_row_div [OF small w'(1) w'(2), of ?em h, folded out_def]
  have v: "rbind (arr_at ?ys 0) (\<lambda>a. rbind (arr_at ?ys 1) (\<lambda>b. rbind (npf_add ?em a b) (\<lambda>ab. npf_div ?em ab (Fin 2)))) =
      Inr (window_mean xs 0 2 2)"
    using ends_eq [OF small, of env] w by auto
  have mean: "np_mean env (py_slice ?ys (Some (int (length ?ys) - 2 * int k)) (Some (int (length ?ys) - 1))) = Inr (?tv k)"
    if "1 \<le> k" "k < ?s" for k
    using that w tail_slice [of k ?ys] means [of "2 * k - 1" "?L - 2 * k"] by (simp add: window_mean_def)
  obtain out' where out': "rfold (taper_step env ?ys) [1..<?s] (out[0 := window_mean xs 0 2 2]) = Inr out'" "length out' = ?L"
      "\<forall>j<?L. out' ! j = (if j \<in> set [1..<?s] then ?hv j else if ?L - 1 - j \<in> set [1..<?s] then ?tv (?L - 1 - j)
         else out[0 := window_mean xs 0 2 2] ! j)"
  proof -
    have "k < ?L" if "k < ?s" for k using that w by linarith
    moreover have "Suc (k + k') \<noteq> ?L" if "k < ?s" "k' < ?s" for k k' using that w by linarith
    ultimately show thesis
      using that taper_loop [of "[1..<?s]" ?ys "out[0 := window_mean xs 0 2 2]" env ?hv ?tv] head_mean_eq [OF small sums] w(3) mean len by auto
  qed
  have first: "py_set out 0 x = Inr (out[0 := x])" for x using len w by (auto simp: py_set_def)
  have run: "fastsmooth env ?ys w = Inr out'"
    using w smoothed_sums [OF small w(1,2) h(1,2) sums, of ?em] div v out'(1) len
    unfolding fastsmooth_def by (auto simp: rbind_eq_Inr Let_def rne first arr_at_def)
  have "out' ! j = smooth_bin xs w h j" if j: "j < ?L" for j
  proof -
    have out_nth: "out ! j = fl_div (of_intf (window_row xs h w ! j)) (of_intf (int w))" using j len by (simp add: out_def)
    consider "j = 0" | "?L = Suc j" "0 < j" | "0 < j" "j < ?s" "?L \<noteq> Suc j" | "?s \<le> j" "?L \<noteq> Suc j" "?L - 1 - j < ?s"
      | "?s \<le> j" "?L \<noteq> Suc j" "\<not> ?L - 1 - j < ?s" using w by linarith
    then show ?thesis
    proof cases
      case 1
      then show ?thesis using out'(3) j w len by (auto simp: smooth_bin_def Let_def)
    next
      case 2
      then have "?L - w + h - 1 \<noteq> j" "\<not> Suc j < ?L - w + h" using w h by linarith+
      then have "window_row xs h w ! j = 0" using j by (simp add: window_row_def)
      moreover have "fl_div (of_intf 0) (of_intf (int w)) = Fin 0" using w' by (simp add: of_intf_exact)
      moreover have "j \<notin> set [1..<?s]" using 2 w by auto
      ultimately show ?thesis using 2 out'(3) j out_nth by (auto simp: smooth_bin_def Let_def)
    next
      case 5
      then have "out' ! j = out ! j" using out'(3) j w by (auto simp: nth_list_update)
      then show ?thesis using out_nth window_row_nth [OF w(1,2) h j 5] by simp
    qed (use out'(3) j w in \<open>auto simp: smooth_bin_def Let_def\<close>)
  qed
  then have "out' = map (smooth_bin xs w h) [0..<?L]" using out'(2) by (intro nth_equalityI) simp_all
  then show ?thesis using run rne by simp
qed

section \<open>A concrete waveform\<close>

text \<open>A numpy that is exact on integers.\<close>

definition rat_of :: "fl \<Rightarrow> rat" where
  "rat_of x = (case x of Fin q \<Rightarrow> q | _ \<Rightarrow> 0)"

definition exact_np :: np_env where
  "exact_np = \<lparr>np_mode = seterr_raise, np_sum = (\<lambda>xs. Inr (round64 (sum_list (map rat_of xs)))),
     np_mean = (\<lambda>xs. Inr (round64 (sum_list (map rat_of xs) / of_nat (length xs)))), np_power = (\<lambda>x y. Inr NaN)\<rparr>"

definition impulse :: "int list" where
  "impulse = replicate 12 0 @ [9] @ replicate 12 0"

lemma exact_np_sums: "np_sum exact_np (take n (drop k (int_wave xs))) = Inr (of_intf (window xs k n))"
  if "\<forall>x\<in>set xs. \<bar>x\<bar> < 2 ^ 53"
proof -
  have "sum_list (map rat_of (map of_intf ys)) = of_int (sum_list ys)" if "\<forall>x\<in>set ys. \<bar>x\<bar> < 2 ^ 53" for ys
    using that by (induction ys) (simp_all add: of_intf_exact rat_of_def)
  moreover have "\<forall>x\<in>set (take n (drop k xs)). \<bar>x\<bar> < 2 ^ 53" using that by (meson in_set_takeD in_set_dropD)
  ultimately have "sum_list (map rat_of (map of_intf (take n (drop k xs)))) = of_int (sum_list (take n (drop k xs)))" by blast
  then show ?thesis by (simp add: exact_np_def int_wave_def window_def of_intf_def take_map drop_map)
qed

lemma exact_np_means:
  assumes "\<forall>x\<in>set xs. \<bar>x\<bar> < 2 ^ 53" and "small_wave xs" and "0 < n" and "k + n \<le> length xs" and "length xs < 2 ^ 50"
  shows "np_mean exact_np (take n (drop k (int_wave xs))) = Inr (fl_div (of_intf (window xs k n)) (of_intf (int n)))"
proof -
  let ?ys = "take n (drop k xs)"
  have len: "length ?ys = n" using assms(4) by simp
  have "int n < int (2 ^ 50)" using assms(4,5) by (simp only: of_nat_less_iff)
  then have n: "of_intf (int n) = Fin (of_nat n)" by (simp add: of_intf_exact)
  have m: "of_intf (window xs k n) = Fin (of_int (window xs k n))"
    using window_small [OF assms(2), of k n] by (simp add: of_intf_exact)
  have "sum_list (map rat_of (map of_intf ys)) = of_int (sum_list ys)" if "\<forall>x\<in>set ys. \<bar>x\<bar> < 2 ^ 53" for ys
    using that by (induction ys) (simp_all add: of_intf_exact rat_of_def)
  moreover have "\<forall>x\<in>set ?ys. \<bar>x\<bar> < 2 ^ 53" using assms(1) by (meson in_set_takeD in_set_dropD)
  ultimately have "sum_list (map rat_of (map of_intf ?ys)) = of_int (window xs k n)" by (simp only: window_def)
  then show ?thesis using len assms(3)
    by (simp add: exact_np_def int_wave_def take_map drop_map n m del: length_take length_drop)
qed

theorem fastsmooth_window_witness:
  "fastsmooth exact_np (int_wave impulse) 9 = Inr (map (smooth_bin impulse 9 4) [0..<25]) \<and>
     smooth_bin impulse 9 4 7 = window_mean impulse 4 9 9 \<and> window impulse 4 9 = 9 \<and>
     smooth_bin impulse 9 4 16 = window_mean impulse 13 9 9 \<and> window impulse 13 9 = 0 \<and>
     smooth_bin impulse 9 4 24 = Fin 0 \<and> smooth_bin impulse 9 4 22 = window_mean impulse 21 3 3"
proof -
  have r: "rne (of_nat 9 / 2) = 4" by code_simp
  have small: "small_wave impulse" by (simp add: small_wave_def impulse_def list_all_iff sum_list_replicate)
  have bound: "\<forall>x\<in>set impulse. \<bar>x\<bar> < 2 ^ 53" by (simp add: impulse_def)
  have win: "window impulse 4 9 = 9" "window impulse 13 9 = 0" by code_simp+
  have len: "length impulse = 25" by (simp add: impulse_def)
  have "fastsmooth exact_np (int_wave impulse) 9 = Inr (map (smooth_bin impulse 9 4) [0..<25])"
    using fastsmooth_window [OF small, of 9 exact_np] exact_np_sums [OF bound] exact_np_means [OF bound small]
    unfolding r len by (simp del: upt_conv_Nil upt_Suc upt_conv_Cons)
  then show ?thesis using win len by (simp add: smooth_bin_def Let_def)
qed

end
