(* ===== verification/Retrackers.thy ===== *)
theory Retrackers
  imports Fastsmooth
begin

text \<open>
  The two retrackers: TCOG for LRM waveforms (\<^verbatim>\<open>cs2_tcog_retracker.py\<close>) and maximum coherence for
  SIN waveforms (\<^verbatim>\<open>cs2_sin_max_coherence_retracker.py\<close>), with the arguments that \<^verbatim>\<open>alg_retrack\<close>
  passes: waveforms are given as an array, not as a file, Savitsky-Golay smoothing is on, the
  unsmoothed waveform is retracked, and neither plots nor single measurements are asked for. Both
  share the search for the leading edge, which is modelled once. scipy's \<^verbatim>\<open>savgol_filter\<close> and numpy's
  \<^verbatim>\<open>linspace\<close>, \<^verbatim>\<open>interp\<close> and \<^verbatim>\<open>gradient\<close> are fields of \<open>retrack_env\<close>.
\<close>

record retrack_env = np_env +
  savgol_filter :: "fl list \<Rightarrow> int \<Rightarrow> int \<Rightarrow> fl list res"
  np_linspace :: "int \<Rightarrow> int \<Rightarrow> fl list res"               \<comment> \<open>\<^verbatim>\<open>np.linspace(0, stop, num)\<close>\<close>
  np_interp :: "fl list \<Rightarrow> fl list \<Rightarrow> fl list \<Rightarrow> fl list res"
  np_gradient :: "fl list \<Rightarrow> fl \<Rightarrow> fl list res"

record le_params =
  wf_oversampling_factor :: int
  noise_threshold :: fl
  savitsky_golay_width :: int
  savitsky_golay_poly_order :: int
  le_id_threshold :: fl
  le_dp_threshold :: fl

section \<open>The leading edge\<close>

text \<open>\<^verbatim>\<open>np.where(a & b)[0]\<close>\<close>

definition where_both :: "bool list \<Rightarrow> bool list \<Rightarrow> nat list res" where
  "where_both a b = rbind (np_map2 (\<and>) a b) (\<lambda>c. Inr (np_where id c))"

text \<open>The outcome of one pass of the loop: a flag that ends the search, or the start of a leading edge,
  its peak and the difference of their amplitudes.\<close>

definition le_peak :: "np_err \<Rightarrow> fl list \<Rightarrow> fl list \<Rightarrow> fl list \<Rightarrow> int \<Rightarrow> nat \<Rightarrow> (nat + nat \<times> nat \<times> fl) res" where
  "le_peak em wfi_sm d_wf_sm wf_bin_numi osf le =
     rbind (arr_at wf_bin_numi le) (\<lambda>b.
     rbind (where_both (map (\<lambda>x. fl_le x (Fin 0)) d_wf_sm) (map (fl_lt b) wf_bin_numi)) (\<lambda>peaks.
       case peaks of
         [] \<Rightarrow> Inr (Inl 2)
       | pk # _ \<Rightarrow>
           rbind (arr_at wfi_sm pk) (\<lambda>y. rbind (arr_at wfi_sm le) (\<lambda>x. rbind (npf_sub em y x) (\<lambda>dp.
             if int (length wf_bin_numi) - osf - 1 < int pk then Inr (Inl 3)
             else Inr (Inr (le, pk, dp)))))))"

definition le_step :: "np_err \<Rightarrow> fl list \<Rightarrow> fl list \<Rightarrow> fl list \<Rightarrow> fl \<Rightarrow> fl \<Rightarrow> int \<Rightarrow> nat \<Rightarrow> (nat + nat \<times> nat \<times> fl) res" where
  "le_step em wfi_sm d_wf_sm wf_bin_numi noise id_threshold osf previous =
     rbind (npf_add em noise id_threshold) (\<lambda>t.
     rbind (where_both (map (fl_lt t) wfi_sm) (map (fl_lt (Fin 0)) d_wf_sm)) (\<lambda>above.
       case filter (\<lambda>i. int previous + osf < int i) above of
         [] \<Rightarrow> Inr (Inl 1)
       | le # _ \<Rightarrow> le_peak em wfi_sm d_wf_sm wf_bin_numi osf le))"

text \<open>How the search ends: with a flag, with a leading edge, or without ever entering the loop, which
  leaves \<^verbatim>\<open>le_index\<close> unbound.\<close>

datatype le_out = LeFlag nat | LeFound nat nat fl | LeUnbound

partial_function (option) leading_edge ::
  "np_err \<Rightarrow> fl list \<Rightarrow> fl list \<Rightarrow> fl list \<Rightarrow> fl \<Rightarrow> fl \<Rightarrow> fl \<Rightarrow> int \<Rightarrow> nat \<Rightarrow> fl \<Rightarrow> (nat \<times> nat) option \<Rightarrow> le_out res option" where
  "leading_edge em wfi_sm d_wf_sm wf_bin_numi noise id_threshold dp_threshold osf previous le_dp found =
     (if \<not> fl_lt le_dp dp_threshold
      then Some (Inr (case found of None \<Rightarrow> LeUnbound | Some (le, pk) \<Rightarrow> LeFound le pk le_dp))
      else case le_step em wfi_sm d_wf_sm wf_bin_numi noise id_threshold osf previous of
             Inl e \<Rightarrow> Some (Inl e)
           | Inr (Inl k) \<Rightarrow> Some (Inr (LeFlag k))
           | Inr (Inr (le, pk, dp)) \<Rightarrow>
               leading_edge em wfi_sm d_wf_sm wf_bin_numi noise id_threshold dp_threshold osf pk dp (Some (le, pk)))"

declare leading_edge.simps [code]

section \<open>One waveform\<close>

text \<open>The entries of \<^verbatim>\<open>leading_edge_start\<close>, \<^verbatim>\<open>leading_edge_stop\<close>, \<^verbatim>\<open>retrack_point\<close> and \<^verbatim>\<open>retrack_flag\<close> for
  one waveform.\<close>

record retrack_row =
  rr_start :: "fl list"
  rr_stop :: "fl list"
  rr_point :: "fl list"
  rr_flags :: "nat list"

definition blank_row :: retrack_row where
  "blank_row = \<lparr>rr_start = [NaN, NaN], rr_stop = [NaN, NaN], rr_point = [NaN, NaN, NaN], rr_flags = replicate 6 0\<rparr>"

definition set_flag :: "nat \<Rightarrow> retrack_row \<Rightarrow> retrack_row" where
  "set_flag k r = r\<lparr>rr_flags := (rr_flags r)[k := 1]\<rparr>"

text \<open>A retracking point of zero power is a failure.\<close>

definition store_point :: "fl \<Rightarrow> fl \<Rightarrow> fl \<Rightarrow> retrack_row \<Rightarrow> retrack_row" where
  "store_point bin amp pwr r = (if fl_eq pwr (Fin 0) then set_flag 5 r else r\<lparr>rr_point := [bin, amp, pwr]\<rparr>)"

text \<open>What the search has found, for the part of each retracker that follows it.\<close>

record le_found =
  wf_max :: fl
  wfnorm :: "fl list"
  wfi :: "fl list"
  wfi_sm :: "fl list"
  wf_bin_numi :: "fl list"
  le_index :: nat
  first_peak_ind :: nat
  le_dp :: fl

definition store_edge :: "le_found \<Rightarrow> retrack_row \<Rightarrow> retrack_row res" where
  "store_edge s r =
     rbind (arr_at (wf_bin_numi s) (le_index s)) (\<lambda>a. rbind (arr_at (wfi_sm s) (le_index s)) (\<lambda>b.
     rbind (arr_at (wf_bin_numi s) (first_peak_ind s)) (\<lambda>c. rbind (arr_at (wfi_sm s) (first_peak_ind s)) (\<lambda>d.
       Inr (r\<lparr>rr_start := [a, b], rr_stop := [c, d]\<rparr>)))))"

text \<open>\<^verbatim>\<open>1 / wf_oversampling_factor\<close>\<close>

definition py_inverse :: "int \<Rightarrow> fl res" where
  "py_inverse n = (if n = 0 then Inl (ZeroDivisionError ''division by zero'') else Inr (round64 (1 / of_int n)))"

text \<open>Normalisation, smoothing, the noise test, oversampling and the search, which are the same in both
  retrackers; \<open>finish\<close> finds the retracking point.\<close>

definition oversample :: "'a retrack_env_scheme \<Rightarrow> le_params \<Rightarrow> fl list \<Rightarrow> fl list \<Rightarrow> (fl list \<times> fl list \<times> fl list \<times> fl list) res" where
  "oversample env lp nrm sm =
     (let n = int (length nrm); osf = wf_oversampling_factor lp in
      rbind (np_linspace env (n - 1) n) (\<lambda>bins.
      rbind (np_linspace env (n - 1) (n * osf)) (\<lambda>binsi.
      rbind (np_interp env binsi bins nrm) (\<lambda>ys.
      rbind (np_interp env binsi bins sm) (\<lambda>ys_sm.
      rbind (py_inverse osf) (\<lambda>h.
      rbind (np_gradient env ys_sm h) (\<lambda>d. Inr (binsi, ys, ys_sm, d))))))))"

definition search_edge :: "np_err \<Rightarrow> le_params \<Rightarrow> (le_found \<Rightarrow> retrack_row res) \<Rightarrow> fl \<Rightarrow> fl list \<Rightarrow> fl \<Rightarrow>
    fl list \<times> fl list \<times> fl list \<times> fl list \<Rightarrow> retrack_row res" where
  "search_edge em lp finish m nrm noise = (\<lambda>(binsi, ys, ys_sm, d).
     case leading_edge em ys_sm d binsi noise (le_id_threshold lp) (le_dp_threshold lp) (wf_oversampling_factor lp) 0 (Fin 0) None of
       None \<Rightarrow> Inl NonTermination
     | Some (Inl e) \<Rightarrow> Inl e
     | Some (Inr (LeFlag k)) \<Rightarrow> Inr (set_flag k blank_row)
     | Some (Inr LeUnbound) \<Rightarrow> Inl (UnboundLocalError ''le_index'')
     | Some (Inr (LeFound le pk dp)) \<Rightarrow> finish \<lparr>wf_max = m, wfnorm = nrm, wfi = ys, wfi_sm = ys_sm, wf_bin_numi = binsi,
         le_index = le, first_peak_ind = pk, le_dp = dp\<rparr>)"

definition retrack_waveform ::
  "'a retrack_env_scheme \<Rightarrow> le_params \<Rightarrow> (le_found \<Rightarrow> retrack_row res) \<Rightarrow> fl list \<Rightarrow> retrack_row res" where
  "retrack_waveform env lp finish waveform =
     rbind (np_max waveform) (\<lambda>m.
       if fl_eq m (Fin 0) then Inr (set_flag 0 blank_row)
       else
         rbind (rmapM (\<lambda>x. npf_div (np_mode env) x m) waveform) (\<lambda>nrm.
         rbind (savgol_filter env nrm (savitsky_golay_width lp) (savitsky_golay_poly_order lp)) (\<lambda>sm0.
         rbind (np_mean env (take 6 (fl_sort nrm))) (\<lambda>noise.
           if fl_lt (noise_threshold lp) noise \<or> is_nan noise then Inr (set_flag 0 blank_row)
           else
             rbind (oversample env lp nrm (map (\<lambda>x. if x = Fin 0 then NaN else x) sm0))
               (search_edge (np_mode env) lp finish m nrm noise)))))"

section \<open>The TCOG retracking point\<close>

text \<open>\<^verbatim>\<open>sqrt(sum(wfnorm**4) / sum(wfnorm**2))\<close>\<close>

definition tcog_amp :: "'a np_env_scheme \<Rightarrow> fl list \<Rightarrow> fl res" where
  "tcog_amp env nrm =
     rbind (rbind (rmapM (\<lambda>x. np_power env x (Fin 4)) nrm) (py_sum (np_mode env))) (\<lambda>a.
     rbind (rbind (rmapM (\<lambda>x. np_power env x (Fin 2)) nrm) (py_sum (np_mode env))) (\<lambda>b.
     rbind (npf_div (np_mode env) a b) fl_sqrt))"

definition tcog_point :: "'a np_env_scheme \<Rightarrow> fl \<Rightarrow> le_found \<Rightarrow> retrack_row res" where
  "tcog_point env threshold s =
     rbind (tcog_amp env (wfnorm s)) (\<lambda>amp.
     rbind (arr_at (wf_bin_numi s) (le_index s)) (\<lambda>b.
     rbind (where_both (map (fl_lt (fl_mul threshold amp)) (wfi s)) (map (fl_lt b) (wf_bin_numi s))) (\<lambda>samples.
       case samples of
         [] \<Rightarrow> Inr (set_flag 5 blank_row)
       | k # _ \<Rightarrow>
           rbind (store_edge s blank_row) (\<lambda>r.
           rbind (arr_at (wf_bin_numi s) k) (\<lambda>bin. rbind (arr_at (wfi s) k) (\<lambda>a.
           rbind (npf_mul (np_mode env) a (wf_max s)) (\<lambda>pwr. Inr (store_point bin a pwr r))))))))"

section \<open>The maximum coherence retracking point\<close>

text \<open>\<^verbatim>\<open>np.unique(np.rint(...).astype(int))\<close>: the sorted distinct bin numbers.\<close>

definition rint_unique :: "fl list \<Rightarrow> nat list res" where
  "rint_unique xs = rbind (rmapM int_around xs) (\<lambda>is. Inr (sorted_list_of_set (nat ` set is)))"

definition top_of_edge :: "np_err \<Rightarrow> le_found \<Rightarrow> nat list res" where
  "top_of_edge em s =
     rbind (arr_at (wfi s) (le_index s)) (\<lambda>y0.
     rbind (rmapM (\<lambda>y. npf_sub em y y0) (wfi s)) (\<lambda>rise.
     rbind (npf_mul em (Fin (1 / 2)) (le_dp s)) (\<lambda>half.
     rbind (gather (wf_bin_numi s)
       (filter (\<lambda>i. le_index s \<le> i \<and> i \<le> first_peak_ind s) (np_where (fl_lt half) rise))) rint_unique)))"

text \<open>A negative width makes \<^verbatim>\<open>fastsmooth\<close> run past the end of the array.\<close>

definition smooth_coherence :: "np_env \<Rightarrow> fl list \<Rightarrow> int \<Rightarrow> fl list res" where
  "smooth_coherence env coh w =
     (if w < 0 then Inl (IndexError ''index out of bounds'') else fastsmooth env coh (nat w))"

definition mc_point :: "'a np_env_scheme \<Rightarrow> int \<Rightarrow> fl list res \<Rightarrow> fl list \<Rightarrow> le_found \<Rightarrow> retrack_row res" where
  "mc_point env smoothing_width coherence waveform s =
     rbind coherence (\<lambda>coh.
     rbind (smooth_coherence (np_env.truncate env) coh smoothing_width) (\<lambda>coh_sm.
     rbind (top_of_edge (np_mode env) s) (\<lambda>top.
     rbind (if top = [] then Inr (set_flag 5 blank_row)
            else
              rbind (gather coh_sm top) (\<lambda>cs. rbind (np_argmax cs) (\<lambda>j. rbind (arr_at top j) (\<lambda>k.
              rbind (arr_at waveform k) (\<lambda>pwr. rbind (npf_div (np_mode env) pwr (wf_max s)) (\<lambda>amp.
                Inr (store_point (of_intf (int k)) amp pwr blank_row))))))) (store_edge s))))"

section \<open>All waveforms\<close>

text \<open>The loop over the waveforms: one that is not to be included is left blank.\<close>

definition retrack_rows :: "bool list \<Rightarrow> (nat \<Rightarrow> fl list \<Rightarrow> retrack_row res) \<Rightarrow> fl list list \<Rightarrow> retrack_row list res" where
  "retrack_rows incl f rows =
     (if length incl \<noteq> length rows then Inl (InvalidArraySizeError ''include_measurements_array'')
      else rmapM (\<lambda>(i, wv). if incl ! i then f i wv else Inr blank_row) (enumerate 0 rows))"

definition row_failed :: "retrack_row \<Rightarrow> bool" where
  "row_failed r = (rr_flags r ! 5 \<noteq> 0 \<or> rr_flags r ! 3 \<noteq> 0 \<or> rr_flags r ! 2 \<noteq> 0 \<or> rr_flags r ! 1 \<noteq> 0 \<or> rr_flags r ! 0 \<noteq> 0)"

record retrack_out =
  ro_dr_bin :: "fl list"
  ro_dr_meters :: "fl list"
  ro_start :: "fl list list"
  ro_stop :: "fl list list"
  ro_pwr :: "fl list"
  ro_failures :: nat
  ro_flags :: "nat list list"

text \<open>The offsets from the reference bin; an empty list of points has no columns.\<close>

definition retrack_result :: "np_err \<Rightarrow> fl \<Rightarrow> fl \<Rightarrow> retrack_row list \<Rightarrow> retrack_out res" where
  "retrack_result em ref_bin rbin_size rows =
     (if rows = [] then Inl (IndexError ''too many indices for array'')
      else
        rbind (rmapM (\<lambda>r. npf_sub em (rr_point r ! 0) ref_bin) rows) (\<lambda>dr_bin.
        rbind (rmapM (\<lambda>x. npf_mul em x rbin_size) dr_bin) (\<lambda>dr_meters.
          Inr \<lparr>ro_dr_bin = dr_bin, ro_dr_meters = dr_meters, ro_start = map rr_start rows, ro_stop = map rr_stop rows,
               ro_pwr = map (\<lambda>r. rr_point r ! 2) rows, ro_failures = length (filter row_failed rows),
               ro_flags = map rr_flags rows\<rparr>)))"

definition rbin_size_lrm :: fl where
  "rbin_size_lrm = round64 (299792458 / 640000000)"

definition rbin_size_sin :: fl where
  "rbin_size_sin = round64 (299792458 / 1280000000)"

definition outside_unit :: "fl \<Rightarrow> bool" where
  "outside_unit x = (fl_lt x (Fin 0) \<or> fl_lt (Fin 1) x)"

record tcog_params = le_params +
  retrack_threshold_lrm :: fl
  retrack_threshold_sin :: fl
  ref_bin_ind_lrm :: fl
  ref_bin_ind_sin :: fl

text \<open>The tests of the arguments of the TCOG retracker.\<close>

definition tcog_check :: "tcog_params \<Rightarrow> unit res" where
  "tcog_check tp =
     rbind (guard (\<not> outside_unit (retrack_threshold_lrm tp)) (ValueError ''retrack_threshold_lrm not between 0. and 1.'')) (\<lambda>_.
     rbind (guard (\<not> outside_unit (retrack_threshold_sin tp)) (ValueError ''retrack_threshold_sin not between 0. and 1.'')) (\<lambda>_.
     rbind (guard (\<not> outside_unit (noise_threshold tp)) (ValueError ''noise_threshold not between 0. and 1.'')) (\<lambda>_.
       guard (\<not> outside_unit (le_dp_threshold tp)) (ValueError ''le_dp_threshold not between 0. and 1.''))))"

definition retrack_tcog_waveforms_cs2 :: "retrack_env \<Rightarrow> tcog_params \<Rightarrow> sval \<Rightarrow> bool list \<Rightarrow> retrack_out res" where
  "retrack_tcog_waveforms_cs2 env tp waveforms incl =
     rbind (tcog_check tp) (\<lambda>_.
       case waveforms of
         SF2 cols rows \<Rightarrow>
           if cols = 128 \<or> cols = 1024 then
             let lrm_mode = (cols = 128);
                 threshold = (if lrm_mode then retrack_threshold_lrm tp else retrack_threshold_sin tp) in
             rbind (retrack_rows incl (\<lambda>i. retrack_waveform env (le_params.truncate tp) (tcog_point env threshold)) rows)
               (retrack_result (np_mode env) (if lrm_mode then ref_bin_ind_lrm tp else ref_bin_ind_sin tp)
                  (if lrm_mode then rbin_size_lrm else rbin_size_sin))
           else Inl (ValueError ''waveforms size must be (,128) for LRM or (,1024) for SIN'')
       | _ \<Rightarrow> Inl (ValueError ''waveforms size must be (,128) for LRM or (,1024) for SIN''))"

record mc_params = le_params +
  mc_ref_bin_ind_sin :: fl
  coherence_smoothing_width :: int

definition retrack_cs2_sin_max_coherence ::
  "retrack_env \<Rightarrow> mc_params \<Rightarrow> sval \<Rightarrow> fl list list \<Rightarrow> bool list \<Rightarrow> retrack_out res" where
  "retrack_cs2_sin_max_coherence env mp waveforms coherence incl =
     (case waveforms of
        SF2 cols rows \<Rightarrow>
          if cols = 1024 then
            rbind (retrack_rows incl (\<lambda>i wv. retrack_waveform env (le_params.truncate mp)
                (mc_point env (coherence_smoothing_width mp) (arr_at coherence i) wv) wv) rows)
              (retrack_result (np_mode env) (mc_ref_bin_ind_sin mp) rbin_size_sin)
          else Inl (ValueError ''waveforms size must be (,1024) for SIN'')
      | _ \<Rightarrow> Inl (ValueError ''waveforms size must be (,1024) for SIN''))"

section \<open>The search for the leading edge\<close>

definition increasing :: "fl list \<Rightarrow> bool" where
  "increasing bs \<longleftrightarrow> (\<forall>i j. i < j \<and> j < length bs \<longrightarrow> fl_lt (bs ! i) (bs ! j))"

lemma where_both_same: "length a = length b \<Longrightarrow> where_both a b = Inr (filter (\<lambda>i. a ! i \<and> b ! i) [0..<length a])"
  by (auto simp: where_both_def np_where_def intro!: filter_cong)

lemma filter_upt_Cons:
  assumes "filter P [0..<n] = i # rest"
  shows "i < n \<and> P i \<and> (\<forall>j<i. \<not> P j)"
proof -
  have i: "i \<in> set (filter P [0..<n])" using assms by simp
  have "\<not> P j" if "j < i" for j
  proof
    assume "P j"
    with that i have "j \<in> set (i # rest)" unfolding assms [symmetric] by auto
    moreover have "sorted (i # rest)" using assms by (metis sorted_upt sorted_wrt_filter)
    ultimately show False using that by auto
  qed
  then show ?thesis using i by auto
qed

lemma increasing_less: "increasing bs \<Longrightarrow> fl_lt (bs ! i) (bs ! j) \<Longrightarrow> i < length bs \<Longrightarrow> i < j"
  by (metis fl_lt_asym fl_lt_irrefl increasing_def nat_neq_iff)

text \<open>What a leading edge is: it starts above the noise with a rising waveform, its peak is the first later
  sample at which the waveform does not rise, and the peak is not in the last bins.\<close>

definition is_edge :: "fl list \<Rightarrow> fl list \<Rightarrow> fl \<Rightarrow> int \<Rightarrow> nat \<Rightarrow> nat \<Rightarrow> fl \<Rightarrow> bool" where
  "is_edge sm d t osf le pk dp \<longleftrightarrow> le < pk \<and> pk < length sm \<and> fl_lt t (sm ! le) \<and> fl_lt (Fin 0) (d ! le) \<and>
     fl_le (d ! pk) (Fin 0) \<and> (\<forall>j. le < j \<and> j < pk \<longrightarrow> \<not> fl_le (d ! j) (Fin 0)) \<and>
     dp = fl_sub (sm ! pk) (sm ! le) \<and> int pk < int (length sm) - osf"

lemma le_peak_found:
  assumes len: "length d = length sm" "length bins = length sm" and inc: "increasing bins" and le: "le < length sm"
    and step: "le_peak em sm d bins osf le = Inr (Inr (le', pk, dp))"
  shows "le' = le \<and> le < pk \<and> pk < length sm \<and> fl_le (d ! pk) (Fin 0) \<and> (\<forall>j. le < j \<and> j < pk \<longrightarrow> \<not> fl_le (d ! j) (Fin 0)) \<and>
    dp = fl_sub (sm ! pk) (sm ! le) \<and> int pk < int (length sm) - osf"
proof -
  define peaks where "peaks = filter (\<lambda>i. fl_le (d ! i) (Fin 0) \<and> fl_lt (bins ! le) (bins ! i)) [0..<length sm]"
  have w2: "where_both (map (\<lambda>x. fl_le x (Fin 0)) d) (map (fl_lt (bins ! le)) bins) = Inr peaks"
    using len by (auto simp: where_both_same peaks_def intro!: filter_cong)
  have step': "(case peaks of [] \<Rightarrow> Inr (Inl (2 :: nat)) | pk # _ \<Rightarrow>
       rbind (arr_at sm pk) (\<lambda>y. rbind (arr_at sm le) (\<lambda>x. rbind (npf_sub em y x) (\<lambda>dp.
         if int (length bins) - osf - 1 < int pk then Inr (Inl 3) else Inr (Inr (le, pk, dp)))))) = Inr (Inr (le', pk, dp))"
    using step le len w2 by (simp add: le_peak_def arr_at_def cong: list.case_cong)
  then obtain rest where pk: "peaks = pk # rest" and dp: "npf_sub em (sm ! pk) (sm ! le) = Inr dp" and le': "le' = le"
    and fin: "\<not> int (length sm) - osf - 1 < int pk"
    using len by (cases peaks) (auto simp: rbind_eq_Inr split: if_splits)
  from filter_upt_Cons [OF pk [unfolded peaks_def]]
  have P: "pk < length sm" "fl_le (d ! pk) (Fin 0)" "fl_lt (bins ! le) (bins ! pk)"
    "\<And>j. j < pk \<Longrightarrow> \<not> (fl_le (d ! j) (Fin 0) \<and> fl_lt (bins ! le) (bins ! j))" by auto
  have "le < pk" using increasing_less [OF inc P(3)] le len by simp
  moreover have "\<not> fl_le (d ! j) (Fin 0)" if "le < j" "j < pk" for j
    using P(4) [OF that(2)] inc that P(1) len by (auto simp: increasing_def)
  ultimately show ?thesis using P le' fin npf_sub_Inr [OF dp] by auto
qed

lemma le_step_found:
  assumes len: "length d = length sm" "length bins = length sm" and inc: "increasing bins"
    and step: "le_step em sm d bins noise idt osf prev = Inr (Inr (le, pk, dp))"
  shows "is_edge sm d (fl_add noise idt) osf le pk dp \<and> int prev + osf < int le"
proof -
  define above where "above = filter (\<lambda>i. fl_lt (fl_add noise idt) (sm ! i) \<and> fl_lt (Fin 0) (d ! i)) [0..<length sm]"
  have t: "npf_add em noise idt = Inr (fl_add noise idt)" using step npf_add_Inr by (auto simp: le_step_def rbind_eq_Inr)
  have w1: "where_both (map (fl_lt (fl_add noise idt)) sm) (map (fl_lt (Fin 0)) d) = Inr above"
    using len by (auto simp: where_both_same above_def intro!: filter_cong)
  obtain l rest where l: "filter (\<lambda>i. int prev + osf < int i) above = l # rest" and pk: "le_peak em sm d bins osf l = Inr (Inr (le, pk, dp))"
    using step by (auto simp: le_step_def t w1 split: list.splits)
  have "l \<in> set (filter (\<lambda>i. int prev + osf < int i) above)" unfolding l by simp
  then have l_n: "l < length sm" "fl_lt (fl_add noise idt) (sm ! l)" "fl_lt (Fin 0) (d ! l)" "int prev + osf < int l"
    by (auto simp: above_def)
  then show ?thesis using le_peak_found [OF len inc l_n(1) pk] by (auto simp: is_edge_def)
qed

lemma le_peak_flag: "le_peak em sm d bins osf le = Inr (Inl k) \<Longrightarrow> k \<in> {2, 3}"
  by (auto simp: le_peak_def rbind_eq_Inr neq_Nil_conv split: list.splits if_splits)

lemma le_step_flag: "le_step em sm d bins noise idt osf prev = Inr (Inl k) \<Longrightarrow> k \<in> {1, 2, 3}"
  by (auto simp: le_step_def rbind_eq_Inr neq_Nil_conv dest!: le_peak_flag split: list.splits)

text \<open>Every pass moves on by more than \<^verbatim>\<open>wf_oversampling_factor\<close> samples, so the search ends.\<close>

lemma leading_edge_result:
  assumes len: "length d = length sm" "length bins = length sm" and inc: "increasing bins" and osf: "0 \<le> osf"
    and found: "\<And>le pk. found = Some (le, pk) \<Longrightarrow> is_edge sm d (fl_add noise idt) osf le pk dp0"
  shows "\<exists>r. leading_edge em sm d bins noise idt dpt osf prev dp0 found = Some r \<and>
    (\<forall>le pk dp. r = Inr (LeFound le pk dp) \<longrightarrow> is_edge sm d (fl_add noise idt) osf le pk dp \<and> \<not> fl_lt dp dpt) \<and>
    (\<forall>k. r = Inr (LeFlag k) \<longrightarrow> k \<in> {1, 2, 3})"
  using found
proof (induction "length sm - prev" arbitrary: prev dp0 found rule: less_induct)
  case less
  let ?step = "le_step em sm d bins noise idt osf prev"
  show ?case
  proof (cases "fl_lt dp0 dpt")
    case False
    then show ?thesis using less.prems by (subst leading_edge.simps) (auto split: option.splits)
  next
    case True
    note unfold = leading_edge.simps [of em sm d bins noise idt dpt osf prev dp0 found]
    show ?thesis
    proof (cases ?step)
      case (Inl e)
      then show ?thesis using True by (simp add: unfold)
    next
      case (Inr out)
      show ?thesis
      proof (cases out)
        case (Inl k)
        with Inr True le_step_flag [of em sm d bins noise idt osf prev k] show ?thesis by (simp add: unfold)
      next
        case o: (Inr x)
        obtain le pk dp where x: "x = (le, pk, dp)" by (cases x)
        have E: "is_edge sm d (fl_add noise idt) osf le pk dp" "int prev + osf < int le"
          using le_step_found [OF len inc] Inr o x by auto
        then have "length sm - pk < length sm - prev" using osf by (auto simp: is_edge_def)
        from less.hyps [OF this, of "Some (le, pk)" dp] E True Inr o x show ?thesis by (simp add: unfold)
      qed
    qed
  qed
qed

section \<open>Rows\<close>

text \<open>A row as the retrackers leave it: it is marked as failed exactly when it has no retracking point.\<close>

definition good_row :: "retrack_row \<Rightarrow> bool" where
  "good_row r \<longleftrightarrow> length (rr_start r) = 2 \<and> length (rr_stop r) = 2 \<and> length (rr_point r) = 3 \<and>
     length (rr_flags r) = 6 \<and> (row_failed r \<longleftrightarrow> rr_point r ! 0 = NaN)"

lemma flag_row_good: "k \<in> {0, 1, 2, 3, 5} \<Longrightarrow> good_row (set_flag k blank_row)"
  by (auto simp: good_row_def row_failed_def set_flag_def blank_row_def eval_nat_numeral)

lemma store_point_good:
  assumes "bin \<noteq> NaN" and "r = blank_row\<lparr>rr_start := [a, b], rr_stop := [c, d]\<rparr>"
  shows "good_row (store_point bin amp pwr r)"
  using assms by (auto simp: good_row_def row_failed_def store_point_def set_flag_def blank_row_def eval_nat_numeral)

lemma store_edge_good:
  assumes "store_edge s r = Inr r'" and "good_row r"
  shows "good_row r'"
  using assms by (auto simp: store_edge_def rbind_eq_Inr good_row_def row_failed_def)

text \<open>The contract between the search and the part of a retracker that finds the point.\<close>

locale point_finder =
  fixes finish :: "le_found \<Rightarrow> retrack_row res"
  assumes good: "finish s = Inr r \<Longrightarrow> NaN \<notin> set (wf_bin_numi s) \<Longrightarrow> good_row r"

interpretation tcog: point_finder "tcog_point env threshold"
proof
  fix s r
  assume r: "tcog_point env threshold s = Inr r" and bins: "NaN \<notin> set (wf_bin_numi s)"
  obtain amp b samples where "where_both (map (fl_lt (fl_mul threshold amp)) (wfi s)) (map (fl_lt b) (wf_bin_numi s)) = Inr samples"
    and r': "(case samples of [] \<Rightarrow> Inr (set_flag 5 blank_row) | k # _ \<Rightarrow>
           rbind (store_edge s blank_row) (\<lambda>r. rbind (arr_at (wf_bin_numi s) k) (\<lambda>bin. rbind (arr_at (wfi s) k) (\<lambda>a.
           rbind (npf_mul (np_mode env) a (wf_max s)) (\<lambda>pwr. Inr (store_point bin a pwr r)))))) = Inr r"
    using r by (auto simp: tcog_point_def rbind_eq_Inr)
  show "good_row r"
  proof (cases samples)
    case Nil
    then show ?thesis using r' flag_row_good [of 5] by simp
  next
    case (Cons k ks)
    then obtain a pwr where k: "k < length (wf_bin_numi s)" and "r = store_point (wf_bin_numi s ! k) a pwr
        (blank_row\<lparr>rr_start := [wf_bin_numi s ! le_index s, wfi_sm s ! le_index s],
          rr_stop := [wf_bin_numi s ! first_peak_ind s, wfi_sm s ! first_peak_ind s]\<rparr>)"
      using r' by (auto simp: store_edge_def rbind_eq_Inr)
    moreover have "wf_bin_numi s ! k \<noteq> NaN" using nth_mem [OF k] bins by metis
    ultimately show ?thesis by (simp add: store_point_good)
  qed
qed

interpretation mc: point_finder "mc_point env width coherence waveform"
proof
  fix s r
  assume "mc_point env width coherence waveform s = Inr r"
  moreover have "of_intf i \<noteq> NaN" for i by (simp add: of_intf_def)
  moreover have "good_row (store_point bin amp pwr blank_row)" if "bin \<noteq> NaN" for bin amp pwr
    using store_point_good [OF that, of blank_row NaN NaN NaN NaN] by (simp add: blank_row_def)
  ultimately show "good_row r"
    by (auto simp: mc_point_def rbind_eq_Inr flag_row_good dest!: store_edge_good split: if_splits)
qed

text \<open>What is used of numpy and scipy: \<^verbatim>\<open>linspace\<close> from 0 to a positive number gives increasing numbers, the
  interpolation and the gradient have the length of their argument, and every call returns.\<close>

definition numpy_laws :: "'a retrack_env_scheme \<Rightarrow> bool" where
  "numpy_laws env \<longleftrightarrow>
     (\<forall>stop n bs. 0 < stop \<longrightarrow> np_linspace env stop n = Inr bs \<longrightarrow> increasing bs \<and> NaN \<notin> set bs) \<and>
     (\<forall>x xp fp ys. np_interp env x xp fp = Inr ys \<longrightarrow> length ys = length x) \<and>
     (\<forall>ys h ds. np_gradient env ys h = Inr ds \<longrightarrow> length ds = length ys) \<and>
     (\<forall>xs. np_sum env xs \<noteq> Inl NonTermination) \<and> (\<forall>xs. np_mean env xs \<noteq> Inl NonTermination) \<and>
     (\<forall>x y. np_power env x y \<noteq> Inl NonTermination) \<and> (\<forall>xs w k. savgol_filter env xs w k \<noteq> Inl NonTermination) \<and>
     (\<forall>stop n. np_linspace env stop n \<noteq> Inl NonTermination) \<and>
     (\<forall>x xp fp. np_interp env x xp fp \<noteq> Inl NonTermination) \<and> (\<forall>ys h. np_gradient env ys h \<noteq> Inl NonTermination)"

lemma numpy_lengths:
  assumes "numpy_laws env"
  shows "0 < stop \<Longrightarrow> np_linspace env stop n = Inr bs \<Longrightarrow> increasing bs \<and> NaN \<notin> set bs"
    "np_interp env x xp fp = Inr ys \<Longrightarrow> length ys = length x" "np_gradient env us h = Inr ds \<Longrightarrow> length ds = length us"
  using assms by (auto simp: numpy_laws_def)

lemma numpy_returns:
  assumes "numpy_laws env"
  shows "np_sum env xs \<noteq> Inl NonTermination" "np_mean env xs \<noteq> Inl NonTermination" "np_power env u v \<noteq> Inl NonTermination"
    "savgol_filter env xs w k \<noteq> Inl NonTermination" "np_linspace env stop n \<noteq> Inl NonTermination"
    "np_interp env x xp fp \<noteq> Inl NonTermination" "np_gradient env us h \<noteq> Inl NonTermination"
  using assms by (auto simp: numpy_laws_def)

lemma oversample_laws:
  assumes laws: "numpy_laws env" and "1 < length nrm" and over: "oversample env lp nrm sm = Inr (binsi, ys, ys_sm, d)"
  shows "increasing binsi \<and> NaN \<notin> set binsi \<and> length ys_sm = length binsi \<and> length d = length binsi \<and> length ys = length binsi"
proof -
  let ?n = "int (length nrm)"
  obtain bins h where binsi: "np_linspace env (?n - 1) (?n * wf_oversampling_factor lp) = Inr binsi"
    and ys: "np_interp env binsi bins nrm = Inr ys" "np_interp env binsi bins sm = Inr ys_sm" and d: "np_gradient env ys_sm h = Inr d"
    using over by (auto simp: oversample_def Let_def rbind_eq_Inr)
  have "0 < ?n - 1" using assms(2) by simp
  then have "increasing binsi \<and> NaN \<notin> set binsi" using numpy_lengths(1) [OF laws _ binsi] by simp
  moreover have "length ys = length binsi" "length ys_sm = length binsi" "length d = length ys_sm"
    using numpy_lengths(2) [OF laws ys(1)] numpy_lengths(2) [OF laws ys(2)] numpy_lengths(3) [OF laws d] by simp_all
  ultimately show ?thesis by simp
qed

context point_finder
begin

lemma search_edge_good:
  assumes O: "increasing binsi" "NaN \<notin> set binsi" "length ys_sm = length binsi" "length d = length binsi"
    and osf: "0 \<le> wf_oversampling_factor lp" and r: "search_edge em lp finish m nrm noise (binsi, ys, ys_sm, d) = Inr r"
  shows "good_row r"
proof -
  obtain out where out: "leading_edge em ys_sm d binsi noise (le_id_threshold lp) (le_dp_threshold lp)
      (wf_oversampling_factor lp) 0 (Fin 0) None = Some (Inr out)"
    using r by (auto simp: search_edge_def split: option.splits sum.splits)
  have "\<exists>r. leading_edge em ys_sm d binsi noise (le_id_threshold lp) (le_dp_threshold lp) (wf_oversampling_factor lp) 0 (Fin 0) None = Some r \<and>
    (\<forall>le pk dp. r = Inr (LeFound le pk dp) \<longrightarrow> is_edge ys_sm d (fl_add noise (le_id_threshold lp)) (wf_oversampling_factor lp) le pk dp \<and>
      \<not> fl_lt dp (le_dp_threshold lp)) \<and> (\<forall>k. r = Inr (LeFlag k) \<longrightarrow> k \<in> {1, 2, 3})"
    by (rule leading_edge_result) (use O osf in auto)
  then have "k \<in> {1, 2, 3}" if "out = LeFlag k" for k using out that by simp
  then show ?thesis using r out O(2) good by (cases out) (auto simp: search_edge_def intro!: flag_row_good)
qed

lemma retrack_waveform_good:
  assumes laws: "numpy_laws env" and len: "1 < length waveform" and osf: "0 \<le> wf_oversampling_factor lp"
    and r: "retrack_waveform env lp finish waveform = Inr r"
  shows "good_row r"
proof (cases "r = set_flag 0 blank_row")
  case False
  then obtain m nrm noise sm binsi ys ys_sm d where nrm: "rmapM (\<lambda>x. npf_div (np_mode env) x m) waveform = Inr nrm"
    and over: "oversample env lp nrm sm = Inr (binsi, ys, ys_sm, d)"
    and search: "search_edge (np_mode env) lp finish m nrm noise (binsi, ys, ys_sm, d) = Inr r"
    using r by (auto simp: retrack_waveform_def rbind_eq_Inr split: if_splits)
  have "1 < length nrm" using rmapM_length [OF nrm] len by simp
  from oversample_laws [OF laws this over] search_edge_good [OF _ _ _ _ osf search] show ?thesis by blast
qed (simp add: flag_row_good)

end

section \<open>Every loop ends\<close>

text \<open>The functions below the retrackers return or raise.\<close>

named_theorems returns \<open>computations that return or raise\<close>

lemma npf_returns [returns]:
  "npf_add em x y \<noteq> Inl NonTermination" "npf_sub em x y \<noteq> Inl NonTermination" "npf_mul em x y \<noteq> Inl NonTermination"
  "npf_div em x y \<noteq> Inl NonTermination"
  by (auto simp: npf_add_def npf_sub_def npf_mul_def npf_div_def np_invalid_def np_round_def flagged_def Let_def
      split: fl.splits if_splits)

lemma basic_returns [returns]:
  "np_max xs \<noteq> Inl NonTermination" "np_argmax xs \<noteq> Inl NonTermination" "arr_at ys i \<noteq> Inl NonTermination"
  "py_set ys j v \<noteq> Inl NonTermination" "py_inverse j \<noteq> Inl NonTermination" "np_map2 f us vs \<noteq> Inl NonTermination"
  by (auto simp: np_max_def np_argmax_def arr_at_def py_set_def py_inverse_def np_map2_def split: list.splits)

lemma number_returns [returns]: "fl_sqrt x \<noteq> Inl NonTermination" "int_around x \<noteq> Inl NonTermination"
  by (cases x; simp)+

lemmas [returns] = rbind_neq_Inl if_neq_Inl rmapM_neq_Inl Inr_not_Inl

lemma rfold_neq_Inl [returns]: "(\<And>x s. x \<in> set xs \<Longrightarrow> f x s \<noteq> Inl e) \<Longrightarrow> rfold f xs s \<noteq> Inl e"
  by (induction xs arbitrary: s) (simp_all add: rbind_neq_Inl)

lemma case_list_neq_Inl [returns]: "a \<noteq> Inl e \<Longrightarrow> (\<And>x xs. f x xs \<noteq> Inl e) \<Longrightarrow> case_list a f l \<noteq> Inl e"
  by (cases l) auto

lemma array_returns [returns]: "gather xs idx \<noteq> Inl NonTermination" "where_both a b \<noteq> Inl NonTermination"
  unfolding gather_def where_both_def by (intro returns)+

lemma py_sum_returns [returns]: "py_sum em xs \<noteq> Inl NonTermination"
proof -
  have "foldl (\<lambda>acc x. rbind acc (\<lambda>a. npf_add em a x)) r xs \<noteq> Inl NonTermination" if "r \<noteq> Inl NonTermination" for r
    using that by (induction xs arbitrary: r) (simp_all add: rbind_neq_Inl npf_returns)
  then show ?thesis by (simp add: py_sum_def)
qed

lemma smooth_step_returns [returns]: "smooth_step em ys w h k s \<noteq> Inl NonTermination"
  unfolding smooth_step_def case_prod_beta by (intro returns)

lemma fastsmooth_returns:
  assumes "\<And>xs. np_sum env xs \<noteq> Inl NonTermination" and "\<And>xs. np_mean env xs \<noteq> Inl NonTermination"
  shows "fastsmooth env ys w \<noteq> Inl NonTermination"
  unfolding fastsmooth_def taper_step_def Let_def case_prod_beta by (intro returns assms)

lemma store_edge_returns [returns]: "store_edge s r \<noteq> Inl NonTermination"
  unfolding store_edge_def by (intro returns)

lemma top_of_edge_returns [returns]: "top_of_edge em s \<noteq> Inl NonTermination"
  unfolding top_of_edge_def rint_unique_def by (intro returns)

lemma tcog_point_returns:
  assumes "numpy_laws env"
  shows "tcog_point env threshold s \<noteq> Inl NonTermination"
  unfolding tcog_point_def tcog_amp_def
  by (intro returns numpy_returns [OF assms])

lemma mc_point_returns:
  assumes "numpy_laws env" and "coherence \<noteq> Inl NonTermination"
  shows "mc_point env w coherence wv s \<noteq> Inl NonTermination"
proof -
  have "fastsmooth (np_env.truncate env) ys v \<noteq> Inl NonTermination" for ys v
    by (rule fastsmooth_returns) (simp_all add: np_env.defs numpy_returns [OF assms(1)])
  then have "smooth_coherence (np_env.truncate env) ys w \<noteq> Inl NonTermination" for ys
    by (simp add: smooth_coherence_def)
  then show ?thesis unfolding mc_point_def by (intro returns assms(2))
qed

lemma oversample_returns: "numpy_laws env \<Longrightarrow> oversample env lp nrm sm \<noteq> Inl NonTermination"
  unfolding oversample_def Let_def by (intro returns numpy_returns)

lemma le_step_returns: "le_step em sm d bins noise idt osf prev \<noteq> Inl NonTermination"
  unfolding le_step_def le_peak_def by (intro returns)

lemma leading_edge_returns:
  assumes len: "length d = length sm" "length bins = length sm" and inc: "increasing bins" and osf: "0 \<le> osf"
  shows "leading_edge em sm d bins noise idt dpt osf prev dp0 found \<noteq> None \<and>
    leading_edge em sm d bins noise idt dpt osf prev dp0 found \<noteq> Some (Inl NonTermination)"
proof (induction "length sm - prev" arbitrary: prev dp0 found rule: less_induct)
  case less
  note unfold = leading_edge.simps [of em sm d bins noise idt dpt osf prev dp0 found]
  show ?case
  proof (cases "le_step em sm d bins noise idt osf prev")
    case (Inl e)
    then show ?thesis using le_step_returns [of em sm d bins noise idt osf prev] by (simp add: unfold)
  next
    case (Inr out)
    show ?thesis
    proof (cases out)
      case o: (Inr x)
      obtain le pk dp where x: "x = (le, pk, dp)" by (cases x)
      have E: "is_edge sm d (fl_add noise idt) osf le pk dp" "int prev + osf < int le"
        using le_step_found [OF len inc] Inr o x by auto
      then have "length sm - pk < length sm - prev" using osf by (auto simp: is_edge_def)
      from less [OF this] Inr o x show ?thesis by (simp add: unfold)
    qed (use Inr in \<open>simp add: unfold\<close>)
  qed
qed

lemma retrack_waveform_returns:
  assumes laws: "numpy_laws env" and len: "1 < length waveform" and osf: "0 \<le> wf_oversampling_factor lp"
    and finish: "\<And>s. finish s \<noteq> Inl NonTermination"
  shows "retrack_waveform env lp finish waveform \<noteq> Inl NonTermination"
proof -
  have search: "search_edge (np_mode env) lp finish m nrm noise over \<noteq> Inl NonTermination"
    if "rmapM (\<lambda>x. npf_div (np_mode env) x m) waveform = Inr nrm" "oversample env lp nrm sm = Inr over" for m nrm noise sm over
  proof -
    obtain binsi ys ys_sm d where o: "over = (binsi, ys, ys_sm, d)" by (metis prod_cases4)
    have "1 < length nrm" using rmapM_length [OF that(1)] len by simp
    from oversample_laws [OF laws this] that(2) o
    have O: "increasing binsi" "length d = length ys_sm" "length binsi = length ys_sm" by auto
    from leading_edge_returns [OF O(2,3,1) osf] show ?thesis
      unfolding search_edge_def o using finish by (auto split: option.splits sum.splits le_out.splits)
  qed
  show ?thesis
    unfolding retrack_waveform_def by (intro returns numpy_returns [OF laws] oversample_returns [OF laws] search)
qed

lemma retrack_rows_returns:
  assumes "\<And>i. i < length rows \<Longrightarrow> f i (rows ! i) \<noteq> Inl NonTermination"
  shows "retrack_rows incl f rows \<noteq> Inl NonTermination"
  unfolding retrack_rows_def
  by (intro returns) (auto simp: in_set_enumerate_eq assms split: prod.splits)

lemma retrack_result_returns [returns]: "retrack_result em ref rb rows \<noteq> Inl NonTermination"
  unfolding retrack_result_def by (intro returns) simp

lemma osf_truncate [simp]: "wf_oversampling_factor (le_params.truncate p) = wf_oversampling_factor p"
  by (simp add: le_params.truncate_def)

section \<open>The whole file\<close>

lemma retrack_rows_good:
  assumes "retrack_rows incl f rows = Inr rs"
    and "\<And>i r. i < length rows \<Longrightarrow> f i (rows ! i) = Inr r \<Longrightarrow> good_row r"
  shows "length incl = length rows \<and> length rs = length rows \<and>
    (\<forall>i<length rows. if incl ! i then good_row (rs ! i) else rs ! i = blank_row)"
proof -
  have m: "rmapM (\<lambda>(i, wv). if incl ! i then f i wv else Inr blank_row) (enumerate 0 rows) = Inr rs" "length incl = length rows"
    using assms(1) by (auto simp: retrack_rows_def split: if_splits)
  have "if incl ! i then good_row (rs ! i) else rs ! i = blank_row" if "i < length rows" for i
    using rmapM_nth [OF m(1), of i] that assms(2) [OF that] by (auto simp: nth_enumerate_eq split: if_splits)
  then show ?thesis using m(2) rmapM_length [OF m(1)] by simp
qed

lemma sub_NaN: "npf_sub em x (Fin q) = Inr y \<Longrightarrow> y = NaN \<longleftrightarrow> x = NaN"
  by (cases x) (auto dest!: npf_sub_Inr simp: fl_sub_def)

lemma card_filter_nth: "length (filter P xs) = card {i. i < length xs \<and> P (xs ! i)}"
  by (simp add: length_filter_conv_card)

lemma retrack_result_counts:
  assumes out: "retrack_result em (Fin ref) rb rs = Inr out"
    and rows: "\<forall>i<length rs. if incl ! i then good_row (rs ! i) else rs ! i = blank_row"
  shows "length (ro_dr_bin out) = length rs \<and> length (ro_pwr out) = length rs \<and>
    ro_failures out = card {i. i < length rs \<and> incl ! i \<and> ro_dr_bin out ! i = NaN} \<and>
    (\<forall>i<length rs. \<not> incl ! i \<longrightarrow> ro_dr_bin out ! i = NaN \<and> ro_pwr out ! i = NaN)"
proof -
  have dr: "rmapM (\<lambda>r. npf_sub em (rr_point r ! 0) (Fin ref)) rs = Inr (ro_dr_bin out)"
    and oth: "ro_failures out = length (filter row_failed rs)" "ro_pwr out = map (\<lambda>r. rr_point r ! 2) rs"
    using out by (auto simp: retrack_result_def rbind_eq_Inr split: if_splits)
  have nan: "ro_dr_bin out ! i = NaN \<longleftrightarrow> rr_point (rs ! i) ! 0 = NaN" if "i < length rs" for i
    using rmapM_nth [OF dr that] by (rule sub_NaN)
  have blank: "\<not> row_failed blank_row" "rr_point blank_row = [NaN, NaN, NaN]" by (simp_all add: row_failed_def blank_row_def)
  have "row_failed (rs ! i) \<longleftrightarrow> incl ! i \<and> ro_dr_bin out ! i = NaN" if "i < length rs" for i
    using rows that nan [OF that] blank by (auto simp: good_row_def split: if_splits)
  then have "ro_failures out = card {i. i < length rs \<and> incl ! i \<and> ro_dr_bin out ! i = NaN}"
    unfolding oth card_filter_nth by (metis (no_types, lifting))
  moreover have "\<forall>i<length rs. \<not> incl ! i \<longrightarrow> ro_dr_bin out ! i = NaN \<and> ro_pwr out ! i = NaN"
    using rows nan blank oth(2) by (auto split: if_splits)
  ultimately show ?thesis using rmapM_length [OF dr] oth(2) by simp
qed

lemma tcog_failures_aux:
  assumes laws: "numpy_laws env" and osf: "0 \<le> wf_oversampling_factor tp" and rows: "\<forall>r\<in>set rows. length r = 128"
    and ref: "ref_bin_ind_lrm tp = Fin q" and out: "retrack_tcog_waveforms_cs2 env tp (SF2 128 rows) incl = Inr out"
  shows "length (ro_dr_bin out) = length rows \<and> length (ro_pwr out) = length rows \<and>
    ro_failures out = card {i. i < length rows \<and> incl ! i \<and> ro_dr_bin out ! i = NaN} \<and>
    (\<forall>i<length rows. \<not> incl ! i \<longrightarrow> ro_dr_bin out ! i = NaN \<and> ro_pwr out ! i = NaN)"
proof -
  let ?f = "\<lambda>i::nat. retrack_waveform env (le_params.truncate tp) (tcog_point env (retrack_threshold_lrm tp))"
  obtain rs where rs: "retrack_rows incl ?f rows = Inr rs" and res: "retrack_result (np_mode env) (Fin q) rbin_size_lrm rs = Inr out"
    using out ref by (auto simp: retrack_tcog_waveforms_cs2_def rbind_eq_Inr Let_def)
  have "good_row r" if "i < length rows" "?f i (rows ! i) = Inr r" for i r
    by (rule tcog.retrack_waveform_good [OF laws _ _ that(2)]) (use rows that(1) osf in auto)
  then have "length incl = length rows \<and> length rs = length rows \<and> (\<forall>i<length rows. if incl ! i then good_row (rs ! i) else rs ! i = blank_row)"
    by (rule retrack_rows_good [OF rs])
  then show ?thesis using retrack_result_counts [OF res, of incl] by simp
qed

lemma max_coherence_failures_aux:
  assumes laws: "numpy_laws env" and osf: "0 \<le> wf_oversampling_factor mp" and rows: "\<forall>r\<in>set rows. length r = 1024"
    and ref: "mc_ref_bin_ind_sin mp = Fin q"
    and out: "retrack_cs2_sin_max_coherence env mp (SF2 1024 rows) coherence incl = Inr out"
  shows "length (ro_dr_bin out) = length rows \<and> length (ro_pwr out) = length rows \<and>
    ro_failures out = card {i. i < length rows \<and> incl ! i \<and> ro_dr_bin out ! i = NaN} \<and>
    (\<forall>i<length rows. \<not> incl ! i \<longrightarrow> ro_dr_bin out ! i = NaN \<and> ro_pwr out ! i = NaN)"
proof -
  let ?f = "\<lambda>i wv. retrack_waveform env (le_params.truncate mp) (mc_point env (coherence_smoothing_width mp) (arr_at coherence i) wv) wv"
  obtain rs where rs: "retrack_rows incl ?f rows = Inr rs" and res: "retrack_result (np_mode env) (Fin q) rbin_size_sin rs = Inr out"
    using out ref by (auto simp: retrack_cs2_sin_max_coherence_def rbind_eq_Inr)
  have "good_row r" if "i < length rows" "?f i (rows ! i) = Inr r" for i r
    by (rule mc.retrack_waveform_good [OF laws _ _ that(2)]) (use rows that(1) osf in auto)
  then have "length incl = length rows \<and> length rs = length rows \<and> (\<forall>i<length rows. if incl ! i then good_row (rs ! i) else rs ! i = blank_row)"
    by (rule retrack_rows_good [OF rs])
  then show ?thesis using retrack_result_counts [OF res, of incl] by simp
qed

section \<open>Properties\<close>

text \<open>C17: The search for the leading edge ends, and what it finds. On waveforms of equal length with
  increasing bin numbers, the loop of both retrackers returns for every oversampling factor that
  is not negative, and a leading edge it accepts starts where the waveform is above the noise and
  rises, ends at the first later sample where it no longer rises, at least the oversampling
  factor before the end, and rises by no less than the amplitude threshold.\<close>

theorem leading_edge_search:
  assumes "length d = length sm" "length bins = length sm" and "increasing bins" and "0 \<le> osf"
  shows "\<exists>r. leading_edge em sm d bins noise idt dpt osf 0 (Fin 0) None = Some r \<and>
    (\<forall>le pk dp. r = Inr (LeFound le pk dp) \<longrightarrow> le < pk \<and> pk < length sm \<and> fl_lt (fl_add noise idt) (sm ! le) \<and>
      fl_lt (Fin 0) (d ! le) \<and> fl_le (d ! pk) (Fin 0) \<and> (\<forall>j. le < j \<and> j < pk \<longrightarrow> \<not> fl_le (d ! j) (Fin 0)) \<and>
      int pk < int (length sm) - osf \<and> dp = fl_sub (sm ! pk) (sm ! le) \<and> \<not> fl_lt dp dpt)"
  using leading_edge_result [OF assms, of None noise idt "Fin 0" em dpt 0] unfolding is_edge_def by auto

text \<open>C18: Both retrackers return. With numpy as documented, an oversampling factor that is not negative and
  waveforms of the size they accept, neither retracker runs forever: every call returns a result
  or raises an exception.\<close>

theorem retrackers_return:
  assumes laws: "numpy_laws env" and osf: "0 \<le> wf_oversampling_factor tp" "0 \<le> wf_oversampling_factor mp"
    and rows: "\<forall>r\<in>set rows. length r = n" "n = 128 \<or> n = 1024"
  shows "retrack_tcog_waveforms_cs2 env tp (SF2 n rows) incl \<noteq> Inl NonTermination \<and>
    retrack_cs2_sin_max_coherence env mp (SF2 n rows) coherence incl \<noteq> Inl NonTermination"
proof -
  have len: "1 < length (rows ! i)" if "i < length rows" for i using rows that by auto
  have "retrack_rows incl (\<lambda>i. retrack_waveform env (le_params.truncate tp) (tcog_point env th)) rows \<noteq> Inl NonTermination" for th
    by (intro retrack_rows_returns retrack_waveform_returns laws len tcog_point_returns) (simp_all add: osf laws)
  moreover have "retrack_rows incl (\<lambda>i wv. retrack_waveform env (le_params.truncate mp)
      (mc_point env w (arr_at coherence i) wv) wv) rows \<noteq> Inl NonTermination" for w
    by (intro retrack_rows_returns retrack_waveform_returns laws len mc_point_returns returns) (simp_all add: osf laws)
  moreover have "tcog_check tp \<noteq> Inl NonTermination"
    unfolding tcog_check_def by (intro returns) (simp_all add: guard_def)
  ultimately show ?thesis
    unfolding retrack_tcog_waveforms_cs2_def retrack_cs2_sin_max_coherence_def sval.case Let_def
    by (intro conjI returns) (simp_all add: returns)
qed

text \<open>The failure count of the TCOG retracker. When it returns, it has one offset and one power per
  waveform, the number of failures is the number of included waveforms that have no retracking
  point (offset NaN), and a waveform that was not to be included has none.\<close>

theorem tcog_failures:
  assumes laws: "numpy_laws env" and osf: "0 \<le> wf_oversampling_factor tp" and rows: "\<forall>r\<in>set rows. length r = 128"
    and ref: "ref_bin_ind_lrm tp = Fin q" and out: "retrack_tcog_waveforms_cs2 env tp (SF2 128 rows) incl = Inr out"
  shows "length (ro_dr_bin out) = length rows \<and> length (ro_pwr out) = length rows \<and>
    ro_failures out = card {i. i < length rows \<and> incl ! i \<and> ro_dr_bin out ! i = NaN} \<and>
    (\<forall>i<length rows. \<not> incl ! i \<longrightarrow> ro_dr_bin out ! i = NaN \<and> ro_pwr out ! i = NaN)"
  using assms by (rule tcog_failures_aux)

text \<open>The failure count of the maximum coherence retracker, likewise.\<close>

theorem max_coherence_failures:
  assumes laws: "numpy_laws env" and osf: "0 \<le> wf_oversampling_factor mp" and rows: "\<forall>r\<in>set rows. length r = 1024"
    and ref: "mc_ref_bin_ind_sin mp = Fin q"
    and out: "retrack_cs2_sin_max_coherence env mp (SF2 1024 rows) coherence incl = Inr out"
  shows "length (ro_dr_bin out) = length rows \<and> length (ro_pwr out) = length rows \<and>
    ro_failures out = card {i. i < length rows \<and> incl ! i \<and> ro_dr_bin out ! i = NaN} \<and>
    (\<forall>i<length rows. \<not> incl ! i \<longrightarrow> ro_dr_bin out ! i = NaN \<and> ro_pwr out ! i = NaN)"
  using assms by (rule max_coherence_failures_aux)

section \<open>Concrete runs\<close>

lemma increasing_iff: "increasing bs \<longleftrightarrow> sorted_wrt fl_lt bs"
  by (auto simp: increasing_def sorted_wrt_iff_nth_less)

theorem leading_edge_search_witness:
  "\<exists>r. leading_edge seterr_raise [Fin 0, Fin 1, Fin 2, Fin 1] [Fin 1, Fin 1, Fin (- 1), Fin (- 1)] [Fin 0, Fin 1, Fin 2, Fin 3]
      (Fin 0) (Fin (1 / 2)) (Fin (1 / 2)) 0 0 (Fin 0) None = Some r \<and> r = Inr (LeFound 1 2 (Fin 1)) \<and>
     (\<forall>le pk dp. r = Inr (LeFound le pk dp) \<longrightarrow> le < pk \<and> \<not> fl_lt dp (Fin (1 / 2)))"
proof -
  let ?sm = "[Fin 0, Fin 1, Fin 2, Fin 1]" and ?d = "[Fin 1, Fin 1, Fin (- 1), Fin (- 1)]" and ?b = "[Fin 0, Fin 1, Fin 2, Fin 3]"
  have run: "leading_edge seterr_raise ?sm ?d ?b (Fin 0) (Fin (1 / 2)) (Fin (1 / 2)) 0 0 (Fin 0) None = Some (Inr (LeFound 1 2 (Fin 1)))"
  proof -
    have step: "le_step seterr_raise ?sm ?d ?b (Fin 0) (Fin (1 / 2)) 0 0 = Inr (Inr (1, 2, Fin 1))" by code_simp
    show ?thesis by (subst leading_edge.simps, simp add: step) (subst leading_edge.simps, simp)
  qed
  have inc: "increasing ?b" by (simp add: increasing_iff)
  show ?thesis
    using leading_edge_search [OF _ _ inc, of ?d ?sm 0 seterr_raise "Fin 0" "Fin (1 / 2)" "Fin (1 / 2)"] run by auto
qed

text \<open>A numpy that obeys the laws: a linear \<^verbatim>\<open>linspace\<close> and constant interpolation.\<close>

definition wit_renv :: retrack_env where
  "wit_renv = \<lparr>np_mode = seterr_raise, np_sum = np_sum exact_np, np_mean = np_mean exact_np, np_power = np_power exact_np,
     savgol_filter = (\<lambda>xs w k. Inr xs), np_linspace = (\<lambda>stop n. Inr (map (\<lambda>i. Fin (of_int stop * of_nat i)) [0..<nat n])),
     np_interp = (\<lambda>x xp fp. Inr (map (\<lambda>_. Fin 1) x)), np_gradient = (\<lambda>ys h. Inr (map (\<lambda>_. Fin 0) ys))\<rparr>"

lemma wit_renv_laws: "numpy_laws wit_renv"
  by (auto simp: numpy_laws_def wit_renv_def exact_np_def increasing_def)

definition wit_tp :: tcog_params where
  "wit_tp = \<lparr>wf_oversampling_factor = 100, noise_threshold = Fin (3 / 10), savitsky_golay_width = 9, savitsky_golay_poly_order = 3,
     le_id_threshold = Fin (1 / 20), le_dp_threshold = Fin (2 / 5), retrack_threshold_lrm = Fin (1 / 10),
     retrack_threshold_sin = Fin (1 / 2), ref_bin_ind_lrm = Fin 64, ref_bin_ind_sin = Fin 512\<rparr>"

definition wit_mp :: mc_params where
  "wit_mp = \<lparr>wf_oversampling_factor = 100, noise_threshold = Fin (3 / 10), savitsky_golay_width = 9, savitsky_golay_poly_order = 3,
     le_id_threshold = Fin (1 / 20), le_dp_threshold = Fin (1 / 5), mc_ref_bin_ind_sin = Fin 512, coherence_smoothing_width = 9\<rparr>"

lemma flat_waveform: "retrack_waveform env lp finish (replicate (Suc n) (Fin 0)) = Inr (set_flag 0 blank_row)"
proof -
  have "fl_max (Fin 0) (replicate n (Fin 0)) = Fin 0" by (induction n) auto
  then show ?thesis by (simp add: retrack_waveform_def np_max_def fl_eq_def)
qed

lemma flat_waveforms:
  "retrack_waveform env lp finish (replicate 128 (Fin 0)) = Inr (set_flag 0 blank_row)"
  "retrack_waveform env lp finish (replicate 1024 (Fin 0)) = Inr (set_flag 0 blank_row)"
  using flat_waveform [of env lp finish 127] flat_waveform [of env lp finish 1023] by (simp_all del: replicate_Suc)

lemma flat_rows:
  assumes "f 0 w = Inr (set_flag 0 blank_row)"
  shows "\<exists>out. rbind (retrack_rows [True, False] f [w, w]) (retrack_result em ref rb) = Inr out"
  using assms by (simp add: retrack_rows_def retrack_result_def set_flag_def blank_row_def enumerate_simps)

theorem retrackers_return_witness:
  "retrack_tcog_waveforms_cs2 wit_renv wit_tp (SF2 1024 [replicate 1024 (Fin 7)]) [True] \<noteq> Inl NonTermination \<and>
   retrack_cs2_sin_max_coherence wit_renv wit_mp (SF2 1024 [replicate 1024 (Fin 7)]) [replicate 1024 (Fin 1)] [True] \<noteq> Inl NonTermination"
  by (rule retrackers_return [OF wit_renv_laws]) (simp_all add: wit_tp_def wit_mp_def)

theorem tcog_failures_witness:
  "\<exists>out. retrack_tcog_waveforms_cs2 wit_renv wit_tp (SF2 128 [replicate 128 (Fin 0), replicate 128 (Fin 0)]) [True, False] = Inr out \<and>
     ro_failures out = card {i. i < 2 \<and> [True, False] ! i \<and> ro_dr_bin out ! i = NaN} \<and> ro_dr_bin out ! 1 = NaN"
proof -
  let ?rows = "[replicate 128 (Fin 0), replicate 128 (Fin 0)]"
  let ?f = "\<lambda>i::nat. retrack_waveform wit_renv (le_params.truncate wit_tp) (tcog_point wit_renv (retrack_threshold_lrm wit_tp))"
  have flat: "\<exists>out. rbind (retrack_rows [True, False] ?f ?rows)
      (retrack_result (np_mode wit_renv) (ref_bin_ind_lrm wit_tp) rbin_size_lrm) = Inr out"
    by (rule flat_rows) (rule flat_waveforms)
  have "tcog_check wit_tp = Inr ()" by (simp add: tcog_check_def wit_tp_def outside_unit_def)
  with flat obtain out where out: "retrack_tcog_waveforms_cs2 wit_renv wit_tp (SF2 128 ?rows) [True, False] = Inr out"
    by (auto simp: retrack_tcog_waveforms_cs2_def)
  have tp: "0 \<le> wf_oversampling_factor wit_tp" "ref_bin_ind_lrm wit_tp = Fin 64" by (simp_all add: wit_tp_def)
  have rows: "\<forall>r\<in>set ?rows. length r = 128" and two: "length ?rows = 2" by simp_all
  show ?thesis
    using tcog_failures [OF wit_renv_laws tp(1) rows tp(2) out] unfolding two
    by (intro exI [of _ out] conjI out) simp_all
qed

theorem max_coherence_failures_witness:
  "\<exists>out. retrack_cs2_sin_max_coherence wit_renv wit_mp (SF2 1024 [replicate 1024 (Fin 0), replicate 1024 (Fin 0)]) [] [True, False] = Inr out \<and>
     ro_failures out = card {i. i < 2 \<and> [True, False] ! i \<and> ro_dr_bin out ! i = NaN} \<and> ro_dr_bin out ! 1 = NaN"
proof -
  let ?rows = "[replicate 1024 (Fin 0), replicate 1024 (Fin 0)]"
  let ?f = "\<lambda>i wv. retrack_waveform wit_renv (le_params.truncate wit_mp)
    (mc_point wit_renv (coherence_smoothing_width wit_mp) (arr_at [] i) wv) wv"
  have flat: "\<exists>out. rbind (retrack_rows [True, False] ?f ?rows)
      (retrack_result (np_mode wit_renv) (mc_ref_bin_ind_sin wit_mp) rbin_size_sin) = Inr out"
    by (rule flat_rows) (rule flat_waveforms)
  then obtain out where out: "retrack_cs2_sin_max_coherence wit_renv wit_mp (SF2 1024 ?rows) [] [True, False] = Inr out"
    by (auto simp: retrack_cs2_sin_max_coherence_def)
  have mp: "0 \<le> wf_oversampling_factor wit_mp" "mc_ref_bin_ind_sin wit_mp = Fin 512" by (simp_all add: wit_mp_def)
  have rows: "\<forall>r\<in>set ?rows. length r = 1024" and two: "length ?rows = 2" by simp_all
  show ?thesis
    using max_coherence_failures [OF wit_renv_laws mp(1) rows mp(2) out] unfolding two
    by (intro exI [of _ out] conjI out) simp_all
qed

end
