(* ===== verification/Algs_Retrack.thy ===== *)
theory Algs_Retrack
  imports Retrackers
begin

text \<open>
  \<^verbatim>\<open>alg_retrack\<close>, which runs one of the two retrackers and computes the corrected range, and
  \<^verbatim>\<open>alg_backscatter\<close> with the functions of \<^verbatim>\<open>backscatter.py\<close>.
\<close>

section \<open>alg_retrack\<close>

definition cint :: "cval \<Rightarrow> int res" where
  "cint v = (case v of CInt i \<Rightarrow> Inr i | CBool b \<Rightarrow> Inr (if b then 1 else 0) | _ \<Rightarrow> Inl (TypeError ''int expected''))"

definition cnumber :: "config \<Rightarrow> string \<Rightarrow> string \<Rightarrow> fl res" where
  "cnumber cfg a b = rbind (cget2 cfg a b) as_number"

definition cinteger :: "config \<Rightarrow> string \<Rightarrow> string \<Rightarrow> int res" where
  "cinteger cfg a b = rbind (cget2 cfg a b) cint"

text \<open>The arguments both retrackers take from their section of the configuration, which are
  all read before the call; \<^verbatim>\<open>show_plots\<close> and \<^verbatim>\<open>noise_sample_limit\<close> have to be there but have no effect.\<close>

definition le_config :: "config \<Rightarrow> string \<Rightarrow> le_params res" where
  "le_config cfg q =
     rbind (cget2 cfg q ''show_plots'') (\<lambda>_. rbind (cget2 cfg q ''noise_sample_limit'') (\<lambda>_.
     rbind (cinteger cfg q ''wf_oversampling_factor'') (\<lambda>osf. rbind (cnumber cfg q ''noise_threshold'') (\<lambda>nt.
     rbind (cinteger cfg q ''savitsky_golay_width'') (\<lambda>w. rbind (cinteger cfg q ''savitsky_golay_poly_order'') (\<lambda>k.
     rbind (cnumber cfg q ''le_id_threshold'') (\<lambda>idt. rbind (cnumber cfg q ''le_dp_threshold'') (\<lambda>dpt.
       Inr \<lparr>wf_oversampling_factor = osf, noise_threshold = nt, savitsky_golay_width = w, savitsky_golay_poly_order = k,
            le_id_threshold = idt, le_dp_threshold = dpt\<rparr>))))))))"

text \<open>The SIN branch: the reference bin and the result of the maximum coherence retracker.\<close>

definition retrack_sin :: "retrack_env \<Rightarrow> config \<Rightarrow> dataset \<Rightarrow> sval \<Rightarrow> bool list \<Rightarrow> (fl \<times> retrack_out) res" where
  "retrack_sin env cfg l1b pwr incl =
     (let q = ''mc_retracker'' in
      rbind (rbind (nc_var l1b ''coherence_waveform_20_ku'') as_rows) (\<lambda>(c, coherence).
      rbind (cnumber cfg q ''ref_bin_ind_sin'') (\<lambda>ref_bin_index.
      rbind (le_config cfg q) (\<lambda>lp. rbind (cinteger cfg q ''coherence_smoothing_width'') (\<lambda>w.
      rbind (retrack_cs2_sin_max_coherence env
          (le_params.extend lp \<lparr>mc_ref_bin_ind_sin = ref_bin_index, coherence_smoothing_width = w\<rparr>) pwr coherence incl) (\<lambda>out.
        Inr (ref_bin_index, out)))))))"

text \<open>The LRM branch; the SIN threshold and reference bin of the TCOG retracker keep their defaults.\<close>

definition retrack_lrm :: "retrack_env \<Rightarrow> config \<Rightarrow> sval \<Rightarrow> bool list \<Rightarrow> (fl \<times> retrack_out) res" where
  "retrack_lrm env cfg pwr incl =
     (let q = ''tcog_retracker'' in
      rbind (cnumber cfg q ''ref_bin_ind_lrm'') (\<lambda>ref_bin_index.
      rbind (cnumber cfg q ''retrack_threshold_lrm'') (\<lambda>th.
      rbind (le_config cfg q) (\<lambda>lp.
      rbind (retrack_tcog_waveforms_cs2 env
          (le_params.extend lp \<lparr>retrack_threshold_lrm = th, retrack_threshold_sin = Fin (1 / 2), ref_bin_ind_lrm = ref_bin_index,
             ref_bin_ind_sin = Fin 512\<rparr>) pwr incl) (\<lambda>out. Inr (ref_bin_index, out))))))"

text \<open>\<^verbatim>\<open>0.5 * speed_light * window_del_20_ku + sum_cor_20_ku\<close>\<close>

definition tracker_range :: "np_err \<Rightarrow> config \<Rightarrow> dataset \<Rightarrow> shared \<Rightarrow> fl list res" where
  "tracker_range em cfg l1b sd =
     rbind (nc_floats l1b ''window_del_20_ku'') (\<lambda>window_del.
     rbind (cnumber cfg ''geophysical'' ''speed_light'') (\<lambda>c.
     rbind (rmapM (npf_mul em (fl_mul (Fin (1 / 2)) c)) window_del) (\<lambda>half.
     rbind (sget_floats sd ''sum_cor_20_ku'') (\<lambda>cor. np_zip (npf_add em) half cor))))"

definition fill_value :: fl where
  "fill_value = Fin (- 32768)"

definition retrack :: "retrack_env \<Rightarrow> config \<Rightarrow> dataset \<Rightarrow> shared \<Rightarrow> alg_out" where
  "retrack env cfg l1b sd =
     rbind (nc_var l1b ''pwr_waveform_20_ku'') (\<lambda>pwr.
     rbind (rbind (dget sd ''waveforms_to_include'') as_bools) (\<lambda>incl.
     rbind (dget sd ''instr_mode'') (\<lambda>mode.
     rbind (if mode = SStr ''SIN'' then retrack_sin env cfg l1b pwr incl else retrack_lrm env cfg pwr incl) (\<lambda>(ref_bin_index, out).
       if count_true incl = 0 then Inl (ZeroDivisionError ''float division by zero'')
       else
         rbind (rmapM (npf_add (np_mode env) ref_bin_index) (ro_dr_bin out)) (\<lambda>ind.
         rbind (tracker_range (np_mode env) cfg l1b sd) (\<lambda>geo.
         rbind (np_zip (npf_add (np_mode env)) geo (ro_dr_meters out)) (\<lambda>range.
           let sd1 = dset sd ''ind_wfm_retrack_20_ku'' (SF (map (\<lambda>x. if is_nan x then fill_value else x) ind));
               sd2 = dset (dset (dset sd1 ''pwr_at_rtrk_point'' (SF (ro_pwr out))) ''leading_edge_start'' (SLists (ro_start out)))
                 ''leading_edge_stop'' (SLists (ro_stop out));
               sd3 = dset (dset (dset sd2 ''geo_corrected_tracker_range'' (SF geo)) ''retracker_correction'' (SF (ro_dr_meters out)))
                 ''range_cor_20_ku'' (SF range)
           in pass (dset (dset sd3 ''num_retracker_failures'' (SInt (int (ro_failures out)))) ''percent_retracker_failure''
                (SFloat (fl_div (fl_mul (Fin 100) (of_intf (int (ro_failures out)))) (of_intf (int (count_true incl))))))))))))) "

definition alg_retrack :: "retrack_env \<Rightarrow> alg_class" where
  "alg_retrack env = \<lparr>cls_name = ''clev2er.algorithms.cryotempo.alg_retrack'',
     cls_init = (\<lambda>cfg. Inr ((True, []), \<lparr>impl_body = retrack env cfg, impl_finalize = base_finalize\<rparr>))\<rparr>"

definition retrack_keys :: "string set" where
  "retrack_keys = {''ind_wfm_retrack_20_ku'', ''pwr_at_rtrk_point'', ''leading_edge_start'', ''leading_edge_stop'',
     ''geo_corrected_tracker_range'', ''retracker_correction'', ''range_cor_20_ku'', ''num_retracker_failures'',
     ''percent_retracker_failure''}"

interpretation retrack: chain_algorithm "retrack env cfg" retrack_keys
  by (unfold_locales, erule framesD [rotated], unfold retrack_def Let_def, intro frame_intros)
    (auto intro!: agree_off_dset simp: retrack_keys_def)

section \<open>Backscatter\<close>

record backscatter_env = np_env +
  np_log :: "fl \<Rightarrow> fl res"
  np_log10 :: "fl \<Rightarrow> fl res"
  np_sin :: "fl \<Rightarrow> fl res"
  np_cos :: "fl \<Rightarrow> fl res"
  np_sqrt :: "fl \<Rightarrow> fl res"
  np_radians :: "fl \<Rightarrow> fl res"

text \<open>The double nearest to \<open>\<pi>\<close>, and the doubles of the constants of the function.\<close>

definition np_pi :: fl where
  "np_pi = Fin (884279719003555 / 281474976710656)"

definition cs_counts_to_watts :: "'a np_env_scheme \<Rightarrow> fl list \<Rightarrow> fl list \<Rightarrow> fl list \<Rightarrow> fl list res" where
  "cs_counts_to_watts env pwr_cnt lin_fact pow2_fact =
     rbind (np_zip (npf_mul (np_mode env)) pwr_cnt lin_fact) (\<lambda>a.
     rbind (rmapM (np_power env (Fin 2)) pow2_fact) (\<lambda>p. np_zip (npf_mul (np_mode env)) a p))"

record backscatter_params =
  ellipse_semi_major_m :: fl
  speed_of_light_ms :: fl
  effective_pulse_len_s :: fl
  ant_gain_linear :: fl
  wavelength_m :: fl
  bandwidth_hz :: fl
  beam_angle_az_deg :: fl
  beam_angle_el_deg :: fl
  misp_roll_bias_deg :: fl
  misp_pitch_bias_deg :: fl
  sigma_bias :: fl
  sigma_loss_const_db :: fl
  misp_mode :: int
  rough_mode :: int

definition backscatter_defaults :: "fl \<Rightarrow> backscatter_params" where
  "backscatter_defaults bias = \<lparr>ellipse_semi_major_m = Fin 6378137, speed_of_light_ms = Fin 299792458,
     effective_pulse_len_s = round64 (4183 / 10 ^ 12), ant_gain_linear = round64 (18197008586099826 / 10 ^ 12),
     wavelength_m = round64 (22084 / 10 ^ 6), bandwidth_hz = Fin 320000000, beam_angle_az_deg = round64 (106 / 100),
     beam_angle_el_deg = round64 (11992 / 10 ^ 4), misp_roll_bias_deg = Fin 0, misp_pitch_bias_deg = Fin 0,
     sigma_bias = bias, sigma_loss_const_db = Fin 0, misp_mode = 0, rough_mode = 0\<rparr>"

definition inverse_radians :: "'a backscatter_env_scheme \<Rightarrow> fl \<Rightarrow> fl res" where
  "inverse_radians env x = rbind (np_radians env x) (npf_div (np_mode env) (Fin 1))"

text \<open>\<^verbatim>\<open>gamma\<close>: from the two beam angles.\<close>

definition beam_gamma :: "'a backscatter_env_scheme \<Rightarrow> backscatter_params \<Rightarrow> fl res" where
  "beam_gamma env bp =
     (let em = np_mode env in
      rbind (rbind (np_log env (Fin 2)) (npf_div em (Fin 2))) (\<lambda>a.
      rbind (inverse_radians env (beam_angle_az_deg bp)) (\<lambda>u. rbind (inverse_radians env (beam_angle_el_deg bp)) (\<lambda>v.
      rbind (rbind (npf_add em u v) (npf_div em (Fin 1))) (\<lambda>w.
      rbind (np_sin env w) (\<lambda>s. rbind (np_power env s (Fin 2)) (npf_mul em a)))))))"

text \<open>\<^verbatim>\<open>10.0 * np.log10(x)\<close>\<close>

definition decibel :: "'a backscatter_env_scheme \<Rightarrow> fl \<Rightarrow> fl res" where
  "decibel env x = rbind (np_log10 env x) (npf_mul (np_mode env) (Fin 10))"

text \<open>\<^verbatim>\<open>sigma_calc_const_db\<close> at one range.\<close>

definition sigma_calc_const :: "'a backscatter_env_scheme \<Rightarrow> backscatter_params \<Rightarrow> fl \<Rightarrow> fl res" where
  "sigma_calc_const env bp r =
     (let em = np_mode env; a = ellipse_semi_major_m bp in
      rbind (np_power env (wavelength_m bp) (Fin 2)) (\<lambda>w2. rbind (np_power env (ant_gain_linear bp) (Fin 2)) (\<lambda>g2.
      rbind (rbind (rbind (npf_mul em (fl_mul (speed_of_light_ms bp) np_pi) w2) (\<lambda>x. npf_mul em x g2))
        (\<lambda>x. npf_mul em x (effective_pulse_len_s bp))) (\<lambda>num.
      rbind (rbind (npf_mul em (fl_mul (Fin 4) np_pi) r) (\<lambda>x. np_power env x (Fin 3))) (\<lambda>d1.
      rbind (rbind (npf_add em r a) (\<lambda>x. npf_div em x a)) (\<lambda>d2.
      rbind (npf_mul em d1 d2) (\<lambda>den. rbind (npf_div em num den) (decibel env))))))))"

text \<open>The mispointing angle of one measurement.\<close>

definition mispoint_rad :: "'a backscatter_env_scheme \<Rightarrow> backscatter_params \<Rightarrow> fl \<Rightarrow> fl \<Rightarrow> fl res" where
  "mispoint_rad env bp roll pitch =
     (let em = np_mode env; part = (\<lambda>x bias. rbind (np_radians env x) (\<lambda>u. rbind (np_radians env bias) (\<lambda>v.
            rbind (npf_add em u v) (\<lambda>s. np_power env s (Fin 2))))) in
      rbind (part roll (misp_roll_bias_deg bp)) (\<lambda>a. rbind (part pitch (misp_pitch_bias_deg bp)) (\<lambda>b.
      rbind (npf_add em a b) (np_sqrt env))))"

definition mispoint_cor :: "'a backscatter_env_scheme \<Rightarrow> fl \<Rightarrow> fl \<Rightarrow> fl res" where
  "mispoint_cor env gam m =
     rbind (rbind (np_sin env m) (\<lambda>s. np_power env s (Fin 2))) (\<lambda>s2.
     rbind (npf_mul (np_mode env) (Fin (- 4)) s2) (\<lambda>x. npf_div (np_mode env) x gam))"

definition rough_cor :: "'a backscatter_env_scheme \<Rightarrow> backscatter_params \<Rightarrow> fl \<Rightarrow> fl \<Rightarrow> fl res" where
  "rough_cor env bp gam r =
     (let em = np_mode env in
      rbind (rbind (npf_mul em gam r) (\<lambda>x. npf_mul em x (bandwidth_hz bp))) (\<lambda>den.
        npf_div em (fl_mul (Fin 4) (speed_of_light_ms bp)) den))"

definition rough_misp_factor :: "'a backscatter_env_scheme \<Rightarrow> fl \<Rightarrow> fl \<Rightarrow> fl res" where
  "rough_misp_factor env gam m =
     (let em = np_mode env in
      rbind (npf_mul em (Fin 2) m) (\<lambda>m2. rbind (np_cos env m2) (\<lambda>c.
      rbind (rbind (np_sin env m2) (\<lambda>s. np_power env s (Fin 2))) (\<lambda>s2. rbind (npf_div em s2 gam) (\<lambda>q. npf_sub em c q)))))"

text \<open>\<^verbatim>\<open>misp_and_surf_db\<close>: with both modes off it is one number for all measurements.\<close>

definition misp_and_surf :: "'a backscatter_env_scheme \<Rightarrow> backscatter_params \<Rightarrow> fl list \<Rightarrow> fl list \<Rightarrow> fl list \<Rightarrow> fl list res" where
  "misp_and_surf env bp ranges roll pitch =
     (let em = np_mode env in
      rbind (beam_gamma env bp) (\<lambda>gam.
      rbind (if misp_mode bp = 1 then np_zip (mispoint_rad env bp) roll pitch else Inr []) (\<lambda>ms.
      rbind (if misp_mode bp = 1 then rmapM (mispoint_cor env gam) ms else Inr [Fin 0]) (\<lambda>mcor.
      rbind (if rough_mode bp = 1 then
               rbind (rmapM (rough_cor env bp gam) ranges) (\<lambda>rc.
                 if misp_mode bp = 1 then rbind (rmapM (rough_misp_factor env gam) ms) (np_zip (npf_mul em) rc) else Inr rc)
             else Inr [Fin 0]) (\<lambda>rcor.
      rbind (np_zip (npf_add em) mcor rcor) (\<lambda>tot.
      rbind (rmapM (npf_mul em (Fin 10)) tot) (\<lambda>t10.
      rbind (np_log env (Fin 10)) (\<lambda>l10. rmapM (\<lambda>x. npf_div em x l10) t10))))))))"

definition compute_backscatter ::
  "'a backscatter_env_scheme \<Rightarrow> backscatter_params \<Rightarrow> fl list \<Rightarrow> fl list \<Rightarrow> fl list \<Rightarrow> fl list \<Rightarrow> fl list \<Rightarrow> fl list res" where
  "compute_backscatter env bp rx ranges roll pitch tx =
     (let em = np_mode env in
      rbind (rbind (np_zip (npf_div em) rx tx) (rmapM (decibel env))) (\<lambda>ratio.
      rbind (rmapM (sigma_calc_const env bp) ranges) (\<lambda>const.
      rbind (misp_and_surf env bp ranges roll pitch) (\<lambda>misp.
      rbind (np_zip (npf_sub em) ratio const) (\<lambda>a.
      rbind (rmapM (\<lambda>x. npf_add em x (sigma_loss_const_db bp)) a) (\<lambda>b.
      rbind (np_zip (npf_sub em) b misp) (rmapM (\<lambda>x. npf_add em x (sigma_bias bp)))))))))"

section \<open>alg_backscatter\<close>

definition sigma_bias_of :: "config \<Rightarrow> sval \<Rightarrow> fl option res" where
  "sigma_bias_of cfg mode =
     (if mode = SStr ''LRM'' then rbind (cnumber cfg ''backscatter'' ''sigma_bias_lrm'') (\<lambda>x. Inr (Some x))
      else if mode = SStr ''SIN'' then rbind (cnumber cfg ''backscatter'' ''sigma_bias_sin'') (\<lambda>x. Inr (Some x))
      else Inr None)"

definition mode_name :: "sval \<Rightarrow> string" where
  "mode_name v = (case v of SStr s \<Rightarrow> s | _ \<Rightarrow> [])"

definition backscatter :: "backscatter_env \<Rightarrow> config \<Rightarrow> dataset \<Rightarrow> shared \<Rightarrow> alg_out" where
  "backscatter env cfg l1b sd =
     rbind (sget_floats sd ''pwr_at_rtrk_point'') (\<lambda>pwr.
     rbind (sget_floats sd ''range_cor_20_ku'') (\<lambda>range.
     rbind (nc_floats l1b ''echo_scale_factor_20_ku'') (\<lambda>factor.
     rbind (nc_floats l1b ''echo_scale_pwr_20_ku'') (\<lambda>scale.
     rbind (nc_floats l1b ''transmit_pwr_20_ku'') (\<lambda>tx.
     rbind (nc_floats l1b ''off_nadir_pitch_angle_str_20_ku'') (\<lambda>pitch.
     rbind (nc_floats l1b ''off_nadir_roll_angle_str_20_ku'') (\<lambda>roll.
     rbind (cs_counts_to_watts env pwr factor scale) (\<lambda>watts.
     rbind (dget sd ''instr_mode'') (\<lambda>mode.
     rbind (sigma_bias_of cfg mode) (\<lambda>bias.
       case bias of
         None \<Rightarrow> fail sd (''instrument mode '' @ mode_name mode @ '' must be LRM or SIN : '')
       | Some b \<Rightarrow>
           rbind (compute_backscatter env (backscatter_defaults b) watts range roll pitch tx) (\<lambda>sig0.
             pass (dset sd ''sig0_20_ku'' (SF sig0)))))))))))))"

definition alg_backscatter :: "backscatter_env \<Rightarrow> alg_class" where
  "alg_backscatter env = \<lparr>cls_name = ''clev2er.algorithms.cryotempo.alg_backscatter'',
     cls_init = (\<lambda>cfg. Inr ((True, []), \<lparr>impl_body = backscatter env cfg, impl_finalize = base_finalize\<rparr>))\<rparr>"

interpretation backscatter: chain_algorithm "backscatter env cfg" "{''sig0_20_ku''}"
  by (unfold_locales, erule framesD [rotated], unfold backscatter_def, intro frame_intros)
    (auto intro: agree_off_dset)

section \<open>Behaviour of alg_retrack\<close>

text \<open>A SIN file with proper arrays: waveforms and coherence of 1024 bins and a finite reference bin.\<close>

definition sin_input :: "retrack_env \<Rightarrow> config \<Rightarrow> dataset \<Rightarrow> fl list list \<Rightarrow> bool" where
  "sin_input env cfg l1b rows \<longleftrightarrow> numpy_laws env \<and> nc_var l1b ''pwr_waveform_20_ku'' = Inr (SF2 1024 rows) \<and>
     (\<forall>r\<in>set rows. length r = 1024) \<and> (\<exists>osf. cinteger cfg ''mc_retracker'' ''wf_oversampling_factor'' = Inr osf \<and> 0 \<le> osf) \<and>
     (\<exists>q. cnumber cfg ''mc_retracker'' ''ref_bin_ind_sin'' = Inr (Fin q))"

definition lrm_input :: "retrack_env \<Rightarrow> config \<Rightarrow> dataset \<Rightarrow> fl list list \<Rightarrow> bool" where
  "lrm_input env cfg l1b rows \<longleftrightarrow> numpy_laws env \<and> nc_var l1b ''pwr_waveform_20_ku'' = Inr (SF2 128 rows) \<and>
     (\<forall>r\<in>set rows. length r = 128) \<and> (\<exists>osf. cinteger cfg ''tcog_retracker'' ''wf_oversampling_factor'' = Inr osf \<and> 0 \<le> osf) \<and>
     (\<exists>q. cnumber cfg ''tcog_retracker'' ''ref_bin_ind_lrm'' = Inr (Fin q))"

text \<open>What both retrackers guarantee of their result.\<close>

definition counted :: "retrack_out \<Rightarrow> bool list \<Rightarrow> nat \<Rightarrow> bool" where
  "counted out incl n \<longleftrightarrow> length (ro_dr_bin out) = n \<and> length (ro_pwr out) = n \<and>
     ro_failures out = card {i. i < n \<and> incl ! i \<and> ro_dr_bin out ! i = NaN} \<and>
     (\<forall>i<n. \<not> incl ! i \<longrightarrow> ro_dr_bin out ! i = NaN \<and> ro_pwr out ! i = NaN)"

lemma le_config_osf: "le_config cfg q = Inr lp \<Longrightarrow> cinteger cfg q ''wf_oversampling_factor'' = Inr (wf_oversampling_factor lp)"
  by (auto simp: le_config_def rbind_eq_Inr)

lemma retrack_sin_counted:
  assumes "sin_input env cfg l1b rows" and "retrack_sin env cfg l1b (SF2 1024 rows) incl = Inr (ref, out)"
  shows "counted out incl (length rows)"
proof -
  obtain lp w coherence where lp: "le_config cfg ''mc_retracker'' = Inr lp" and q: "cnumber cfg ''mc_retracker'' ''ref_bin_ind_sin'' = Inr ref"
    and out: "retrack_cs2_sin_max_coherence env (le_params.extend lp \<lparr>mc_ref_bin_ind_sin = ref, coherence_smoothing_width = w\<rparr>)
        (SF2 1024 rows) coherence incl = Inr out"
    using assms(2) by (auto simp: retrack_sin_def rbind_eq_Inr Let_def)
  show ?thesis
    using max_coherence_failures_aux [OF _ _ _ _ out] assms(1) q le_config_osf [OF lp]
    by (auto simp: counted_def sin_input_def le_params.extend_def)
qed

lemma retrack_lrm_counted:
  assumes "lrm_input env cfg l1b rows" and "retrack_lrm env cfg (SF2 128 rows) incl = Inr (ref, out)"
  shows "counted out incl (length rows)"
proof -
  obtain lp th where lp: "le_config cfg ''tcog_retracker'' = Inr lp" and q: "cnumber cfg ''tcog_retracker'' ''ref_bin_ind_lrm'' = Inr ref"
    and out: "retrack_tcog_waveforms_cs2 env (le_params.extend lp \<lparr>retrack_threshold_lrm = th, retrack_threshold_sin = Fin (1 / 2),
        ref_bin_ind_lrm = ref, ref_bin_ind_sin = Fin 512\<rparr>) (SF2 128 rows) incl = Inr out"
    using assms(2) by (auto simp: retrack_lrm_def rbind_eq_Inr Let_def)
  show ?thesis
    using tcog_failures_aux [OF _ _ _ _ out] assms(1) q le_config_osf [OF lp]
    by (auto simp: counted_def lrm_input_def le_params.extend_def)
qed

lemma rbin_sizes: "\<exists>q. rbin_size_lrm = Fin q \<and> 0 < q" "\<exists>q. rbin_size_sin = Fin q \<and> 0 < q"
proof -
  have "two_pow (- 1022) \<le> two_pow (- 3)" "two_pow 0 \<le> two_pow 1023" by (intro two_pow_mono, simp)+
  then have "two_pow (- 1022) \<le> 1 / 8" "1 \<le> two_pow 1023" by (simp_all add: two_pow_def)
  then have b: "two_pow (- 1022) \<le> q \<and> q < two_pow 1023" if "1 / 8 \<le> q" "q < 1" for q using that by linarith
  show "\<exists>q. rbin_size_lrm = Fin q \<and> 0 < q" "\<exists>q. rbin_size_sin = Fin q \<and> 0 < q"
    using round64_normal [of "299792458 / 640000000"] round64_normal [of "299792458 / 1280000000"]
      b [of "299792458 / 640000000"] b [of "299792458 / 1280000000"]
    unfolding rbin_size_lrm_def rbin_size_sin_def by auto
qed

lemma mul_NaN: "npf_mul em x (Fin q) = Inr y \<Longrightarrow> 0 < q \<Longrightarrow> y = NaN \<longleftrightarrow> x = NaN"
  by (cases x) (auto dest!: npf_mul_Inr simp: inf_of_sign_def)

lemma retrackers_result:
  "retrack_cs2_sin_max_coherence env mp pwr coh incl = Inr out \<Longrightarrow> \<exists>em r rs. retrack_result em r rbin_size_sin rs = Inr out"
  "retrack_tcog_waveforms_cs2 env tp pwr incl = Inr out \<Longrightarrow>
    \<exists>em r rs. retrack_result em r rbin_size_lrm rs = Inr out \<or> retrack_result em r rbin_size_sin rs = Inr out"
  by (cases pwr; auto simp: retrack_cs2_sin_max_coherence_def retrack_tcog_waveforms_cs2_def rbind_eq_Inr Let_def split: if_splits)+

text \<open>The correction is NaN where the offset is.\<close>

lemma retrack_meters:
  assumes "(if mode = SStr ''SIN'' then retrack_sin env cfg l1b pwr incl else retrack_lrm env cfg pwr incl) = Inr (ref, out)"
  shows "length (ro_dr_meters out) = length (ro_dr_bin out) \<and>
    (\<forall>i<length (ro_dr_bin out). ro_dr_meters out ! i = NaN \<longleftrightarrow> ro_dr_bin out ! i = NaN)"
proof -
  have "\<exists>em r rs. retrack_result em r rbin_size_lrm rs = Inr out \<or> retrack_result em r rbin_size_sin rs = Inr out"
    using assms by (auto simp: retrack_sin_def retrack_lrm_def rbind_eq_Inr Let_def dest!: retrackers_result split: if_splits)
  then obtain em r rs q where "retrack_result em r (Fin q) rs = Inr out" and q: "0 < q" using rbin_sizes by metis
  then have m: "rmapM (\<lambda>x. npf_mul em x (Fin q)) (ro_dr_bin out) = Inr (ro_dr_meters out)"
    by (auto simp: retrack_result_def rbind_eq_Inr split: if_splits)
  show ?thesis using rmapM_length [OF m] rmapM_nth [OF m] mul_NaN [OF _ q] by auto
qed

lemma card_included_le:
  assumes "n \<le> length incl"
  shows "card {i. i < n \<and> incl ! i \<and> P i} \<le> count_true incl"
proof -
  have "card {i. i < n \<and> incl ! i \<and> P i} \<le> card {i. i < length incl \<and> id (incl ! i)}"
    by (rule card_mono) (use assms in auto)
  then show ?thesis by (simp add: count_true_def length_filter_conv_card)
qed

lemma np_zip_scalar: "np_zip f xs [y] = rmapM (\<lambda>x. f x y) xs"
proof -
  have "np_map2 f xs [y] = Inr (map (\<lambda>x. f x y) xs)"
    by (cases xs; cases "tl xs") (auto simp: np_map2_def)
  then show ?thesis by (simp add: np_zip_def rmapM_id_map)
qed

text \<open>One entry of the elementwise computations.\<close>

lemma rmapM_at: "rmapM f xs = Inr ys \<Longrightarrow> length xs = n \<Longrightarrow> i < n \<Longrightarrow> length ys = n \<and> f (xs ! i) = Inr (ys ! i)"
  using rmapM_length rmapM_nth by blast

lemma np_zip_at: "np_zip f xs ys = Inr zs \<Longrightarrow> length xs = n \<Longrightarrow> length ys = n \<Longrightarrow> i < n \<Longrightarrow> length zs = n \<and> f (xs ! i) (ys ! i) = Inr (zs ! i)"
  using np_zip_nth [of f xs ys zs] by simp

lemma misp_and_surf_scalar:
  "misp_and_surf env (backscatter_defaults b) ranges roll pitch = Inr ms \<Longrightarrow> \<exists>y. ms = [y]"
  by (auto simp: misp_and_surf_def backscatter_defaults_def rbind_eq_Inr Let_def np_zip_scalar)

lemma backscatter_at_NaN:
  assumes "compute_backscatter env (backscatter_defaults b) rx rs roll pitch tx = Inr sig"
    and len: "length rx = n" "length rs = n" "length tx = n" and i: "i < n" "rx ! i = NaN" and log: "np_log10 env NaN = Inr NaN"
  shows "length sig = n \<and> sig ! i = NaN"
proof -
  let ?em = "np_mode env" and ?bp = "backscatter_defaults b"
  obtain q ratio const ms a c e where q: "np_zip (npf_div ?em) rx tx = Inr q" and ratio: "rmapM (decibel env) q = Inr ratio"
    and const: "rmapM (sigma_calc_const env ?bp) rs = Inr const" and ms: "misp_and_surf env ?bp rs roll pitch = Inr ms"
    and a: "np_zip (npf_sub ?em) ratio const = Inr a" and c: "rmapM (\<lambda>x. npf_add ?em x (sigma_loss_const_db ?bp)) a = Inr c"
    and e: "np_zip (npf_sub ?em) c ms = Inr e" "rmapM (\<lambda>x. npf_add ?em x (sigma_bias ?bp)) e = Inr sig"
    using assms(1) unfolding compute_backscatter_def Let_def rbind_eq_Inr by (elim exE conjE) (rule that; assumption)
  obtain y where "ms = [y]" using misp_and_surf_scalar [OF ms] by blast
  with e have d: "rmapM (\<lambda>x. npf_sub ?em x y) c = Inr e" by (simp add: np_zip_scalar)
  note Q = np_zip_at [OF q len(1,3) i(1)]
  note R = rmapM_at [OF ratio conjunct1 [OF Q] i(1)]
  have "ratio ! i = NaN" using Q R i(2) log by (simp add: decibel_def)
  moreover note A = np_zip_at [OF a conjunct1 [OF R] _ i(1)]
  ultimately have "length a = n \<and> a ! i = NaN" using rmapM_at [OF const len(2) i(1)] by simp
  then have "length c = n \<and> c ! i = NaN" using rmapM_at [OF c _ i(1)] by simp
  then have "length e = n \<and> e ! i = NaN" using rmapM_at [OF d _ i(1)] by simp
  then show ?thesis using rmapM_at [OF e(2) _ i(1)] by simp
qed

section \<open>Properties\<close>

text \<open>C19: What \<^verbatim>\<open>alg_retrack\<close> stores. On a SIN or LRM file whose arrays have the proper shape, with numpy as
  documented, a successful run stores for every waveform that was not to be included, and for every
  one the retracker failed on, the fill value -32768 as bin and NaN as range; the range of every
  waveform is its geo-corrected tracker range plus its retracker correction, and the number of
  failures is at most the number of waveforms to include.\<close>

theorem retrack_outputs:
  assumes ok: "retrack env cfg l1b sd = Inr ((True, m), sd')"
    and incl: "dget sd ''waveforms_to_include'' = Inr (SB incl)"
    and mode: "dget sd ''instr_mode'' = Inr (SStr ''SIN'') \<and> sin_input env cfg l1b rows \<or>
      dget sd ''instr_mode'' = Inr (SStr ''LRM'') \<and> lrm_input env cfg l1b rows"
    and cor: "dget sd ''sum_cor_20_ku'' = Inr (SF cs)" "length cs = length rows"
    and win: "nc_floats l1b ''window_del_20_ku'' = Inr ws" "length ws = length rows" and len: "length incl = length rows"
  shows "\<exists>ind geo dr range nf. dget sd' ''ind_wfm_retrack_20_ku'' = Inr (SF ind) \<and>
    dget sd' ''geo_corrected_tracker_range'' = Inr (SF geo) \<and> dget sd' ''retracker_correction'' = Inr (SF dr) \<and>
    dget sd' ''range_cor_20_ku'' = Inr (SF range) \<and> dget sd' ''num_retracker_failures'' = Inr (SInt (int nf)) \<and>
    length ind = length rows \<and> length geo = length rows \<and> length dr = length rows \<and> length range = length rows \<and>
    nf = card {i. i < length rows \<and> incl ! i \<and> dr ! i = NaN} \<and> nf \<le> count_true incl \<and>
    (\<forall>i<length rows. range ! i = fl_add (geo ! i) (dr ! i)) \<and>
    (\<forall>i<length rows. \<not> incl ! i \<longrightarrow> dr ! i = NaN) \<and>
    (\<forall>i<length rows. dr ! i = NaN \<longrightarrow> ind ! i = fill_value \<and> range ! i = NaN)"
proof -
  let ?em = "np_mode env" and ?n = "length rows"
  obtain c md where pwr: "nc_var l1b ''pwr_waveform_20_ku'' = Inr (SF2 c rows)" and md: "dget sd ''instr_mode'' = Inr md"
    and R: "\<And>ref out. (if md = SStr ''SIN'' then retrack_sin env cfg l1b (SF2 c rows) incl else retrack_lrm env cfg (SF2 c rows) incl) =
      Inr (ref, out) \<Longrightarrow> counted out incl ?n"
    using mode
  proof (elim disjE conjE)
    assume a: "dget sd ''instr_mode'' = Inr (SStr ''SIN'')" "sin_input env cfg l1b rows"
    show thesis by (rule that [of 1024 "SStr ''SIN''"]) (use a retrack_sin_counted [OF a(2)] in \<open>auto simp: sin_input_def\<close>)
  next
    assume a: "dget sd ''instr_mode'' = Inr (SStr ''LRM'')" "lrm_input env cfg l1b rows"
    show thesis by (rule that [of 128 "SStr ''LRM''"]) (use a retrack_lrm_counted [OF a(2)] in \<open>auto simp: lrm_input_def\<close>)
  qed
  obtain ref out ind geo range where
    out: "(if md = SStr ''SIN'' then retrack_sin env cfg l1b (SF2 c rows) incl else retrack_lrm env cfg (SF2 c rows) incl) = Inr (ref, out)" and
    ind: "rmapM (npf_add ?em ref) (ro_dr_bin out) = Inr ind" and geo: "tracker_range ?em cfg l1b sd = Inr geo" and
    range: "np_zip (npf_add ?em) geo (ro_dr_meters out) = Inr range" and
    sd': "dget sd' ''ind_wfm_retrack_20_ku'' = Inr (SF (map (\<lambda>x. if is_nan x then fill_value else x) ind))"
      "dget sd' ''geo_corrected_tracker_range'' = Inr (SF geo)" "dget sd' ''retracker_correction'' = Inr (SF (ro_dr_meters out))"
      "dget sd' ''range_cor_20_ku'' = Inr (SF range)" "dget sd' ''num_retracker_failures'' = Inr (SInt (int (ro_failures out)))"
    using ok pwr md incl by (auto simp: retrack_def rbind_eq_Inr Let_def split: if_splits)
  note C = R [OF out, unfolded counted_def] and M = retrack_meters [OF out]
  have lgeo: "length geo = ?n"
    using geo win cor by (auto simp: tracker_range_def rbind_eq_Inr sget_floats_def dest!: rmapM_length np_zip_nth)
  then have "length geo = length (ro_dr_meters out)" using C M by simp
  note Z = np_zip_nth [OF range this]
  then have lr: "length range = ?n" and sum: "\<forall>i<?n. range ! i = fl_add (geo ! i) (ro_dr_meters out ! i)"
    using lgeo npf_add_Inr by auto
  have fill: "map (\<lambda>x. if is_nan x then fill_value else x) ind ! i = fill_value" if "i < ?n" "ro_dr_bin out ! i = NaN" for i
    using rmapM_nth [OF ind, of i] rmapM_length [OF ind] that C by (simp add: is_nan_def)
  have nan: "\<forall>i<?n. ro_dr_meters out ! i = NaN \<longrightarrow>
      map (\<lambda>x. if is_nan x then fill_value else x) ind ! i = fill_value \<and> range ! i = NaN"
  proof (intro allI impI conjI)
    fix i assume i: "i < ?n" "ro_dr_meters out ! i = NaN"
    then have "ro_dr_bin out ! i = NaN" using C M by simp
    then show "map (\<lambda>x. if is_nan x then fill_value else x) ind ! i = fill_value" using fill i(1) by blast
    show "range ! i = NaN" using sum i by simp
  qed
  have out_nan: "\<forall>i<?n. \<not> incl ! i \<longrightarrow> ro_dr_meters out ! i = NaN" using C M by simp
  have nf: "ro_failures out = card {i. i < ?n \<and> incl ! i \<and> ro_dr_meters out ! i = NaN}"
    using C M by (auto intro!: arg_cong [where f = card])
  then have le: "ro_failures out \<le> count_true incl" using card_included_le [of ?n incl] len by simp
  have lens: "length (map (\<lambda>x. if is_nan x then fill_value else x) ind) = ?n" "length (ro_dr_meters out) = ?n"
    using rmapM_length [OF ind] C M by simp_all
  show ?thesis
    by (intro exI [of _ "map (\<lambda>x. if is_nan x then fill_value else x) ind"] exI [of _ geo] exI [of _ "ro_dr_meters out"]
        exI [of _ range] exI [of _ "ro_failures out"] conjI sd' lens lgeo lr nf le sum out_nan nan)
qed

text \<open>A file without a waveform to include. If no waveform is to be included, \<^verbatim>\<open>alg_retrack\<close> never
  succeeds and never fails in an orderly way: once the retracker has returned, the percentage of
  failures divides by zero.\<close>

theorem retrack_nothing_included:
  assumes "nc_var l1b ''pwr_waveform_20_ku'' = Inr pwr" and "dget sd ''waveforms_to_include'' = Inr (SB incl)"
    and "dget sd ''instr_mode'' = Inr mode" and "count_true incl = 0"
    and "(if mode = SStr ''SIN'' then retrack_sin env cfg l1b pwr incl else retrack_lrm env cfg pwr incl) = Inr res"
  shows "retrack env cfg l1b sd = Inl (ZeroDivisionError ''float division by zero'')"
  using assms by (cases res) (simp add: retrack_def)

text \<open>Backscatter of failed waveforms. When \<^verbatim>\<open>alg_backscatter\<close> succeeds on arrays of equal length, with
  a logarithm that keeps NaN, the backscatter of a waveform without retracking power is NaN.\<close>

theorem backscatter_nan:
  assumes ok: "backscatter env cfg l1b sd = Inr ((True, m), sd')"
    and log: "np_log10 env NaN = Inr NaN"
    and pwr: "dget sd ''pwr_at_rtrk_point'' = Inr (SF ps)" and rng: "dget sd ''range_cor_20_ku'' = Inr (SF rs)" "length rs = length ps"
    and l1b: "nc_floats l1b ''echo_scale_factor_20_ku'' = Inr fs" "length fs = length ps"
      "nc_floats l1b ''echo_scale_pwr_20_ku'' = Inr ss" "length ss = length ps"
      "nc_floats l1b ''transmit_pwr_20_ku'' = Inr ts" "length ts = length ps" "1 < length ps"
    and i: "i < length ps" "ps ! i = NaN"
  shows "\<exists>sig. dget sd' ''sig0_20_ku'' = Inr (SF sig) \<and> length sig = length ps \<and> sig ! i = NaN"
proof -
  obtain watts roll pitch b sig where w: "cs_counts_to_watts env ps fs ss = Inr watts"
    and sig: "compute_backscatter env (backscatter_defaults b) watts rs roll pitch ts = Inr sig"
    and sd': "sd' = dset sd ''sig0_20_ku'' (SF sig)"
    using ok pwr rng l1b by (auto simp: backscatter_def sget_floats_def rbind_eq_Inr split: option.splits)
  obtain a p where a: "np_zip (npf_mul (np_mode env)) ps fs = Inr a" and p: "rmapM (np_power env (Fin 2)) ss = Inr p"
    and z: "np_zip (npf_mul (np_mode env)) a p = Inr watts"
    using w by (auto simp: cs_counts_to_watts_def rbind_eq_Inr)
  note A = np_zip_at [OF a refl l1b(2) i(1)] and P = rmapM_at [OF p l1b(4) i(1)]
  have "length watts = length ps \<and> watts ! i = NaN"
    using np_zip_at [OF z conjunct1 [OF A] conjunct1 [OF P] i(1)] A i(2) by simp
  then have "length sig = length ps \<and> sig ! i = NaN"
    using backscatter_at_NaN [OF sig _ rng(2) l1b(6) i(1) _ log] by simp
  then show ?thesis using sd' by simp
qed

section \<open>Witnesses\<close>

text \<open>A configuration, and an LRM and a SIN file of two waveforms without power, one of them to be included.\<close>

definition wit_le_cfg :: "(string \<times> cval) list" where
  "wit_le_cfg = [(''show_plots'', CBool False), (''noise_sample_limit'', CInt 6), (''wf_oversampling_factor'', CInt 100),
     (''noise_threshold'', CFloat (Fin (1 / 4))), (''savitsky_golay_width'', CInt 9), (''savitsky_golay_poly_order'', CInt 3),
     (''le_id_threshold'', CFloat (Fin (1 / 16))), (''le_dp_threshold'', CFloat (Fin (1 / 4))), (''ref_bin_ind_lrm'', CFloat (Fin 64)),
     (''ref_bin_ind_sin'', CFloat (Fin 512)), (''retrack_threshold_lrm'', CFloat (Fin (1 / 4))), (''coherence_smoothing_width'', CInt 9)]"

definition wit_retrack_cfg :: config where
  "wit_retrack_cfg = [(''tcog_retracker'', CDict wit_le_cfg), (''mc_retracker'', CDict wit_le_cfg),
     (''geophysical'', CDict [(''speed_light'', CInt 299792458)])]"

definition wit_retrack_nc :: "nat \<Rightarrow> dataset" where
  "wit_retrack_nc n = wit_nc0\<lparr>ds_variables := (\<lambda>k. if k = ''window_del_20_ku'' then Some (SF [Fin 0, Fin 2])
     else Some (SF2 n [replicate n (Fin 0), replicate n (Fin 0)]))\<rparr>"

definition wit_retrack_sd :: "string \<Rightarrow> bool \<Rightarrow> shared" where
  "wit_retrack_sd md b = [(''waveforms_to_include'', SB [b, False]), (''instr_mode'', SStr md), (''sum_cor_20_ku'', SF [Fin 1, Fin 2])]"

lemma wit_retrack_ok:
  obtains m sd' where "retrack wit_renv wit_retrack_cfg (wit_retrack_nc 128) (wit_retrack_sd ''LRM'' True) = Inr ((True, m), sd')"
proof -
  have "succeeds (retrack wit_renv wit_retrack_cfg (wit_retrack_nc 128) (wit_retrack_sd ''LRM'' True))" by code_simp
  then show ?thesis using that by (rule succeedsE)
qed

lemmas wit_retrack = wit_retrack_cfg_def wit_le_cfg_def wit_retrack_nc_def wit_retrack_sd_def nc_var_def nc_floats_def of_option_def
  cinteger_def cnumber_def cget2_def cint_def

theorem retrack_outputs_witness:
  "\<exists>m sd' dr range. retrack wit_renv wit_retrack_cfg (wit_retrack_nc 128) (wit_retrack_sd ''LRM'' True) = Inr ((True, m), sd') \<and>
     dget sd' ''retracker_correction'' = Inr (SF dr) \<and> dget sd' ''range_cor_20_ku'' = Inr (SF range) \<and>
     dr ! 1 = NaN \<and> range ! 1 = NaN"
proof -
  let ?rows = "[replicate 128 (Fin 0), replicate 128 (Fin 0)]"
  obtain m sd' where ok: "retrack wit_renv wit_retrack_cfg (wit_retrack_nc 128) (wit_retrack_sd ''LRM'' True) = Inr ((True, m), sd')"
    by (rule wit_retrack_ok)
  have lrm: "lrm_input wit_renv wit_retrack_cfg (wit_retrack_nc 128) ?rows"
    using wit_renv_laws by (simp add: lrm_input_def wit_retrack as_number_def of_intf_def)
  have sd: "dget (wit_retrack_sd ''LRM'' True) ''waveforms_to_include'' = Inr (SB [True, False])"
    "dget (wit_retrack_sd ''LRM'' True) ''instr_mode'' = Inr (SStr ''LRM'')"
    "dget (wit_retrack_sd ''LRM'' True) ''sum_cor_20_ku'' = Inr (SF [Fin 1, Fin 2])"
    "nc_floats (wit_retrack_nc 128) ''window_del_20_ku'' = Inr [Fin 0, Fin 2]" by (simp_all add: wit_retrack as_floats_def)
  obtain dr range where "dget sd' ''retracker_correction'' = Inr (SF dr)" "dget sd' ''range_cor_20_ku'' = Inr (SF range)"
    "\<not> [True, False] ! 1 \<longrightarrow> dr ! 1 = NaN" "dr ! 1 = NaN \<longrightarrow> range ! 1 = NaN"
    using retrack_outputs [OF ok sd(1) disjI2 [OF conjI [OF sd(2) lrm]] sd(3) _ sd(4)] by auto
  with ok show ?thesis by auto
qed

theorem retrack_nothing_included_witness:
  "retrack wit_renv wit_retrack_cfg (wit_retrack_nc 128) (wit_retrack_sd ''LRM'' False) = Inl (ZeroDivisionError ''float division by zero'')"
proof -
  let ?pwr = "SF2 128 [replicate 128 (Fin 0), replicate 128 (Fin 0)]"
  have "\<not> isl (retrack_lrm wit_renv wit_retrack_cfg ?pwr [False, False])" by code_simp
  then obtain res where res: "retrack_lrm wit_renv wit_retrack_cfg ?pwr [False, False] = Inr res"
    by (cases "retrack_lrm wit_renv wit_retrack_cfg ?pwr [False, False]") auto
  show ?thesis
    by (rule retrack_nothing_included [where pwr = ?pwr and incl = "[False, False]" and mode = "SStr ''LRM''" and res = res])
      (use res in \<open>simp_all add: wit_retrack count_true_def\<close>)
qed

text \<open>A retracked file whose first waveform has no retracking power.\<close>

definition wit_benv :: backscatter_env where
  "wit_benv = \<lparr>np_mode = seterr_default, np_sum = np_sum exact_np, np_mean = np_mean exact_np, np_power = (\<lambda>x y. Inr (if x = NaN then NaN else Fin 1)),
     np_log = (\<lambda>x. Inr (Fin 1)), np_log10 = (\<lambda>x. Inr (if x = NaN then NaN else Fin 1)), np_sin = (\<lambda>x. Inr (Fin 1)),
     np_cos = (\<lambda>x. Inr (Fin 1)), np_sqrt = (\<lambda>x. Inr (Fin 1)), np_radians = (\<lambda>x. Inr x)\<rparr>"

definition wit_backscatter_nc :: dataset where
  "wit_backscatter_nc = wit_nc0\<lparr>ds_variables := (\<lambda>k. Some (SF [Fin 1, Fin 1]))\<rparr>"

definition wit_backscatter_sd :: shared where
  "wit_backscatter_sd = [(''pwr_at_rtrk_point'', SF [NaN, Fin 1]), (''range_cor_20_ku'', SF [NaN, Fin 1]), (''instr_mode'', SStr ''SIN'')]"

definition wit_backscatter_cfg :: config where
  "wit_backscatter_cfg = [(''backscatter'', CDict [(''sigma_bias_sin'', CFloat (Fin 4))])]"

lemmas wit_backscatter = backscatter_def wit_benv_def wit_backscatter_cfg_def wit_backscatter_sd_def sget_floats_def as_floats_def
  cnumber_def cget2_def as_number_def pass_def sigma_bias_of_def cs_counts_to_watts_def np_zip_def np_map2_def npf_sub_def
  compute_backscatter_def misp_and_surf_def beam_gamma_def inverse_radians_def decibel_def sigma_calc_const_def backscatter_defaults_def

theorem backscatter_nan_witness:
  "\<exists>m sd' sig. backscatter wit_benv wit_backscatter_cfg wit_backscatter_nc wit_backscatter_sd = Inr ((True, m), sd') \<and>
     dget sd' ''sig0_20_ku'' = Inr (SF sig) \<and> length sig = 2 \<and> sig ! 0 = NaN"
proof -
  have nc: "nc_floats wit_backscatter_nc k = Inr [Fin 1, Fin 1]" for k
    by (simp add: wit_backscatter_nc_def nc_floats_def nc_var_def of_option_def as_floats_def)
  have "succeeds (backscatter wit_benv wit_backscatter_cfg wit_backscatter_nc wit_backscatter_sd)"
    by (simp add: wit_backscatter succeeds_def nc)
  then obtain m sd' where ok: "backscatter wit_benv wit_backscatter_cfg wit_backscatter_nc wit_backscatter_sd = Inr ((True, m), sd')"
    by (rule succeedsE)
  have "np_log10 wit_benv NaN = Inr NaN" by (simp add: wit_benv_def)
  from backscatter_nan [OF ok this _ _ _ nc _ nc _ nc, of "[NaN, Fin 1]" "[NaN, Fin 1]" 0] ok
  show ?thesis by (auto simp: wit_backscatter_sd_def)
qed

end
