(* ===== verification/Grids.thy ===== *)
theory Grids
  imports Algs_Retrack
begin

text \<open>
  Gridded data. The classes \<^verbatim>\<open>Dem\<close> (\<^verbatim>\<open>utils/dems/dems.py\<close>), \<^verbatim>\<open>Slopes\<close>
  (\<^verbatim>\<open>utils/slopes/slopes.py\<close>) and \<^verbatim>\<open>Roughness\<close> (\<^verbatim>\<open>utils/roughness/roughness.py\<close>) are copies of
  one another with other names and other tables of data sets. The operations they have in
  common are here, with the words that differ in a record \<open>grid_class\<close>; the theories
  \<open>Dems\<close> and \<open>Slope_Grids\<close> instantiate them.

  rasterio, tifffile, zarr, pyproj and scipy, the file system, the environment and the functions
  \<^verbatim>\<open>np.linspace\<close> and \<^verbatim>\<open>np.searchsorted\<close> are parameters, in the record \<open>grid_env\<close>. The grids are
  float32 arrays; nothing here computes with their values. \<^verbatim>\<open>gaussian_smooth\<close> and \<^verbatim>\<open>hillshade\<close>,
  which do and which the chain does not call, are left out.
\<close>

section \<open>Data sets and classes\<close>

text \<open>What \<^verbatim>\<open>load\<close> sets for one name; \<open>gd_default_dir\<close> is the path below \<^verbatim>\<open>CPDATA_DIR\<close>.\<close>

record grid_def =
  gd_filename :: string
  gd_filled_filename :: string
  gd_default_dir :: string
  gd_src_url :: string
  gd_src_url_filled :: string
  gd_version :: string
  gd_src_institute :: string
  gd_long_name :: string
  gd_crs_bng :: nat                   \<comment> \<open>EPSG code\<close>
  gd_southern_hemisphere :: bool
  gd_void_value :: int
  gd_reference_year :: int
  gd_npz_type :: bool
  gd_zarr_type :: bool
  gd_nc_type :: bool

record grid_class =
  gc_list :: "string list"
  gc_table :: "(string \<times> grid_def) list"
  gc_dirs :: string                   \<comment> \<open>section of the configuration with the directories\<close>
  gc_word :: string                   \<comment> \<open>name in messages\<close>
  gc_item :: string                   \<comment> \<open>suffix of the items of an npz file\<close>

text \<open>The contents of a GeoTIFF as rasterio gives them: \<open>gt_at c r\<close> is \<^verbatim>\<open>transform * (c, r)\<close>.\<close>

record geotiff =
  gt_width :: int
  gt_height :: int
  gt_at :: "int \<Rightarrow> int \<Rightarrow> fl \<times> fl"
  gt_transform0 :: fl
  gt_transform4 :: fl

record zarr_array =
  za_attrs :: config
  za_rows :: "fl list list"

text \<open>\<open>Inl\<close> of a string is a \<^verbatim>\<open>RasterioIOError\<close>, and any exception of \<^verbatim>\<open>zarr.open_array\<close>. \<open>ge_imread\<close>
  gives \<open>None\<close> for an image that is no array. The interpolators take the method, the two axes, the
  values, and the coordinates of the points, \<open>y\<close> first.\<close>

type_synonym interpolator = "string \<Rightarrow> fl list \<Rightarrow> fl list \<Rightarrow> fl list list \<Rightarrow> fl list \<Rightarrow> fl list \<Rightarrow> fl list res"

record grid_env =
  ge_mode :: np_err
  ge_environ :: "string \<Rightarrow> string option"
  ge_isdir :: "string \<Rightarrow> bool"
  ge_isfile :: "string \<Rightarrow> bool"
  ge_rasterio :: "string \<Rightarrow> string + geotiff"
  ge_imread :: "string \<Rightarrow> fl list list option res"
  ge_zarr :: "string \<Rightarrow> string + zarr_array"
  ge_npz :: "string \<Rightarrow> shared res"
  ge_dataset :: "string \<Rightarrow> dataset res"
  ge_linspace :: "fl \<Rightarrow> fl \<Rightarrow> int \<Rightarrow> fl list res"
  ge_searchsorted :: "fl list \<Rightarrow> fl \<Rightarrow> nat"
  ge_project :: "nat \<Rightarrow> fl \<Rightarrow> fl \<Rightarrow> fl \<times> fl"        \<comment> \<open>EPSG code, lon, lat: x and y\<close>
  ge_rgi :: interpolator                            \<comment> \<open>\<^verbatim>\<open>RegularGridInterpolator\<close>, called on the points\<close>
  ge_interpn :: interpolator

text \<open>The values of a grid: the empty array of \<^verbatim>\<open>__init__\<close>, rows, or \<^verbatim>\<open>None\<close> after \<^verbatim>\<open>clean_up\<close>.\<close>

datatype grid_data = Unset | Rows "fl list list" | Closed

record grid =
  g_name :: string
  g_config :: "config option"
  g_dir :: "string option"
  g_filled :: bool
  g_reference_year :: int
  g_x :: "fl list"
  g_y :: "fl list"
  g_z :: grid_data
  g_zflip :: grid_data
  g_minx :: "fl option"
  g_miny :: "fl option"
  g_binsize :: fl
  g_in_shm :: bool
  g_shared_mem :: "string option"
  g_shared_mem_child :: bool
  g_npz_type :: bool
  g_zarr_type :: bool
  g_nc_type :: bool
  g_def :: "grid_def option"
  g_crs :: "nat option"              \<comment> \<open>the projection of the transformers, once they exist\<close>

text \<open>The shared-memory segments that hold grids: their float32 items, by name.\<close>

type_synonym gshm = "string \<rightharpoonup> fl list"

section \<open>numpy\<close>

fun fl_min :: "fl \<Rightarrow> fl list \<Rightarrow> fl" where
  "fl_min m [] = m"
| "fl_min m (x # xs) = fl_min (if m = NaN \<or> x = NaN then NaN else if fl_lt x m then x else m) xs"

definition np_min :: "fl list \<Rightarrow> fl res" where
  "np_min xs = (case xs of
     [] \<Rightarrow> Inl (ValueError ''zero-size array to reduction operation minimum which has no identity'')
   | y # ys \<Rightarrow> Inr (fl_min y ys))"

definition np_argmin :: "fl list \<Rightarrow> nat res" where
  "np_argmin xs = (if xs = [] then Inl (ValueError ''attempt to get argmin of an empty sequence'')
     else np_argmax (map fl_neg xs))"

text \<open>\<^verbatim>\<open>int(x)\<close> of a float cuts the fraction.\<close>

fun py_trunc :: "fl \<Rightarrow> int res" where
  "py_trunc NaN = Inl (ValueError ''cannot convert float NaN to integer'')"
| "py_trunc (Fin q) = Inr (if 0 \<le> q then \<lfloor>q\<rfloor> else \<lceil>q\<rceil>)"
| "py_trunc _ = Inl (OverflowError ''cannot convert float infinity to integer'')"

text \<open>Cells with the void value become NaN, \<^verbatim>\<open>if np.any(void_data)\<close>: \<^verbatim>\<open>void_data\<close> is a pair of index
  arrays, and the test is whether one of the indices is not zero.\<close>

definition void_cells :: "int \<Rightarrow> fl list list \<Rightarrow> (nat \<times> nat) list" where
  "void_cells v z = concat (map (\<lambda>i. map (\<lambda>j. (i, j)) (np_where (\<lambda>a. fl_eq a (of_intf v)) (z ! i))) [0..<length z])"

definition set_void :: "int \<Rightarrow> fl list list \<Rightarrow> fl list list" where
  "set_void v z =
     (if v \<noteq> 0 \<and> (\<exists>p\<in>set (void_cells v z). fst p \<noteq> 0 \<or> snd p \<noteq> 0)
      then map (map (\<lambda>a. if fl_eq a (of_intf v) then NaN else a)) z else z)"

section \<open>Construction\<close>

definition blank_grid :: "string \<Rightarrow> bool \<Rightarrow> config option \<Rightarrow> string option \<Rightarrow> bool \<Rightarrow> grid" where
  "blank_grid name filled cfg dir shm =
     \<lparr>g_name = name, g_config = cfg, g_dir = dir, g_filled = filled, g_reference_year = 0, g_x = [], g_y = [],
      g_z = Unset, g_zflip = Unset, g_minx = None, g_miny = None, g_binsize = Fin 0, g_in_shm = shm,
      g_shared_mem = None, g_shared_mem_child = False, g_npz_type = False, g_zarr_type = False, g_nc_type = False,
      g_def = None, g_crs = None\<rparr>"

text \<open>\<^verbatim>\<open>get_geotiff_extent\<close>: columns, rows, three corners and the pixel width; the fourth corner is
  not used.\<close>

definition get_geotiff_extent ::
  "grid_env \<Rightarrow> string \<Rightarrow> (int \<times> int \<times> (fl \<times> fl) \<times> (fl \<times> fl) \<times> (fl \<times> fl) \<times> fl) res" where
  "get_geotiff_extent env fname =
     (case ge_rasterio env fname of
        Inl msg \<Rightarrow> Inl (OSError (''Could not read GeoTIFF: '' @ msg))
      | Inr t \<Rightarrow>
          rbind (py_trunc (gt_transform0 t)) (\<lambda>pw. rbind (py_trunc (fl_neg (gt_transform4 t))) (\<lambda>ph.
            if pw \<noteq> ph then Inl (ValueError ''pixel_width != pixel_height'')
            else Inr (gt_width t, gt_height t, gt_at t 0 0, gt_at t (gt_width t) 0, gt_at t 0 (gt_height t),
                      gt_transform0 t))))"

text \<open>The directory from the configuration, \<^verbatim>\<open>None\<close> when it is not there.\<close>

definition config_dir :: "grid_class \<Rightarrow> grid \<Rightarrow> string option res" where
  "config_dir gc g =
     (case g_config g of
        None \<Rightarrow> Inr None
      | Some cfg \<Rightarrow>
          if \<not> dhas cfg (gc_dirs gc) then Inr None
          else rbind (rbind (dget cfg (gc_dirs gc)) as_cdict) (\<lambda>d.
                 if dhas d (g_name g) then rbind (dget d (g_name g)) cpath else Inr None))"

definition get_filename :: "grid_env \<Rightarrow> grid_class \<Rightarrow> grid \<Rightarrow> string \<Rightarrow> string \<Rightarrow> string \<Rightarrow> string res" where
  "get_filename env gc g default_dir filename filled_filename =
     rbind (config_dir gc g) (\<lambda>cdir.
       let this_dir = (case cdir of Some d \<Rightarrow> d
             | None \<Rightarrow> (case g_dir g of None \<Rightarrow> default_dir | Some d \<Rightarrow> if d = [] then default_dir else d));
           this_path = this_dir @ ''/'' @ (if g_filled g \<and> filled_filename \<noteq> [] then filled_filename else filename)
       in if \<not> ge_isdir env this_dir then Inl (OSError (this_dir @ '' not found''))
          else if g_zarr_type g then
            (if ge_isdir env this_path then Inr this_path else Inl (OSError (this_path @ '' not found'')))
          else if ge_isfile env this_path then Inr this_path
          else Inl (OSError (this_path @ '' not found'')))"

text \<open>The axes from the corners: \<open>x\<close> from left to right, \<open>y\<close> from the top down.\<close>

definition set_axes :: "grid_env \<Rightarrow> fl \<Rightarrow> fl \<Rightarrow> int \<Rightarrow> fl \<Rightarrow> fl \<Rightarrow> int \<Rightarrow> fl \<Rightarrow> grid \<Rightarrow> grid res" where
  "set_axes env xl xr ncols yb yt nrows bin g =
     rbind (ge_linspace env xl xr ncols) (\<lambda>x.
     rbind (ge_linspace env yb yt nrows) (\<lambda>y.
     rbind (np_min x) (\<lambda>mx. rbind (np_min (rev y)) (\<lambda>my.
       Inr (g\<lparr>g_x := x, g_y := rev y, g_minx := Some mx, g_miny := Some my, g_binsize := bin\<rparr>)))))"

definition npz_number :: "shared \<Rightarrow> string \<Rightarrow> fl res" where
  "npz_number d k = rbind (dget d k) attr_number"

definition load_npz :: "grid_env \<Rightarrow> grid_class \<Rightarrow> string \<Rightarrow> grid \<Rightarrow> grid res" where
  "load_npz env gc f g =
     rbind (ge_npz env f) (\<lambda>d.
     rbind (rbind (dget d (CHR ''z'' # gc_item gc)) as_rows) (\<lambda>(c, z).
     rbind (sget_floats d (CHR ''x'' # gc_item gc)) (\<lambda>x. rbind (sget_floats d (CHR ''y'' # gc_item gc)) (\<lambda>y.
     rbind (npz_number d (''min'' @ gc_item gc @ ''x'')) (\<lambda>mx. rbind (npz_number d (''min'' @ gc_item gc @ ''y'')) (\<lambda>my.
     rbind (npz_number d ''binsize'') (\<lambda>bin.
       Inr (g\<lparr>g_z := Rows z, g_x := x, g_y := y, g_minx := Some mx, g_miny := Some my, g_binsize := bin\<rparr>))))))))"

text \<open>An attribute of a zarr array: a number, an integer, or an element of a list.\<close>

definition attr_elem :: "config \<Rightarrow> string \<Rightarrow> int \<Rightarrow> fl res" where
  "attr_elem d k i = rbind (dget d k) (\<lambda>v. case v of CList vs \<Rightarrow> rbind (py_index vs i) as_number
     | _ \<Rightarrow> Inl (TypeError ''object is not subscriptable''))"

text \<open>The array and its pre-flipped copy. The state is kept when an exception is raised: the second
  file is opened after the attributes of the first are stored.\<close>

definition load_zarr :: "grid_env \<Rightarrow> string \<Rightarrow> grid \<Rightarrow> grid \<times> unit res" where
  "load_zarr env f g =
     (case ge_zarr env f of
        Inl msg \<Rightarrow> (g, Inl (OSError (''Failed to open Zarr file: '' @ f @ '' '' @ msg)))
      | Inr za \<Rightarrow>
          (let a = za_attrs za in
           case rbind (rbind (dget a ''ncols'') cint) (\<lambda>ncols. rbind (rbind (dget a ''nrows'') cint) (\<lambda>nrows.
                rbind (attr_elem a ''top_l'' 0) (\<lambda>xl. rbind (attr_elem a ''top_r'' 0) (\<lambda>xr.
                rbind (attr_elem a ''bottom_l'' 1) (\<lambda>yb. rbind (attr_elem a ''top_l'' 1) (\<lambda>yt.
                rbind (rbind (dget a ''binsize'') as_number) (\<lambda>bin.
                  set_axes env xl xr ncols yb yt nrows bin g))))))) of
             Inl e \<Rightarrow> (g, Inl e)
           | Inr g1 \<Rightarrow>
               (let g2 = g1\<lparr>g_z := Rows (za_rows za)\<rparr> in
                case ge_zarr env (py_replace ''.zarr'' ''_flipped.zarr'' f) of
                  Inl msg \<Rightarrow> (g2, Inl (OSError (''Failed to open Zarr file: '' @ f @ '' '' @ msg)))
                | Inr zf \<Rightarrow> (g2\<lparr>g_zflip := Rows (za_rows zf)\<rparr>, Inr ()))))"

text \<open>The values of a GeoTIFF, in a shared-memory segment if asked for: an existing one is attached to,
  otherwise one is created and filled.\<close>

definition read_image :: "grid_env \<Rightarrow> grid_class \<Rightarrow> string \<Rightarrow> fl list list res" where
  "read_image env gc f =
     rbind (ge_imread env f) (\<lambda>im. of_option (TypeError (gc_word gc @ '' image type not supported'')) im)"

definition geotiff_values ::
  "grid_env \<Rightarrow> grid_class \<Rightarrow> string \<Rightarrow> int \<Rightarrow> int \<Rightarrow> grid \<Rightarrow> gshm \<Rightarrow> (fl list list \<times> grid \<times> fl list) res" where
  "geotiff_values env gc f nrows ncols g sh =
     (if g_in_shm g then
        (case sh (g_name g) of
           Some seg \<Rightarrow>
             if int (length seg) < nrows * ncols then Inl (TypeError ''buffer is too small for requested array'')
             else Inr (rows_of (nat nrows) (nat ncols) seg,
                       g\<lparr>g_shared_mem := Some (g_name g), g_shared_mem_child := True\<rparr>,
                       drop (nat nrows * nat ncols) seg)
         | None \<Rightarrow>
             rbind (read_image env gc f) (\<lambda>z.
               if concat z = [] then Inl (ValueError ''size must be a positive number different from zero'')
               else Inr (z, g\<lparr>g_shared_mem := Some (g_name g)\<rparr>, [])))
      else rbind (read_image env gc f) (\<lambda>z. Inr (z, g, [])))"

definition load_geotiff :: "grid_env \<Rightarrow> grid_class \<Rightarrow> int \<Rightarrow> string \<Rightarrow> grid \<Rightarrow> gshm \<Rightarrow> (grid \<times> gshm) res" where
  "load_geotiff env gc void f g sh =
     rbind (get_geotiff_extent env f) (\<lambda>(ncols, nrows, top_l, top_r, bottom_l, bin).
     rbind (geotiff_values env gc f nrows ncols g sh) (\<lambda>(z0, g1, rest).
       let z = set_void void z0;
           sh1 = (if g_in_shm g then sh(g_name g \<mapsto> concat z @ rest) else sh)
       in rbind (set_axes env (fst top_l) (fst top_r) ncols (snd bottom_l) (snd top_l) nrows bin (g1\<lparr>g_z := Rows z\<rparr>)) (\<lambda>g2.
            Inr (g2, sh1))))"

text \<open>\<^verbatim>\<open>clean_up\<close>: the creator of a segment removes it, another process only closes its handle. Closing a
  handle the object holds does not fail; a segment that is gone is only logged.\<close>

definition grid_clean_up :: "grid \<Rightarrow> gshm \<Rightarrow> grid \<times> gshm" where
  "grid_clean_up g sh =
     (if g_in_shm g then
        (case g_shared_mem g of
           None \<Rightarrow> (g, sh)
         | Some n \<Rightarrow> if g_shared_mem_child g then (g, sh) else (g, sh(n := None)))
      else if g_zarr_type g then (g\<lparr>g_z := Closed, g_zflip := Closed\<rparr>, sh)
      else (g, sh))"

text \<open>The attributes \<^verbatim>\<open>load\<close> sets from the table, and the directory, before it looks for the file.\<close>

definition set_def :: "grid_def \<Rightarrow> grid \<Rightarrow> grid" where
  "set_def d g = g\<lparr>g_def := Some d, g_reference_year := gd_reference_year d, g_npz_type := gd_npz_type d,
     g_zarr_type := gd_zarr_type d, g_nc_type := gd_nc_type d\<rparr>"

definition grid_file :: "grid_env \<Rightarrow> grid_class \<Rightarrow> grid_def \<Rightarrow> grid \<Rightarrow> string res" where
  "grid_file env gc d g =
     rbind (of_option (KeyError ''CPDATA_DIR'') (ge_environ env ''CPDATA_DIR'')) (\<lambda>base.
       get_filename env gc g (base @ gd_default_dir d) (gd_filename d) (gd_filled_filename d))"

text \<open>Transformers exist once everything else is loaded.\<close>

definition set_transforms :: "grid_def \<Rightarrow> grid \<Rightarrow> grid" where
  "set_transforms d g = g\<lparr>g_crs := Some (gd_crs_bng d)\<rparr>"

section \<open>Queries\<close>

text \<open>\<^verbatim>\<open>get_segment\<close>: the part of the grid nearest to the bounds \<open>((minx, maxx), (miny, maxy))\<close>.\<close>

definition nearest_index :: "grid_env \<Rightarrow> fl \<Rightarrow> fl list \<Rightarrow> nat res" where
  "nearest_index env b axis = rbind (rmapM (npf_sub (ge_mode env) b) axis) (\<lambda>d. np_argmin (map fl_abs d))"

definition index_slice :: "nat \<Rightarrow> nat \<Rightarrow> 'a list \<Rightarrow> 'a list" where
  "index_slice a b xs = take (b - a) (drop a xs)"

definition blank_where_nan :: "fl list list \<Rightarrow> fl list list \<Rightarrow> fl list list" where
  "blank_where_nan z xs = map2 (map2 (\<lambda>v x. if is_nan v then NaN else x)) z xs"

definition flat :: "bool \<Rightarrow> nat \<Rightarrow> fl list list \<Rightarrow> sval" where
  "flat flatten c rows = (if flatten then SF (concat rows) else SF2 c rows)"

definition grid_rows :: "grid_data \<Rightarrow> fl list list res" where
  "grid_rows z = (case z of Rows rows \<Rightarrow> Inr rows
     | Unset \<Rightarrow> Inl (IndexError ''too many indices for array'')
     | Closed \<Rightarrow> Inl (TypeError ''NoneType object is not subscriptable''))"

definition get_segment ::
  "grid_env \<Rightarrow> grid \<Rightarrow> (fl \<times> fl) \<times> (fl \<times> fl) \<Rightarrow> bool \<Rightarrow> bool \<Rightarrow> (sval \<times> sval \<times> sval) res" where
  "get_segment env g bounds grid_xy flatten =
     rbind (nearest_index env (fst (fst bounds)) (g_x g)) (\<lambda>minx_ind.
     rbind (nearest_index env (snd (fst bounds)) (g_x g)) (\<lambda>maxx_ind.
     rbind (nearest_index env (fst (snd bounds)) (g_y g)) (\<lambda>miny_ind.
     rbind (nearest_index env (snd (snd bounds)) (g_y g)) (\<lambda>maxy_ind.
     rbind (grid_rows (g_z g)) (\<lambda>rows.
       let z = map (index_slice minx_ind maxx_ind) (index_slice maxy_ind miny_ind rows);
           x = index_slice minx_ind maxx_ind (g_x g);
           y = index_slice maxy_ind miny_ind (g_y g);
           c = length x
       in if grid_xy then
            (if length z \<noteq> length y \<or> list_ex (\<lambda>r. length r \<noteq> c) z
             then Inl (IndexError ''boolean index did not match indexed array'')
             else Inr (flat flatten c (blank_where_nan z (map (\<lambda>_. x) y)),
                       flat flatten c (blank_where_nan z (map (\<lambda>v. replicate c v) y)), flat flatten c z))
          else Inr (SF x, SF y, flat flatten c z))))))"

text \<open>The indices of the axis around the values from \<open>lo\<close> to \<open>hi\<close>, one further on each side.\<close>

definition axis_window :: "grid_env \<Rightarrow> fl list \<Rightarrow> fl \<Rightarrow> fl \<Rightarrow> int \<times> int" where
  "axis_window env axis lo hi =
     (max (int (ge_searchsorted env axis lo) - 1) 0,
      min (int (ge_searchsorted env axis hi) + 1) (int (length axis) - 1))"

definition window_slice :: "int \<times> int \<Rightarrow> 'a list \<Rightarrow> 'a list" where
  "window_slice w xs = py_slice xs (Some (fst w)) (Some (snd w + 1))"

definition chunked_interpolation ::
  "grid_env \<Rightarrow> grid_data \<Rightarrow> fl list \<Rightarrow> fl list \<Rightarrow> fl list \<Rightarrow> fl list \<Rightarrow> string \<Rightarrow> fl list res" where
  "chunked_interpolation env zflip x y myy xaxis meth =
     (let results = replicate (length x) NaN in
      rbind (np_map2 (\<lambda>a b. \<not> is_nan a \<and> \<not> is_nan b) x y) (\<lambda>valid_mask.
        if \<not> list_ex id valid_mask then Inr results
        else if length valid_mask \<noteq> length x \<or> length valid_mask \<noteq> length y
          then Inl (IndexError ''boolean index did not match indexed array'')
        else
          (let idx = np_where id valid_mask; x_valid = map ((!) x) idx; y_valid = map ((!) y) idx in
           rbind (np_min x_valid) (\<lambda>x_min. rbind (np_max x_valid) (\<lambda>x_max.
           rbind (np_min y_valid) (\<lambda>y_min. rbind (np_max y_valid) (\<lambda>y_max.
             let xw = axis_window env xaxis x_min x_max; yw = axis_window env myy y_min y_max in
             rbind (grid_rows zflip) (\<lambda>rows.
             rbind (ge_rgi env meth (window_slice yw myy) (window_slice xw xaxis)
                      (map (window_slice xw) (window_slice yw rows)) y_valid x_valid) (\<lambda>vals.
               Inr (scatter results idx vals))))))))))"

text \<open>The points in the projection of the grid. An object whose data could not be loaded has no
  transformer.\<close>

definition to_xy :: "grid_env \<Rightarrow> grid \<Rightarrow> fl list \<Rightarrow> fl list \<Rightarrow> bool \<Rightarrow> (fl list \<times> fl list) res" where
  "to_xy env g x y xy_is_latlon =
     (if xy_is_latlon then
        (case g_crs g of
           None \<Rightarrow> Inl (AttributeError ''lonlat_to_xy_transformer'')
         | Some crs \<Rightarrow>
             if length x \<noteq> length y then Inl (RuntimeError ''x, y must be the same size'')
             else let ps = map2 (\<lambda>lon lat. ge_project env crs lon lat) y x in Inr (map fst ps, map snd ps))
      else Inr (x, y))"

definition interp_grid :: "grid_env \<Rightarrow> grid \<Rightarrow> fl list \<Rightarrow> fl list \<Rightarrow> string \<Rightarrow> bool \<Rightarrow> fl list res" where
  "interp_grid env g x0 y0 meth xy_is_latlon =
     rbind (to_xy env g x0 y0 xy_is_latlon) (\<lambda>(x, y).
       let myy = rev (g_y g) in
       if g_zarr_type g then chunked_interpolation env (g_zflip g) x y myy (g_x g) meth
       else
         rbind (case g_z g of Rows rows \<Rightarrow> Inr rows | Unset \<Rightarrow> Inr []
                | Closed \<Rightarrow> Inl (AttributeError ''NoneType object has no attribute copy'')) (\<lambda>rows.
           ge_interpn env meth myy (g_x g) (rev rows) y x))"

section \<open>Interpolation laws\<close>

text \<open>What scipy documents for the methods \<^verbatim>\<open>linear\<close> and \<^verbatim>\<open>nearest\<close> on ascending axes: a point outside the
  grid gives the fill value, any other point a value that depends only on the cell around it (the last
  cell includes its upper edge). \<open>cellf\<close> is that dependence: the two pairs of axis values, the four
  corner values and the point.\<close>

type_synonym cell_fun = "fl \<times> fl \<Rightarrow> fl \<times> fl \<Rightarrow> fl \<times> fl \<Rightarrow> fl \<times> fl \<Rightarrow> fl \<Rightarrow> fl \<Rightarrow> fl"

definition in_axis :: "fl list \<Rightarrow> fl \<Rightarrow> bool" where
  "in_axis xs v \<longleftrightarrow> fl_le (hd xs) v \<and> fl_le v (last xs)"

definition cell_of :: "fl list \<Rightarrow> fl \<Rightarrow> nat" where
  "cell_of xs v = min (length (filter (\<lambda>a. fl_le a v) xs) - 1) (length xs - 2)"

definition grid_value :: "cell_fun \<Rightarrow> fl list \<Rightarrow> fl list \<Rightarrow> fl list list \<Rightarrow> fl \<Rightarrow> fl \<Rightarrow> fl" where
  "grid_value cellf ys xs z y x =
     (if in_axis ys y \<and> in_axis xs x then
        (let i = cell_of ys y; j = cell_of xs x in
         cellf (ys ! i, ys ! Suc i) (xs ! j, xs ! Suc j) (z ! i ! j, z ! i ! Suc j) (z ! Suc i ! j, z ! Suc i ! Suc j) y x)
      else NaN)"

definition regular :: "fl list \<Rightarrow> fl list \<Rightarrow> fl list list \<Rightarrow> bool" where
  "regular ys xs z \<longleftrightarrow> 2 \<le> length ys \<and> 2 \<le> length xs \<and> sorted_wrt fl_lt ys \<and> sorted_wrt fl_lt xs \<and>
     length z = length ys \<and> (\<forall>r\<in>set z. length r = length xs)"

definition nan_or :: "(fl \<Rightarrow> fl \<Rightarrow> fl) \<Rightarrow> fl \<Rightarrow> fl \<Rightarrow> fl" where
  "nan_or f y x = (if y = NaN \<or> x = NaN then NaN else f y x)"

definition interp_laws :: "grid_env \<Rightarrow> (string \<Rightarrow> cell_fun) \<Rightarrow> bool" where
  "interp_laws env cellf \<longleftrightarrow>
     (\<forall>axis v. sorted_wrt fl_lt axis \<longrightarrow> v \<noteq> NaN \<longrightarrow> ge_searchsorted env axis v = length (filter (\<lambda>a. fl_lt a v) axis)) \<and>
     (\<forall>m\<in>{''linear'', ''nearest''}. \<forall>ys xs z py px. regular ys xs z \<longrightarrow> length py = length px \<longrightarrow>
        (NaN \<notin> set py \<longrightarrow> NaN \<notin> set px \<longrightarrow> ge_rgi env m ys xs z py px = Inr (map2 (grid_value (cellf m) ys xs z) py px)) \<and>
        ge_interpn env m ys xs z py px = Inr (map2 (nan_or (grid_value (cellf m) ys xs z)) py px))"

section \<open>Ascending axes\<close>

lemma fl_le_iff: "a \<noteq> NaN \<Longrightarrow> b \<noteq> NaN \<Longrightarrow> fl_le a b \<longleftrightarrow> \<not> fl_lt b a"
  by (cases a; cases b) (auto simp: fl_le_def fl_eq_def)

lemma fl_lt_not_NaN: "fl_lt a b \<Longrightarrow> a \<noteq> NaN \<and> b \<noteq> NaN"
  by (cases a; cases b) auto

lemma ascending_not_NaN:
  assumes "sorted_wrt fl_lt xs" and "2 \<le> length xs" and "k < length xs"
  shows "xs ! k \<noteq> NaN"
proof (cases k)
  case 0
  then show ?thesis using sorted_wrt_nth_less [OF assms(1), of 0 1] assms(2) fl_lt_not_NaN by auto
next
  case (Suc j)
  then show ?thesis using sorted_wrt_nth_less [OF assms(1), of j k] assms(3) fl_lt_not_NaN by auto
qed

lemma filter_prefix:
  assumes "\<And>i j. i < j \<Longrightarrow> j < length xs \<Longrightarrow> Q (xs ! j) \<Longrightarrow> Q (xs ! i)" and "k < length xs"
  shows "Q (xs ! k) \<longleftrightarrow> k < length (filter Q xs)"
  using assms
proof (induction xs arbitrary: k)
  case (Cons x xs)
  have IH: "Q (xs ! k) \<longleftrightarrow> k < length (filter Q xs)" if "k < length xs" for k
    by (rule Cons.IH) (use Cons.prems(1) [of "Suc _" "Suc _"] that in auto)
  show ?case
  proof (cases "Q x")
    case True
    then show ?thesis using IH Cons.prems(2) by (cases k) auto
  next
    case False
    then have none: "\<not> Q (xs ! i)" if "i < length xs" for i using Cons.prems(1) [of 0 "Suc i"] that by auto
    then have "filter Q xs = []" by (auto simp: filter_empty_conv in_set_conv_nth)
    then show ?thesis using False none Cons.prems(2) by (cases k) auto
  qed
qed simp

abbreviation ascending :: "fl list \<Rightarrow> bool" where
  "ascending xs \<equiv> sorted_wrt fl_lt xs \<and> 2 \<le> length xs"

lemma ascending_nth: "ascending xs \<Longrightarrow> i < j \<Longrightarrow> j < length xs \<Longrightarrow> fl_lt (xs ! i) (xs ! j)"
  using sorted_wrt_nth_less by blast

lemma ascending_le_count:
  assumes xs: "ascending xs" and "v \<noteq> NaN" and "k < length xs"
  shows "fl_le (xs ! k) v \<longleftrightarrow> k < length (filter (\<lambda>a. fl_le a v) xs)"
proof (rule filter_prefix [OF _ assms(3)])
  fix i j
  assume ij: "i < j" "j < length xs" "fl_le (xs ! j) v"
  show "fl_le (xs ! i) v"
    using fl_not_lt_trans [of v "xs ! j" "xs ! i"] ascending_nth [OF xs ij(1,2)] ij assms(2) xs
    by (simp add: fl_le_iff ascending_not_NaN fl_lt_asym)
qed

lemma ascending_lt_count:
  assumes xs: "ascending xs" and "k < length xs"
  shows "fl_lt (xs ! k) v \<longleftrightarrow> k < length (filter (\<lambda>a. fl_lt a v) xs)"
proof (rule filter_prefix [OF _ assms(2)])
  fix i j
  assume ij: "i < j" "j < length xs" "fl_lt (xs ! j) v"
  show "fl_lt (xs ! i) v" using fl_lt_trans [OF ascending_nth [OF xs ij(1,2)] ij(3)] .
qed

text \<open>The window of an ascending axis for values from \<open>lo\<close> to \<open>hi\<close> is the part from index \<open>a\<close> to \<open>b\<close>; the
  neighbours of every value between are in it.\<close>

lemma axis_window_bounds:
  assumes env: "interp_laws env cellf" and xs: "ascending xs" and nn: "lo \<noteq> NaN" "hi \<noteq> NaN"
    and le: "\<not> fl_lt hi lo" "\<not> fl_lt (last xs) lo"
  obtains a b where "axis_window env xs lo hi = (int a, int b)" "a < b" "b < length xs"
    "a = 0 \<or> fl_lt (xs ! a) lo" "b = length xs - 1 \<or> fl_lt hi (xs ! b)"
proof -
  define s t where "s = length (filter (\<lambda>a. fl_lt a lo) xs)" and "t = length (filter (\<lambda>a. fl_lt a hi) xs)"
  have ss: "ge_searchsorted env xs lo = s" "ge_searchsorted env xs hi = t"
    using env xs nn by (auto simp: interp_laws_def s_def t_def)
  have s: "fl_lt (xs ! k) lo \<longleftrightarrow> k < s" and t: "fl_lt (xs ! k) hi \<longleftrightarrow> k < t" if "k < length xs" for k
    using ascending_lt_count [OF xs that] by (simp_all add: s_def t_def)
  have last: "last xs = xs ! (length xs - 1)" using xs by (intro last_conv_nth) auto
  have ne: "length xs - 1 < length xs" using xs by linarith
  have "\<not> length xs - 1 < s" using s [OF ne] le(2) last by simp
  then have s_le: "s < length xs" using ne by linarith
  have "s \<le> t"
  proof (rule ccontr)
    assume "\<not> s \<le> t"
    then have t': "t < length xs" "fl_lt (xs ! t) lo" "\<not> fl_lt (xs ! t) hi" using s t s_le by auto
    then show False using fl_not_lt_trans [of "xs ! t" hi lo] le(1) nn by blast
  qed
  define a b where "a = s - 1" and "b = min (t + 1) (length xs - 1)"
  show ?thesis
  proof (rule that [of a b])
    show "axis_window env xs lo hi = (int a, int b)"
      using xs by (auto simp: axis_window_def ss a_def b_def min_def)
    show "a < b" using \<open>s \<le> t\<close> s_le xs by (auto simp: a_def b_def)
    show "b < length xs" using xs by (auto simp: b_def)
    show "a = 0 \<or> fl_lt (xs ! a) lo" using s [of a] s_le by (auto simp: a_def)
    have "fl_lt hi (xs ! (t + 1))" if "t + 1 < length xs"
    proof -
      have "\<not> fl_lt (xs ! t) hi" "fl_lt (xs ! t) (xs ! (t + 1))" using t [of t] that ascending_nth [OF xs] by auto
      then show ?thesis
        using fl_not_lt_trans [of "xs ! t" hi "xs ! (t + 1)"] nn fl_lt_asym by blast
    qed
    then show "b = length xs - 1 \<or> fl_lt hi (xs ! b)" by (auto simp: b_def min_def)
  qed
qed

lemma window_slice_nat: "a \<le> b \<Longrightarrow> b < length xs \<Longrightarrow> window_slice (int a, int b) xs = take (Suc b - a) (drop a xs)"
  by (simp add: window_slice_def py_slice_def slice_index_def min_def nat_add_distrib Let_def)

text \<open>Inside the window a value lies in the same cell.\<close>

lemma window_cell:
  assumes xs: "ascending xs" and ab: "a < b" "b < length xs"
    and lo: "a = 0 \<or> fl_lt (xs ! a) v" and hi: "b = length xs - 1 \<or> fl_lt v (xs ! b)" and v: "v \<noteq> NaN"
  defines "ys \<equiv> take (Suc b - a) (drop a xs)"
  shows "ascending ys" and "in_axis ys v \<longleftrightarrow> in_axis xs v"
    and "in_axis xs v \<Longrightarrow> cell_of ys v + a = cell_of xs v \<and> Suc (cell_of ys v) < length ys"
proof -
  have len: "length ys = Suc b - a" and nth: "ys ! k = xs ! (a + k)" if "k < length ys" for k
    using ab that by (auto simp: ys_def)
  have len: "length ys = Suc b - a" using ab by (auto simp: ys_def)
  have ys: "ascending ys" using xs ab by (auto simp: ys_def sorted_wrt_take sorted_wrt_drop)
  then show "ascending ys" .
  have hd: "hd xs = xs ! 0" "hd ys = xs ! a" and last: "last xs = xs ! (length xs - 1)" "last ys = xs ! b"
    using xs ys ab len nth [of 0] nth [of "b - a"]
    by (auto simp: hd_conv_nth last_conv_nth simp flip: length_greater_0_conv)
  define c where "c = length (filter (\<lambda>a. fl_le a v) xs)"
  have c: "fl_le (xs ! k) v \<longleftrightarrow> k < c" if "k < length xs" for k
    using ascending_le_count [OF xs v that] by (simp add: c_def)
  have nn: "xs ! k \<noteq> NaN" if "k < length xs" for k using ascending_not_NaN xs that by blast
  have ne: "0 < length xs" using ab by linarith
  have in_xs: "in_axis xs v \<longleftrightarrow> 0 < c \<and> fl_le v (xs ! (length xs - 1))"
    using c [of 0, OF ne] by (simp add: in_axis_def hd last)
  have in_ys: "in_axis ys v \<longleftrightarrow> a < c \<and> fl_le v (xs ! b)"
    using c [of a] ab by (auto simp: in_axis_def hd last)
  have up: "c \<le> b" if "fl_lt v (xs ! b)"
    using c [of b] ab fl_le_not_lt that by auto
  have mono: "fl_le v (xs ! (length xs - 1))" if "fl_lt v (xs ! b)"
    using that ascending_nth [OF xs, of b "length xs - 1"] ab fl_lt_trans
    by (cases "b = length xs - 1") (auto simp: fl_le_def)
  show in_iff: "in_axis ys v \<longleftrightarrow> in_axis xs v"
    unfolding in_xs in_ys using lo hi c [of a] ab mono by (auto simp: fl_le_def)
  assume inx: "in_axis xs v"
  have cy: "k < length (filter (\<lambda>a. fl_le a v) ys) \<longleftrightarrow> a + k < c" if "k < length ys" for k
    using ascending_le_count [OF ys v that] nth [OF that] c [of "a + k"] that len ab by simp
  have "length (filter (\<lambda>a. fl_le a v) ys) = min (c - a) (length ys)" (is "?n = _")
  proof (rule linorder_cases [of ?n "min (c - a) (length ys)"])
    assume "?n < min (c - a) (length ys)" then show ?thesis using cy [of ?n] by auto
  next
    assume "min (c - a) (length ys) < ?n"
    moreover have "?n \<le> length ys" by (rule length_filter_le)
    ultimately have "c - a < ?n" "c - a < length ys" by linarith+
    then show ?thesis using cy [of "c - a"] by linarith
  qed
  moreover obtain c' where "c = Suc (a + c')" using in_iff inx in_ys less_imp_Suc_add by blast
  moreover obtain b' where "b = Suc (a + b')" using less_imp_Suc_add [OF ab(1)] by blast
  moreover obtain n' where "length xs = Suc (b + n')" using less_imp_Suc_add [OF ab(2)] by blast
  moreover have "b = length xs - 1 \<or> c \<le> b" using hi up by blast
  ultimately have eqs: "cell_of ys v = min c' b'" "cell_of xs v = min (a + c') (a + b' + n')" "length ys = Suc (Suc b')"
      "n' = 0 \<or> c' \<le> b'"
    by (simp_all add: cell_of_def len flip: c_def)
  then show "cell_of ys v + a = cell_of xs v \<and> Suc (cell_of ys v) < length ys"
    by (cases "c' \<le> b'") simp_all
qed

lemma window_rows:
  assumes "regular ys xs z" and "i < length ys'" "j < length xs'"
    and "ys' = take (Suc b - a) (drop a ys)" "a < b" "b < length ys"
    and "xs' = take (Suc d - c) (drop c xs)" "c < d" "d < length xs"
  shows "map (\<lambda>r. take (Suc d - c) (drop c r)) (take (Suc b - a) (drop a z)) ! i ! j = z ! (a + i) ! (c + j)"
proof -
  have i: "i < Suc b - a" "a + i < length z" "a \<le> length z" and len: "length (z ! (a + i)) = length xs"
    using assms by (auto simp: regular_def)
  then show ?thesis using assms(2-) by (subst nth_map) (auto simp: nth_drop)
qed

lemma grid_value_window:
  assumes reg: "regular ys xs z" and nn: "y \<noteq> NaN" "x \<noteq> NaN"
    and yw: "a < b" "b < length ys" "a = 0 \<or> fl_lt (ys ! a) y" "b = length ys - 1 \<or> fl_lt y (ys ! b)"
    and xw: "c < d" "d < length xs" "c = 0 \<or> fl_lt (xs ! c) x" "d = length xs - 1 \<or> fl_lt x (xs ! d)"
  shows "grid_value cellf (take (Suc b - a) (drop a ys)) (take (Suc d - c) (drop c xs))
    (map (\<lambda>r. take (Suc d - c) (drop c r)) (take (Suc b - a) (drop a z))) y x = grid_value cellf ys xs z y x"
proof -
  have asc: "ascending ys" "ascending xs" using reg by (auto simp: regular_def)
  define ys' xs' where "ys' = take (Suc b - a) (drop a ys)" and "xs' = take (Suc d - c) (drop c xs)"
  note wy = window_cell [OF asc(1) yw nn(1), folded ys'_def] and wx = window_cell [OF asc(2) xw nn(2), folded xs'_def]
  have nth: "ys' ! k = ys ! (a + k)" if "k < length ys'" for k using yw that by (auto simp: ys'_def)
  have nthx: "xs' ! k = xs ! (c + k)" if "k < length xs'" for k using xw that by (auto simp: xs'_def)
  note rows = window_rows [OF reg _ _ ys'_def yw(1,2) xs'_def xw(1,2)]
  show ?thesis
  proof (cases "in_axis ys y \<and> in_axis xs x")
    case True
    then have "cell_of ys y = a + cell_of ys' y" "Suc (cell_of ys' y) < length ys'"
      "cell_of xs x = c + cell_of xs' x" "Suc (cell_of xs' x) < length xs'" using wy(3) wx(3) by auto
    then show ?thesis
      using True wy(2) wx(2) by (simp add: grid_value_def Let_def rows nth nthx flip: ys'_def xs'_def)
  next
    case False
    then show ?thesis using wy(2) wx(2) by (auto simp: grid_value_def simp flip: ys'_def xs'_def)
  qed
qed

lemma fl_min_ge: "NaN \<notin> set (m # xs) \<Longrightarrow> fl_min m xs \<in> set (m # xs) \<and> (\<forall>y\<in>set (m # xs). \<not> fl_lt y (fl_min m xs))"
proof (induction xs arbitrary: m)
  case (Cons x xs)
  define m' where "m' = (if fl_lt x m then x else m)"
  have nn: "m \<noteq> NaN" "x \<noteq> NaN" "NaN \<notin> set (m' # xs)" using Cons.prems by (auto simp: m'_def)
  have eq: "fl_min m (x # xs) = fl_min m' xs" using nn by (simp add: m'_def)
  have IH: "fl_min m' xs \<in> set (m' # xs)" "\<forall>y\<in>set (m' # xs). \<not> fl_lt y (fl_min m' xs)"
    using Cons.IH [OF nn(3)] by auto
  have "\<not> fl_lt m m'" "\<not> fl_lt x m'" "m' \<noteq> NaN" using nn fl_lt_asym by (auto simp: m'_def)
  then have "\<not> fl_lt m (fl_min m' xs)" "\<not> fl_lt x (fl_min m' xs)"
    using IH(2) fl_not_lt_trans [of _ m' "fl_min m' xs"] by simp_all
  then show ?case using IH unfolding eq by (auto simp: m'_def split: if_splits)
qed (auto dest: fl_lt_asym)

lemma fl_max_not_NaN: "m \<noteq> NaN \<Longrightarrow> NaN \<notin> set xs \<Longrightarrow> fl_max m xs \<noteq> NaN"
  by (induction xs arbitrary: m) auto

text \<open>The least and greatest of valid coordinates bound them all.\<close>

lemma np_min_max:
  assumes "NaN \<notin> set xs" and "xs \<noteq> []"
  obtains lo hi where "np_min xs = Inr lo" "np_max xs = Inr hi" "lo \<in> set xs" "hi \<in> set xs"
    "\<And>v. v \<in> set xs \<Longrightarrow> \<not> fl_lt v lo \<and> \<not> fl_lt hi v"
proof -
  obtain z zs where xs: "xs = z # zs" using assms(2) by (cases xs) auto
  have "fl_max z zs \<noteq> NaN" using fl_max_not_NaN [of z zs] assms(1) by (auto simp: xs)
  then have "np_max xs = Inr (fl_max z zs)" "fl_max z zs \<in> set xs" "\<forall>v\<in>set xs. \<not> fl_lt (fl_max z zs) v"
    using np_max_in [of xs "fl_max z zs"] by (auto simp: np_max_def xs)
  moreover have "np_min xs = Inr (fl_min z zs)" by (simp add: np_min_def xs)
  moreover have "fl_min z zs \<in> set xs" "\<forall>v\<in>set xs. \<not> fl_lt v (fl_min z zs)"
    using fl_min_ge [of z zs] assms(1) by (simp_all add: xs)
  ultimately show ?thesis using that by blast
qed

lemma fl_between: "\<not> fl_lt v lo \<Longrightarrow> fl_lt a lo \<Longrightarrow> v \<noteq> NaN \<Longrightarrow> fl_lt a v"
  by (cases v; cases lo; cases a) auto

lemma fl_between': "\<not> fl_lt hi v \<Longrightarrow> fl_lt hi b \<Longrightarrow> v \<noteq> NaN \<Longrightarrow> fl_lt v b"
  by (cases v; cases hi; cases b) auto

text \<open>Interpolation on the window of all points gives the same values as on the whole grid.\<close>

lemma rgi_window:
  assumes env: "interp_laws env cellf" and meth: "meth \<in> {''linear'', ''nearest''}" and reg: "regular ys xs z"
    and len: "length py = length px" and nn: "NaN \<notin> set py" "NaN \<notin> set px"
    and ylo: "yl \<in> set py" "\<And>v. v \<in> set py \<Longrightarrow> \<not> fl_lt v yl \<and> \<not> fl_lt yh v" "yh \<in> set py" "\<not> fl_lt (last ys) yl"
    and xlo: "xl \<in> set px" "\<And>v. v \<in> set px \<Longrightarrow> \<not> fl_lt v xl \<and> \<not> fl_lt xh v" "xh \<in> set px" "\<not> fl_lt (last xs) xl"
  defines "yw \<equiv> axis_window env ys yl yh" and "xw \<equiv> axis_window env xs xl xh"
  shows "ge_rgi env meth (window_slice yw ys) (window_slice xw xs) (map (window_slice xw) (window_slice yw z)) py px =
    Inr (map2 (grid_value (cellf meth) ys xs z) py px)"
proof -
  have asc: "ascending ys" "ascending xs" using reg by (auto simp: regular_def)
  obtain a b where ab: "yw = (int a, int b)" "a < b" "b < length ys" "a = 0 \<or> fl_lt (ys ! a) yl"
      "b = length ys - 1 \<or> fl_lt yh (ys ! b)"
    using axis_window_bounds [OF env asc(1), of yl yh] ylo nn unfolding yw_def by metis
  obtain c d where cd: "xw = (int c, int d)" "c < d" "d < length xs" "c = 0 \<or> fl_lt (xs ! c) xl"
      "d = length xs - 1 \<or> fl_lt xh (xs ! d)"
    using axis_window_bounds [OF env asc(2), of xl xh] xlo nn unfolding xw_def by metis
  let ?ys = "take (Suc b - a) (drop a ys)" and ?xs = "take (Suc d - c) (drop c xs)"
  let ?z = "map (\<lambda>r. take (Suc d - c) (drop c r)) (take (Suc b - a) (drop a z))"
  have rows: "window_slice xw r = take (Suc d - c) (drop c r)" if "r \<in> set z" for r
    using window_slice_nat [of c d r] cd(1-3) reg that by (simp add: regular_def)
  have z: "window_slice yw z = take (Suc b - a) (drop a z)"
    using window_slice_nat [of a b z] ab(1-3) reg by (simp add: regular_def)
  have slices: "window_slice yw ys = ?ys" "window_slice xw xs = ?xs" "map (window_slice xw) (window_slice yw z) = ?z"
    using window_slice_nat [of a b ys] window_slice_nat [of c d xs] ab(1-3) cd(1-3)
    unfolding z by (auto intro: rows [unfolded cd(1)] dest!: in_set_takeD in_set_dropD)
  have "regular ?ys ?xs ?z"
    using reg ab cd by (auto simp: regular_def sorted_wrt_take sorted_wrt_drop dest!: in_set_takeD in_set_dropD)
  then have "ge_rgi env meth ?ys ?xs ?z py px = Inr (map2 (grid_value (cellf meth) ?ys ?xs ?z) py px)"
    using env meth len nn unfolding interp_laws_def by blast
  moreover have "grid_value (cellf meth) ?ys ?xs ?z y x = grid_value (cellf meth) ys xs z y x"
    if "y \<in> set py" "x \<in> set px" for y x
  proof -
    have ny: "y \<noteq> NaN" and nx: "x \<noteq> NaN" using that nn by auto
    have "a = 0 \<or> fl_lt (ys ! a) y" "b = length ys - 1 \<or> fl_lt y (ys ! b)"
      using ab(4,5) ylo(2) [OF that(1)] fl_between [OF _ _ ny] fl_between' [OF _ _ ny] by blast+
    moreover have "c = 0 \<or> fl_lt (xs ! c) x" "d = length xs - 1 \<or> fl_lt x (xs ! d)"
      using cd(4,5) xlo(2) [OF that(2)] fl_between [OF _ _ nx] fl_between' [OF _ _ nx] by blast+
    ultimately show ?thesis using grid_value_window [OF reg ny nx ab(2,3) _ _ cd(2,3)] by blast
  qed
  ultimately show ?thesis unfolding slices by (auto simp: set_zip intro!: arg_cong [of _ _ Inr] map_cong)
qed

lemma chunked_whole:
  assumes env: "interp_laws env cellf" and meth: "meth \<in> {''linear'', ''nearest''}" and reg: "regular ys xs z"
    and len: "length x = length y"
    and i: "i < length x" "x ! i \<noteq> NaN" "y ! i \<noteq> NaN" "\<not> fl_lt (last xs) (x ! i)"
    and j: "j < length x" "x ! j \<noteq> NaN" "y ! j \<noteq> NaN" "\<not> fl_lt (last ys) (y ! j)"
  shows "chunked_interpolation env (Rows z) x y ys xs meth = Inr (map2 (nan_or (grid_value (cellf meth) ys xs z)) y x)"
proof -
  let ?ok = "\<lambda>k. x ! k \<noteq> NaN \<and> y ! k \<noteq> NaN" and ?f = "grid_value (cellf meth) ys xs z"
  define mask where "mask = map2 (\<lambda>a b. \<not> is_nan a \<and> \<not> is_nan b) x y"
  define idx where "idx = np_where id mask"
  have mask: "length mask = length x" "mask ! k = ?ok k" if "k < length x" for k
    using len that by (auto simp: mask_def is_nan_def)
  have lenm: "length mask = length x" using len by (simp add: mask_def)
  have idx: "set idx = {k. k < length x \<and> ?ok k}" "distinct idx"
    unfolding idx_def set_np_where using mask lenm by (auto simp: np_where_def)
  have any: "list_ex id mask" using i mask lenm by (auto simp: list_ex_length)
  let ?px = "map ((!) x) idx" and ?py = "map ((!) y) idx"
  have "?ok k" if "k \<in> set idx" for k using that idx(1) by blast
  then have nn: "NaN \<notin> set ?px" "NaN \<notin> set ?py" by (metis (no_types) imageE list.set_map)+
  have ij: "i \<in> set idx" "j \<in> set idx" using idx(1) i j by blast+
  then have ne: "?px \<noteq> []" "?py \<noteq> []" by auto
  obtain xl xh where xm: "np_min ?px = Inr xl" "np_max ?px = Inr xh" "xl \<in> set ?px" "xh \<in> set ?px"
      "\<And>v. v \<in> set ?px \<Longrightarrow> \<not> fl_lt v xl \<and> \<not> fl_lt xh v" using np_min_max [OF nn(1) ne(1)] by blast
  obtain yl yh where ym: "np_min ?py = Inr yl" "np_max ?py = Inr yh" "yl \<in> set ?py" "yh \<in> set ?py"
      "\<And>v. v \<in> set ?py \<Longrightarrow> \<not> fl_lt v yl \<and> \<not> fl_lt yh v" using np_min_max [OF nn(2) ne(2)] by blast
  have "\<not> fl_lt (last xs) xl" "\<not> fl_lt (last ys) yl"
    using fl_not_lt_trans [of "last xs" "x ! i" xl] fl_not_lt_trans [of "last ys" "y ! j" yl] xm(5) [of "x ! i"]
      ym(5) [of "y ! j"] i(2,4) j(3,4) ij by auto
  then have "ge_rgi env meth (window_slice (axis_window env ys yl yh) ys) (window_slice (axis_window env xs xl xh) xs)
      (map (window_slice (axis_window env xs xl xh)) (window_slice (axis_window env ys yl yh) z)) ?py ?px =
      Inr (map2 ?f ?py ?px)"
    using rgi_window [OF env meth reg _ nn(2,1) ym(3,5,4) _ xm(3,5,4)] by simp
  then have "chunked_interpolation env (Rows z) x y ys xs meth =
      Inr (scatter (replicate (length x) NaN) idx (map (\<lambda>k. ?f (y ! k) (x ! k)) idx))"
    using any len lenm xm(1,2) ym(1,2)
    by (simp add: chunked_interpolation_def mask_def [symmetric] idx_def [symmetric] Let_def grid_rows_def zip_map_map comp_def
      flip: map_zip_map2) (simp add: zip_same_conv_map comp_def)
  also have "scatter (replicate (length x) NaN) idx (map (\<lambda>k. ?f (y ! k) (x ! k)) idx) = map2 (nan_or ?f) y x"
    using len idx by (intro nth_equalityI) (auto simp: nth_scatter_map nan_or_def)
  finally show ?thesis .
qed

text \<open>The whole query: a zarr grid answers like the grid held in memory.\<close>

lemma interp_grid_whole:
  assumes env: "interp_laws env cellf" and meth: "meth \<in> {''linear'', ''nearest''}"
    and grid: "regular (rev (g_y g)) (g_x g) z" "g_zflip g = Rows z"
    and xy: "to_xy env g x0 y0 ll = Inr (x, y)" "length x = length y"
    and i: "i < length x" "x ! i \<noteq> NaN" "y ! i \<noteq> NaN" "\<not> fl_lt (last (g_x g)) (x ! i)"
    and j: "j < length x" "x ! j \<noteq> NaN" "y ! j \<noteq> NaN" "\<not> fl_lt (last (rev (g_y g))) (y ! j)"
  shows "interp_grid env (g\<lparr>g_zarr_type := True\<rparr>) x0 y0 meth ll =
      Inr (map2 (nan_or (grid_value (cellf meth) (rev (g_y g)) (g_x g) z)) y x)"
    and "interp_grid env (g\<lparr>g_zarr_type := False, g_z := Rows (rev z)\<rparr>) x0 y0 meth ll =
      Inr (map2 (nan_or (grid_value (cellf meth) (rev (g_y g)) (g_x g) z)) y x)"
proof -
  have xy': "to_xy env (g\<lparr>g_zarr_type := b, g_z := u\<rparr>) x0 y0 ll = Inr (x, y)"
    "to_xy env (g\<lparr>g_zarr_type := b\<rparr>) x0 y0 ll = Inr (x, y)" for b u using xy(1) by (auto simp: to_xy_def)
  show "interp_grid env (g\<lparr>g_zarr_type := True\<rparr>) x0 y0 meth ll =
      Inr (map2 (nan_or (grid_value (cellf meth) (rev (g_y g)) (g_x g) z)) y x)"
    using chunked_whole [OF env meth grid(1) xy(2) i j] by (simp add: interp_grid_def xy' grid(2))
  have "ge_interpn env meth (rev (g_y g)) (g_x g) z y x =
      Inr (map2 (nan_or (grid_value (cellf meth) (rev (g_y g)) (g_x g) z)) y x)"
    using env meth grid(1) xy(2) unfolding interp_laws_def by auto
  then show "interp_grid env (g\<lparr>g_zarr_type := False, g_z := Rows (rev z)\<rparr>) x0 y0 meth ll =
      Inr (map2 (nan_or (grid_value (cellf meth) (rev (g_y g)) (g_x g) z)) y x)"
    by (simp add: interp_grid_def xy')
qed

section \<open>Void values\<close>

lemma void_cells_iff:
  "(i, j) \<in> set (void_cells v z) \<longleftrightarrow> i < length z \<and> j < length (z ! i) \<and> fl_eq (z ! i ! j) (of_intf v)"
  by (auto simp: void_cells_def set_np_where)

text \<open>Every cell but the first one is cleared of the void value; the first one only if there is another.\<close>

lemma set_void_cell:
  assumes "v \<noteq> 0" and "i < length z" "j < length (z ! i)"
  shows "set_void v z ! i ! j =
    (if fl_eq (z ! i ! j) (of_intf v) \<and> (\<exists>i j. i < length z \<and> j < length (z ! i) \<and> (i, j) \<noteq> (0, 0) \<and> fl_eq (z ! i ! j) (of_intf v))
     then NaN else z ! i ! j)"
proof (cases "\<exists>p\<in>set (void_cells v z). fst p \<noteq> 0 \<or> snd p \<noteq> 0")
  case True
  then obtain i' j' where "i' < length z" "j' < length (z ! i')" "(i', j') \<noteq> (0, 0)" "fl_eq (z ! i' ! j') (of_intf v)"
    by (auto simp: void_cells_iff)
  then show ?thesis using True assms by (auto simp: set_void_def)
next
  case False
  then have "\<not> (\<exists>i j. i < length z \<and> j < length (z ! i) \<and> (i, j) \<noteq> (0, 0) \<and> fl_eq (z ! i ! j) (of_intf v))"
    using void_cells_iff [of _ _ v z] by (metis fst_conv snd_conv)
  then show ?thesis using False by (auto simp: set_void_def)
qed

lemma set_void_shape: "length (set_void v z) = length z" "i < length z \<Longrightarrow> length (set_void v z ! i) = length (z ! i)"
  by (auto simp: set_void_def)

section \<open>Shared memory\<close>

text \<open>What the users of a gridded data set rely on: creating it touches no segment but its own, the
  process that created the segment removes it again, and another process leaves it to its creator.\<close>

locale grid_resource =
  fixes create :: "gshm \<Rightarrow> (grid \<times> gshm) res" and name :: string
  assumes others: "create sh = Inr (g, sh') \<Longrightarrow> n \<noteq> name \<Longrightarrow> sh' n = sh n"
    and shared: "create sh = Inr (g, sh') \<Longrightarrow> g_in_shm g \<Longrightarrow> g_shared_mem g \<noteq> None \<Longrightarrow>
      g_shared_mem g = Some name \<and> (g_shared_mem_child g \<longleftrightarrow> sh name \<noteq> None)"
    and unshared: "create sh = Inr (g, sh') \<Longrightarrow> \<not> (g_in_shm g \<and> g_shared_mem g \<noteq> None) \<Longrightarrow> sh' = sh"
    and kept: "create sh = Inr (g, sh') \<Longrightarrow> sh name \<noteq> None \<Longrightarrow> sh' name \<noteq> None"
begin

lemma creator_restores:
  assumes "create sh = Inr (g, sh')" and "sh name = None"
  shows "snd (grid_clean_up g sh') = sh"
proof (cases "g_in_shm g \<and> g_shared_mem g \<noteq> None")
  case True
  then have "g_shared_mem g = Some name" "\<not> g_shared_mem_child g" using shared [OF assms(1)] assms(2) by auto
  moreover have "sh'(name := None) = sh" using others [OF assms(1)] assms(2) by auto
  ultimately show ?thesis using True by (simp add: grid_clean_up_def)
next
  case False
  then show ?thesis using unshared [OF assms(1)] by (auto simp: grid_clean_up_def split: option.splits)
qed

lemma user_keeps:
  assumes "create sh = Inr (g, sh')" and "sh name \<noteq> None"
  shows "snd (grid_clean_up g sh') = sh' \<and> sh' name \<noteq> None"
  using shared [OF assms(1)] assms(2) kept [OF assms]
  by (cases "g_in_shm g \<and> g_shared_mem g \<noteq> None") (auto simp: grid_clean_up_def split: option.splits)

end

text \<open>The laws follow from how a constructor uses its segment.\<close>

definition shm_use :: "string \<Rightarrow> bool \<Rightarrow> gshm \<Rightarrow> grid \<Rightarrow> gshm \<Rightarrow> bool" where
  "shm_use name shm sh g sh' \<longleftrightarrow> g_in_shm g = shm \<and> (\<forall>n. n \<noteq> name \<longrightarrow> sh' n = sh n) \<and>
     (case g_shared_mem g of None \<Rightarrow> sh' = sh
      | Some m \<Rightarrow> m = name \<and> shm \<and> (g_shared_mem_child g \<longleftrightarrow> sh name \<noteq> None) \<and> sh' name \<noteq> None)"

lemma grid_resourceI:
  assumes "\<And>sh g sh'. create sh = Inr (g, sh') \<Longrightarrow> shm_use name shm sh g sh'"
  shows "grid_resource create name"
  by unfold_locales (auto dest!: assms simp: shm_use_def split: option.splits)

lemma shm_use_same: "g_shared_mem g = None \<Longrightarrow> shm_use name (g_in_shm g) sh g sh"
  by (simp add: shm_use_def)

lemma shm_use_set_transforms [simp]: "shm_use name shm sh (set_transforms d g) sh' \<longleftrightarrow> shm_use name shm sh g sh'"
  by (simp add: shm_use_def set_transforms_def split: option.split)

lemma shm_use_set_def: "shm_use name shm sh (set_def d (blank_grid name filled cfg dir shm)) sh"
  by (simp add: shm_use_def set_def_def blank_grid_def)

lemma set_def_blank [simp]: "g_name (set_def d (blank_grid name filled cfg dir shm)) = name"
  "g_in_shm (set_def d (blank_grid name filled cfg dir shm)) = shm"
  "g_shared_mem (set_def d (blank_grid name filled cfg dir shm)) = None"
  "\<not> g_shared_mem_child (set_def d (blank_grid name filled cfg dir shm))"
  by (simp_all add: set_def_def blank_grid_def)

lemma set_axes_shm:
  assumes "set_axes env a b n c d m bin g = Inr g'"
  shows "g_in_shm g' = g_in_shm g \<and> g_shared_mem g' = g_shared_mem g \<and> g_shared_mem_child g' = g_shared_mem_child g"
  using assms by (auto simp: set_axes_def rbind_eq_Inr)

lemma load_zarr_shm:
  assumes "load_zarr env f g = (g', r)" and "g_shared_mem g = None"
  shows "shm_use name (g_in_shm g) sh g' sh"
proof -
  have "g_in_shm g' = g_in_shm g \<and> g_shared_mem g' = g_shared_mem g"
    using assms(1) by (auto simp: load_zarr_def rbind_eq_Inr Let_def split: sum.splits dest: set_axes_shm)
  then show ?thesis using assms(2) by (simp add: shm_use_def)
qed

lemma load_npz_shm:
  assumes "load_npz env gc f g = Inr g'" and "g_shared_mem g = None"
  shows "shm_use name (g_in_shm g) sh g' sh"
  using assms by (auto simp: load_npz_def rbind_eq_Inr shm_use_def)

text \<open>A GeoTIFF is the only format that uses shared memory.\<close>

lemma geotiff_values_shm:
  assumes "geotiff_values env gc f nrows ncols g sh = Inr (z, g1, rest)" and "g_shared_mem g = None" "\<not> g_shared_mem_child g"
  shows "g_in_shm g1 = g_in_shm g \<and> (if g_in_shm g then g_shared_mem g1 = Some (g_name g) \<and>
    (g_shared_mem_child g1 \<longleftrightarrow> sh (g_name g) \<noteq> None) else g_shared_mem g1 = None)"
  using assms by (auto simp: geotiff_values_def rbind_eq_Inr split: if_splits option.splits)

lemma load_geotiff_shm:
  assumes load: "load_geotiff env gc void f g sh = Inr (g', sh')" and g: "g_shared_mem g = None" "\<not> g_shared_mem_child g"
  shows "shm_use (g_name g) (g_in_shm g) sh g' sh'"
proof -
  obtain nrows ncols z g1 rest xl xr yb yt bin where
    vals: "geotiff_values env gc f nrows ncols g sh = Inr (z, g1, rest)" and
    axes: "set_axes env xl xr ncols yb yt nrows bin (g1\<lparr>g_z := Rows (set_void void z)\<rparr>) = Inr g'" and
    sh': "sh' = (if g_in_shm g then sh(g_name g \<mapsto> concat (set_void void z) @ rest) else sh)"
    using load by (simp only: load_geotiff_def Let_def rbind_eq_Inr split_paired_Ex prod.case sum.inject prod.inject) blast
  show ?thesis using geotiff_values_shm [OF vals g] set_axes_shm [OF axes] by (simp add: shm_use_def sh')
qed

section \<open>Results of loading\<close>

lemma load_zarr_ok:
  assumes "load_zarr env f g0 = (g, Inr ())"
  obtains za zf where "ge_zarr env f = Inr za" "ge_zarr env (py_replace ''.zarr'' ''_flipped.zarr'' f) = Inr zf"
    "g_z g = Rows (za_rows za)" "g_zflip g = Rows (za_rows zf)" "g_zarr_type g = g_zarr_type g0"
  using assms by (auto simp: load_zarr_def Let_def set_axes_def rbind_eq_Inr split: sum.splits)

lemma load_geotiff_ok:
  assumes "load_geotiff env gc void f g sh = Inr (g', sh')"
  obtains z0 where "g_z g' = Rows (set_void void z0)"
  using assms by (auto simp: load_geotiff_def Let_def set_axes_def rbind_eq_Inr)

section \<open>A concrete environment\<close>

text \<open>Used by the witnesses: files with three rows and columns, exact \<^verbatim>\<open>linspace\<close>, and interpolators that take
  the corner of the cell.\<close>

definition wit_cell :: cell_fun where
  "wit_cell ys xs low high y x = fst low"

definition wit_linspace :: "fl \<Rightarrow> fl \<Rightarrow> int \<Rightarrow> fl list res" where
  "wit_linspace a b n = (case (a, b) of
     (Fin p, Fin q) \<Rightarrow> Inr (map (\<lambda>k. Fin (p + (q - p) * of_nat k / of_int (n - 1))) [0..<nat n]) | _ \<Rightarrow> Inr [])"

definition wit_rows :: "fl list list" where
  "wit_rows = [[Fin 1, Fin 2, Fin 3], [Fin 4, Fin 5, Fin 6], [Fin 7, Fin 8, Fin 9]]"

definition wit_attrs :: config where
  "wit_attrs = [(''ncols'', CInt 3), (''nrows'', CInt 3), (''top_l'', CList [CInt 0, CInt 20]),
     (''top_r'', CList [CInt 20, CInt 20]), (''bottom_l'', CList [CInt 0, CInt 0]), (''binsize'', CInt 10)]"

definition wit_tiff :: geotiff where
  "wit_tiff = \<lparr>gt_width = 3, gt_height = 3, gt_at = (\<lambda>c r. (Fin (10 * of_int c), Fin (10 * of_int (3 - r)))), gt_transform0 = Fin 10,
     gt_transform4 = Fin (- 10)\<rparr>"

definition wit_genv :: grid_env where
  "wit_genv = \<lparr>ge_mode = seterr_default, ge_environ = (\<lambda>v. Some ''/data''), ge_isdir = (\<lambda>p. True), ge_isfile = (\<lambda>p. True),
     ge_rasterio = (\<lambda>f. Inr wit_tiff),
     ge_imread = (\<lambda>f. Inr (Some [[Fin (- 9999), Fin 2, Fin 3], [Fin 4, Fin (- 9999), Fin 6], [Fin 7, Fin 8, Fin 9]])),
     ge_zarr = (\<lambda>f. Inr \<lparr>za_attrs = wit_attrs, za_rows = if py_in ''_flipped'' f then rev wit_rows else wit_rows\<rparr>),
     ge_npz = (\<lambda>f. Inl (FileNotFoundError f)), ge_dataset = (\<lambda>f. Inl (FileNotFoundError f)), ge_linspace = wit_linspace,
     ge_searchsorted = (\<lambda>axis v. length (filter (\<lambda>a. fl_lt a v) axis)), ge_project = (\<lambda>crs lon lat. (lon, lat)),
     ge_rgi = (\<lambda>m ys xs z py px. Inr (map2 (grid_value wit_cell ys xs z) py px)),
     ge_interpn = (\<lambda>m ys xs z py px. Inr (map2 (nan_or (grid_value wit_cell ys xs z)) py px))\<rparr>"

lemma wit_genv_laws: "interp_laws wit_genv (\<lambda>m. wit_cell)"
  by (simp add: interp_laws_def wit_genv_def)

end
