(* ===== verification/Dems.thy ===== *)
theory Dems
  imports Grids
begin

text \<open>
  \<^verbatim>\<open>utils/dems/dems.py\<close>: digital elevation models. The table of supported models, the construction of
  a \<^verbatim>\<open>Dem\<close> and its query \<^verbatim>\<open>interp_dem\<close>, over the operations of \<open>Grids\<close>. Every grid is of type float32.
\<close>

section \<open>The table of elevation models\<close>

definition dem_list :: "string list" where
  "dem_list =
    [''awi_ant_1km'',
     ''awi_grn_1km'',
     ''awi_ant_1km_grounded'',
     ''awi_ant_1km_floating'',
     ''rema_ant_1km'',
     ''rema_ant_1km_zarr'',
     ''rema_ant_1km_v2'',
     ''rema_ant_1km_v2_zarr'',
     ''rema_ant_200m'',
     ''rema_ant_200m_zarr'',
     ''rema_gapless_100m'',
     ''rema_gapless_100m_zarr'',
     ''rema_gapless_1km'',
     ''rema_gapless_1km_zarr'',
     ''arcticdem_1km'',
     ''arcticdem_1km_zarr'',
     ''arcticdem_1km_v4.1'',
     ''arcticdem_1km_greenland_v4.1'',
     ''arcticdem_1km_greenland_v4.1_zarr'',
     ''arcticdem_100m_greenland'',
     ''arcticdem_100m_greenland_v4.1'',
     ''arcticdem_100m_greenland_v4.1_zarr'']"

definition awi_ant_1km :: grid_def where
  "awi_ant_1km =
    \<lparr>gd_filename = ''DEM_ANT_CS_20130901.tif'',
     gd_filled_filename = ''DEM_ANT_CS_20130901.tif'',
     gd_default_dir = ''/SATS/RA/DEMS/ant_awi_2013_dem'',
     gd_src_url = ''http://data.pgc.umn.edu/elev/dem/setsm/REMA/mosaic/v1.1/1km/REMA_1km_dem.tif'',
     gd_src_url_filled = ''http://data.pgc.umn.edu/elev/dem/setsm/REMA/mosaic/v1.1/1km/REMA_1km_dem_filled.tif'',
     gd_version = ''1.0'', gd_src_institute = ''AWI'',
     gd_long_name = ''AWI Antarctic DEM (2013)'',
     gd_crs_bng = 3031, gd_southern_hemisphere = True,
     gd_void_value = - 9999, gd_reference_year = 0,
     gd_npz_type = False, gd_zarr_type = False, gd_nc_type = False\<rparr>"

definition awi_ant_1km_grounded :: grid_def where
  "awi_ant_1km_grounded =
    \<lparr>gd_filename = ''ant_awi_2013_dem_grounded.npz'',
     gd_filled_filename = ''ant_awi_2013_dem_grounded.npz'',
     gd_default_dir = ''/SATS/RA/DEMS/ant_awi_2013_dem'',
     gd_src_url = [],
     gd_src_url_filled = [],
     gd_version = ''1.0'', gd_src_institute = ''AWI'',
     gd_long_name = ''AWI Antarctic DEM (2013), Grounded Ice only'',
     gd_crs_bng = 3031, gd_southern_hemisphere = True,
     gd_void_value = - 9999, gd_reference_year = 0,
     gd_npz_type = True, gd_zarr_type = False, gd_nc_type = False\<rparr>"

definition awi_ant_1km_floating :: grid_def where
  "awi_ant_1km_floating =
    \<lparr>gd_filename = ''ant_awi_2013_dem_floating.npz'',
     gd_filled_filename = ''ant_awi_2013_dem_floating.npz'',
     gd_default_dir = ''/SATS/RA/DEMS/ant_awi_2013_dem'',
     gd_src_url = [],
     gd_src_url_filled = [],
     gd_version = ''1.0'', gd_src_institute = ''AWI'',
     gd_long_name = ''AWI Antarctic DEM (2013), Floating Ice only'',
     gd_crs_bng = 3031, gd_southern_hemisphere = True,
     gd_void_value = - 9999, gd_reference_year = 0,
     gd_npz_type = True, gd_zarr_type = False, gd_nc_type = False\<rparr>"

definition awi_grn_1km :: grid_def where
  "awi_grn_1km =
    \<lparr>gd_filename = ''DEM_GRE_CS_20130826.tif'',
     gd_filled_filename = ''DEM_GRE_CS_20130826.tif'',
     gd_default_dir = ''/SATS/RA/DEMS/grn_awi_2013_dem'',
     gd_src_url = [],
     gd_src_url_filled = [],
     gd_version = ''1.0'', gd_src_institute = ''AWI'',
     gd_long_name = ''AWI Greenlabd DEM (2013)'',
     gd_crs_bng = 3413, gd_southern_hemisphere = False,
     gd_void_value = - 9999, gd_reference_year = 0,
     gd_npz_type = False, gd_zarr_type = False, gd_nc_type = False\<rparr>"

definition arcticdem_1km :: grid_def where
  "arcticdem_1km =
    \<lparr>gd_filename = ''arcticdem_mosaic_1km_v3.0.tif'',
     gd_filled_filename = [],
     gd_default_dir = ''/SATS/RA/DEMS/arctic_dem_1km'',
     gd_src_url = ''http://data.pgc.umn.edu/elev/dem/setsm/ArcticDEM/mosaic/v3.0/1km/arcticdem_mosaic_1km_v3.0.tif'',
     gd_src_url_filled = [],
     gd_version = ''3.0'', gd_src_institute = ''PGC'',
     gd_long_name = ''ArcticDEM 1km'',
     gd_crs_bng = 3413, gd_southern_hemisphere = False,
     gd_void_value = - 9999, gd_reference_year = 2010,
     gd_npz_type = False, gd_zarr_type = False, gd_nc_type = False\<rparr>"

definition arcticdem_1km_zarr :: grid_def where
  "arcticdem_1km_zarr =
    \<lparr>gd_filename = ''arcticdem_mosaic_1km_v3.0.zarr'',
     gd_filled_filename = [],
     gd_default_dir = ''/SATS/RA/DEMS/arctic_dem_1km'',
     gd_src_url = ''http://data.pgc.umn.edu/elev/dem/setsm/ArcticDEM/mosaic/v3.0/1km/arcticdem_mosaic_1km_v3.0.tif'',
     gd_src_url_filled = [],
     gd_version = ''3.0'', gd_src_institute = ''PGC'',
     gd_long_name = ''ArcticDEM 1km'',
     gd_crs_bng = 3413, gd_southern_hemisphere = False,
     gd_void_value = - 9999, gd_reference_year = 2010,
     gd_npz_type = False, gd_zarr_type = True, gd_nc_type = False\<rparr>"

definition arcticdem_1km_v4_1 :: grid_def where
  "arcticdem_1km_v4_1 =
    \<lparr>gd_filename = ''arcticdem_mosaic_1km_v4.1_dem.tif'',
     gd_filled_filename = ''arcticdem_mosaic_1km_v4.1_dem.tif'',
     gd_default_dir = ''/SATS/RA/DEMS/arctic_dem_1km_v4.1'',
     gd_src_url = ''https://data.pgc.umn.edu/elev/dem/setsm/ArcticDEM/mosaic/latest/1km/arcticdem_mosaic_1km_v4.1_dem.tif'',
     gd_src_url_filled = [],
     gd_version = ''4.1'', gd_src_institute = ''PGC'',
     gd_long_name = ''ArcticDEM 1km (4.1)'',
     gd_crs_bng = 3413, gd_southern_hemisphere = False,
     gd_void_value = - 9999, gd_reference_year = 2010,
     gd_npz_type = False, gd_zarr_type = False, gd_nc_type = False\<rparr>"

definition rema_ant_1km :: grid_def where
  "rema_ant_1km =
    \<lparr>gd_filename = ''REMA_1km_dem.tif'',
     gd_filled_filename = ''REMA_1km_dem_filled.tif'',
     gd_default_dir = ''/SATS/RA/DEMS/rema_1km_dem'',
     gd_src_url = ''http://data.pgc.umn.edu/elev/dem/setsm/REMA/mosaic/v1.1/1km/REMA_1km_dem.tif'',
     gd_src_url_filled = ''http://data.pgc.umn.edu/elev/dem/setsm/REMA/mosaic/v1.1/1km/REMA_1km_dem_filled.tif'',
     gd_version = ''1.1'', gd_src_institute = ''PGC'',
     gd_long_name = ''REMA'',
     gd_crs_bng = 3031, gd_southern_hemisphere = True,
     gd_void_value = - 9999, gd_reference_year = 2010,
     gd_npz_type = False, gd_zarr_type = False, gd_nc_type = False\<rparr>"

definition rema_ant_1km_zarr :: grid_def where
  "rema_ant_1km_zarr =
    \<lparr>gd_filename = ''REMA_1km_dem.zarr'',
     gd_filled_filename = ''REMA_1km_dem_filled.zarr'',
     gd_default_dir = ''/SATS/RA/DEMS/rema_1km_dem'',
     gd_src_url = ''http://data.pgc.umn.edu/elev/dem/setsm/REMA/mosaic/v1.1/1km/REMA_1km_dem.tif'',
     gd_src_url_filled = ''http://data.pgc.umn.edu/elev/dem/setsm/REMA/mosaic/v1.1/1km/REMA_1km_dem_filled.tif'',
     gd_version = ''1.1'', gd_src_institute = ''PGC'',
     gd_long_name = ''REMA'',
     gd_crs_bng = 3031, gd_southern_hemisphere = True,
     gd_void_value = - 9999, gd_reference_year = 2010,
     gd_npz_type = False, gd_zarr_type = True, gd_nc_type = False\<rparr>"

definition rema_ant_1km_v2 :: grid_def where
  "rema_ant_1km_v2 =
    \<lparr>gd_filename = ''rema_mosaic_1km_v2.0_dem.tif'',
     gd_filled_filename = ''rema_mosaic_1km_v2.0_filled_cop30_dem.tif'',
     gd_default_dir = ''/SATS/RA/DEMS/rema_1km_dem_v2'',
     gd_src_url = ''https://data.pgc.umn.edu/elev/dem/setsm/REMA/mosaic/v2.0/1kmrema_mosaic_1km_v2.0_dem.tif'',
     gd_src_url_filled = ''http://data.pgc.umn.edu/elev/dem/setsm/REMA/mosaic/v2.0/1km/rema_mosaic_1km_v2.0_filled_cop30_dem.tif'',
     gd_version = ''2.0'', gd_src_institute = ''PGC'',
     gd_long_name = ''REMA v2'',
     gd_crs_bng = 3031, gd_southern_hemisphere = True,
     gd_void_value = - 9999, gd_reference_year = 0,
     gd_npz_type = False, gd_zarr_type = False, gd_nc_type = False\<rparr>"

definition rema_ant_1km_v2_zarr :: grid_def where
  "rema_ant_1km_v2_zarr =
    \<lparr>gd_filename = ''rema_mosaic_1km_v2.0_dem.zarr'',
     gd_filled_filename = ''rema_mosaic_1km_v2.0_filled_cop30_dem.zarr'',
     gd_default_dir = ''/SATS/RA/DEMS/rema_1km_dem_v2'',
     gd_src_url = ''https://data.pgc.umn.edu/elev/dem/setsm/REMA/mosaic/v2.0/1kmrema_mosaic_1km_v2.0_dem.tif'',
     gd_src_url_filled = ''http://data.pgc.umn.edu/elev/dem/setsm/REMA/mosaic/v2.0/1km/rema_mosaic_1km_v2.0_filled_cop30_dem.tif'',
     gd_version = ''2.0'', gd_src_institute = ''PGC'',
     gd_long_name = ''REMA v2'',
     gd_crs_bng = 3031, gd_southern_hemisphere = True,
     gd_void_value = - 9999, gd_reference_year = 0,
     gd_npz_type = False, gd_zarr_type = True, gd_nc_type = False\<rparr>"

definition rema_ant_200m :: grid_def where
  "rema_ant_200m =
    \<lparr>gd_filename = ''REMA_200m_dem.tif'',
     gd_filled_filename = ''REMA_200m_dem_filled.tif'',
     gd_default_dir = ''/SATS/RA/DEMS/ant_rema_200m_dem'',
     gd_src_url = ''https://data.pgc.umn.edu/elev/dem/setsm/REMA/mosaic/v1.1/200m/REMA_200m_dem.tif'',
     gd_src_url_filled = ''https://data.pgc.umn.edu/elev/dem/setsm/REMA/mosaic/v1.1/200m/REMA_200m_dem_filled.tif'',
     gd_version = ''1.1'', gd_src_institute = ''PGC'',
     gd_long_name = ''REMA-1.1-Gapless-1km'',
     gd_crs_bng = 3031, gd_southern_hemisphere = True,
     gd_void_value = - 9999, gd_reference_year = 2010,
     gd_npz_type = False, gd_zarr_type = False, gd_nc_type = False\<rparr>"

definition rema_ant_200m_zarr :: grid_def where
  "rema_ant_200m_zarr =
    \<lparr>gd_filename = ''REMA_200m_dem.zarr'',
     gd_filled_filename = ''REMA_200m_dem_filled.zarr'',
     gd_default_dir = ''/SATS/RA/DEMS/ant_rema_200m_dem'',
     gd_src_url = ''https://data.pgc.umn.edu/elev/dem/setsm/REMA/mosaic/v1.1/200m/REMA_200m_dem.tif'',
     gd_src_url_filled = ''https://data.pgc.umn.edu/elev/dem/setsm/REMA/mosaic/v1.1/200m/REMA_200m_dem_filled.tif'',
     gd_version = ''1.1'', gd_src_institute = ''PGC'',
     gd_long_name = ''REMA-1.1-200m'',
     gd_crs_bng = 3031, gd_southern_hemisphere = True,
     gd_void_value = - 9999, gd_reference_year = 2010,
     gd_npz_type = False, gd_zarr_type = True, gd_nc_type = False\<rparr>"

definition rema_gapless_100m :: grid_def where
  "rema_gapless_100m =
    \<lparr>gd_filename = ''GaplessREMA100.tif'',
     gd_filled_filename = ''GaplessREMA100.tif'',
     gd_default_dir = ''/SATS/RA/DEMS/rema_gapless_100m'',
     gd_src_url = ''https://figshare.com/articles/dataset/Gapless-REMA100/19122212'',
     gd_src_url_filled = ''https://figshare.com/articles/dataset/Gapless-REMA100/19122212'',
     gd_version = ''1.1(REMA)/2.0(Gapless)'', gd_src_institute = ''PGC/Dong(2022)'',
     gd_long_name = ''REMA-1.1-Gapless-100m'',
     gd_crs_bng = 3031, gd_southern_hemisphere = True,
     gd_void_value = - 32767, gd_reference_year = 2010,
     gd_npz_type = False, gd_zarr_type = False, gd_nc_type = False\<rparr>"

definition rema_gapless_100m_zarr :: grid_def where
  "rema_gapless_100m_zarr =
    \<lparr>gd_filename = ''GaplessREMA100.zarr'',
     gd_filled_filename = ''GaplessREMA100.zarr'',
     gd_default_dir = ''/SATS/RA/DEMS/rema_gapless_100m'',
     gd_src_url = ''https://figshare.com/articles/dataset/Gapless-REMA100/19122212'',
     gd_src_url_filled = ''https://figshare.com/articles/dataset/Gapless-REMA100/19122212'',
     gd_version = ''1.1(REMA)/2.0(Gapless)'', gd_src_institute = ''PGC/Dong(2022)'',
     gd_long_name = ''REMA-1.1-Gapless-100m'',
     gd_crs_bng = 3031, gd_southern_hemisphere = True,
     gd_void_value = - 32767, gd_reference_year = 2010,
     gd_npz_type = False, gd_zarr_type = True, gd_nc_type = False\<rparr>"

definition rema_gapless_1km :: grid_def where
  "rema_gapless_1km =
    \<lparr>gd_filename = ''GaplessREMA1km.tif'',
     gd_filled_filename = ''GaplessREMA1km.tif'',
     gd_default_dir = ''/SATS/RA/DEMS/rema_gapless_1km'',
     gd_src_url = ''https://figshare.com/articles/dataset/Gapless-REMA100/19122212'',
     gd_src_url_filled = ''https://figshare.com/articles/dataset/Gapless-REMA100/19122212'',
     gd_version = ''1.1(REMA)/2.0(Gapless)'', gd_src_institute = ''PGC/Dong(2022)'',
     gd_long_name = ''REMA-1.1-Gapless-100m'',
     gd_crs_bng = 3031, gd_southern_hemisphere = True,
     gd_void_value = - 32767, gd_reference_year = 2010,
     gd_npz_type = False, gd_zarr_type = False, gd_nc_type = False\<rparr>"

definition rema_gapless_1km_zarr :: grid_def where
  "rema_gapless_1km_zarr =
    \<lparr>gd_filename = ''GaplessREMA1km.zarr'',
     gd_filled_filename = ''GaplessREMA1km.zarr'',
     gd_default_dir = ''/SATS/RA/DEMS/rema_gapless_1km'',
     gd_src_url = ''https://figshare.com/articles/dataset/Gapless-REMA100/19122212'',
     gd_src_url_filled = ''https://figshare.com/articles/dataset/Gapless-REMA100/19122212'',
     gd_version = ''1.1(REMA)/2.0(Gapless)'', gd_src_institute = ''PGC/Dong(2022)'',
     gd_long_name = ''REMA-1.1-Gapless-100m'',
     gd_crs_bng = 3031, gd_southern_hemisphere = True,
     gd_void_value = - 32767, gd_reference_year = 2010,
     gd_npz_type = False, gd_zarr_type = True, gd_nc_type = False\<rparr>"

definition arcticdem_100m_greenland :: grid_def where
  "arcticdem_100m_greenland =
    \<lparr>gd_filename = ''arcticdem_mosaic_100m_v3.0_subarea_greenland.tif'',
     gd_filled_filename = [],
     gd_default_dir = ''/SATS/RA/DEMS/arctic_dem_100m'',
     gd_src_url = ''https://data.pgc.umn.edu/elev/dem/setsm/ArcticDEM/mosaic/v3.0/100m/arcticdem_mosaic_100m_v3.0.tif'',
     gd_src_url_filled = [],
     gd_version = ''3.0'', gd_src_institute = ''PGC'',
     gd_long_name = ''ArcticDem 100m, Greenland'',
     gd_crs_bng = 3413, gd_southern_hemisphere = False,
     gd_void_value = - 9999, gd_reference_year = 2010,
     gd_npz_type = False, gd_zarr_type = False, gd_nc_type = False\<rparr>"

definition arcticdem_1km_greenland_v4_1 :: grid_def where
  "arcticdem_1km_greenland_v4_1 =
    \<lparr>gd_filename = ''arcticdem_mosaic_1km_v4.1_subarea_greenland.tif'',
     gd_filled_filename = [],
     gd_default_dir = ''/SATS/RA/DEMS/arctic_dem_1km_v4.1'',
     gd_src_url = ''https://data.pgc.umn.edu/elev/dem/setsm/ArcticDEM/mosaic/latest/1km/arcticdem_mosaic_1km_v4.1_dem.tif'',
     gd_src_url_filled = [],
     gd_version = ''4.1'', gd_src_institute = ''PGC'',
     gd_long_name = ''ArcticDem 1km, Greenland'',
     gd_crs_bng = 3413, gd_southern_hemisphere = False,
     gd_void_value = - 9999, gd_reference_year = 2010,
     gd_npz_type = False, gd_zarr_type = False, gd_nc_type = False\<rparr>"

definition arcticdem_1km_greenland_v4_1_zarr :: grid_def where
  "arcticdem_1km_greenland_v4_1_zarr =
    \<lparr>gd_filename = ''arcticdem_mosaic_1km_v4.1_subarea_greenland.zarr'',
     gd_filled_filename = ''arcticdem_mosaic_1km_v4.1_subarea_greenland.zarr'',
     gd_default_dir = ''/SATS/RA/DEMS/arctic_dem_1km_v4.1'',
     gd_src_url = ''https://data.pgc.umn.edu/elev/dem/setsm/ArcticDEM/mosaic/latest/1km/arcticdem_mosaic_1km_v4.1_dem.tif'',
     gd_src_url_filled = [],
     gd_version = ''4.1'', gd_src_institute = ''PGC'',
     gd_long_name = ''ArcticDem 1km, Greenland'',
     gd_crs_bng = 3413, gd_southern_hemisphere = False,
     gd_void_value = - 9999, gd_reference_year = 2010,
     gd_npz_type = False, gd_zarr_type = True, gd_nc_type = False\<rparr>"

definition arcticdem_100m_greenland_v4_1 :: grid_def where
  "arcticdem_100m_greenland_v4_1 =
    \<lparr>gd_filename = ''arcticdem_mosaic_100m_v4.1_subarea_greenland.tif'',
     gd_filled_filename = [],
     gd_default_dir = ''/SATS/RA/DEMS/arctic_dem_100m_v4.1'',
     gd_src_url = ''https://data.pgc.umn.edu/elev/dem/setsm/ArcticDEM/mosaic/latest/100m/arcticdem_mosaic_100m_v4.1_dem.tif'',
     gd_src_url_filled = [],
     gd_version = ''4.1'', gd_src_institute = ''PGC'',
     gd_long_name = ''ArcticDem 100m, Greenland'',
     gd_crs_bng = 3413, gd_southern_hemisphere = False,
     gd_void_value = - 9999, gd_reference_year = 2010,
     gd_npz_type = False, gd_zarr_type = False, gd_nc_type = False\<rparr>"

definition arcticdem_100m_greenland_v4_1_zarr :: grid_def where
  "arcticdem_100m_greenland_v4_1_zarr =
    \<lparr>gd_filename = ''arcticdem_mosaic_100m_v4.1_subarea_greenland.zarr'',
     gd_filled_filename = ''arcticdem_mosaic_100m_v4.1_subarea_greenland.zarr'',
     gd_default_dir = ''/SATS/RA/DEMS/arctic_dem_100m_v4.1'',
     gd_src_url = ''https://data.pgc.umn.edu/elev/dem/setsm/ArcticDEM/mosaic/latest/100m/arcticdem_mosaic_100m_v4.1_dem.tif'',
     gd_src_url_filled = [],
     gd_version = ''4.1'', gd_src_institute = ''PGC'',
     gd_long_name = ''ArcticDem 100m, Greenland'',
     gd_crs_bng = 3413, gd_southern_hemisphere = False,
     gd_void_value = - 9999, gd_reference_year = 2010,
     gd_npz_type = False, gd_zarr_type = True, gd_nc_type = False\<rparr>"

definition dem_table :: "(string \<times> grid_def) list" where
  "dem_table =
    [(''awi_ant_1km'', awi_ant_1km),
     (''awi_ant_1km_grounded'', awi_ant_1km_grounded),
     (''awi_ant_1km_floating'', awi_ant_1km_floating),
     (''awi_grn_1km'', awi_grn_1km),
     (''arcticdem_1km'', arcticdem_1km),
     (''arcticdem_1km_zarr'', arcticdem_1km_zarr),
     (''arcticdem_1km_v4.1'', arcticdem_1km_v4_1),
     (''rema_ant_1km'', rema_ant_1km),
     (''rema_ant_1km_zarr'', rema_ant_1km_zarr),
     (''rema_ant_1km_v2'', rema_ant_1km_v2),
     (''rema_ant_1km_v2_zarr'', rema_ant_1km_v2_zarr),
     (''rema_ant_200m'', rema_ant_200m),
     (''rema_ant_200m_zarr'', rema_ant_200m_zarr),
     (''rema_gapless_100m'', rema_gapless_100m),
     (''rema_gapless_100m_zarr'', rema_gapless_100m_zarr),
     (''rema_gapless_1km'', rema_gapless_1km),
     (''rema_gapless_1km_zarr'', rema_gapless_1km_zarr),
     (''arcticdem_100m_greenland'', arcticdem_100m_greenland),
     (''arcticdem_1km_greenland_v4.1'', arcticdem_1km_greenland_v4_1),
     (''arcticdem_1km_greenland_v4.1_zarr'', arcticdem_1km_greenland_v4_1_zarr),
     (''arcticdem_100m_greenland_v4.1'', arcticdem_100m_greenland_v4_1),
     (''arcticdem_100m_greenland_v4.1_zarr'', arcticdem_100m_greenland_v4_1_zarr)]"

section \<open>Construction and queries\<close>

definition dem_class :: grid_class where
  "dem_class = \<lparr>gc_list = dem_list, gc_table = dem_table, gc_dirs = ''dem_dirs'', gc_word = ''DEM'', gc_item = ''dem''\<rparr>"

text \<open>\<^verbatim>\<open>Dem.load\<close>: the result is \<^verbatim>\<open>False\<close> when the file is not there.\<close>

definition load_dem_file :: "grid_env \<Rightarrow> grid_def \<Rightarrow> string \<Rightarrow> grid \<Rightarrow> gshm \<Rightarrow> (grid \<times> gshm) res" where
  "load_dem_file env d demfile g sh =
     (if g_npz_type g then rbind (load_npz env dem_class demfile g) (\<lambda>g'. Inr (g', sh))
      else if g_zarr_type g then (case load_zarr env demfile g of (g', r) \<Rightarrow> rbind r (\<lambda>_. Inr (g', sh)))
      else load_geotiff env dem_class (gd_void_value d) demfile g sh)"

definition load_dem :: "grid_env \<Rightarrow> grid \<Rightarrow> gshm \<Rightarrow> (bool \<times> grid \<times> gshm) res" where
  "load_dem env g sh =
     (case map_of dem_table (g_name g) of
        None \<Rightarrow> Inl (ValueError (g_name g @ '' does not have load support''))
      | Some d \<Rightarrow>
          (let g1 = set_def d g in
           case grid_file env dem_class d g1 of
             Inl e \<Rightarrow> if is_os_error e then Inr (False, g1, sh) else Inl e
           | Inr demfile \<Rightarrow>
               rbind (load_dem_file env d demfile g1 sh) (\<lambda>(g2, sh2). Inr (True, set_transforms d g2, sh2))))"

text \<open>\<^verbatim>\<open>Dem.__init__\<close>: what \<^verbatim>\<open>load\<close> returns is not looked at.\<close>

definition dem_new ::
  "grid_env \<Rightarrow> string \<Rightarrow> bool \<Rightarrow> config option \<Rightarrow> string option \<Rightarrow> bool \<Rightarrow> gshm \<Rightarrow> (grid \<times> gshm) res" where
  "dem_new env name filled cfg dem_dir shm sh =
     (if name \<notin> set dem_list then Inl (ValueError (''DEM name '' @ name @ '' not in allowed list''))
      else rbind (load_dem env (blank_grid name filled cfg dem_dir shm) sh) (\<lambda>(ok, g, sh'). Inr (g, sh')))"

definition interp_dem :: "grid_env \<Rightarrow> grid \<Rightarrow> fl list \<Rightarrow> fl list \<Rightarrow> string \<Rightarrow> bool \<Rightarrow> fl list res" where
  "interp_dem env g x y meth xy_is_latlon = interp_grid env g x y meth xy_is_latlon"

section \<open>Shared memory\<close>

lemma load_dem_file_shm:
  assumes "load_dem_file env d f g sh = Inr (g', sh')" and "g_shared_mem g = None" "\<not> g_shared_mem_child g"
  shows "shm_use (g_name g) (g_in_shm g) sh g' sh'"
  using assms load_geotiff_shm [of env dem_class "gd_void_value d" f g sh g' sh']
  by (auto simp: load_dem_file_def rbind_eq_Inr split: if_splits prod.splits intro: load_npz_shm load_zarr_shm)

lemma dem_new_shm:
  assumes "dem_new env name filled cfg dir shm sh = Inr (g, sh')"
  shows "shm_use name shm sh g sh'"
proof -
  let ?g = "blank_grid name filled cfg dir shm"
  obtain ok where "load_dem env ?g sh = Inr (ok, g, sh')"
    using assms by (auto simp: dem_new_def rbind_eq_Inr split: if_splits)
  then obtain d where "g = set_def d ?g \<and> sh' = sh \<or>
      (\<exists>f g2. load_dem_file env d f (set_def d ?g) sh = Inr (g2, sh') \<and> g = set_transforms d g2)"
    by (auto simp: load_dem_def Let_def rbind_eq_Inr split: option.splits sum.splits if_splits)
  then show ?thesis
    using load_dem_file_shm [of env d _ "set_def d ?g" sh _ sh'] shm_use_set_def [of name shm sh d filled cfg dir] by auto
qed

interpretation dem: grid_resource "dem_new env name filled cfg dem_dir shm" name
  by (rule grid_resourceI, erule dem_new_shm)

section \<open>Values\<close>

text \<open>C20: Interpolation in chunks. A model in zarr format is interpolated from a window around the points, cut out
  of the pre-flipped copy of the file. If the copy holds the rows in reverse order, the axes are ascending, the
  interpolators of scipy use only the cell around a point, and some point does not lie beyond the last column
  and some not beyond the last row, the result is that of interpolating the whole array in memory: the value
  of the cell around each point, NaN outside the grid and for NaN coordinates.\<close>

theorem zarr_dem_like_memory:
  assumes env: "interp_laws env cellf" and meth: "meth \<in> {''linear'', ''nearest''}"
    and load: "load_zarr env f g0 = (g, Inr ())" "g_zarr_type g0"
    and files: "ge_zarr env f = Inr za" "ge_zarr env (py_replace ''.zarr'' ''_flipped.zarr'' f) = Inr zf"
      "za_rows zf = rev (za_rows za)"
    and axes: "regular (rev (g_y g)) (g_x g) (za_rows zf)"
    and xy: "to_xy env g lats lons ll = Inr (x, y)" "length x = length y"
    and i: "i < length x" "x ! i \<noteq> NaN" "y ! i \<noteq> NaN" "\<not> fl_lt (last (g_x g)) (x ! i)"
    and j: "j < length x" "x ! j \<noteq> NaN" "y ! j \<noteq> NaN" "\<not> fl_lt (last (rev (g_y g))) (y ! j)"
  shows "interp_dem env g lats lons meth ll =
      Inr (map2 (nan_or (grid_value (cellf meth) (rev (g_y g)) (g_x g) (za_rows zf))) y x) \<and>
    interp_dem env (g\<lparr>g_zarr_type := False\<rparr>) lats lons meth ll = interp_dem env g lats lons meth ll"
proof -
  obtain za' zf' where g': "ge_zarr env f = Inr za'" "ge_zarr env (py_replace ''.zarr'' ''_flipped.zarr'' f) = Inr zf'"
    "g_z g = Rows (za_rows za')" "g_zflip g = Rows (za_rows zf')" "g_zarr_type g = g_zarr_type g0"
    using load_zarr_ok [OF load(1)] .
  then have g: "g_z g = Rows (rev (za_rows zf))" "g_zflip g = Rows (za_rows zf)" "g_zarr_type g"
    using files load(2) by simp_all
  have same: "g\<lparr>g_zarr_type := True\<rparr> = g" "g\<lparr>g_zarr_type := False, g_z := Rows (rev (za_rows zf))\<rparr> = g\<lparr>g_zarr_type := False\<rparr>"
    using g by (simp_all add: grid.equality)
  note whole = interp_grid_whole [OF env meth axes g(2) xy i j, unfolded same]
  show ?thesis unfolding interp_dem_def whole by simp
qed

text \<open>Void cells. In a grid loaded from a GeoTIFF no cell has the void value, except possibly the first cell, and
  that one only if it was the only void cell of the image.\<close>

theorem geotiff_voids:
  assumes "load_geotiff env gc void f g sh = Inr (g', sh')" and "void \<noteq> 0"
  shows "\<exists>z. g_z g' = Rows z \<and> (\<forall>i j. i < length z \<and> j < length (z ! i) \<and> fl_eq (z ! i ! j) (of_intf void) \<longrightarrow>
    i = 0 \<and> j = 0)"
proof -
  obtain z0 where z: "g_z g' = Rows (set_void void z0)" using load_geotiff_ok [OF assms(1)] .
  have "i = 0 \<and> j = 0" if "i < length (set_void void z0)" "j < length (set_void void z0 ! i)"
    "fl_eq (set_void void z0 ! i ! j) (of_intf void)" for i j
  proof -
    have ij: "i < length z0" "j < length (z0 ! i)" using that set_void_shape by auto
    have "\<not> fl_eq NaN (of_intf void)" by (simp add: fl_eq_def)
    then show ?thesis using set_void_cell [OF assms(2) ij] that(3) ij by (auto split: if_splits)
  qed
  then show ?thesis using z by blast
qed

section \<open>Witnesses\<close>

definition wit_zarr :: grid where
  "wit_zarr = (blank_grid ''rema_ant_1km_zarr'' True None None False)\<lparr>g_zarr_type := True\<rparr>"

definition wit_dem :: grid where
  "wit_dem = fst (load_zarr wit_genv ''/data/a.zarr'' wit_zarr)"

lemma wit_dem_axes: "g_x wit_dem = [Fin 0, Fin 10, Fin 20]" "rev (g_y wit_dem) = [Fin 0, Fin 10, Fin 20]"
  "snd (load_zarr wit_genv ''/data/a.zarr'' wit_zarr) = Inr ()"
  by code_simp+

theorem zarr_dem_like_memory_witness:
  "interp_dem wit_genv wit_dem [Fin 15, NaN, Fin 90] [Fin 5, Fin 5, Fin 5] ''linear'' False = Inr [Fin 8, NaN, NaN]"
proof -
  let ?za = "\<lparr>za_attrs = wit_attrs, za_rows = wit_rows\<rparr>" and ?zf = "\<lparr>za_attrs = wit_attrs, za_rows = rev wit_rows\<rparr>"
  have load: "load_zarr wit_genv ''/data/a.zarr'' wit_zarr = (wit_dem, Inr ())"
    using wit_dem_axes(3) by (simp add: wit_dem_def prod_eq_iff)
  have files: "ge_zarr wit_genv ''/data/a.zarr'' = Inr ?za"
    "ge_zarr wit_genv (py_replace ''.zarr'' ''_flipped.zarr'' ''/data/a.zarr'') = Inr ?zf" by code_simp+
  have reg: "regular (rev (g_y wit_dem)) (g_x wit_dem) (za_rows ?zf)"
    unfolding wit_dem_axes by (simp add: regular_def wit_rows_def)
  have "interp_dem wit_genv wit_dem [Fin 15, NaN, Fin 90] [Fin 5, Fin 5, Fin 5] ''linear'' False =
      Inr (map2 (nan_or (grid_value wit_cell (rev (g_y wit_dem)) (g_x wit_dem) (rev wit_rows))) [Fin 5, Fin 5, Fin 5] [Fin 15, NaN, Fin 90])"
    using zarr_dem_like_memory [OF wit_genv_laws _ load _ files _ reg, where ll = False and i = 0 and j = 0 and meth = "''linear''"
      and x = "[Fin 15, NaN, Fin 90]" and y = "[Fin 5, Fin 5, Fin 5]"]
    by (simp add: to_xy_def wit_dem_axes wit_zarr_def)
  also have "\<dots> = Inr [Fin 8, NaN, NaN]" unfolding wit_dem_axes by code_simp
  finally show ?thesis .
qed

theorem geotiff_voids_witness:
  "\<exists>g' sh' z. load_geotiff wit_genv dem_class (- 9999) ''/data/a.tif'' wit_zarr Map.empty = Inr (g', sh') \<and> g_z g' = Rows z \<and>
    (\<forall>i j. i < length z \<and> j < length (z ! i) \<and> fl_eq (z ! i ! j) (of_intf (- 9999)) \<longrightarrow> i = 0 \<and> j = 0)"
proof -
  obtain g' sh' where load: "load_geotiff wit_genv dem_class (- 9999) ''/data/a.tif'' wit_zarr Map.empty = Inr (g', sh')"
  proof -
    have "\<not> isl (load_geotiff wit_genv dem_class (- 9999) ''/data/a.tif'' wit_zarr Map.empty)" by code_simp
    then show ?thesis using that by (cases "load_geotiff wit_genv dem_class (- 9999) ''/data/a.tif'' wit_zarr Map.empty") auto
  qed
  show ?thesis using geotiff_voids [OF load] load by auto
qed

end
