(* ===== verification/Slope_Grids.thy ===== *)
theory Slope_Grids
  imports Dems
begin

text \<open>
  \<^verbatim>\<open>utils/slopes/slopes.py\<close> and \<^verbatim>\<open>utils/roughness/roughness.py\<close>: surface slope and roughness, over the
  operations of \<open>Grids\<close>. \<^verbatim>\<open>Slopes\<close> also reads netCDF files; \<^verbatim>\<open>Roughness.load\<close> handles missing and
  unreadable files the other way round than \<^verbatim>\<open>Dem.load\<close> does.
\<close>

section \<open>Slopes\<close>

definition slope_list :: "string list" where
  "slope_list = [''rema_100m_900ws_slopes_zarr'', ''arcticdem_100m_900ws_slopes_zarr'', ''awi_grn_2013_1km_slopes'',
     ''cpom_ant_2018_1km_slopes'']"

definition rema_100m_900ws_slopes_zarr :: grid_def where
  "rema_100m_900ws_slopes_zarr =
    \<lparr>gd_filename = ''REMA_Slope_100m_900ws.zarr'',
     gd_filled_filename = ''REMA_Slope_100m_900ws.zarr'',
     gd_default_dir = ''/SATS/RA/DEMS/slope_and_roughness'',
     gd_src_url = ''TBD'',
     gd_src_url_filled = ''TBD'',
     gd_version = ''1.1'', gd_src_institute = ''CPOM/PGC'',
     gd_long_name = ''Surface slope at 100m from REMA'',
     gd_crs_bng = 3031, gd_southern_hemisphere = True,
     gd_void_value = - 9999, gd_reference_year = 2010,
     gd_npz_type = False, gd_zarr_type = True, gd_nc_type = False\<rparr>"

definition arcticdem_100m_900ws_slopes_zarr :: grid_def where
  "arcticdem_100m_900ws_slopes_zarr =
    \<lparr>gd_filename = ''ArcticDEM_Slope_100m_900ws.zarr'',
     gd_filled_filename = ''ArcticDEM_Slope_100m_900ws.zarr'',
     gd_default_dir = ''/SATS/RA/DEMS/slope_and_roughness'',
     gd_src_url = ''TBD'',
     gd_src_url_filled = ''TBD'',
     gd_version = ''1.1'', gd_src_institute = ''PGC'',
     gd_long_name = ''slopes from ArcticDEM'',
     gd_crs_bng = 3413, gd_southern_hemisphere = False,
     gd_void_value = - 9999, gd_reference_year = 2010,
     gd_npz_type = False, gd_zarr_type = True, gd_nc_type = False\<rparr>"

definition cpom_ant_2018_1km_slopes :: grid_def where
  "cpom_ant_2018_1km_slopes =
    \<lparr>gd_filename = ''Antarctica_Cryosat2_1km_DEMv1.0_slope.unpacked.tif'',
     gd_filled_filename = ''Antarctica_Cryosat2_1km_DEMv1.0_slope.unpacked.tif'',
     gd_default_dir = ''/SATS/RA/DEMS/ant_cpom_cs2_1km'',
     gd_src_url = ''TBD'',
     gd_src_url_filled = ''TBD'',
     gd_version = ''1.0'', gd_src_institute = ''CPOM'',
     gd_long_name = ''Antarctic slopes from CryoSat by Slater(2018)/CPOM'',
     gd_crs_bng = 3031, gd_southern_hemisphere = True,
     gd_void_value = - 9999, gd_reference_year = 2016,
     gd_npz_type = False, gd_zarr_type = False, gd_nc_type = False\<rparr>"

definition awi_grn_2013_1km_slopes :: grid_def where
  "awi_grn_2013_1km_slopes =
    \<lparr>gd_filename = ''grn_awi_2013_dem_slope.nc'',
     gd_filled_filename = ''grn_awi_2013_dem_slope.nc'',
     gd_default_dir = ''/SATS/RA/DEMS/grn_awi_2013_dem'',
     gd_src_url = ''TBD'',
     gd_src_url_filled = ''TBD'',
     gd_version = ''1.0'', gd_src_institute = ''AWI'',
     gd_long_name = ''Greenland Slopes from AWI (2013'',
     gd_crs_bng = 3413, gd_southern_hemisphere = False,
     gd_void_value = - 9999, gd_reference_year = 0,
     gd_npz_type = False, gd_zarr_type = False, gd_nc_type = True\<rparr>"

definition slopes_table :: "(string \<times> grid_def) list" where
  "slopes_table =
    [(''rema_100m_900ws_slopes_zarr'', rema_100m_900ws_slopes_zarr),
     (''arcticdem_100m_900ws_slopes_zarr'', arcticdem_100m_900ws_slopes_zarr),
     (''cpom_ant_2018_1km_slopes'', cpom_ant_2018_1km_slopes),
     (''awi_grn_2013_1km_slopes'', awi_grn_2013_1km_slopes)]"

definition slopes_class :: grid_class where
  "slopes_class = \<lparr>gc_list = slope_list, gc_table = slopes_table, gc_dirs = ''slopes_dirs'', gc_word = ''slopes'', gc_item = ''slopes''\<rparr>"

definition slopes_get_filename :: "grid_env \<Rightarrow> grid \<Rightarrow> string \<Rightarrow> string \<Rightarrow> string \<Rightarrow> string res" where
  "slopes_get_filename env g default_dir filename filled_filename = get_filename env slopes_class g default_dir filename filled_filename"

definition slopes_file :: "grid_env \<Rightarrow> grid_def \<Rightarrow> grid \<Rightarrow> string res" where
  "slopes_file env d g =
     rbind (of_option (KeyError ''CPDATA_DIR'') (ge_environ env ''CPDATA_DIR'')) (\<lambda>base.
       slopes_get_filename env g (base @ gd_default_dir d) (gd_filename d) (gd_filled_filename d))"

text \<open>The three loaders \<^verbatim>\<open>Slopes\<close> has in common with \<^verbatim>\<open>Dem\<close>.\<close>

definition slopes_load_npz :: "grid_env \<Rightarrow> string \<Rightarrow> grid \<Rightarrow> grid res" where
  "slopes_load_npz env npz_file g = load_npz env slopes_class npz_file g"

definition slopes_load_zarr :: "grid_env \<Rightarrow> string \<Rightarrow> grid \<Rightarrow> grid \<times> unit res" where
  "slopes_load_zarr env slopesfile g = load_zarr env slopesfile g"

definition slopes_load_geotiff :: "grid_env \<Rightarrow> int \<Rightarrow> string \<Rightarrow> grid \<Rightarrow> gshm \<Rightarrow> (grid \<times> gshm) res" where
  "slopes_load_geotiff env void slopesfile g sh = load_geotiff env slopes_class void slopesfile g sh"

text \<open>\<^verbatim>\<open>load_nc\<close>: the axes are fixed, and \<open>y\<close> goes up.\<close>

definition load_nc :: "grid_env \<Rightarrow> int \<Rightarrow> string \<Rightarrow> grid \<Rightarrow> grid res" where
  "load_nc env void f g =
     rbind (ge_dataset env f) (\<lambda>nc.
     rbind (rbind (nc_var nc ''slope'') as_rows) (\<lambda>(ncols, z).
     rbind (ge_linspace env (Fin (- 1823000)) (Fin 1973000) (int ncols)) (\<lambda>x.
     rbind (ge_linspace env (Fin (- 3441000)) (Fin (- 533000)) (int (length z))) (\<lambda>y.
     rbind (np_min x) (\<lambda>mx. rbind (np_min y) (\<lambda>my.
       Inr (g\<lparr>g_z := Rows (set_void void z), g_x := x, g_y := y, g_minx := Some mx, g_miny := Some my, g_binsize := Fin 1000\<rparr>)))))))"

definition load_slopes_file :: "grid_env \<Rightarrow> grid_def \<Rightarrow> string \<Rightarrow> grid \<Rightarrow> gshm \<Rightarrow> (grid \<times> gshm) res" where
  "load_slopes_file env d f g sh =
     (if g_npz_type g then rbind (slopes_load_npz env f g) (\<lambda>g'. Inr (g', sh))
      else if g_zarr_type g then (case slopes_load_zarr env f g of (g', r) \<Rightarrow> rbind r (\<lambda>_. Inr (g', sh)))
      else if g_nc_type g then rbind (load_nc env (gd_void_value d) f g) (\<lambda>g'. Inr (g', sh))
      else slopes_load_geotiff env (gd_void_value d) f g sh)"

definition load_slopes :: "grid_env \<Rightarrow> grid \<Rightarrow> gshm \<Rightarrow> (bool \<times> grid \<times> gshm) res" where
  "load_slopes env g sh =
     (case map_of slopes_table (g_name g) of
        None \<Rightarrow> Inl (ValueError (g_name g @ '' does not have load support''))
      | Some d \<Rightarrow>
          (let g1 = set_def d g in
           case slopes_file env d g1 of
             Inl e \<Rightarrow> if is_os_error e then Inr (False, g1, sh) else Inl e
           | Inr f \<Rightarrow> rbind (load_slopes_file env d f g1 sh) (\<lambda>(g2, sh2). Inr (True, set_transforms d g2, sh2))))"

definition slopes_new ::
  "grid_env \<Rightarrow> string \<Rightarrow> bool \<Rightarrow> config option \<Rightarrow> string option \<Rightarrow> bool \<Rightarrow> gshm \<Rightarrow> (grid \<times> gshm) res" where
  "slopes_new env name filled cfg slopes_dir shm sh =
     (if name \<notin> set slope_list then Inl (ValueError (''slopes name '' @ name @ '' not in allowed list''))
      else rbind (load_slopes env (blank_grid name filled cfg slopes_dir shm) sh) (\<lambda>(ok, g, sh'). Inr (g, sh')))"

definition interp_slopes :: "grid_env \<Rightarrow> grid \<Rightarrow> fl list \<Rightarrow> fl list \<Rightarrow> string \<Rightarrow> bool \<Rightarrow> fl list res" where
  "interp_slopes env g x y meth xy_is_latlon = interp_grid env g x y meth xy_is_latlon"

section \<open>Roughness\<close>

definition roughness_list :: "string list" where
  "roughness_list = [''rema_100m_900ws_roughness_zarr'', ''arcticdem_100m_900ws_roughness_zarr'']"

definition rema_100m_900ws_roughness_zarr :: grid_def where
  "rema_100m_900ws_roughness_zarr =
    \<lparr>gd_filename = ''REMA_Roughness_100m_900ws.zarr'',
     gd_filled_filename = ''REMA_Roughness_100m_900ws.zarr'',
     gd_default_dir = ''/SATS/RA/DEMS/slope_and_roughness'',
     gd_src_url = ''TBD'',
     gd_src_url_filled = ''TBD'',
     gd_version = ''1.1'', gd_src_institute = ''CPOM/PGC'',
     gd_long_name = ''Surface Roughness at 100m from REMA'',
     gd_crs_bng = 3031, gd_southern_hemisphere = True,
     gd_void_value = - 9999, gd_reference_year = 2010,
     gd_npz_type = False, gd_zarr_type = True, gd_nc_type = False\<rparr>"

definition arcticdem_100m_900ws_roughness_zarr :: grid_def where
  "arcticdem_100m_900ws_roughness_zarr =
    \<lparr>gd_filename = ''ArcticDEM_Roughness_100m_900ws.zarr'',
     gd_filled_filename = ''ArcticDEM_Roughness_100m_900ws.zarr'',
     gd_default_dir = ''/SATS/RA/DEMS/slope_and_roughness'',
     gd_src_url = ''TBD'',
     gd_src_url_filled = ''TBD'',
     gd_version = ''1.1'', gd_src_institute = ''PGC'',
     gd_long_name = ''roughness from ArcticDEM'',
     gd_crs_bng = 3413, gd_southern_hemisphere = False,
     gd_void_value = - 9999, gd_reference_year = 2010,
     gd_npz_type = False, gd_zarr_type = True, gd_nc_type = False\<rparr>"

definition roughness_table :: "(string \<times> grid_def) list" where
  "roughness_table =
    [(''rema_100m_900ws_roughness_zarr'', rema_100m_900ws_roughness_zarr),
     (''arcticdem_100m_900ws_roughness_zarr'', arcticdem_100m_900ws_roughness_zarr)]"

definition roughness_class :: grid_class where
  "roughness_class = \<lparr>gc_list = roughness_list, gc_table = roughness_table, gc_dirs = ''roughness_dirs'', gc_word = ''roughness'',
     gc_item = ''roughness''\<rparr>"

definition roughness_get_filename :: "grid_env \<Rightarrow> grid \<Rightarrow> string \<Rightarrow> string \<Rightarrow> string \<Rightarrow> string res" where
  "roughness_get_filename env g default_dir filename filled_filename = get_filename env roughness_class g default_dir filename filled_filename"

definition roughness_file :: "grid_env \<Rightarrow> grid_def \<Rightarrow> grid \<Rightarrow> string res" where
  "roughness_file env d g =
     rbind (of_option (KeyError ''CPDATA_DIR'') (ge_environ env ''CPDATA_DIR'')) (\<lambda>base.
       roughness_get_filename env g (base @ gd_default_dir d) (gd_filename d) (gd_filled_filename d))"

text \<open>The three loaders \<^verbatim>\<open>Roughness\<close> has in common with \<^verbatim>\<open>Dem\<close>.\<close>

definition roughness_load_npz :: "grid_env \<Rightarrow> string \<Rightarrow> grid \<Rightarrow> grid res" where
  "roughness_load_npz env npz_file g = load_npz env roughness_class npz_file g"

definition roughness_load_zarr :: "grid_env \<Rightarrow> string \<Rightarrow> grid \<Rightarrow> grid \<times> unit res" where
  "roughness_load_zarr env roughnessfile g = load_zarr env roughnessfile g"

definition roughness_load_geotiff :: "grid_env \<Rightarrow> int \<Rightarrow> string \<Rightarrow> grid \<Rightarrow> gshm \<Rightarrow> (grid \<times> gshm) res" where
  "roughness_load_geotiff env void roughnessfile g sh = load_geotiff env roughness_class void roughnessfile g sh"

text \<open>The object as far as it was built, and the outcome.\<close>

definition load_roughness_file :: "grid_env \<Rightarrow> grid_def \<Rightarrow> string \<Rightarrow> grid \<Rightarrow> gshm \<Rightarrow> grid \<times> gshm res" where
  "load_roughness_file env d f g sh =
     (if g_npz_type g then (case roughness_load_npz env f g of Inl e \<Rightarrow> (g, Inl e) | Inr g' \<Rightarrow> (g', Inr sh))
      else if g_zarr_type g then (case roughness_load_zarr env f g of (g', r) \<Rightarrow> (g', rbind r (\<lambda>_. Inr sh)))
      else (case roughness_load_geotiff env (gd_void_value d) f g sh of Inl e \<Rightarrow> (g, Inl e) | Inr (g', sh') \<Rightarrow> (g', Inr sh')))"

definition load_roughness :: "grid_env \<Rightarrow> grid \<Rightarrow> gshm \<Rightarrow> (bool \<times> grid \<times> gshm) res" where
  "load_roughness env g sh =
     (case map_of roughness_table (g_name g) of
        None \<Rightarrow> Inl (ValueError (g_name g @ '' does not have load support''))
      | Some d \<Rightarrow>
          (let g1 = set_def d g in
           rbind (roughness_file env d g1) (\<lambda>f.
             case load_roughness_file env d f g1 sh of
               (g2, Inl e) \<Rightarrow> if is_os_error e then Inr (False, g2, sh) else Inl e
             | (g2, Inr sh2) \<Rightarrow> Inr (True, set_transforms d g2, sh2))))"

definition roughness_new ::
  "grid_env \<Rightarrow> string \<Rightarrow> bool \<Rightarrow> config option \<Rightarrow> string option \<Rightarrow> bool \<Rightarrow> gshm \<Rightarrow> (grid \<times> gshm) res" where
  "roughness_new env name filled cfg roughness_dir shm sh =
     (if name \<notin> set roughness_list then Inl (ValueError (''roughness name '' @ name @ '' not in allowed list''))
      else rbind (load_roughness env (blank_grid name filled cfg roughness_dir shm) sh) (\<lambda>(ok, g, sh'). Inr (g, sh')))"

definition interp_roughness :: "grid_env \<Rightarrow> grid \<Rightarrow> fl list \<Rightarrow> fl list \<Rightarrow> string \<Rightarrow> bool \<Rightarrow> fl list res" where
  "interp_roughness env g x y meth xy_is_latlon = interp_grid env g x y meth xy_is_latlon"

section \<open>Shared memory\<close>

lemma load_nc_shm:
  assumes "load_nc env void f g = Inr g'" and "g_shared_mem g = None"
  shows "shm_use name (g_in_shm g) sh g' sh"
  using assms by (auto simp: load_nc_def rbind_eq_Inr shm_use_def)

lemma load_slopes_file_shm:
  assumes "load_slopes_file env d f g sh = Inr (g', sh')" and "g_shared_mem g = None" "\<not> g_shared_mem_child g"
  shows "shm_use (g_name g) (g_in_shm g) sh g' sh'"
  using assms load_geotiff_shm [of env slopes_class "gd_void_value d" f g sh g' sh']
  by (auto simp: load_slopes_file_def slopes_load_npz_def slopes_load_zarr_def slopes_load_geotiff_def rbind_eq_Inr split: if_splits prod.splits intro: load_npz_shm load_zarr_shm load_nc_shm)

lemma slopes_new_shm:
  assumes "slopes_new env name filled cfg dir shm sh = Inr (g, sh')"
  shows "shm_use name shm sh g sh'"
proof -
  let ?g = "blank_grid name filled cfg dir shm"
  obtain ok where "load_slopes env ?g sh = Inr (ok, g, sh')"
    using assms by (auto simp: slopes_new_def rbind_eq_Inr split: if_splits)
  then obtain d where "g = set_def d ?g \<and> sh' = sh \<or>
      (\<exists>f g2. load_slopes_file env d f (set_def d ?g) sh = Inr (g2, sh') \<and> g = set_transforms d g2)"
    by (auto simp: load_slopes_def Let_def rbind_eq_Inr split: option.splits sum.splits if_splits)
  then show ?thesis
    using load_slopes_file_shm [of env d _ "set_def d ?g" sh _ sh'] shm_use_set_def [of name shm sh d filled cfg dir] by auto
qed

lemma load_roughness_file_shm:
  assumes "load_roughness_file env d f g sh = (g', r)" and "g_shared_mem g = None" "\<not> g_shared_mem_child g"
  shows "case r of Inl e \<Rightarrow> shm_use (g_name g) (g_in_shm g) sh g' sh | Inr sh' \<Rightarrow> shm_use (g_name g) (g_in_shm g) sh g' sh'"
  using assms load_geotiff_shm [of env roughness_class "gd_void_value d" f g sh]
  by (auto simp: load_roughness_file_def roughness_load_npz_def roughness_load_zarr_def roughness_load_geotiff_def rbind_def split: if_splits prod.splits sum.splits
    intro: load_npz_shm load_zarr_shm shm_use_same)

lemma roughness_new_shm:
  assumes "roughness_new env name filled cfg dir shm sh = Inr (g, sh')"
  shows "shm_use name shm sh g sh'"
proof -
  let ?g = "blank_grid name filled cfg dir shm"
  obtain ok where "load_roughness env ?g sh = Inr (ok, g, sh')"
    using assms by (auto simp: roughness_new_def rbind_eq_Inr split: if_splits)
  then obtain d f where out: "(case load_roughness_file env d f (set_def d ?g) sh of
      (g2, Inl e) \<Rightarrow> if is_os_error e then Inr (False, g2, sh) else Inl e
    | (g2, Inr sh2) \<Rightarrow> Inr (True, set_transforms d g2, sh2)) = Inr (ok, g, sh')"
    by (auto simp: load_roughness_def Let_def rbind_eq_Inr split: option.splits)
  obtain g2 r where loaded: "load_roughness_file env d f (set_def d ?g) sh = (g2, r)" by fastforce
  show ?thesis
    using load_roughness_file_shm [OF loaded] out by (cases r) (auto simp: loaded split: if_splits)
qed

interpretation slopes: grid_resource "slopes_new env name filled cfg slopes_dir shm" name
  by (rule grid_resourceI, erule slopes_new_shm)

interpretation roughness: grid_resource "roughness_new env name filled cfg roughness_dir shm" name
  by (rule grid_resourceI, erule roughness_new_shm)

end
