(* ===== verification/Algs_Height.thy ===== *)
theory Algs_Height
  imports Slope_Grids
begin

text \<open>
  The algorithms that work on elevations: \<^verbatim>\<open>alg_ref_dem\<close> (reference elevation at each location),
  \<^verbatim>\<open>alg_filter_height\<close> and \<^verbatim>\<open>alg_uncertainty\<close> with \<^verbatim>\<open>calc_uncertainty\<close>. pandas, \<^verbatim>\<open>interp1d\<close> and the table
  files are parameters, in the record \<open>unc_env\<close>.
\<close>

section \<open>alg_ref_dem\<close>

record ref_dems =
  dem_ant :: "grid option"
  dem_grn :: grid

definition config_dem :: "grid_env \<Rightarrow> config \<Rightarrow> string \<Rightarrow> gshm \<Rightarrow> (grid \<times> gshm) res" where
  "config_dem env cfg k sh =
     rbind (cget2 cfg ''reference_dem'' k) (\<lambda>v. case v of
        CStr name \<Rightarrow> dem_new env name True (Some cfg) None (dhas cfg ''_init_shared_mem'') sh
      | _ \<Rightarrow> Inl (ValueError ''DEM name not in allowed list''))"

definition init_ref_dem :: "grid_env \<Rightarrow> config \<Rightarrow> gshm \<Rightarrow> (ref_dems \<times> gshm) res" where
  "init_ref_dem env cfg sh =
     rbind (if opt_flag cfg ''grn_only'' then Inr (None, sh)
            else rbind (config_dem env cfg ''antarctic_dem'' sh) (\<lambda>(g, sh1). Inr (Some g, sh1))) (\<lambda>(ant, sh1).
     rbind (config_dem env cfg ''greenland_dem'' sh1) (\<lambda>(grn, sh2).
       Inr (\<lparr>dem_ant = ant, dem_grn = grn\<rparr>, sh2)))"

definition ref_dem :: "grid_env \<Rightarrow> ref_dems \<Rightarrow> dataset \<Rightarrow> shared \<Rightarrow> alg_out" where
  "ref_dem env dems l1b sd =
     rbind (dget sd ''hemisphere'') (\<lambda>hem.
       let interp = (\<lambda>g. rbind (sget_floats sd ''latitudes'') (\<lambda>lats. rbind (sget_floats sd ''longitudes'') (\<lambda>lons.
             rbind (interp_dem env g lats lons ''linear'' True) (\<lambda>zs. Inr (SF zs)))))
       in rbind (if hem = SStr ''south'' then (case dem_ant dems of Some g \<Rightarrow> interp g | None \<Rightarrow> Inr SNone)
                 else interp (dem_grn dems)) (\<lambda>v.
            pass (dset sd ''dem_elevation_values'' v)))"

definition finalize_ref_dem :: "ref_dems \<Rightarrow> gshm \<Rightarrow> gshm" where
  "finalize_ref_dem dems sh =
     (let sh1 = (case dem_ant dems of None \<Rightarrow> sh | Some g \<Rightarrow> snd (grid_clean_up g sh)) in snd (grid_clean_up (dem_grn dems) sh1))"

definition alg_ref_dem :: "grid_env \<Rightarrow> gshm \<Rightarrow> alg_class" where
  "alg_ref_dem env sh = \<lparr>cls_name = ''clev2er.algorithms.cryotempo.alg_ref_dem'',
     cls_init = (\<lambda>cfg. rbind (init_ref_dem env cfg sh) (\<lambda>(dems, sh1).
       Inr ((True, []), \<lparr>impl_body = ref_dem env dems,
         impl_finalize = (\<lambda>stage. map_sum id (\<lambda>_. ()) (Inr (finalize_ref_dem dems sh1)))\<rparr>)))\<rparr>"

section \<open>alg_filter_height\<close>

definition height_filters :: "string list" where
  "height_filters = [''min_elevation_antarctica'', ''max_elevation_antarctica'', ''min_elevation_greenland'',
     ''max_elevation_greenland'']"

text \<open>The limit of the difference to the reference elevation, of the mode if there is one. The mode is
  looked up only if the setting for a mode is there.\<close>

definition max_diff_of :: "config \<Rightarrow> shared \<Rightarrow> fl res" where
  "max_diff_of flt sd =
     (let mode_is = (\<lambda>k m. if dhas flt k then rbind (dget sd ''instr_mode'') (\<lambda>v. Inr (v = SStr m)) else Inr False);
          limit = (\<lambda>k. rbind (dget flt k) as_number)
      in rbind (mode_is ''max_diff_to_ref_dem_lrm'' ''LRM'') (\<lambda>lrm.
           if lrm then limit ''max_diff_to_ref_dem_lrm''
           else rbind (mode_is ''max_diff_to_ref_dem_sin'' ''SIN'') (\<lambda>sin.
             if sin then limit ''max_diff_to_ref_dem_sin''
             else if dhas flt ''max_diff_to_ref_dem'' then limit ''max_diff_to_ref_dem''
             else Inl (ValueError ''max_diff_to_ref_dem[_lrm,sin] not in height_filters''))))"

definition elevation_limits :: "config \<Rightarrow> sval \<Rightarrow> (fl \<times> fl) res" where
  "elevation_limits flt hem =
     (let area = (if hem = SStr ''south'' then ''antarctica'' else ''greenland'') in
      rbind (rbind (dget flt (''max_elevation_'' @ area)) as_number) (\<lambda>hi.
      rbind (rbind (dget flt (''min_elevation_'' @ area)) as_number) (\<lambda>lo. Inr (lo, hi))))"

text \<open>Both filters test the heights, not what the first one left.\<close>

definition filter_height :: "np_err \<Rightarrow> config \<Rightarrow> dataset \<Rightarrow> shared \<Rightarrow> alg_out" where
  "filter_height em cfg l1b sd =
     (if \<not> dhas sd ''height_20_ku'' then fail sd ''height_20_ku is not in shared_dict''
      else if \<not> dhas sd ''dem_elevation_values'' then fail sd ''dem_elevation_values is not in shared_dict''
      else if \<not> dhas cfg ''height_filters'' then fail sd ''height_filters not in config''
      else
        rbind (rbind (dget cfg ''height_filters'') as_cdict) (\<lambda>flt.
          case filter (\<lambda>k. \<not> dhas flt k) height_filters of
            k # _ \<Rightarrow> fail sd (''height_filters.'' @ k @ '' not in config'')
          | [] \<Rightarrow>
              rbind (sget_floats sd ''height_20_ku'') (\<lambda>height.
              rbind (max_diff_of flt sd) (\<lambda>max_diff.
              rbind (sget_floats sd ''dem_elevation_values'') (\<lambda>dem.
              rbind (np_zip (npf_sub em) height dem) (\<lambda>diff.
                let outliers = np_where (\<lambda>x. fl_lt max_diff (fl_abs x)) diff in
                if list_ex (\<lambda>i. length height \<le> i) outliers then Inl (IndexError ''index out of bounds'')
                else
                  rbind (dget sd ''hemisphere'') (\<lambda>hem.
                  rbind (elevation_limits flt hem) (\<lambda>(lo, hi).
                    pass (dset sd ''height_filt'' (SF
                      (np_put (np_put height outliers NaN) (np_where (\<lambda>h. fl_lt hi h \<or> fl_lt h lo) height) NaN)))))))))))"

definition alg_filter_height :: "np_err \<Rightarrow> alg_class" where
  "alg_filter_height em = \<lparr>cls_name = ''clev2er.algorithms.cryotempo.alg_filter_height'',
     cls_init = (\<lambda>cfg. Inr ((True, []), \<lparr>impl_body = filter_height em cfg, impl_finalize = base_finalize\<rparr>))\<rparr>"

section \<open>alg_uncertainty\<close>

text \<open>A pandas table: the positions of row and column labels, and the values.\<close>

record frame =
  fr_index :: "fl \<Rightarrow> nat res"
  fr_columns :: "fl \<Rightarrow> nat res"
  fr_values :: "fl list list"

record unc_env =
  ue_grid :: grid_env
  ue_interp1d :: "fl list \<Rightarrow> fl list \<Rightarrow> (fl list \<Rightarrow> fl list res) res"
  ue_pickle :: "string \<Rightarrow> frame option res"       \<comment> \<open>\<open>None\<close>: not a DataFrame\<close>

text \<open>\<^verbatim>\<open>np.digitize\<close> for ascending bins: the number of bins not above the value; NaN is above all.\<close>

definition np_digitize :: "fl list \<Rightarrow> fl \<Rightarrow> nat" where
  "np_digitize bins x = (if x = NaN then length bins else length (filter (\<lambda>b. fl_le b x) bins))"

definition bin_index :: "fl list \<Rightarrow> fl \<Rightarrow> int" where
  "bin_index bins x = min (max (int (np_digitize bins x) - 1) 0) (int (length bins) - 2)"

definition get_binned_values :: "fl list \<Rightarrow> fl list \<Rightarrow> frame \<Rightarrow> fl list \<Rightarrow> fl list \<Rightarrow> fl list res" where
  "get_binned_values slope_values roughness_values table slope_bins roughness_bins =
     rbind (rmapM (\<lambda>x. rbind (py_index slope_bins (bin_index slope_bins x)) (fr_index table)) slope_values) (\<lambda>rows.
     rbind (rmapM (\<lambda>x. rbind (py_index roughness_bins (bin_index roughness_bins x)) (fr_columns table)) roughness_values) (\<lambda>cols.
       np_zip (\<lambda>r c. rbind (arr_at (fr_values table) r) (\<lambda>row. arr_at row c)) rows cols))"

text \<open>\<^verbatim>\<open>calc_uncertainty\<close>: the table gives one value per band of slope.\<close>

definition calc_uncertainty ::
  "np_err \<Rightarrow> (fl list \<Rightarrow> fl list \<Rightarrow> (fl list \<Rightarrow> fl list res) res) \<Rightarrow> fl list \<Rightarrow> fl list \<Rightarrow> fl \<Rightarrow> fl \<Rightarrow> fl list res" where
  "calc_uncertainty em interp1d slopes table min_slope max_slope =
     (let n = length table in
      rbind (rbind (npf_sub em max_slope min_slope) (\<lambda>d. npf_div em d (of_intf (int n)))) (\<lambda>band.
      rbind (rmapM (\<lambda>k. rbind (npf_mul em (of_intf (int k)) band) (npf_add em min_slope)) [0..<n + 1]) (\<lambda>x.
      rbind (py_index table (- 1)) (\<lambda>last_value.
      rbind (py_index table 0) (\<lambda>first_value.
      rbind (interp1d x (table @ [last_value])) (\<lambda>interp_func.
        let u0 = replicate (length slopes) NaN;
            inside = np_where (\<lambda>s. fl_le min_slope s \<and> fl_le s max_slope) slopes
        in rbind (if inside \<noteq> [] then rbind (interp_func (map ((!) slopes) inside)) (\<lambda>vs. Inr (scatter u0 inside vs))
                  else Inr u0) (\<lambda>u1.
             let u2 = np_put u1 (np_where (\<lambda>s. fl_le max_slope s) slopes) last_value
             in Inr (np_put u2 (np_where (\<lambda>s. fl_le s min_slope) slopes) first_value))))))))"

record unc_tables =
  ut_table_grn :: "fl list"
  ut_min_slope_grn :: fl
  ut_max_slope_grn :: fl
  ut_table_ant :: frame
  slope_grn :: grid
  slope_ant :: "grid option"
  roughness_ant :: "grid option"

text \<open>\<^verbatim>\<open>np.arange(0, 2.1, 0.1)\<close>: 21 values.\<close>

definition ant_bins :: "fl list" where
  "ant_bins = map (\<lambda>i. fl_mul (of_intf (int i)) (round64 (1 / 10))) [0..<21]"

definition table_keys :: "string list" where
  "table_keys = [''uncertainty_table'', ''min_slope'', ''max_slope'', ''number_of_bins'']"

text \<open>The grids are not kept in shared memory.\<close>

definition init_uncertainty :: "unc_env \<Rightarrow> config \<Rightarrow> gshm \<Rightarrow> unc_tables res" where
  "init_uncertainty env cfg sh =
     (if \<not> dhas cfg ''uncertainty_tables'' then Inl (KeyError ''uncertainty_tables not in config'')
      else rbind (rbind (dget cfg ''uncertainty_tables'') as_cdict) (\<lambda>ut.
        if \<not> dhas ut ''base_dir'' then Inl (KeyError ''uncertainty_tables.base_dir not in config'')
        else rbind (rbind (dget ut ''base_dir'') cstring) (\<lambda>base.
          let ant = base @ ''/ant_2d_uncertainty_table_bilinear_median.pickle'';
              grn = base @ ''/greenland_1d_uncertainty_from_is2_d001.npz'';
              ge = ue_grid env
          in if \<not> ge_isfile ge ant then Inl (FileNotFoundError (''Antarctic uncertainty table '' @ ant @ '' not found''))
             else if \<not> ge_isfile ge grn then Inl (FileNotFoundError (''Greenland uncertainty table '' @ grn @ '' not found''))
             else
               rbind (ge_npz ge grn) (\<lambda>data.
                 case filter (\<lambda>k. \<not> dhas data k) table_keys of
                   k # _ \<Rightarrow> Inl (KeyError (k @ '' key not in Greenland uncertainty table '' @ grn))
                 | [] \<Rightarrow>
                     rbind (npz_number data ''min_slope'') (\<lambda>mn. rbind (npz_number data ''max_slope'') (\<lambda>mx.
                     rbind (ue_pickle env ant) (\<lambda>fr.
                     rbind (rbind (dget data ''uncertainty_table'') (\<lambda>v. case v of SF t \<Rightarrow> Inr t
                              | _ \<Rightarrow> Inl (ValueError ''ut_table_grn is not of type np.ndarray''))) (\<lambda>tab.
                     rbind (of_option (ValueError ''ut_table_ant is not of type pd.core.frame.DataFrame'') fr) (\<lambda>fra.
                     rbind (slopes_new ge ''awi_grn_2013_1km_slopes'' True None None False sh) (\<lambda>(sg, _).
                     rbind (if opt_flag cfg ''grn_only'' then Inr (None, None)
                            else rbind (slopes_new ge ''rema_100m_900ws_slopes_zarr'' True None None False sh) (\<lambda>(sa, _).
                                 rbind (roughness_new ge ''rema_100m_900ws_roughness_zarr'' True None None False sh) (\<lambda>(ra, _).
                                   Inr (Some sa, Some ra)))) (\<lambda>(sa, ra).
                       Inr \<lparr>ut_table_grn = tab, ut_min_slope_grn = mn, ut_max_slope_grn = mx, ut_table_ant = fra,
                            slope_grn = sg, slope_ant = sa, roughness_ant = ra\<rparr>)))))))))))"

definition uncertainty :: "unc_env \<Rightarrow> unc_tables \<Rightarrow> dataset \<Rightarrow> shared \<Rightarrow> alg_out" where
  "uncertainty env t l1b sd =
     (let ge = ue_grid env;
          at_points = (\<lambda>f g. rbind (sget_floats sd ''latitudes'') (\<lambda>lats. rbind (sget_floats sd ''longitudes'') (\<lambda>lons.
            f ge g lats lons ''linear'' True)))
      in rbind (dget sd ''hemisphere'') (\<lambda>hem.
         rbind (if hem = SStr ''south'' then
                  (case (slope_ant t, roughness_ant t) of
                     (Some sa, Some ra) \<Rightarrow>
                       rbind (at_points interp_slopes sa) (\<lambda>slope_values. rbind (at_points interp_roughness ra) (\<lambda>roughness_values.
                       rbind (get_binned_values slope_values roughness_values (ut_table_ant t) ant_bins ant_bins) (\<lambda>u.
                         Inr (SF u))))
                   | _ \<Rightarrow> Inr SNone)
                else
                  rbind (at_points interp_slopes (slope_grn t)) (\<lambda>slopes.
                  rbind (calc_uncertainty (ge_mode ge) (ue_interp1d env) slopes (ut_table_grn t) (ut_min_slope_grn t)
                           (ut_max_slope_grn t)) (\<lambda>u. Inr (SF u)))) (\<lambda>v.
           pass (dset sd ''uncertainty'' v))))"

definition alg_uncertainty :: "unc_env \<Rightarrow> gshm \<Rightarrow> alg_class" where
  "alg_uncertainty env sh = \<lparr>cls_name = ''clev2er.algorithms.cryotempo.alg_uncertainty'',
     cls_init = (\<lambda>cfg. rbind (init_uncertainty env cfg sh) (\<lambda>t.
       Inr ((True, []), \<lparr>impl_body = uncertainty env t, impl_finalize = base_finalize\<rparr>)))\<rparr>"

section \<open>The contract\<close>

interpretation ref_dem: chain_algorithm "ref_dem env dems" "{''dem_elevation_values''}"
  by (unfold_locales, erule framesD [rotated], unfold ref_dem_def Let_def, intro frame_intros) (auto intro: agree_off_dset)

interpretation filter_height: chain_algorithm "filter_height em cfg" "{''height_filt''}"
  by (unfold_locales, erule framesD [rotated], unfold filter_height_def Let_def, intro frame_intros) (auto intro: agree_off_dset)

interpretation uncertainty: chain_algorithm "uncertainty env t" "{''uncertainty''}"
  by (unfold_locales, erule framesD [rotated], unfold uncertainty_def Let_def, intro frame_intros) (auto intro: agree_off_dset)

section \<open>Behaviour\<close>

lemma config_dem_new:
  assumes "config_dem env cfg k sh = Inr (g, sh')"
  obtains name where "dem_new env name True (Some cfg) None (dhas cfg ''_init_shared_mem'') sh = Inr (g, sh')"
    "cget2 cfg ''reference_dem'' k = Inr (CStr name)"
proof -
  obtain v where "cget2 cfg ''reference_dem'' k = Inr v" using assms by (auto simp: config_dem_def rbind_eq_Inr)
  then show ?thesis using assms that by (cases v) (auto simp: config_dem_def)
qed

lemma clean_up_shm: "shm_use name shm sh g sh' \<Longrightarrow> snd (grid_clean_up g s) =
    (if g_shared_mem g = None \<or> sh name \<noteq> None then s else s(name := None))"
  by (auto simp: shm_use_def grid_clean_up_def split: option.splits)

lemma shm_use_others: "shm_use name shm sh g sh' \<Longrightarrow> n \<noteq> name \<or> g_shared_mem g = None \<Longrightarrow> sh' n = sh n"
  by (auto simp: shm_use_def split: option.splits)

lemma shm_use_created: "shm_use name shm sh g sh' \<Longrightarrow> g_shared_mem g \<noteq> None \<Longrightarrow> sh' name \<noteq> None"
  by (auto simp: shm_use_def)

text \<open>Shared memory of the reference models. If \<^verbatim>\<open>init\<close> of \<^verbatim>\<open>alg_ref_dem\<close> succeeds in a state without segments for
  its two models, \<^verbatim>\<open>finalize\<close> removes every segment that \<^verbatim>\<open>init\<close> created: the state is again the one before,
  also when both hemispheres are given the same model and when a file was missing.\<close>

theorem ref_dem_releases_memory:
  assumes init: "init_ref_dem env cfg sh = Inr (dems, sh')"
    and fresh: "\<And>k name. cget2 cfg ''reference_dem'' k = Inr (CStr name) \<Longrightarrow> sh name = None"
  shows "finalize_ref_dem dems sh' = sh"
proof -
  let ?shm = "dhas cfg ''_init_shared_mem''"
  obtain sh1 where grn: "config_dem env cfg ''greenland_dem'' sh1 = Inr (dem_grn dems, sh')" and
    ant: "(case dem_ant dems of None \<Rightarrow> sh1 = sh | Some g \<Rightarrow> config_dem env cfg ''antarctic_dem'' sh = Inr (g, sh1))"
    using init by (auto simp: init_ref_dem_def rbind_eq_Inr split: if_splits)
  obtain b where b: "shm_use b ?shm sh1 (dem_grn dems) sh'" "sh b = None"
    using config_dem_new [OF grn] dem_new_shm fresh by metis
  show ?thesis
  proof (cases "dem_ant dems")
    case None
    then have "sh1 = sh" using ant by simp
    then show ?thesis using None b shm_use_others [OF b(1)] by (auto simp: finalize_ref_dem_def clean_up_shm [OF b(1)])
  next
    case (Some g)
    then have "config_dem env cfg ''antarctic_dem'' sh = Inr (g, sh1)" using ant by simp
    then obtain a where a: "shm_use a ?shm sh g sh1" "sh a = None"
      using config_dem_new dem_new_shm fresh by metis
    show ?thesis
    proof
      fix n
      show "finalize_ref_dem dems sh' n = sh n"
        using a(2) b(2) shm_use_others [OF a(1), of n] shm_use_others [OF a(1), of b] shm_use_others [OF b(1), of n]
          shm_use_created [OF a(1)]
        by (cases "n = a"; cases "n = b"; cases "g_shared_mem g = None"; cases "g_shared_mem (dem_grn dems) = None")
          (auto simp: finalize_ref_dem_def Let_def Some clean_up_shm [OF a(1)] clean_up_shm [OF b(1)])
    qed
  qed
qed

text \<open>C21: Filtered heights. When \<^verbatim>\<open>alg_filter_height\<close> succeeds, the heights themselves are unchanged and
  \<^verbatim>\<open>height_filt\<close> holds each of them, or NaN where it is further from the reference elevation than allowed or
  outside the elevations allowed in its hemisphere. A height without a reference elevation is kept.\<close>

theorem filtered_heights:
  assumes ok: "filter_height em cfg l1b sd = Inr ((True, m), sd')"
    and h: "dget sd ''height_20_ku'' = Inr (SF hs)" and d: "dget sd ''dem_elevation_values'' = Inr (SF ds)" "length ds = length hs"
    and flt: "dget cfg ''height_filters'' = Inr (CDict flt)" and md: "max_diff_of flt sd = Inr md"
    and lim: "dget sd ''hemisphere'' = Inr hem" "elevation_limits flt hem = Inr (lo, hi)"
  shows "dget sd' ''height_20_ku'' = Inr (SF hs) \<and> (\<exists>fs. dget sd' ''height_filt'' = Inr (SF fs) \<and> length fs = length hs \<and>
    (\<forall>i<length hs. fs ! i = (if fl_lt md (fl_abs (fl_sub (hs ! i) (ds ! i))) \<or> fl_lt hi (hs ! i) \<or> fl_lt (hs ! i) lo
       then NaN else hs ! i)))"
proof -
  obtain diff where diff: "np_zip (npf_sub em) hs ds = Inr diff" and
    sd': "sd' = dset sd ''height_filt'' (SF (np_put (np_put hs (np_where (\<lambda>x. fl_lt md (fl_abs x)) diff) NaN)
        (np_where (\<lambda>h. fl_lt hi h \<or> fl_lt h lo) hs) NaN))"
    using assms by (auto simp: filter_height_def rbind_eq_Inr sget_floats_def as_floats_def as_cdict_def Let_def split: if_splits list.splits)
  have len: "length diff = length hs" and val: "diff ! i = fl_sub (hs ! i) (ds ! i)" if "i < length hs" for i
    using np_zip_nth [OF diff] d(2) that npf_sub_Inr by auto
  have len: "length diff = length hs" using np_zip_nth [OF diff] d(2) by simp
  show ?thesis
    using h by (auto simp: sd' nth_np_put set_np_where len val)
qed

lemma scatter_other: "i \<notin> set idx \<Longrightarrow> scatter xs idx vs ! i = xs ! i"
  by (induction xs idx vs rule: scatter.induct) auto

text \<open>Uncertainty from slope. When \<^verbatim>\<open>calc_uncertainty\<close> returns, a slope that is not above the minimum gets the first
  value of the table, one that is not below the maximum the last, and NaN gets NaN.\<close>

theorem calc_uncertainty_clamped:
  assumes "calc_uncertainty em interp1d slopes table min_slope max_slope = Inr u"
  shows "table \<noteq> [] \<and> length u = length slopes \<and> (\<forall>i<length slopes.
      (slopes ! i = NaN \<longrightarrow> u ! i = NaN) \<and> (fl_le (slopes ! i) min_slope \<longrightarrow> u ! i = hd table) \<and>
      (fl_le max_slope (slopes ! i) \<and> \<not> fl_le (slopes ! i) min_slope \<longrightarrow> u ! i = last table))"
proof -
  define lo hi where "lo = np_where (\<lambda>s. fl_le s min_slope) slopes" and "hi = np_where (\<lambda>s. fl_le max_slope s) slopes"
  define mid where "mid = np_where (\<lambda>s. fl_le min_slope s \<and> fl_le s max_slope) slopes"
  obtain first_value last_value u1 where
    vals: "py_index table 0 = Inr first_value" "py_index table (- 1) = Inr last_value" and
    u1: "u1 = replicate (length slopes) NaN \<or> (\<exists>vs. u1 = scatter (replicate (length slopes) NaN) mid vs)" and
    u: "u = np_put (np_put u1 hi last_value) lo first_value"
    using assms by (auto simp: calc_uncertainty_def rbind_eq_Inr Let_def lo_def hi_def mid_def split: if_splits)
  have table: "table \<noteq> []" "first_value = hd table" "last_value = last table"
    using vals by (auto simp: py_index_def hd_conv_nth last_conv_nth rev_nth split: if_splits)
  have len: "length u1 = length slopes" using u1 by auto
  have nan: "u1 ! i = NaN" if "i < length slopes" "slopes ! i = NaN" for i
    using u1 that scatter_other [of i mid "replicate (length slopes) NaN"] by (auto simp: mid_def set_np_where)
  show ?thesis
    using table len nan by (auto simp: u nth_np_put set_np_where lo_def hi_def)
qed

text \<open>Bins of slope and roughness. For ascending bins the index looked up in the Antarctic table is that of the bin
  around the value; a value below all bins gets the first bin, a value above all bins and NaN the last.\<close>

theorem bin_index_around:
  assumes bins: "ascending bins"
  shows "0 \<le> bin_index bins x \<and> bin_index bins x \<le> int (length bins) - 2 \<and>
    (x = NaN \<longrightarrow> bin_index bins x = int (length bins) - 2) \<and>
    (fl_le (hd bins) x \<and> fl_lt x (last bins) \<longrightarrow> fl_le (bins ! nat (bin_index bins x)) x \<and> fl_lt x (bins ! (nat (bin_index bins x) + 1))) \<and>
    (fl_lt x (hd bins) \<longrightarrow> bin_index bins x = 0) \<and> (fl_le (last bins) x \<longrightarrow> bin_index bins x = int (length bins) - 2)"
proof (cases "x = NaN")
  case True
  then show ?thesis using bins by (simp add: bin_index_def np_digitize_def)
next
  case False
  define c where "c = length (filter (\<lambda>b. fl_le b x) bins)"
  have idx: "bin_index bins x = min (max (int c - 1) 0) (int (length bins) - 2)"
    using False by (simp add: bin_index_def np_digitize_def c_def)
  have c: "fl_le (bins ! k) x \<longleftrightarrow> k < c" if "k < length bins" for k
    using ascending_le_count [OF bins False that] by (simp add: c_def)
  have ne: "0 < length bins" "length bins - 1 < length bins" using bins by auto
  have "c \<le> length bins" by (simp add: c_def)
  have ends: "hd bins = bins ! 0" "last bins = bins ! (length bins - 1)"
    using ne by (simp_all add: hd_conv_nth last_conv_nth)
  have gt: "fl_lt x (bins ! k)" if "k < length bins" "\<not> k < c" for k
    using c [OF that(1)] that False ascending_not_NaN bins fl_le_iff by metis
  have hd: "fl_le (hd bins) x \<longleftrightarrow> 0 < c" "fl_le (last bins) x \<longleftrightarrow> length bins - 1 < c"
    using c [OF ne(1)] c [OF ne(2)] by (simp_all add: ends)
  have "fl_lt x (hd bins) \<longrightarrow> c = 0" "fl_lt x (last bins) \<longrightarrow> c < length bins"
    using hd fl_le_not_lt \<open>c \<le> length bins\<close> ne by fastforce+
  moreover have "fl_le (bins ! (c - 1)) x \<and> fl_lt x (bins ! c)" if "0 < c" "c < length bins"
    using c [of "c - 1"] gt [of c] that by simp
  ultimately show ?thesis
    using bins hd \<open>c \<le> length bins\<close> False by (cases c) (auto simp: idx min_def max_def)
qed

text \<open>A model whose file is missing is created without a transformer, and cannot be queried by latitude and
  longitude.\<close>

lemma missing_dem_no_transformer:
  assumes "dem_new env name filled cfg dir shm sh = Inr (g, sh')" and "map_of dem_table name = Some d"
    and "grid_file env dem_class d (set_def d (blank_grid name filled cfg dir shm)) = Inl (OSError msg)"
  shows "g_crs g = None"
  using assms by (auto simp: dem_new_def load_dem_def Let_def set_def_def blank_grid_def split: if_splits)

lemma missing_dem_raises:
  assumes init: "init_ref_dem env cfg sh = Inr (dems, sh')" and ant: "\<not> opt_flag cfg ''grn_only''"
    and name: "cget2 cfg ''reference_dem'' ''antarctic_dem'' = Inr (CStr name)" "map_of dem_table name = Some d"
    and gone: "grid_file env dem_class d (set_def d (blank_grid name True (Some cfg) None (dhas cfg ''_init_shared_mem''))) = Inl (OSError msg)"
    and sd: "dget sd ''hemisphere'' = Inr (SStr ''south'')" "dget sd ''latitudes'' = Inr (SF lats)" "dget sd ''longitudes'' = Inr (SF lons)"
  shows "ref_dem env dems l1b sd = Inl (AttributeError ''lonlat_to_xy_transformer'')"
proof -
  obtain g sh1 where "dem_ant dems = Some g"
    "dem_new env name True (Some cfg) None (dhas cfg ''_init_shared_mem'') sh = Inr (g, sh1)"
    using init ant name(1) by (auto simp: init_ref_dem_def config_dem_def rbind_eq_Inr)
  then show ?thesis
    using missing_dem_no_transformer [OF _ name(2) gone] sd
    by (simp add: ref_dem_def Let_def sget_floats_def as_floats_def interp_dem_def interp_grid_def to_xy_def)
qed

section \<open>Witnesses\<close>

definition wit_height_cfg :: config where
  "wit_height_cfg = [(''reference_dem'', CDict [(''antarctic_dem'', CStr ''rema_ant_1km''), (''greenland_dem'', CStr ''awi_grn_1km'')]),
     (''_init_shared_mem'', CBool True),
     (''height_filters'', CDict [(''min_elevation_antarctica'', CInt (- 50)), (''max_elevation_antarctica'', CInt 4000),
       (''min_elevation_greenland'', CInt (- 50)), (''max_elevation_greenland'', CInt 3700),
       (''max_diff_to_ref_dem_lrm'', CInt 50), (''max_diff_to_ref_dem'', CInt 100)])]"

definition wit_height_flt :: config where
  "wit_height_flt = [(''min_elevation_antarctica'', CInt (- 50)), (''max_elevation_antarctica'', CInt 4000),
       (''min_elevation_greenland'', CInt (- 50)), (''max_elevation_greenland'', CInt 3700),
       (''max_diff_to_ref_dem_lrm'', CInt 50), (''max_diff_to_ref_dem'', CInt 100)]"

definition wit_height_sd :: shared where
  "wit_height_sd = [(''height_20_ku'', SF [Fin 100, Fin 200, Fin 5000, Fin 300]),
     (''dem_elevation_values'', SF [Fin 110, Fin 400, Fin 5000, NaN]), (''instr_mode'', SStr ''LRM''), (''hemisphere'', SStr ''south'')]"

lemma wit_dems: "map_of dem_table ''rema_ant_1km'' = Some rema_ant_1km" "''rema_ant_1km'' \<in> set dem_list"
  "map_of dem_table ''awi_grn_1km'' = Some awi_grn_1km" "''awi_grn_1km'' \<in> set dem_list"
  by (simp_all add: dem_table_def dem_list_def)

lemma wit_geotiff:
  assumes "g_in_shm g" "sh (g_name g) = None"
  shows "\<exists>g' seg. load_geotiff wit_genv gc v f g sh = Inr (g', sh(g_name g \<mapsto> seg))"
proof -
  have "[0..<3] = [0, 1, 2 :: nat]" by (simp add: upt_rec)
  then show ?thesis using assms
    by (simp add: load_geotiff_def get_geotiff_extent_def geotiff_values_def read_image_def set_axes_def wit_genv_def wit_tiff_def
      wit_linspace_def np_min_def Let_def del: upt_Suc) blast
qed

lemma wit_dem_loaded:
  assumes d: "map_of dem_table name = Some d" "name \<in> set dem_list" "\<not> gd_npz_type d" "\<not> gd_zarr_type d" and sh: "sh name = None"
  shows "\<exists>g seg. dem_new wit_genv name True (Some wit_height_cfg) None True sh = Inr (g, sh(name \<mapsto> seg))"
proof -
  let ?g = "blank_grid name True (Some wit_height_cfg) None True"
  obtain f where f: "grid_file wit_genv dem_class d (set_def d ?g) = Inr f"
    using d(4) that by (simp add: grid_file_def get_filename_def config_dir_def wit_genv_def set_def_def blank_grid_def dem_class_def
      wit_height_cfg_def dhas_def)
  have "g_npz_type (set_def d ?g) = False" "g_zarr_type (set_def d ?g) = False" "g_name ?g = name"
    using d(3,4) by (simp_all add: set_def_def blank_grid_def)
  moreover obtain g' seg where "load_geotiff wit_genv dem_class (gd_void_value d) f (set_def d ?g) sh = Inr (g', sh(name \<mapsto> seg))"
    using wit_geotiff [of "set_def d ?g" sh dem_class "gd_void_value d" f] sh by auto
  ultimately show ?thesis
    using f d(1,2) by (auto simp: dem_new_def load_dem_def load_dem_file_def Let_def)
qed

theorem ref_dem_releases_memory_witness:
  "\<exists>dems sh'. init_ref_dem wit_genv wit_height_cfg Map.empty = Inr (dems, sh') \<and> sh' ''rema_ant_1km'' \<noteq> None \<and>
    finalize_ref_dem dems sh' = Map.empty"
proof -
  obtain g s where ant: "dem_new wit_genv ''rema_ant_1km'' True (Some wit_height_cfg) None True Map.empty = Inr (g, [''rema_ant_1km'' \<mapsto> s])"
    using wit_dem_loaded [OF wit_dems(1,2), of Map.empty] by (auto simp: rema_ant_1km_def)
  obtain h t where grn: "dem_new wit_genv ''awi_grn_1km'' True (Some wit_height_cfg) None True [''rema_ant_1km'' \<mapsto> s] =
      Inr (h, [''rema_ant_1km'' \<mapsto> s, ''awi_grn_1km'' \<mapsto> t])"
    using wit_dem_loaded [OF wit_dems(3,4), of "[''rema_ant_1km'' \<mapsto> s]"] by (auto simp: awi_grn_1km_def)
  have cfg: "opt_flag wit_height_cfg ''grn_only'' = False" "dhas wit_height_cfg ''_init_shared_mem'' = True"
    "cget2 wit_height_cfg ''reference_dem'' ''antarctic_dem'' = Inr (CStr ''rema_ant_1km'')"
    "cget2 wit_height_cfg ''reference_dem'' ''greenland_dem'' = Inr (CStr ''awi_grn_1km'')" by code_simp+
  have init: "init_ref_dem wit_genv wit_height_cfg Map.empty =
      Inr (\<lparr>dem_ant = Some g, dem_grn = h\<rparr>, [''rema_ant_1km'' \<mapsto> s, ''awi_grn_1km'' \<mapsto> t])"
    by (simp add: init_ref_dem_def config_dem_def cfg ant grn)
  show ?thesis using ref_dem_releases_memory [OF init] init by auto
qed

theorem filtered_heights_witness:
  "\<exists>m sd'. filter_height seterr_default wit_height_cfg wit_nc0 wit_height_sd = Inr ((True, m), sd') \<and>
    dget sd' ''height_filt'' = Inr (SF [Fin 100, NaN, NaN, Fin 300])"
proof -
  have "succeeds (filter_height seterr_default wit_height_cfg wit_nc0 wit_height_sd)" by code_simp
  then obtain m sd' where ok: "filter_height seterr_default wit_height_cfg wit_nc0 wit_height_sd = Inr ((True, m), sd')"
    by (rule succeedsE)
  have "dget wit_height_cfg ''height_filters'' = Inr (CDict wit_height_flt)" "max_diff_of wit_height_flt wit_height_sd = Inr (Fin 50)"
    "elevation_limits wit_height_flt (SStr ''south'') = Inr (Fin (- 50), Fin 4000)"
    "dget wit_height_sd ''height_20_ku'' = Inr (SF [Fin 100, Fin 200, Fin 5000, Fin 300])"
    "dget wit_height_sd ''dem_elevation_values'' = Inr (SF [Fin 110, Fin 400, Fin 5000, NaN])"
    "dget wit_height_sd ''hemisphere'' = Inr (SStr ''south'')" by code_simp+
  from filtered_heights [OF ok this(4,5) _ this(1,2,6,3)] obtain fs where fs: "dget sd' ''height_filt'' = Inr (SF fs)" "length fs = 4"
    "\<forall>i<4. fs ! i = (if fl_lt (Fin 50) (fl_abs (fl_sub ([Fin 100, Fin 200, Fin 5000, Fin 300] ! i) ([Fin 110, Fin 400, Fin 5000, NaN] ! i)))
       \<or> fl_lt (Fin 4000) ([Fin 100, Fin 200, Fin 5000, Fin 300] ! i) \<or> fl_lt ([Fin 100, Fin 200, Fin 5000, Fin 300] ! i) (Fin (- 50))
       then NaN else [Fin 100, Fin 200, Fin 5000, Fin 300] ! i)" by auto
  have "fs = map (\<lambda>i. if fl_lt (Fin 50) (fl_abs (fl_sub ([Fin 100, Fin 200, Fin 5000, Fin 300] ! i) ([Fin 110, Fin 400, Fin 5000, NaN] ! i)))
       \<or> fl_lt (Fin 4000) ([Fin 100, Fin 200, Fin 5000, Fin 300] ! i) \<or> fl_lt ([Fin 100, Fin 200, Fin 5000, Fin 300] ! i) (Fin (- 50))
       then NaN else [Fin 100, Fin 200, Fin 5000, Fin 300] ! i) [0..<4]"
    using fs(2,3) by (intro nth_equalityI) auto
  also have "\<dots> = [Fin 100, NaN, NaN, Fin 300]" by code_simp
  finally show ?thesis using ok fs(1) by blast
qed

theorem calc_uncertainty_clamped_witness:
  "\<exists>u. calc_uncertainty seterr_default (\<lambda>x y. Inr Inr) [NaN, Fin (- 1), Fin 1, Fin 9] [Fin 7, Fin 8] (Fin 0) (Fin 2) = Inr u \<and>
    u ! 0 = NaN \<and> u ! 1 = Fin 7 \<and> u ! 3 = Fin 8"
proof -
  let ?r = "calc_uncertainty seterr_default (\<lambda>x y. Inr Inr) [NaN, Fin (- 1), Fin 1, Fin 9] [Fin 7, Fin 8] (Fin 0) (Fin 2)"
  have "\<not> isl ?r" by code_simp
  then obtain u where u: "?r = Inr u" by (cases ?r) auto
  have "\<forall>i<4. ([NaN, Fin (- 1), Fin 1, Fin 9] ! i = NaN \<longrightarrow> u ! i = NaN) \<and>
      (fl_le ([NaN, Fin (- 1), Fin 1, Fin 9] ! i) (Fin 0) \<longrightarrow> u ! i = Fin 7) \<and>
      (fl_le (Fin 2) ([NaN, Fin (- 1), Fin 1, Fin 9] ! i) \<and> \<not> fl_le ([NaN, Fin (- 1), Fin 1, Fin 9] ! i) (Fin 0) \<longrightarrow> u ! i = Fin 8)"
    using calc_uncertainty_clamped [OF u] by simp
  from spec [OF this, of 0] spec [OF this, of 1] spec [OF this, of 3] show ?thesis using u by simp
qed

theorem bin_index_around_witness:
  "bin_index [Fin 0, Fin 1, Fin 2] NaN = 1 \<and> bin_index [Fin 0, Fin 1, Fin 2] (Fin 5) = 1 \<and> bin_index [Fin 0, Fin 1, Fin 2] (Fin (- 1)) = 0"
proof -
  have asc: "ascending [Fin 0, Fin 1, Fin 2]" by simp
  show ?thesis
    using bin_index_around [OF asc, of NaN] bin_index_around [OF asc, of "Fin 5"] bin_index_around [OF asc, of "Fin (- 1)"] by simp
qed

end
