(* ===== verification/Py_Time.thy ===== *)
theory Py_Time
  imports Log_Files Np_Float
begin

text \<open>
  Times. A Python \<^verbatim>\<open>datetime\<close> is its number of microseconds since the start of year 1, a \<^verbatim>\<open>timedelta\<close>
  a number of microseconds; both are what the standard library computes with. On them,
  \<^verbatim>\<open>utils/time/grain.py\<close>, which converts between TAI and UTC with a file of leap seconds, and
  \<^verbatim>\<open>utils/orbits/find_orbit_directions.py\<close>.
\<close>

section \<open>datetime\<close>

type_synonym datetime = int
type_synonym timedelta = int

definition us_per_day :: int where
  "us_per_day = 86400000000"

text \<open>The proleptic Gregorian calendar as in the C implementation of the module.\<close>

definition is_leap :: "int \<Rightarrow> bool" where
  "is_leap y = (y mod 4 = 0 \<and> (y mod 100 \<noteq> 0 \<or> y mod 400 = 0))"

definition days_before_year :: "int \<Rightarrow> int" where
  "days_before_year y = (y - 1) * 365 + (y - 1) div 4 - (y - 1) div 100 + (y - 1) div 400"

definition days_in_month :: "int \<Rightarrow> int \<Rightarrow> int" where
  "days_in_month y m = (if m = 2 then (if is_leap y then 29 else 28) else if m \<in> {4, 6, 9, 11} then 30 else 31)"

definition days_before_month :: "int \<Rightarrow> int \<Rightarrow> int" where
  "days_before_month y m =
     [0, 0, 31, 59, 90, 120, 151, 181, 212, 243, 273, 304, 334] ! nat m + (if 2 < m \<and> is_leap y then 1 else 0)"

text \<open>\<^verbatim>\<open>datetime(y, m, d)\<close>\<close>

definition midnight :: "int \<Rightarrow> int \<Rightarrow> int \<Rightarrow> datetime" where
  "midnight y m d = (days_before_year y + days_before_month y m + d - 1) * us_per_day"

definition max_datetime :: datetime where
  "max_datetime = 3652059 * us_per_day"

text \<open>Year, month and day from the number of days since the start of year 1.\<close>

definition ord_to_ymd :: "int \<Rightarrow> int \<times> int \<times> int" where
  "ord_to_ymd n0 =
     (let n400 = n0 div 146097; a = n0 mod 146097; n100 = a div 36524; b = a mod 36524;
          n4 = b div 1461; c = b mod 1461; n1 = c div 365; n = c mod 365;
          year = n400 * 400 + 1 + n100 * 100 + n4 * 4 + n1 in
      if n1 = 4 \<or> n100 = 4 then (year - 1, 12, 31)
      else
        (let leap = (n1 = 3 \<and> (n4 \<noteq> 24 \<or> n100 = 3)); month = (n + 50) div 32;
             preceding = [0, 0, 31, 59, 90, 120, 151, 181, 212, 243, 273, 304, 334] ! nat month + (if 2 < month \<and> leap then 1 else 0) in
         if n < preceding then (year, month - 1, n - (preceding - days_in_month year (month - 1)) + 1)
         else (year, month, n - preceding + 1)))"

definition dt_ymd :: "datetime \<Rightarrow> int \<times> int \<times> int" where
  "dt_ymd t = ord_to_ymd (t div us_per_day)"

definition dt_year :: "datetime \<Rightarrow> int" where "dt_year t = fst (dt_ymd t)"
definition dt_month :: "datetime \<Rightarrow> int" where "dt_month t = fst (snd (dt_ymd t))"
definition dt_day :: "datetime \<Rightarrow> int" where "dt_day t = snd (snd (dt_ymd t))"
definition dt_hour :: "datetime \<Rightarrow> int" where "dt_hour t = t mod us_per_day div 3600000000"
definition dt_minute :: "datetime \<Rightarrow> int" where "dt_minute t = t mod 3600000000 div 60000000"
definition dt_second :: "datetime \<Rightarrow> int" where "dt_second t = t mod 60000000 div 1000000"
definition dt_microsecond :: "datetime \<Rightarrow> int" where "dt_microsecond t = t mod 1000000"

text \<open>\<^verbatim>\<open>datetime + timedelta\<close>\<close>

definition dt_add :: "datetime \<Rightarrow> timedelta \<Rightarrow> datetime res" where
  "dt_add t d = (if 0 \<le> t + d \<and> t + d < max_datetime then Inr (t + d) else Inl (OverflowError ''date value out of range''))"

text \<open>\<^verbatim>\<open>timedelta(seconds=x)\<close> of a float: the whole seconds, and the fraction times a million rounded to even.\<close>

definition timedelta_checked :: "int \<Rightarrow> timedelta res" where
  "timedelta_checked us = (if \<bar>us div us_per_day\<bar> \<le> 999999999 then Inr us else Inl (OverflowError ''days out of range''))"

definition td_seconds :: "fl \<Rightarrow> timedelta res" where
  "td_seconds x = (case x of
     NaN \<Rightarrow> Inl (ValueError ''cannot convert float NaN to integer'')
   | Fin q \<Rightarrow>
       (let whole = (if 0 \<le> q then \<lfloor>q\<rfloor> else \<lceil>q\<rceil>); left = fl_mul (Fin 1000000) (Fin (q - of_int whole)) in
        timedelta_checked (whole * 1000000 + (case left of Fin r \<Rightarrow> rne r | _ \<Rightarrow> 0)))
   | _ \<Rightarrow> Inl (OverflowError ''cannot convert float infinity to integer''))"

definition td_int_seconds :: "int \<Rightarrow> timedelta res" where
  "td_int_seconds s = timedelta_checked (s * 1000000)"

text \<open>\<^verbatim>\<open>td.total_seconds()\<close>\<close>

definition total_seconds :: "timedelta \<Rightarrow> fl" where
  "total_seconds d = round64 (of_int d / 1000000)"

text \<open>\<^verbatim>\<open>str(t)\<close>\<close>

definition dt_str :: "datetime \<Rightarrow> string" where
  "dt_str t = show_pad 4 (dt_year t) @ ''-'' @ show_pad 2 (dt_month t) @ ''-'' @ show_pad 2 (dt_day t) @ '' '' @
     show_pad 2 (dt_hour t) @ '':'' @ show_pad 2 (dt_minute t) @ '':'' @ show_pad 2 (dt_second t) @
     (if dt_microsecond t = 0 then [] else ''.'' @ show_pad 6 (dt_microsecond t))"

section \<open>Leap seconds\<close>

definition NTP_EPOCH :: datetime where "NTP_EPOCH = midnight 1900 1 1"
definition CS2_EPOCH :: datetime where "CS2_EPOCH = midnight 2000 1 1"
definition DEFAULT_EPOCH :: datetime where "DEFAULT_EPOCH = CS2_EPOCH"

record grain =
  leaps :: "(datetime \<times> int) list"

text \<open>\<^verbatim>\<open>s.split()\<close>\<close>

fun py_words :: "string \<Rightarrow> string \<Rightarrow> string list" where
  "py_words w [] = (if w = [] then [] else [rev w])"
| "py_words w (c # cs) =
     (if is_space_c c then (if w = [] then py_words [] cs else rev w # py_words [] cs) else py_words (c # w) cs)"

definition py_int_of :: "string \<Rightarrow> int res" where
  "py_int_of s = of_option (ValueError (''invalid literal for int() with base 10: '' @ s)) (py_int s)"

text \<open>One line of the file: the instant of a leap second and the offset from then on; comments are skipped.\<close>

definition leap_line :: "string \<Rightarrow> (datetime \<times> int) option res" where
  "leap_line line =
     (let stripped_line = py_strip line in
      if starts_with ''#'' stripped_line then Inr None
      else
        (let pieces = py_words [] stripped_line in
         rbind (rbind (py_index pieces 0) py_int_of) (\<lambda>secs.
         rbind (rbind (td_int_seconds secs) (dt_add NTP_EPOCH)) (\<lambda>leap_time.
         rbind (rbind (py_index pieces 1) py_int_of) (\<lambda>offset. Inr (Some (leap_time, offset)))))))"

text \<open>The change at each instant, \<^verbatim>\<open>j - i\<close> for consecutive offsets, starting from 0.\<close>

definition offset_steps :: "int list \<Rightarrow> int list" where
  "offset_steps offsets = map2 (\<lambda>i j. j - i) (butlast (0 # offsets)) offsets"

definition grain_of :: "(datetime \<times> int) list \<Rightarrow> grain" where
  "grain_of entries = \<lparr>leaps = zip (map fst entries) (offset_steps (map snd entries))\<rparr>"

definition grain_new :: "file_store \<Rightarrow> string option \<Rightarrow> grain res" where
  "grain_new fs leap_second_filename = (case leap_second_filename of
     None \<Rightarrow> Inl (ValueError ''No leap_second_filename provided'')
   | Some f \<Rightarrow>
       (case fs f of
          None \<Rightarrow> Inl (FileNotFoundError (f @ '' not found''))
        | Some txt \<Rightarrow>
            rbind (rmapM leap_line (readlines txt)) (\<lambda>ls.
              Inr (grain_of (concat (map (\<lambda>l. case l of None \<Rightarrow> [] | Some e \<Rightarrow> [e]) ls))))))"

definition leaps_between :: "grain \<Rightarrow> datetime \<Rightarrow> datetime \<Rightarrow> int res" where
  "leaps_between g date1 date2 =
     (if date2 < date1 then Inl (RuntimeError ''date1 > date2'')
      else Inr (sum_list (map snd (filter (\<lambda>l. date1 \<le> fst l \<and> fst l \<le> date2) (leaps g)))))"

definition utc2tai :: "grain \<Rightarrow> datetime \<Rightarrow> datetime \<Rightarrow> int res" where
  "utc2tai g utc epoch =
     rbind (leaps_between g epoch utc) (\<lambda>offset.
       let tai = utc - epoch in Inr (tai div us_per_day * (24 * 60 * 60) + tai mod us_per_day div 1000000 + offset))"

definition tai2utc :: "grain \<Rightarrow> fl \<Rightarrow> datetime \<Rightarrow> datetime res" where
  "tai2utc g seconds_since_epoch epoch =
     rbind (td_seconds seconds_since_epoch) (\<lambda>td_sse.
     rbind (dt_add epoch td_sse) (\<lambda>utc_unadjusted.
     rbind (leaps_between g NTP_EPOCH utc_unadjusted) (\<lambda>offset.
     rbind (td_int_seconds offset) (\<lambda>td_offset. dt_add utc_unadjusted (- td_offset)))))"

section \<open>Orbit directions\<close>

text \<open>The loop of \<^verbatim>\<open>find_orbit_directions\<close> from \<open>index\<close> on.\<close>

fun direction_loop :: "fl list \<Rightarrow> nat \<Rightarrow> nat option \<Rightarrow> nat option \<Rightarrow> nat option \<times> nat option" where
  "direction_loop (a # b # lats) index asc_start desc_start =
     (if fl_lt a b \<and> asc_start = None then (Some index, desc_start)
      else if fl_lt b a \<and> desc_start = None then (asc_start, Some index)
      else direction_loop (b # lats) (index + 1) asc_start desc_start)"
| "direction_loop lats index asc_start desc_start = (asc_start, desc_start)"

definition find_orbit_directions :: "fl list \<Rightarrow> nat option \<times> nat option" where
  "find_orbit_directions lats = (case lats of
     a # b # r \<Rightarrow> (if fl_lt a b then direction_loop (b # r) 1 (Some 0) None else direction_loop (b # r) 1 None (Some 0))
   | _ \<Rightarrow> (None, None))"

section \<open>Laws\<close>

text \<open>What the table of leap seconds says: the offset of the last entry not after a date, 0 before the first.\<close>

definition table_offset :: "(datetime \<times> int) list \<Rightarrow> int \<Rightarrow> datetime \<Rightarrow> int" where
  "table_offset entries before date = (case rev (filter (\<lambda>e. fst e \<le> date) entries) of [] \<Rightarrow> before | e # _ \<Rightarrow> snd e)"

lemma table_offset_Cons:
  "table_offset (e # es) before date = (if fst e \<le> date then table_offset es (snd e) date else table_offset es before date)"
  by (auto simp: table_offset_def split: list.splits)

lemma table_offset_before: "\<forall>e\<in>set es. date < fst e \<Longrightarrow> table_offset es before date = before"
  by (induction es) (auto simp: table_offset_Cons table_offset_def)

lemma offset_steps_zip: "offset_steps os = map2 (\<lambda>i j. j - i) (0 # os) os"
proof -
  have "zip (butlast (p # os)) os = zip (p # os) os" for p :: int
    by (induction os arbitrary: p) simp_all
  then show ?thesis by (simp only: offset_steps_def)
qed

lemma leaps_grain_of: "leaps (grain_of es) = zip (map fst es) (map2 (\<lambda>i j. j - i) (0 # map snd es) (map snd es))"
  by (simp add: grain_of_def offset_steps_zip)

lemma sum_steps:
  assumes "sorted_wrt (<) (map fst es)"
  shows "sum_list (map snd (filter (\<lambda>l. fst l \<le> date) (zip (map fst es) (map2 (\<lambda>i j. j - i) (p # map snd es) (map snd es))))) =
    table_offset es p date - p"
  using assms
proof (induction es arbitrary: p)
  case (Cons e es)
  show ?case
  proof (cases "fst e \<le> date")
    case True
    then show ?thesis using Cons by (simp add: table_offset_Cons)
  next
    case False
    then have later: "\<forall>x\<in>set es. date < fst x" using Cons.prems by fastforce
    have "sum_list (map snd (filter (\<lambda>l. fst l \<le> date)
        (zip (map fst es) (map2 (\<lambda>i j. j - i) (snd e # map snd es) (map snd es))))) = table_offset es (snd e) date - snd e"
      using Cons by simp
    with False later show ?thesis by (simp add: table_offset_Cons table_offset_before)
  qed
qed (simp add: table_offset_def)

text \<open>C25: With instants in ascending order, none before 1900, the leap seconds \<^verbatim>\<open>_leaps_between\<close> counts from the NTP
  epoch to a date are the offset that the table of leap seconds gives for the date: taking differences of the
  offsets and adding them up again loses nothing.\<close>

theorem leaps_between_table:
  assumes "sorted_wrt (<) (map fst es)" and "\<forall>e\<in>set es. NTP_EPOCH \<le> fst e" and "NTP_EPOCH \<le> date"
  shows "leaps_between (grain_of es) NTP_EPOCH date = Inr (table_offset es 0 date)"
proof -
  have "filter (\<lambda>l. NTP_EPOCH \<le> fst l \<and> fst l \<le> date) (leaps (grain_of es)) = filter (\<lambda>l. fst l \<le> date) (leaps (grain_of es))"
    using assms(2) by (intro filter_cong) (auto simp: leaps_grain_of dest!: set_zip_leftD)
  then show ?thesis using assms sum_steps [OF assms(1), of date 0] by (simp add: leaps_between_def leaps_grain_of)
qed

text \<open>Two entries of the real table: 10 s from 1972 on, 37 s from 2017 on.\<close>

definition wit_leaps :: "(datetime \<times> int) list" where
  "wit_leaps = [(62198668800000000, 10), (63618825600000000, 37)]"

lemma epochs: "NTP_EPOCH = 59926608000000000" "CS2_EPOCH = 63082281600000000"
  by (simp_all add: NTP_EPOCH_def CS2_EPOCH_def midnight_def days_before_year_def days_before_month_def us_per_day_def)

lemma leaps_between_table_witness:
  "leaps_between (grain_of wit_leaps) NTP_EPOCH 63682281600000000 = Inr 37"
  using leaps_between_table [of wit_leaps 63682281600000000]
  by (simp add: wit_leaps_def epochs table_offset_def)

text \<open>The leap seconds counted between two dates add up.\<close>

lemma sum_leaps_split:
  fixes f :: "'a \<Rightarrow> int"
  assumes "\<And>l. l \<in> set ls \<Longrightarrow> P l \<longleftrightarrow> Q l \<or> R l" and "\<And>l. l \<in> set ls \<Longrightarrow> \<not> (Q l \<and> R l)"
  shows "sum_list (map f (filter P ls)) = sum_list (map f (filter Q ls)) + sum_list (map f (filter R ls))"
  using assms by (induction ls) auto

lemma whole_seconds: "(k::int) div us_per_day * 86400 + k mod us_per_day div 1000000 = k div 1000000"
proof -
  have "k div us_per_day = k div 1000000 div 86400" by (simp add: us_per_day_def zdiv_zmult2_eq [symmetric])
  moreover have "k mod us_per_day div 1000000 = k div 1000000 mod 86400"
    using zmod_zmult2_eq [of 86400 k 1000000] by (simp add: us_per_day_def)
  ultimately show ?thesis by simp
qed

text \<open>C26: Converting a TAI time to UTC and back loses its fraction of a second and the leap seconds before 2000:
  \<^verbatim>\<open>tai2utc\<close> counts leap seconds from 1900 on, \<^verbatim>\<open>utc2tai\<close> from the epoch on. No leap second may lie in the gap between
  the date that \<^verbatim>\<open>tai2utc\<close> looks up and the one that it returns.\<close>

theorem tai_utc_round_trip:
  assumes td: "td_seconds x = Inr d" and utc: "tai2utc g x CS2_EPOCH = Inr u" and after: "CS2_EPOCH \<le> u"
    and gap: "\<forall>l\<in>set (leaps g). fst l \<le> u \<longleftrightarrow> fst l \<le> CS2_EPOCH + d"
  shows "utc2tai g u CS2_EPOCH = Inr (d div 1000000 -
    sum_list (map snd (filter (\<lambda>l. NTP_EPOCH \<le> fst l \<and> fst l < CS2_EPOCH) (leaps g))))"
proof -
  define later where "later = sum_list (map snd (filter (\<lambda>l. CS2_EPOCH \<le> fst l \<and> fst l \<le> u) (leaps g)))"
  define early where "early = sum_list (map snd (filter (\<lambda>l. NTP_EPOCH \<le> fst l \<and> fst l < CS2_EPOCH) (leaps g)))"
  define off where "off = sum_list (map snd (filter (\<lambda>l. NTP_EPOCH \<le> fst l \<and> fst l \<le> CS2_EPOCH + d) (leaps g)))"
  have u: "u = CS2_EPOCH + d - off * 1000000"
    using utc td
    by (auto simp: tai2utc_def rbind_eq_Inr dt_add_def leaps_between_def td_int_seconds_def timedelta_checked_def off_def
        split: if_splits)
  have order: "NTP_EPOCH \<le> CS2_EPOCH" by (simp add: epochs)
  have "off = early + later" unfolding off_def early_def later_def
  proof (rule sum_leaps_split)
    fix l assume "l \<in> set (leaps g)"
    then have "fst l \<le> u \<longleftrightarrow> fst l \<le> CS2_EPOCH + d" using gap by blast
    then show "NTP_EPOCH \<le> fst l \<and> fst l \<le> CS2_EPOCH + d \<longleftrightarrow>
        NTP_EPOCH \<le> fst l \<and> fst l < CS2_EPOCH \<or> CS2_EPOCH \<le> fst l \<and> fst l \<le> u"
      using after order by linarith
  qed simp
  moreover have "(u - CS2_EPOCH) div 1000000 = d div 1000000 - off"
    using u div_mult_self1 [of 1000000 d "- off"] by (simp add: algebra_simps)
  ultimately show ?thesis
    using after whole_seconds [of "u - CS2_EPOCH"]
    by (simp add: utc2tai_def leaps_between_def Let_def later_def [symmetric] early_def [symmetric])
qed

lemma tai_utc_round_trip_witness:
  "tai2utc (grain_of wit_leaps) (Fin 600000000) CS2_EPOCH = Inr 63682281563000000 \<and>
   utc2tai (grain_of wit_leaps) 63682281563000000 CS2_EPOCH = Inr 599999990"
proof -
  let ?g = "grain_of wit_leaps"
  have ls: "leaps ?g = [(62198668800000000, 10), (63618825600000000, 27)]" by (simp add: leaps_grain_of wit_leaps_def)
  have td: "td_seconds (Fin 600000000) = Inr 600000000000000"
    by (simp add: rne_def td_seconds_def timedelta_checked_def us_per_day_def Let_def)
  have utc: "tai2utc ?g (Fin 600000000) CS2_EPOCH = Inr 63682281563000000"
    by (simp add: tai2utc_def td dt_add_def leaps_between_def ls td_int_seconds_def timedelta_checked_def epochs
        us_per_day_def max_datetime_def)
  from tai_utc_round_trip [OF td utc] utc show ?thesis by (simp add: ls epochs)
qed

end
