(* ===== verification/Product.thy ===== *)
theory Product
  imports Py_Time Finders Breakpoints Algs_Height
begin

text \<open>
  \<^verbatim>\<open>alg_product_output\<close>, which writes the product file of an L1b file: the times in UTC, the directory and the
  name of the file, its global attributes and its variables. Writing the file is a list of steps, as an
  exception in one of them leaves the file with what was written before. The file system, netCDF4,
  the clock and \<^verbatim>\<open>git\<close> are parameters, in the record \<open>product_env\<close>.
\<close>

section \<open>Orbits\<close>

definition cnes_cycle_to_subcycle :: "int \<Rightarrow> int \<Rightarrow> int \<times> int" where
  "cnes_cycle_to_subcycle cycle_number rel_orbit_number =
     (let nb_tracks = 10688; nb_sub_tracks = 840;
          absolute_tr = (cycle_number - 1) * nb_tracks + rel_orbit_number;
          sub_cy = (absolute_tr - 1) div nb_sub_tracks + 1;
          sub_tr = (absolute_tr - 1) mod nb_sub_tracks + 1
      in (sub_cy, sub_tr))"

section \<open>The product file\<close>

record product_var =
  pv_name :: string
  pv_type :: string
  pv_fill :: "int option"
  pv_attrs :: "(string \<times> sval) list"
  pv_value :: sval                          \<comment> \<open>\<open>SNone\<close> until it is assigned\<close>

record product =
  pr_attrs :: "(string \<times> sval) list"
  pr_time :: "nat option"                   \<comment> \<open>length of the dimension \<^verbatim>\<open>time\<close>\<close>
  pr_vars :: "product_var list"             \<comment> \<open>the last one is \<^verbatim>\<open>nc_var\<close>\<close>
  pr_closed :: bool                         \<comment> \<open>\<^verbatim>\<open>dset.close()\<close> was called\<close>

definition new_product :: product where
  "new_product = \<lparr>pr_attrs = [], pr_time = None, pr_vars = [], pr_closed = False\<rparr>"

record product_env =
  pe_mode :: np_err
  pe_store :: file_store                          \<comment> \<open>files that are read\<close>
  pe_isdir :: "string \<Rightarrow> bool"
  pe_makedirs :: "string \<Rightarrow> string option"         \<comment> \<open>message of the \<^verbatim>\<open>OSError\<close>\<close>
  pe_isdir_later :: "string \<Rightarrow> bool"               \<comment> \<open>two seconds after \<^verbatim>\<open>makedirs\<close> failed\<close>
  pe_create :: "string \<Rightarrow> string option"           \<comment> \<open>\<^verbatim>\<open>Dataset(f, "w")\<close>: message of the \<^verbatim>\<open>OSError\<close>\<close>
  pe_assign :: "string \<Rightarrow> nat \<Rightarrow> sval \<Rightarrow> sval res"   \<comment> \<open>\<^verbatim>\<open>nc_var[:] = v\<close>: type, dimension and value\<close>
  pe_int32 :: "int \<Rightarrow> int res"                      \<comment> \<open>\<^verbatim>\<open>np.int32\<close>\<close>
  pe_now :: datetime
  pe_git :: "string option res"                   \<comment> \<open>output of \<^verbatim>\<open>git rev-parse HEAD\<close>, \<open>None\<close> if it failed\<close>
  pe_str :: "cval \<Rightarrow> string"                        \<comment> \<open>\<^verbatim>\<open>str\<close> of a float or a container\<close>

text \<open>\<^verbatim>\<open>get_current_commit_hash\<close> catches \<^verbatim>\<open>CalledProcessError\<close> only.\<close>

definition get_current_commit_hash :: "product_env \<Rightarrow> string res" where
  "get_current_commit_hash env =
     rbind (pe_git env) (\<lambda>r. Inr (case r of None \<Rightarrow> [] | Some out \<Rightarrow> py_strip out))"

datatype nc_step =
    Eval "unit res"                         \<comment> \<open>an expression that may raise\<close>
  | SetAttr string "sval res"               \<comment> \<open>\<^verbatim>\<open>dset.name = v\<close>\<close>
  | Dimension nat                           \<comment> \<open>\<^verbatim>\<open>dset.createDimension("time", n)\<close>\<close>
  | CreateVar product_var                   \<comment> \<open>\<^verbatim>\<open>dset.createVariable\<close> and the attributes of the variable\<close>
  | Assign "sval res"                       \<comment> \<open>\<^verbatim>\<open>nc_var[:] = v\<close>\<close>
  | Close                                   \<comment> \<open>\<^verbatim>\<open>dset.close()\<close>\<close>

fun do_step :: "product_env \<Rightarrow> nc_step \<Rightarrow> product \<Rightarrow> product res" where
  "do_step env (Eval r) p = rbind r (\<lambda>_. Inr p)"
| "do_step env (SetAttr k r) p = rbind r (\<lambda>v. Inr (p\<lparr>pr_attrs := dset (pr_attrs p) k v\<rparr>))"
| "do_step env (Dimension n) p = Inr (p\<lparr>pr_time := Some n\<rparr>)"
| "do_step env (CreateVar v) p = Inr (p\<lparr>pr_vars := pr_vars p @ [v]\<rparr>)"
| "do_step env (Assign r) p =
     rbind r (\<lambda>v.
       case (pr_time p, rev (pr_vars p)) of
         (Some n, var # vars) \<Rightarrow>
           rbind (pe_assign env (pv_type var) n v) (\<lambda>x. Inr (p\<lparr>pr_vars := rev (var\<lparr>pv_value := x\<rparr> # vars)\<rparr>))
       | _ \<Rightarrow> Inl (NameError ''nc_var''))"
| "do_step env Close p = Inr (p\<lparr>pr_closed := True\<rparr>)"

text \<open>The steps in order; the first that raises ends them.\<close>

fun write_steps :: "product_env \<Rightarrow> nc_step list \<Rightarrow> product \<Rightarrow> product \<times> unit res" where
  "write_steps env [] p = (p, Inr ())"
| "write_steps env (s # ss) p = (case do_step env s p of Inl e \<Rightarrow> (p, Inl e) | Inr p' \<Rightarrow> write_steps env ss p')"

section \<open>Times\<close>

record product_times =
  pt_tai :: "fl list"                       \<comment> \<open>\<^verbatim>\<open>time_20_ku\<close>\<close>
  pt_utc_dt :: "datetime list"
  pt_utc_secs :: "fl list"

definition product_times_of :: "np_err \<Rightarrow> grain \<Rightarrow> fl list \<Rightarrow> product_times res" where
  "product_times_of em g time_20_ku =
     rbind (rmapM (\<lambda>i. rbind (td_seconds i) (dt_add CS2_EPOCH)) time_20_ku) (\<lambda>time_tai_dt.
     rbind (rmapM (\<lambda>i. tai2utc g i DEFAULT_EPOCH) time_20_ku) (\<lambda>time_utc_dt.
       let diff_in_seconds = map2 (\<lambda>u t. total_seconds (u - t)) time_utc_dt time_tai_dt in
       rbind (np_zip (npf_add em) time_20_ku diff_in_seconds) (\<lambda>time_utc_secs.
         Inr \<lparr>pt_tai = time_20_ku, pt_utc_dt = time_utc_dt, pt_utc_secs = time_utc_secs\<rparr>)))"

text \<open>Hours, minutes and seconds of the file name, to the nearest second.\<close>

definition rounded_clock :: "datetime \<Rightarrow> int \<times> int \<times> int" where
  "rounded_clock t =
     (let hours = dt_hour t; minutes = dt_minute t; seconds = dt_second t in
      if 500000 < dt_microsecond t then
        (if seconds + 1 = 60 then
           (if minutes + 1 = 60 then (hours + 1, 0, 0) else (hours, minutes + 1, 0))
         else (hours, minutes, seconds + 1))
      else (hours, minutes, seconds))"

definition time_str :: "datetime \<Rightarrow> string" where
  "time_str t =
     (let (hours, minutes, seconds) = rounded_clock t in
      show_width 4 (dt_year t) @ show_pad 2 (dt_month t) @ show_pad 2 (dt_day t) @
      ''T'' @ show_pad 2 hours @ show_pad 2 minutes @ show_pad 2 seconds)"

section \<open>The name of the file\<close>

text \<open>The formats \<^verbatim>\<open>{v}\<close> and \<^verbatim>\<open>{v:0wd}\<close> of a configuration value, and \<^verbatim>\<open>{v:0wd}\<close> of an attribute.\<close>

definition fmt_str :: "product_env \<Rightarrow> cval \<Rightarrow> string" where
  "fmt_str env v = (case v of CStr s \<Rightarrow> s | CInt i \<Rightarrow> show_int i | CBool b \<Rightarrow> (if b then ''True'' else ''False'')
     | CNone \<Rightarrow> ''None'' | _ \<Rightarrow> pe_str env v)"

definition cval_int :: "cval \<Rightarrow> int res" where
  "cval_int v = (case v of CInt i \<Rightarrow> Inr i | CBool b \<Rightarrow> Inr (if b then 1 else 0)
     | CStr _ \<Rightarrow> Inl (ValueError ''Unknown format code d'')
     | CFloat _ \<Rightarrow> Inl (ValueError ''Unknown format code d'')
     | _ \<Rightarrow> Inl (TypeError ''unsupported format string''))"

definition attr_int :: "sval \<Rightarrow> int res" where
  "attr_int v = (case v of SInt i \<Rightarrow> Inr i | _ \<Rightarrow> Inl (ValueError ''Unknown format code d''))"

definition upper_of :: "cval \<Rightarrow> string res" where
  "upper_of v = (case v of CStr s \<Rightarrow> Inr (py_upper s) | _ \<Rightarrow> Inl (AttributeError ''upper''))"

definition zone_str :: "bool \<Rightarrow> string" where
  "zone_str south = (if south then ''ANTARC'' else ''GREENL'')"

definition product_dir :: "product_env \<Rightarrow> config \<Rightarrow> bool \<Rightarrow> datetime \<Rightarrow> string res" where
  "product_dir env cfg south start =
     rbind (dget cfg ''product_base_dir'') (\<lambda>base.
     rbind (rbind (dget cfg ''baseline'') upper_of) (\<lambda>bl.
     rbind (rbind (dget cfg ''version'') cval_int) (\<lambda>version.
       Inr (fmt_str env base @ ''/'' @ bl @ ''/'' @ show_pad 3 version @ ''/LAND_ICE/'' @ zone_str south @ ''/'' @
         show_int (dt_year start) @ ''/'' @ show_pad 2 (dt_month start)))))"

text \<open>Making the directory; another process may have made it meanwhile. The result is the message of a failure.\<close>

definition make_product_dir :: "product_env \<Rightarrow> string \<Rightarrow> string option" where
  "make_product_dir env d =
     (if pe_isdir env d then None
      else (case pe_makedirs env d of
              None \<Rightarrow> None
            | Some exc \<Rightarrow> if pe_isdir_later env d then None else Some (''could not create '' @ d @ '' '' @ exc)))"

definition product_name :: "config \<Rightarrow> string \<Rightarrow> bool \<Rightarrow> datetime \<Rightarrow> datetime \<Rightarrow> sval \<Rightarrow> sval \<Rightarrow> string res" where
  "product_name cfg d south start end_time cycle_number rel_orbit_number =
     rbind (attr_int cycle_number) (\<lambda>cycle.
     rbind (attr_int rel_orbit_number) (\<lambda>rel.
     rbind (rbind (dget cfg ''baseline'') upper_of) (\<lambda>bl.
     rbind (rbind (dget cfg ''version'') cval_int) (\<lambda>version.
       Inr (d @ ''/CS_OFFL_SIR_TDP_LI_'' @ zone_str south @ ''_'' @ time_str start @ ''_'' @ time_str end_time @ ''_'' @
         show_pad 2 cycle @ ''_'' @ show_pad 5 rel @ ''_'' @ bl @ show_pad 3 version @ ''.nc'')))))"

section \<open>Global attributes\<close>

text \<open>\<^verbatim>\<open>(lon + 180) % 360 - 180\<close>; the remainder of an infinity is invalid.\<close>

definition prod_longitude :: "np_err \<Rightarrow> fl \<Rightarrow> fl res" where
  "prod_longitude em lon =
     rbind (npf_add em lon (Fin 180)) (\<lambda>x.
     rbind (np_invalid em x (Fin 360) (fl_mod x 360)) (\<lambda>r. npf_sub em r (Fin 180)))"

definition prod_longitudes :: "np_err \<Rightarrow> shared \<Rightarrow> fl list res" where
  "prod_longitudes em sd = rbind (sget_floats sd ''longitudes'') (rmapM (prod_longitude em))"

text \<open>\<^verbatim>\<open>np.nanmin\<close> and \<^verbatim>\<open>np.nanmax\<close>: NaN, with a warning, if there is no number.\<close>

definition np_nan :: "(fl list \<Rightarrow> fl res) \<Rightarrow> fl list \<Rightarrow> fl res" where
  "np_nan reduce xs =
     (if xs = [] then reduce []
      else (case filter (\<lambda>x. x \<noteq> NaN) xs of [] \<Rightarrow> Inr NaN | ys \<Rightarrow> reduce ys))"

text \<open>The format \<^verbatim>\<open>{x:.4f}\<close>.\<close>

fun fmt_4f :: "fl \<Rightarrow> string" where
  "fmt_4f NaN = ''nan''"
| "fmt_4f PInf = ''inf''"
| "fmt_4f NInf = ''-inf''"
| "fmt_4f (Fin a) =
     (let c = nat (rne (\<bar>a\<bar> * 10000))
      in (if a < 0 then ''-'' else []) @ show_nat (c div 10000) @ ''.'' @ show_pad 4 (int (c mod 10000)))"

definition str_4f :: "fl res \<Rightarrow> sval res" where
  "str_4f r = rbind r (\<lambda>x. Inr (SStr (fmt_4f x)))"

definition int32 :: "product_env \<Rightarrow> int \<Rightarrow> sval res" where
  "int32 env i = rbind (pe_int32 env i) (\<lambda>j. Inr (SInt j))"

definition start_record :: "product_env \<Rightarrow> nat option \<Rightarrow> sval res" where
  "start_record env i = (case i of None \<Rightarrow> Inr (SStr ''None'') | Some k \<Rightarrow> int32 env (int k))"

text \<open>\<^verbatim>\<open>now.strftime("%d-%m-%Y %H:%M:%S")\<close>\<close>

definition date_created :: "datetime \<Rightarrow> string" where
  "date_created t = show_pad 2 (dt_day t) @ ''-'' @ show_pad 2 (dt_month t) @ ''-'' @ show_int (dt_year t) @ '' '' @
     show_pad 2 (dt_hour t) @ '':'' @ show_pad 2 (dt_minute t) @ '':'' @ show_pad 2 (dt_second t)"

definition coverage_time :: "fl list \<Rightarrow> int \<Rightarrow> sval res" where
  "coverage_time secs i =
     rbind (py_index secs i) (\<lambda>s. rbind (td_seconds s) (\<lambda>d. rbind (dt_add CS2_EPOCH d) (\<lambda>t. Inr (SStr (dt_str t)))))"

definition mode_steps :: "shared \<Rightarrow> nc_step list" where
  "mode_steps sd = (case dget sd ''instr_mode'' of
     Inl e \<Rightarrow> [Eval (Inl e)]
   | Inr v \<Rightarrow>
       (if v = SStr ''LRM'' then [SetAttr ''instrument_mode'' (Inr (SStr ''LRM''))] else []) @
       (if v = SStr ''SAR'' then [SetAttr ''instrument_mode'' (Inr (SStr ''SAR''))] else []) @
       (if v = SStr ''SIN'' then [SetAttr ''instrument_mode'' (Inr (SStr ''SARIN''))] else []))"

definition direction_steps :: "product_env \<Rightarrow> shared \<Rightarrow> nc_step list" where
  "direction_steps env sd = (case sget_floats sd ''lats_nadir'' of
     Inl e \<Rightarrow> [Eval (Inl e)]
   | Inr lats \<Rightarrow>
       (let (asc_start, desc_start) = find_orbit_directions lats in
        [SetAttr ''ascending_start_record'' (start_record env asc_start),
         SetAttr ''descending_start_record'' (start_record env desc_start)]))"

definition extent_steps :: "np_err \<Rightarrow> shared \<Rightarrow> nc_step list" where
  "extent_steps em sd =
     (let lats = sget_floats sd ''latitudes''; lons = prod_longitudes em sd; hs = sget_floats sd ''height_20_ku'' in
      [SetAttr ''geospatial_lat_min'' (str_4f (rbind lats np_min)),
       SetAttr ''geospatial_lat_max'' (str_4f (rbind lats np_max)),
       SetAttr ''geospatial_lon_min'' (str_4f (rbind lons np_min)),
       SetAttr ''geospatial_lon_max'' (str_4f (rbind lons np_max)),
       SetAttr ''geospatial_vertical_min'' (str_4f (rbind hs (np_nan np_min))),
       SetAttr ''geospatial_vertical_max'' (str_4f (rbind hs (np_nan np_max)))])"

definition orbit_steps :: "product_env \<Rightarrow> config \<Rightarrow> sval \<Rightarrow> sval \<Rightarrow> sval \<Rightarrow> nc_step list" where
  "orbit_steps env cfg cycle_number rel_orbit_number abs_orbit_number =
     (let sub = rbind (attr_int cycle_number) (\<lambda>c. rbind (attr_int rel_orbit_number) (\<lambda>r. Inr (cnes_cycle_to_subcycle c r))) in
      [SetAttr ''cycle_number'' (Inr cycle_number),
       SetAttr ''rel_orbit_number'' (Inr rel_orbit_number),
       SetAttr ''abs_orbit_number'' (Inr abs_orbit_number),
       SetAttr ''product_baseline'' (rbind (rbind (dget cfg ''baseline'') cstring) (\<lambda>s. Inr (SStr s))),
       SetAttr ''product_version'' (rbind (rbind (dget cfg ''version'') cval_int) (int32 env)),
       SetAttr ''doi'' (Inr (SStr ''10.5270/CR2-3205d1e'')),
       SetAttr ''sw_version'' (rbind (get_current_commit_hash env) (\<lambda>s. Inr (SStr s))),
       SetAttr ''cnes_subcycle'' (rbind sub (\<lambda>s. int32 env (fst s))),
       SetAttr ''cnes_track'' (rbind sub (\<lambda>s. int32 env (snd s)))])"

definition attribute_steps ::
  "product_env \<Rightarrow> config \<Rightarrow> shared \<Rightarrow> bool \<Rightarrow> product_times \<Rightarrow> sval \<Rightarrow> sval \<Rightarrow> sval \<Rightarrow> nc_step list" where
  "attribute_steps env cfg sd south ts cycle_number rel_orbit_number abs_orbit_number =
     [Eval (rbind (prod_longitudes (pe_mode env) sd) (\<lambda>_. Inr ())),
      SetAttr ''title'' (Inr (SStr ''Cryo-TEMPO Land Ice Thematic Product'')),
      SetAttr ''project'' (Inr (SStr ''ESA Cryo-TEMPO'')),
      SetAttr ''creator_name'' (Inr (SStr ''ESA Cryo-TEMPO Project'')),
      SetAttr ''creator_url'' (Inr (SStr ''http://cryosat.mssl.ucl.ac.uk/tempo'')),
      SetAttr ''date_created'' (Inr (SStr (date_created (pe_now env)))),
      SetAttr ''platform'' (Inr (SStr ''CryoSat-2'')),
      SetAttr ''sensor'' (Inr (SStr ''SIRAL''))] @
     mode_steps sd @
     [SetAttr ''src_esa_l1b_file'' (rbind (rbind (dget sd ''l1b_file_name'') as_string) (\<lambda>s. Inr (SStr (basename s))))] @
     direction_steps env sd @
     extent_steps (pe_mode env) sd @
     [Eval (rbind (coverage_time (pt_utc_secs ts) 0) (\<lambda>_. Inr ())),
      Eval (rbind (coverage_time (pt_utc_secs ts) (- 1)) (\<lambda>_. Inr ())),
      SetAttr ''time_coverage_start'' (coverage_time (pt_utc_secs ts) 0),
      SetAttr ''time_coverage_end'' (coverage_time (pt_utc_secs ts) (- 1))] @
     orbit_steps env cfg cycle_number rel_orbit_number abs_orbit_number @
     [SetAttr ''Conventions'' (Inr (SStr ''CF-1.8'')),
      SetAttr ''zone'' (Inr (SStr (if south then ''Antarctica'' else ''Greenland'')))]"

section \<open>Variables\<close>

definition var_time :: "product_var" where
  "var_time = \<lparr>pv_name = ''time'', pv_type = ''double'', pv_fill = None, pv_attrs =
    [(''units'', SStr ''UTC seconds since 00:00:00 1-Jan-2000''),
     (''coordinates'', SStr ''time''),
     (''long_name'', SStr ''utc time''),
     (''standard_name'', SStr ''time''),
     (''comment'', SStr (''UTC time counted in seconds since 2000-01-01 00:00:00. Note that Cryo-TEMPO adjusts the TAI '' @
        ''time found in CryoSat L1b products for leap seconds to produce UTC time''))],
    pv_value = SNone\<rparr>"

definition var_latitude :: "product_var" where
  "var_latitude = \<lparr>pv_name = ''latitude'', pv_type = ''double'', pv_fill = None, pv_attrs =
    [(''units'', SStr ''degrees north''),
     (''coordinates'', SStr ''time''),
     (''long_name'', SStr ''latitude of measurement at POCA or nadir (if no POCA available)''),
     (''standard_name'', SStr ''latitude''),
     (''valid_min'', SInt (- 90)),
     (''valid_max'', SInt 90),
     (''comment'', SStr (''Latitude of measurement in decimal degrees; a positive latitude indicates Northern hemisphere a '' @
        ''negative latitude indicates Southern hemisphere. If the point of closest approach (POCA) can '' @
        ''not be calculated by the SIRAL instrument in SARin mode or by LRM slope correction, then the '' @
        ''nadir latitude is provided''))],
    pv_value = SNone\<rparr>"

definition var_longitude :: "product_var" where
  "var_longitude = \<lparr>pv_name = ''longitude'', pv_type = ''double'', pv_fill = None, pv_attrs =
    [(''units'', SStr ''degrees east''),
     (''coordinates'', SStr ''time''),
     (''long_name'', SStr ''longitude of measurement at POCA or nadir (if no POCA available)''),
     (''standard_name'', SStr ''longitude''),
     (''valid_min'', SInt (- 180)),
     (''valid_max'', SInt 180),
     (''comment'', SStr (''Longitude of measurement in decimal degrees east (-180,180) relative to the Greenwich meridian. '' @
        ''If the point of closest approach (POCA) can not be calculated by the SIRAL instrument in SARin '' @
        ''mode or by LRM slope correction, then the nadir longitude is provided''))],
    pv_value = SNone\<rparr>"

definition var_instrument_mode :: "product_var" where
  "var_instrument_mode = \<lparr>pv_name = ''instrument_mode'', pv_type = ''byte'', pv_fill = Some (- 128), pv_attrs =
    [(''coordinates'', SStr ''longitude latitude''),
     (''long_name'', SStr ''CryoSat SIRAL instrument operating mode''),
     (''flag_values'', SStr ''1b, 2b, 3b''),
     (''valid_min'', SInt 1),
     (''valid_max'', SInt 3),
     (''flag_meanings'', SStr ''lrm sar sarin''),
     (''comment'', SStr (''Identifier used to indicate which mode the SIRAL instrument was operating in at each '' @
        ''measurement; either LRM, SAR or SARIn.''))],
    pv_value = SNone\<rparr>"

definition var_elevation :: "product_var" where
  "var_elevation = \<lparr>pv_name = ''elevation'', pv_type = ''double'', pv_fill = None, pv_attrs =
    [(''units'', SStr ''m''),
     (''coordinates'', SStr ''longitude latitude''),
     (''long_name'', SStr ''ice sheet elevation (LMC Retracker)''),
     (''standard_name'', SStr ''height_above_reference_ellipsoid''),
     (''comment'', SStr (''Elevation of the ice surface above the reference ellipsoid (WGS84) at the measurement location '' @
        ''[longitude] [latitude]. All instrumental and appropriate geophysical corrections included. '' @
        ''Corrected for surface slope via a DEM relocation method (adapted from Roemer) in LRM mode. '' @
        ''Corrected for surface slope via phase information in SARIn mode. Where elevation can not be '' @
        ''calculated, the value is set to Nan.''))],
    pv_value = SNone\<rparr>"

definition var_backscatter :: "product_var" where
  "var_backscatter = \<lparr>pv_name = ''backscatter'', pv_type = ''double'', pv_fill = None, pv_attrs =
    [(''units'', SStr ''dB''),
     (''coordinates'', SStr ''longitude latitude''),
     (''long_name'', SStr ''backscatter coefficient''),
     (''standard_name'', SStr ''surface_backscattering_coefficient_of_radar_wave''),
     (''comment'', SStr (''The measured backscatter from the surface, corrected for instrument effects, and including a '' @
        ''system bias that calibrates the results against previous missions. The backscatter is computed '' @
        ''from the amplitude of the waveform in Watts, as measured by the retracker. The measured power '' @
        ''is used to solve the radar equation to recover the value for backscatter.''))],
    pv_value = SNone\<rparr>"

definition var_surface_type :: "bool \<Rightarrow> product_var" where
  "var_surface_type south = \<lparr>pv_name = ''surface_type'', pv_type = ''byte'', pv_fill = Some (- 128), pv_attrs =
    [(''coordinates'', SStr ''longitude latitude''),
     (''long_name'', SStr ''surface type from mask''),
     (''flag_values'', SStr ''0b, 1b, 2b, 3b, 4b''),
     (''valid_min'', SInt 0),
     (''valid_max'', SInt 4),
     (''flag_meanings'', SStr (''ocean grounded_ice floating_ice ice_free_land non_greenland_land(used for tracks over Greenland '' @
        ''only)'')),
     (''comment'', SStr (''Surface type identifier, for use in discriminating different surfaces types within the Land Ice '' @
        ''TDP domain; derived from the BedMachine Greenland version 3 (Morlighem et al., 2017) and '' @
        ''BedMachine Antarctica version 2 (Morlighem, 2020) datasets.'')),
     (''source'', (if south then SStr ''https://nsidc.org/data/nsidc-0756/versions/2''
       else SStr ''https://nsidc.org/data/idbmg4''))],
    pv_value = SNone\<rparr>"

definition var_reference_dem :: "product_var" where
  "var_reference_dem = \<lparr>pv_name = ''reference_dem'', pv_type = ''double'', pv_fill = None, pv_attrs =
    [(''units'', SStr ''m''),
     (''coordinates'', SStr ''longitude latitude''),
     (''long_name'', SStr ''reference elevation from external Digital Elevation Model''),
     (''standard_name'', SStr ''height_above_reference_ellipsoid''),
     (''comment'', SStr (''Reference elevation values at each measurement location, extracted from an auxiliary Digital '' @
        ''Elevation Model (DEM). The REMA v2 mosaic (1km) is used for Antarctica and the ArcticDEM v4.1 '' @
        ''(1km)mosaic is used for Greenland.''))],
    pv_value = SNone\<rparr>"

definition var_basin_id :: "bool \<Rightarrow> product_var" where
  "var_basin_id south = \<lparr>pv_name = ''basin_id'', pv_type = ''byte'', pv_fill = Some (- 128), pv_attrs =
    [(''units'', SStr ''basin number''),
     (''long_name'', SStr ''Glacialogical basin identification number''),
     (''comment'', (if south then SStr (''IMBIE glacialogical basin id number (Zwally et al., 2012) associated with each measurement. '' @
        ''Values are : 0 (outside mask), 1-27 (basin values for Antarctica)'')
       else SStr (''IMBIE glacialogical basin id number (Mouginot et al., 2019) associated with each measurement. '' @
        ''Values 0 (outside mask), 1-7 (basin values for Greenland), '' @
        ''CE[1],CW[2],NO[3],NE[4],NW[5],SE[6],SW[7]''))),
     (''source'', SStr ''IMBIE http://imbie.org/imbie-3/drainage-basins/'')],
    pv_value = SNone\<rparr>"

definition var_basin_id2 :: "bool \<Rightarrow> product_var" where
  "var_basin_id2 south = \<lparr>pv_name = ''basin_id2'', pv_type = ''byte'', pv_fill = Some (- 128), pv_attrs =
    [(''units'', SStr ''basin number''),
     (''long_name'', SStr ''Glacialogical basin identification number''),
     (''comment'', (if south then SStr (''IMBIE glacialogical basin id number (Rignot et al., 2016) associated with each measurement. '' @
        ''Values are : 0 (unclassified), 1:Islands, 2: West H-Hp, 3:West F-G, 4:East E-Ep, 5: East D-Dp, '' @
        ''6: East Cp-D, 7: East B-C, 8: East A-Ap, 9: East Jpp-K, 10: West G-H, 11: East Dp-E, 12: East '' @
        ''Ap-B, 13: East C-Cp, 14: East K-A, 15: West J-Jpp, 16: Peninsula Ipp-J, 17: Peninsula I-Ipp, '' @
        ''18: Peninsula Hp-I, 19: West Ep-F'')
       else SStr (''IMBIE glacialogical basin id number (Rignot et al., 2016) associated with each measurement. '' @
        ''Values: 0 (unclassified), 1 (ice caps), 2(NW Greenland), 3(CW Greenland), 4(SW Greenland), 5(SE '' @
        ''Greenland), 6(NE Greenland), 7(NO North Greenland)''))),
     (''source'', SStr ''IMBIE http://imbie.org/imbie-2016/drainage-basins/'')],
    pv_value = SNone\<rparr>"

definition var_uncertainty :: "bool \<Rightarrow> product_var" where
  "var_uncertainty south = \<lparr>pv_name = ''uncertainty'', pv_type = ''double'', pv_fill = None, pv_attrs =
    [(''units'', SStr ''m''),
     (''coordinates'', SStr ''longitude latitude''),
     (''long_name'', SStr ''uncertainty of elevation parameter''),
     (''standard_name'', SStr ''elevation_uncertainty''),
     (''comment'', (if south then SStr (''Uncertainty estimate is derived from an empirical parameterisation based on the ice sheet '' @
        ''surface topographic characteristics of slope and roughness at each measurement location. 1 year '' @
        ''of CryoTEMPO Baseline-D elevation differences to IceSAT-2 ATL-06 v5 were calculated and the '' @
        ''mean difference calculated per bands of slope and roughness using a bi-linear fit. The '' @
        ''resulting uncertainty was then calculated at each point using a 2d LUT.'')
       else SStr (''Uncertainty estimate is derived from an empirical parameterisation based on the ice sheet '' @
        ''surface topographic characteristics of slope each measurement location. 1 year of CryoTEMPO '' @
        ''Baseline-D elevation differences to IceSAT-2 ATL-06 v5 were calculated and the mean difference '' @
        ''calculated per 0.1 deg band of slope. The resulting uncertainty was then calculated at each '' @
        ''point using a LUT.'')))],
    pv_value = SNone\<rparr>"

definition var_relocation_distance :: "product_var" where
  "var_relocation_distance = \<lparr>pv_name = ''relocation_distance'', pv_type = ''double'', pv_fill = None, pv_attrs =
    [(''units'', SStr ''m''),
     (''coordinates'', SStr ''longitude latitude''),
     (''long_name'', SStr ''relocation distance of POCA from Nadir''),
     (''standard_name'', SStr ''distance''),
     (''comment'', SStr ''Relocation distance from nadir to POCA in m'')],
    pv_value = SNone\<rparr>"

text \<open>The steps of a variable: creating it with its attributes, and assigning it a value.\<close>

definition variable_steps :: "product_var \<Rightarrow> sval res \<Rightarrow> nc_step list" where
  "variable_steps v r = [CreateVar v, Assign r]"

text \<open>\<^verbatim>\<open>np.full_like(time_20_ku, n, dtype="b")\<close>, by the mode.\<close>

definition mode_values :: "shared \<Rightarrow> nat \<Rightarrow> sval res" where
  "mode_values sd n =
     rbind (dget sd ''instr_mode'') (\<lambda>v.
       Inr (SI (replicate n (if v = SStr ''LRM'' then 1 else if v = SStr ''SIN'' then 3 else 2))))"

definition additional_steps :: "config \<Rightarrow> shared \<Rightarrow> nat \<Rightarrow> nc_step list" where
  "additional_steps cfg sd n = (case cflag cfg ''product_output'' ''include_additional_parameters'' of
     Inl e \<Rightarrow> [Eval (Inl e)]
   | Inr b \<Rightarrow>
       if b then variable_steps var_relocation_distance
         (if dhas sd ''relocation_distance'' then dget sd ''relocation_distance'' else Inr (SF (replicate n NaN)))
       else [])"

definition all_variable_steps :: "product_env \<Rightarrow> config \<Rightarrow> shared \<Rightarrow> bool \<Rightarrow> product_times \<Rightarrow> nc_step list" where
  "all_variable_steps env cfg sd south ts =
     Dimension (length (pt_utc_secs ts)) #
     variable_steps var_time (Inr (SF (pt_utc_secs ts))) @
     variable_steps var_latitude (dget sd ''latitudes'') @
     variable_steps var_longitude (rbind (prod_longitudes (pe_mode env) sd) (\<lambda>lons. Inr (SF lons))) @
     variable_steps var_instrument_mode (mode_values sd (length (pt_tai ts))) @
     variable_steps var_elevation (dget sd ''height_filt'') @
     variable_steps var_backscatter (dget sd ''sig0_20_ku'') @
     variable_steps (var_surface_type south) (dget sd ''cryotempo_surface_type'') @
     variable_steps var_reference_dem (dget sd ''dem_elevation_values'') @
     variable_steps (var_basin_id south)
       (dget sd (if south then ''basin_mask_values_zwally'' else ''basin_mask_values_mouginot'')) @
     variable_steps (var_basin_id2 south) (dget sd ''basin_mask_values_rignot'') @
     variable_steps (var_uncertainty south) (dget sd ''uncertainty'') @
     additional_steps cfg sd (length (pt_tai ts))"

section \<open>alg_product_output\<close>

text \<open>\<^verbatim>\<open>init\<close>: the path of the file of leap seconds.\<close>

definition init_product_output :: "product_env \<Rightarrow> config \<Rightarrow> string res" where
  "init_product_output env cfg =
     (if \<not> dhas cfg ''leap_seconds'' then Inl (KeyError ''leap_seconds not in config dict'')
      else rbind (rbind (dget cfg ''leap_seconds'') cstring) (\<lambda>f.
        if pe_store env f = None then Inl (FileNotFoundError (''leap_seconds file '' @ f @ '' not found'')) else Inr f))"

text \<open>What \<^verbatim>\<open>process\<close> does to the file system: the file it has created and what was written to it. An exception
  leaves the file with the effects of the steps before it; netCDF4 closes it when the data set is collected.\<close>

type_synonym written = "(string \<times> product) option"

definition write_product ::
  "product_env \<Rightarrow> config \<Rightarrow> shared \<Rightarrow> bool \<Rightarrow> product_times \<Rightarrow> sval \<Rightarrow> sval \<Rightarrow> sval \<Rightarrow> string \<Rightarrow> alg_out \<times> written" where
  "write_product env cfg sd south ts cycle_number rel_orbit_number abs_orbit_number f =
     (case pe_create env f of
        Some exc \<Rightarrow> (fail sd (''Can not open netcdf file '' @ f @ '' for write: '' @ exc), None)
      | None \<Rightarrow>
          (case write_steps env (attribute_steps env cfg sd south ts cycle_number rel_orbit_number abs_orbit_number @
                  all_variable_steps env cfg sd south ts @ [Close]) new_product of
             (p, r) \<Rightarrow> (rbind r (\<lambda>_. pass (dset sd ''product_filename'' (SStr f))), Some (f, p))))"

text \<open>The part of \<^verbatim>\<open>process\<close> up to the directory.\<close>

definition product_times_step :: "product_env \<Rightarrow> string \<Rightarrow> dataset \<Rightarrow> product_times res" where
  "product_times_step env leap_seconds_file l1b =
     rbind (getitem_floats l1b ''time_20_ku'') (\<lambda>time_20_ku.
     rbind (grain_new (pe_store env) (Some leap_seconds_file)) (\<lambda>this_grain.
       product_times_of (pe_mode env) this_grain time_20_ku))"

definition product_place ::
  "product_env \<Rightarrow> config \<Rightarrow> string \<Rightarrow> dataset \<Rightarrow> shared \<Rightarrow> (product_times \<times> bool \<times> string) res" where
  "product_place env cfg leap_seconds_file l1b sd =
     rbind (product_times_step env leap_seconds_file l1b) (\<lambda>ts.
     rbind (py_index (pt_utc_dt ts) 0) (\<lambda>start.
     rbind (dget sd ''hemisphere'') (\<lambda>hem.
       let south = (hem = SStr ''south'') in
       rbind (product_dir env cfg south start) (\<lambda>d. Inr (ts, south, d)))))"

text \<open>The orbit numbers, in the order in which they are read, and the name of the file.\<close>

definition product_file ::
  "config \<Rightarrow> dataset \<Rightarrow> product_times \<Rightarrow> bool \<Rightarrow> string \<Rightarrow> (sval \<times> sval \<times> sval \<times> string) res" where
  "product_file cfg l1b ts south d =
     rbind (nc_attr l1b ''cycle_number'') (\<lambda>cycle.
     rbind (nc_attr l1b ''abs_orbit_number'') (\<lambda>abs_orbit.
     rbind (nc_attr l1b ''rel_orbit_number'') (\<lambda>rel.
     rbind (py_index (pt_utc_dt ts) 0) (\<lambda>start.
     rbind (py_index (pt_utc_dt ts) (- 1)) (\<lambda>end_time.
     rbind (product_name cfg d south start end_time cycle rel) (\<lambda>f. Inr (cycle, rel, abs_orbit, f)))))))"

definition product_run ::
  "product_env \<Rightarrow> config \<Rightarrow> string \<Rightarrow> dataset \<Rightarrow> shared \<Rightarrow> alg_out \<times> written" where
  "product_run env cfg leap_seconds_file l1b sd =
     (case product_place env cfg leap_seconds_file l1b sd of
        Inl e \<Rightarrow> (Inl e, None)
      | Inr (ts, south, d) \<Rightarrow>
          (case make_product_dir env d of
             Some msg \<Rightarrow> (fail sd msg, None)
           | None \<Rightarrow>
               (case product_file cfg l1b ts south d of
                  Inl e \<Rightarrow> (Inl e, None)
                | Inr (cycle, rel, abs_orbit, f) \<Rightarrow> write_product env cfg sd south ts cycle rel abs_orbit f)))"

definition product_output :: "product_env \<Rightarrow> config \<Rightarrow> string \<Rightarrow> dataset \<Rightarrow> shared \<Rightarrow> alg_out" where
  "product_output env cfg leap_seconds_file l1b sd = fst (product_run env cfg leap_seconds_file l1b sd)"

definition alg_product_output :: "product_env \<Rightarrow> alg_class" where
  "alg_product_output env = \<lparr>cls_name = ''clev2er.algorithms.cryotempo.alg_product_output'',
     cls_init = (\<lambda>cfg. rbind (init_product_output env cfg) (\<lambda>f.
       Inr ((True, []), \<lparr>impl_body = product_output env cfg f, impl_finalize = base_finalize\<rparr>)))\<rparr>"

interpretation product_output: chain_algorithm "product_output env cfg f" "{''product_filename''}"
  by (unfold_locales, erule framesD [rotated],
      unfold product_output_def product_run_def write_product_def if_distrib [of fst] prod.case_distrib [of fst]
        sum.case_distrib [of fst] option.case_distrib [of fst] fst_conv, intro frame_intros) (auto intro: agree_off_dset)

section \<open>Laws\<close>

text \<open>The fields of a time are the digits of its time of day.\<close>

lemma clock_fields:
  obtains h m s u where "dt_hour t = h" "dt_minute t = m" "dt_second t = s" "dt_microsecond t = u"
    "0 \<le> h" "h < 24" "0 \<le> m" "m < 60" "0 \<le> s" "s < 60" "0 \<le> u" "u < 1000000"
    "t mod us_per_day = (h * 3600 + m * 60 + s) * 1000000 + u"
proof
  define r where "r = t mod us_per_day"
  have r: "0 \<le> r" "r < 86400000000" by (simp_all add: r_def us_per_day_def)
  have h: "dt_hour t = r div 3600000000" by (simp add: dt_hour_def r_def)
  have m: "dt_minute t = r mod 3600000000 div 60000000"
    by (simp add: dt_minute_def r_def us_per_day_def mod_mod_cancel)
  have s: "dt_second t = r mod 3600000000 mod 60000000 div 1000000"
    by (simp add: dt_second_def r_def us_per_day_def mod_mod_cancel)
  have u: "dt_microsecond t = r mod 3600000000 mod 60000000 mod 1000000"
    by (simp add: dt_microsecond_def r_def us_per_day_def mod_mod_cancel)
  show "0 \<le> dt_hour t" "0 \<le> dt_minute t" "0 \<le> dt_second t" "0 \<le> dt_microsecond t" "dt_microsecond t < 1000000"
    using r by (simp_all add: h m s u pos_imp_zdiv_nonneg_iff)
  show "dt_hour t < 24" "dt_minute t < 60" "dt_second t < 60"
    using r pos_mod_bound [of 3600000000 r] pos_mod_bound [of 60000000 "r mod 3600000000"]
    by (simp_all add: h m s div_less_iff_less_mult)
  have "r = dt_hour t * 3600000000 + (dt_minute t * 60000000 + (dt_second t * 1000000 + dt_microsecond t))"
    unfolding h m s u div_mult_mod_eq ..
  then show "t mod us_per_day = (dt_hour t * 3600 + dt_minute t * 60 + dt_second t) * 1000000 + dt_microsecond t"
    by (simp add: r_def)
qed (rule refl)+

lemma last_half_second:
  fixes h m s u :: int
  assumes "h < 24" "m < 60" "s < 60" "u < 1000000"
  shows "86399500000 < (h * 3600 + m * 60 + s) * 1000000 + u \<longleftrightarrow> h = 23 \<and> m = 59 \<and> s = 59 \<and> 500000 < u"
proof
  assume "86399500000 < (h * 3600 + m * 60 + s) * 1000000 + u"
  then have late: "86399500000 < h * 3600000000 + m * 60000000 + s * 1000000 + u" by (simp add: distrib_right)
  with assms have "22 < h" by linarith
  with assms have h: "h = 23" by simp
  with assms late have "58 < m" by linarith
  with assms have m: "m = 59" by simp
  with assms late h have "58 < s" by linarith
  with assms have "s = 59" by simp
  with late h m show "h = 23 \<and> m = 59 \<and> s = 59 \<and> 500000 < u" by simp
qed simp

text \<open>C24: The clock time in the name of a product file is the time of day rounded to the nearest second, half a second
  down, and written with minutes and seconds below 60. The date is not advanced with it: within the last half
  second of a day the hour is 24.\<close>

theorem rounded_clock_correct:
  "\<exists>h m s. rounded_clock t = (h, m, s) \<and> 0 \<le> h \<and> h \<le> 24 \<and> 0 \<le> m \<and> m < 60 \<and> 0 \<le> s \<and> s < 60 \<and>
     h * 3600 + m * 60 + s = (t mod us_per_day + 499999) div 1000000 \<and>
     (h = 24 \<longleftrightarrow> us_per_day - 500000 < t mod us_per_day)"
proof -
  obtain h m s u where clock: "dt_hour t = h" "dt_minute t = m" "dt_second t = s" "dt_microsecond t = u"
    and bounds: "0 \<le> h" "h < 24" "0 \<le> m" "m < 60" "0 \<le> s" "s < 60" "0 \<le> u" "u < 1000000"
    and r: "t mod us_per_day = (h * 3600 + m * 60 + s) * 1000000 + u"
    by (rule clock_fields)
  have day: "us_per_day - 500000 = 86399500000" by (simp add: us_per_day_def)
  have "(t mod us_per_day + 499999) div 1000000 = h * 3600 + m * 60 + s + (u + 499999) div 1000000"
    unfolding r add.assoc by simp
  also have "(u + 499999) div 1000000 = (if 500000 < u then 1 else 0)"
    using bounds by auto
  finally have "(t mod us_per_day + 499999) div 1000000 = h * 3600 + m * 60 + s + (if 500000 < u then 1 else 0)" .
  moreover have "us_per_day - 500000 < t mod us_per_day \<longleftrightarrow> h = 23 \<and> m = 59 \<and> s = 59 \<and> 500000 < u"
    unfolding r day by (rule last_half_second) (use bounds in auto)
  ultimately show ?thesis
    unfolding rounded_clock_def Let_def clock using bounds by (auto simp: algebra_simps)
qed

lemma cnes_subcycle_inverse:
  "\<exists>cy tr. cnes_cycle_to_subcycle c r = (cy, tr) \<and> 1 \<le> tr \<and> tr \<le> 840 \<and> (cy - 1) * 840 + tr = (c - 1) * 10688 + r"
  by (simp add: cnes_cycle_to_subcycle_def Let_def)

subsection \<open>The steps of a file\<close>

lemma write_steps_append:
  "write_steps env (xs @ ys) p = (q, Inr u) \<longleftrightarrow>
     (\<exists>p'. write_steps env xs p = (p', Inr ()) \<and> write_steps env ys p' = (q, Inr u))"
  by (induction xs arbitrary: p) (auto split: sum.splits)

lemma write_variable:
  "write_steps env (variable_steps v r) p = (q, Inr u) \<longleftrightarrow>
     (\<exists>n x y. pr_time p = Some n \<and> r = Inr x \<and> pe_assign env (pv_type v) n x = Inr y \<and>
        q = p\<lparr>pr_vars := pr_vars p @ [v\<lparr>pv_value := y\<rparr>]\<rparr>)"
  by (auto simp: variable_steps_def rbind_def split: sum.splits option.splits)

text \<open>Steps that only evaluate or set global attributes leave the variables alone.\<close>

fun attr_step :: "nc_step \<Rightarrow> bool" where
  "attr_step (Eval r) = True"
| "attr_step (SetAttr k r) = True"
| "attr_step s = False"

lemma attr_step_keeps: "attr_step s \<Longrightarrow> do_step env s p = Inr q \<Longrightarrow> pr_vars q = pr_vars p"
  by (cases s) (auto simp: rbind_eq_Inr)

lemma attr_steps_keep: "list_all attr_step ss \<Longrightarrow> write_steps env ss p = (q, r) \<Longrightarrow> pr_vars q = pr_vars p"
  by (induction ss arbitrary: p) (auto simp: attr_step_keeps split: sum.splits)

lemma attribute_steps_attr: "list_all attr_step (attribute_steps env cfg sd south ts c r a)"
  by (auto simp: attribute_steps_def mode_steps_def direction_steps_def extent_steps_def orbit_steps_def Let_def
      split: sum.splits prod.splits)

lemmas product_var_defs = var_time_def var_latitude_def var_longitude_def var_instrument_mode_def var_elevation_def
  var_backscatter_def var_surface_type_def var_reference_dem_def var_basin_id_def var_basin_id2_def
  var_uncertainty_def var_relocation_distance_def

lemma product_var_sel [simp]:
  "pv_name var_time = ''time''" "pv_name var_latitude = ''latitude''" "pv_name var_longitude = ''longitude''"
  "pv_name var_instrument_mode = ''instrument_mode''" "pv_name var_elevation = ''elevation''"
  "pv_name var_backscatter = ''backscatter''" "pv_name (var_surface_type south) = ''surface_type''"
  "pv_name var_reference_dem = ''reference_dem''" "pv_name (var_basin_id south) = ''basin_id''"
  "pv_name (var_basin_id2 south) = ''basin_id2''" "pv_name (var_uncertainty south) = ''uncertainty''"
  "pv_name var_relocation_distance = ''relocation_distance''"
  "pv_type var_time = ''double''" "pv_type var_latitude = ''double''" "pv_type var_longitude = ''double''"
  "pv_type var_elevation = ''double''" "pv_type var_backscatter = ''double''" "pv_type var_reference_dem = ''double''"
  "pv_type (var_uncertainty south) = ''double''" "pv_type var_relocation_distance = ''double''"
  by (simp_all add: product_var_defs)

text \<open>The value of a variable of a file.\<close>

definition pvalue :: "product \<Rightarrow> string \<Rightarrow> sval option" where
  "pvalue p name = map_option pv_value (List.find (\<lambda>v. pv_name v = name) (pr_vars p))"

text \<open>Rounding does not depend on the sign.\<close>

lemma rne_minus: "rne (- q) = - rne q"
proof (cases "q = of_int \<lfloor>q\<rfloor>")
  case True
  then have "rne (- q) = rne (of_int (- \<lfloor>q\<rfloor>))" "rne q = rne (of_int \<lfloor>q\<rfloor>)" by simp_all
  then show ?thesis by (simp only: rne_of_int)
next
  case False
  then have "of_int \<lfloor>q\<rfloor> < q" "q < of_int \<lfloor>q\<rfloor> + 1" by linarith+
  then have "\<lfloor>- q\<rfloor> = - \<lfloor>q\<rfloor> - 1" by (intro floor_unique) simp_all
  then show ?thesis by (auto simp: rne_def Let_def)
qed

lemma round64_minus: "round64 (- q) = fl_neg (round64 q)"
  by (auto simp: round64_def Let_def ulp64_def rne_minus max64_def)

lemma prod_longitude_range:
  assumes "prod_longitude em lon = Inr x"
  shows "x = NaN \<or> (\<exists>v. x = Fin v \<and> - 180 \<le> v \<and> v \<le> 180)"
proof -
  from assms obtain y where x: "x = fl_sub (fl_mod y 360) (Fin 180)"
    by (auto simp: prod_longitude_def rbind_eq_Inr dest!: npf_sub_Inr np_invalid_Inr)
  show ?thesis
  proof (cases y)
    case (Fin a)
    with fl_mod_range [of 360 a] obtain v where v: "fl_mod y 360 = Fin v" "0 \<le> v" "v \<le> 360" by auto
    consider "v = 180" | "0 < v - 180" | "0 < 180 - v" by linarith
    then show ?thesis
    proof cases
      case 2
      with round64_le_int [of "v - 180" 180] v show ?thesis by (auto simp: x fl_sub_def)
    next
      case 3
      with round64_le_int [of "180 - v" 180] v round64_minus [of "180 - v"] show ?thesis by (auto simp: x fl_sub_def)
    qed (simp add: x v fl_sub_def)
  qed (simp_all add: x fl_sub_def)
qed

subsection \<open>The contents of a file\<close>

text \<open>What it takes for a variable to be written.\<close>

definition var_written :: "product_env \<Rightarrow> nat \<Rightarrow> product_var \<times> sval res \<Rightarrow> product_var \<Rightarrow> bool" where
  "var_written env n vr w \<longleftrightarrow>
     (\<exists>x y. snd vr = Inr x \<and> pe_assign env (pv_type (fst vr)) n x = Inr y \<and> w = (fst vr)\<lparr>pv_value := y\<rparr>)"

lemma var_written_name: "var_written env n vr w \<Longrightarrow> pv_name w = pv_name (fst vr)"
  by (auto simp: var_written_def)

lemma write_variables:
  assumes "write_steps env (concat (map (\<lambda>vr. variable_steps (fst vr) (snd vr)) vrs) @ ss) p = (q, Inr u)"
    and "pr_time p = Some n"
  shows "\<exists>p' ws. pr_vars p' = pr_vars p @ ws \<and> list_all2 (var_written env n) vrs ws \<and> pr_time p' = Some n \<and>
    write_steps env ss p' = (q, Inr u)"
  using assms
proof (induction vrs arbitrary: p)
  case (Cons vr vrs)
  from Cons.prems obtain x y where r: "snd vr = Inr x" "pe_assign env (pv_type (fst vr)) n x = Inr y"
    and rest: "write_steps env (concat (map (\<lambda>vr. variable_steps (fst vr) (snd vr)) vrs) @ ss)
      (p\<lparr>pr_vars := pr_vars p @ [(fst vr)\<lparr>pv_value := y\<rparr>]\<rparr>) = (q, Inr u)"
    by (auto simp: write_steps_append [of env "variable_steps _ _"] write_variable)
  from Cons.IH [OF rest] Cons.prems(2) obtain p' ws where
    "pr_vars p' = (pr_vars p @ [(fst vr)\<lparr>pv_value := y\<rparr>]) @ ws" "list_all2 (var_written env n) vrs ws"
    "pr_time p' = Some n" "write_steps env ss p' = (q, Inr u)" by auto
  moreover have "var_written env n vr ((fst vr)\<lparr>pv_value := y\<rparr>)" using r by (auto simp: var_written_def)
  ultimately show ?case by (intro exI [of _ p'] exI [of _ "(fst vr)\<lparr>pv_value := y\<rparr> # ws"]) simp
qed auto

lemma find_written:
  assumes "list_all2 (var_written env n) vrs ws" and "List.find (\<lambda>vr. pv_name (fst vr) = name) vrs = Some vr"
  shows "\<exists>w. List.find (\<lambda>v. pv_name v = name) (ws @ extra) = Some w \<and> var_written env n vr w"
  using assms by (induction rule: list_all2_induct) (auto dest: var_written_name split: if_splits)

lemma written_names: "list_all2 (var_written env n) vrs ws \<Longrightarrow> map pv_name ws = map (pv_name \<circ> fst) vrs"
  by (induction rule: list_all2_induct) (auto dest: var_written_name)

text \<open>The variables that every product has, with the source of their values.\<close>

definition product_sources :: "product_env \<Rightarrow> shared \<Rightarrow> bool \<Rightarrow> product_times \<Rightarrow> (product_var \<times> sval res) list" where
  "product_sources env sd south ts =
     [(var_time, Inr (SF (pt_utc_secs ts))), (var_latitude, dget sd ''latitudes''),
      (var_longitude, rbind (prod_longitudes (pe_mode env) sd) (\<lambda>lons. Inr (SF lons))),
      (var_instrument_mode, mode_values sd (length (pt_tai ts))), (var_elevation, dget sd ''height_filt''),
      (var_backscatter, dget sd ''sig0_20_ku''), (var_surface_type south, dget sd ''cryotempo_surface_type''),
      (var_reference_dem, dget sd ''dem_elevation_values''),
      (var_basin_id south, dget sd (if south then ''basin_mask_values_zwally'' else ''basin_mask_values_mouginot'')),
      (var_basin_id2 south, dget sd ''basin_mask_values_rignot''), (var_uncertainty south, dget sd ''uncertainty'')]"

lemma array_sources:
  assumes "nk \<in> {(''latitude'', ''latitudes''), (''elevation'', ''height_filt''), (''backscatter'', ''sig0_20_ku''),
      (''reference_dem'', ''dem_elevation_values''), (''uncertainty'', ''uncertainty'')}"
  shows "\<exists>v. List.find (\<lambda>vr. pv_name (fst vr) = fst nk) (product_sources env sd south ts) = Some (v, dget sd (snd nk)) \<and>
    pv_type v = ''double''"
  using assms by (elim insertE emptyE) (simp_all add: product_sources_def)

lemma all_variable_steps_sources:
  "all_variable_steps env cfg sd south ts = Dimension (length (pt_utc_secs ts)) #
     concat (map (\<lambda>vr. variable_steps (fst vr) (snd vr)) (product_sources env sd south ts)) @
     additional_steps cfg sd (length (pt_tai ts))"
  by (simp add: all_variable_steps_def product_sources_def)

lemma additional_vars:
  assumes "write_steps env (additional_steps cfg sd k) p = (q, Inr u)"
  shows "\<exists>ws. pr_vars q = pr_vars p @ ws"
  using assms
  by (auto simp: additional_steps_def write_variable rbind_def split: sum.splits if_splits)

lemma write_product_success:
  assumes "write_product env cfg sd south ts c r a f = (Inr ((True, m), sd'), w)"
  shows "\<exists>p ws extra. w = Some (f, p) \<and> pr_closed p \<and> sd' = dset sd ''product_filename'' (SStr f) \<and> pr_vars p = ws @ extra \<and>
    list_all2 (var_written env (length (pt_utc_secs ts))) (product_sources env sd south ts) ws"
proof -
  from assms obtain p q p1 where w: "w = Some (f, p1)" "p1 = p\<lparr>pr_closed := True\<rparr>" "sd' = dset sd ''product_filename'' (SStr f)"
    and attrs: "write_steps env (attribute_steps env cfg sd south ts c r a) new_product = (q, Inr ())"
    and vars: "write_steps env (all_variable_steps env cfg sd south ts) q = (p, Inr ())"
    by (auto simp: write_product_def write_steps_append rbind_eq_Inr split: option.splits prod.splits)
  let ?n = "length (pt_utc_secs ts)"
  have q: "pr_vars q = []" using attr_steps_keep [OF attribute_steps_attr attrs] by (simp add: new_product_def)
  from vars have "write_steps env (concat (map (\<lambda>vr. variable_steps (fst vr) (snd vr)) (product_sources env sd south ts)) @
     additional_steps cfg sd (length (pt_tai ts))) (q\<lparr>pr_time := Some ?n\<rparr>) = (p, Inr ())"
    by (simp add: all_variable_steps_sources)
  from write_variables [OF this] q obtain p' ws where p': "pr_vars p' = ws"
      "list_all2 (var_written env ?n) (product_sources env sd south ts) ws"
      "write_steps env (additional_steps cfg sd (length (pt_tai ts))) p' = (p, Inr ())"
    by auto
  with additional_vars [OF p'(3)] w show ?thesis by auto
qed

lemma product_run_success:
  assumes "product_run env cfg lf l1b sd = (Inr ((True, m), sd'), w)"
  shows "\<exists>ts south f c r a. product_times_step env lf l1b = Inr ts \<and>
    write_product env cfg sd south ts c r a f = (Inr ((True, m), sd'), w)"
proof -
  from assms obtain ts south d where place: "product_place env cfg lf l1b sd = Inr (ts, south, d)"
    and rest: "\<exists>c r a f. write_product env cfg sd south ts c r a f = (Inr ((True, m), sd'), w)"
    by (auto simp: product_run_def split: sum.splits option.splits prod.splits)
  from place have "product_times_step env lf l1b = Inr ts" by (auto simp: product_place_def rbind_eq_Inr Let_def)
  with rest show ?thesis by blast
qed

text \<open>The variables of a product, in the order in which they are created.\<close>

definition product_names :: "config \<Rightarrow> string list" where
  "product_names cfg =
     [''time'', ''latitude'', ''longitude'', ''instrument_mode'', ''elevation'', ''backscatter'', ''surface_type'',
      ''reference_dem'', ''basin_id'', ''basin_id2'', ''uncertainty''] @
     (if cflag cfg ''product_output'' ''include_additional_parameters'' = Inr True then [''relocation_distance''] else [])"

fun created_names :: "nc_step list \<Rightarrow> string list" where
  "created_names [] = []"
| "created_names (CreateVar v # ss) = pv_name v # created_names ss"
| "created_names (s # ss) = created_names ss"

lemma created_names_append: "created_names (xs @ ys) = created_names xs @ created_names ys"
  by (induction xs rule: created_names.induct) auto

lemma created_names_attr: "list_all attr_step ss \<Longrightarrow> created_names ss = []"
  by (induction ss rule: created_names.induct) auto

lemma created_names_product:
  "created_names (attribute_steps env cfg sd south ts c r a @ all_variable_steps env cfg sd south ts @ [Close]) = product_names cfg"
  by (auto simp: created_names_append created_names_attr attribute_steps_attr all_variable_steps_def variable_steps_def
      additional_steps_def product_names_def split: sum.split)

lemma do_assign_names:
  assumes "do_step env (Assign r) p = Inr q"
  shows "map pv_name (pr_vars q) = map pv_name (pr_vars p) \<and> pr_closed q = pr_closed p"
proof (cases "rev (pr_vars p)")
  case Nil
  then show ?thesis using assms by (auto simp: rbind_eq_Inr split: option.splits)
next
  case (Cons var vars)
  then have "pr_vars p = rev vars @ [var]" by (simp add: rev_eq_Cons_iff)
  then show ?thesis using assms Cons by (cases "pr_time p") (auto simp: rbind_eq_Inr)
qed

lemma do_step_names:
  "do_step env s p = Inr q \<Longrightarrow> map pv_name (pr_vars q) = map pv_name (pr_vars p) @ created_names [s] \<and>
     (pr_closed q \<longleftrightarrow> pr_closed p \<or> s = Close)"
  using do_assign_names [of env _ p q] by (cases s) (auto simp: rbind_eq_Inr simp del: do_step.simps(5))

text \<open>The steps that were done are a beginning of the list, all of it exactly if none raised.\<close>

lemma write_steps_prefix:
  assumes "write_steps env ss p = (q, r)"
  shows "\<exists>before after. ss = before @ after \<and> (after = [] \<longleftrightarrow> r = Inr ()) \<and>
    map pv_name (pr_vars q) = map pv_name (pr_vars p) @ created_names before \<and> (pr_closed q \<longleftrightarrow> pr_closed p \<or> Close \<in> set before)"
  using assms
proof (induction ss arbitrary: p)
  case (Cons s ss)
  show ?case
  proof (cases "do_step env s p")
    case (Inl e)
    with Cons.prems show ?thesis by (intro exI [of _ "[]"] exI [of _ "s # ss"]) auto
  next
    case (Inr p')
    have "write_steps env ss p' = (q, r)" using Cons.prems Inr by simp
    from Cons.IH [OF this] obtain before after where "ss = before @ after" "after = [] \<longleftrightarrow> r = Inr ()"
      "map pv_name (pr_vars q) = map pv_name (pr_vars p') @ created_names before" "pr_closed q \<longleftrightarrow> pr_closed p' \<or> Close \<in> set before"
      by blast
    moreover have "created_names (s # before) = created_names [s] @ created_names before"
      using created_names_append [of "[s]" before] by simp
    ultimately show ?thesis
      using do_step_names [OF Inr] by (intro exI [of _ "s # before"] exI [of _ after]) auto
  qed
qed simp

lemma no_early_close:
  "Close \<notin> set (attribute_steps env cfg sd south ts c r a @ all_variable_steps env cfg sd south ts)"
proof -
  have "Close \<notin> set ss" if "list_all attr_step ss" for ss using that by (auto simp: list_all_iff)
  then show ?thesis
    using attribute_steps_attr by (auto simp: all_variable_steps_def variable_steps_def additional_steps_def split: sum.splits if_splits)
qed

lemma write_product_outcomes:
  assumes "write_product env cfg sd south ts c r a f = (outcome, Some (g, p))"
  shows "g = f \<and> pe_create env f = None \<and> (\<exists>later. product_names cfg = map pv_name (pr_vars p) @ later \<and>
    (if pr_closed p then outcome = pass (dset sd ''product_filename'' (SStr f)) \<and> later = [] else (\<exists>e. outcome = Inl e)))"
proof -
  let ?steps = "attribute_steps env cfg sd south ts c r a @ all_variable_steps env cfg sd south ts"
  obtain u where u: "write_steps env (?steps @ [Close]) new_product = (p, u)" "g = f" "pe_create env f = None"
    "outcome = rbind u (\<lambda>_. pass (dset sd ''product_filename'' (SStr f)))"
    using assms by (auto simp: write_product_def split: option.splits prod.splits)
  obtain before after where steps: "?steps @ [Close] = before @ after" and fin: "after = [] \<longleftrightarrow> u = Inr ()"
    and names: "map pv_name (pr_vars p) = created_names before" and cl: "pr_closed p \<longleftrightarrow> Close \<in> set before"
    using write_steps_prefix [OF u(1)] by (auto simp: new_product_def)
  have "product_names cfg = created_names before @ created_names after"
    using created_names_product [of env cfg sd south ts c r a] steps by (simp add: created_names_append [symmetric])
  moreover have "Close \<in> set before \<longleftrightarrow> after = []"
  proof (cases after rule: rev_cases)
    case (snoc ys y)
    then have "before @ ys = ?steps" using steps by (metis append_assoc butlast_snoc)
    then show ?thesis using no_early_close [of env cfg sd south ts c r a] snoc by (metis Un_iff append_is_Nil_conv not_Cons_self2 set_append)
  qed (use steps in \<open>metis append_Nil2 in_set_conv_decomp\<close>)
  ultimately show ?thesis
    using u(2-4) fin names cl by (cases u) (auto simp: old.unit.exhaust)
qed

text \<open>C23: What is left on disk. \<^verbatim>\<open>alg_product_output\<close> never reports success without a product file. A file that it
  has created holds the variables of the product in their order up to some point: all of them, and it is
  closed, exactly if the outcome is success, and then its path is in the shared dictionary. Otherwise an
  exception has ended the writing, and the file stays behind under the name of a product with the variables created
  before; an orderly failure (a directory or file that cannot be made) leaves no file.\<close>

theorem product_file_outcomes:
  "case product_run env cfg lf l1b sd of (outcome, w) \<Rightarrow>
     (case w of
        None \<Rightarrow> (\<nexists>msg sd'. outcome = Inr ((True, msg), sd'))
      | Some (f, p) \<Rightarrow> pe_create env f = None \<and> (\<exists>later. product_names cfg = map pv_name (pr_vars p) @ later \<and>
          (if pr_closed p then outcome = pass (dset sd ''product_filename'' (SStr f)) \<and> later = [] else (\<exists>e. outcome = Inl e))))"
proof -
  obtain outcome w where run: "product_run env cfg lf l1b sd = (outcome, w)" by fastforce
  show ?thesis
  proof (cases w)
    case None
    then show ?thesis
      using run by (auto simp: product_run_def write_product_def split: sum.splits prod.splits option.splits)
  next
    case (Some fp)
    obtain f p where fp: "fp = (f, p)" by fastforce
    obtain south ts c r a g where "write_product env cfg sd south ts c r a g = (outcome, Some (f, p))"
      using run Some fp by (auto simp: product_run_def split: sum.splits prod.splits option.splits)
    then show ?thesis using write_product_outcomes run Some fp by fastforce
  qed
qed

text \<open>C22: Where netCDF4 stores arrays of the length of the dimension as they are in a variable of type double, the file
  that a successful run has written holds the UTC times, the longitudes within -180 and 180 degrees, and the
  arrays that the earlier algorithms left in the shared dictionary: the filtered height as elevation, the backscatter,
  the reference elevation and the uncertainty, each in the variable of its name.\<close>

theorem product_holds_results:
  assumes run: "product_run env cfg lf l1b sd = (Inr ((True, m), sd'), w)"
    and assign: "\<forall>xs. pe_assign env ''double'' (length xs) (SF xs) = Inr (SF xs)"
  shows "\<exists>f p ts lons. w = Some (f, p) \<and> pr_closed p \<and> sd' = dset sd ''product_filename'' (SStr f) \<and>
    product_times_step env lf l1b = Inr ts \<and> pvalue p ''time'' = Some (SF (pt_utc_secs ts)) \<and>
    prod_longitudes (pe_mode env) sd = Inr lons \<and>
    (\<forall>x\<in>set lons. x = NaN \<or> (\<exists>v. x = Fin v \<and> - 180 \<le> v \<and> v \<le> 180)) \<and>
    (length lons = length (pt_utc_secs ts) \<longrightarrow> pvalue p ''longitude'' = Some (SF lons)) \<and>
    (\<forall>(name, key) \<in> {(''latitude'', ''latitudes''), (''elevation'', ''height_filt''), (''backscatter'', ''sig0_20_ku''),
        (''reference_dem'', ''dem_elevation_values''), (''uncertainty'', ''uncertainty'')}.
       \<forall>xs. dget sd key = Inr (SF xs) \<longrightarrow> length xs = length (pt_utc_secs ts) \<longrightarrow> pvalue p name = Some (SF xs))"
proof -
  from product_run_success [OF run] obtain ts south f c r a where ts: "product_times_step env lf l1b = Inr ts"
    and wp: "write_product env cfg sd south ts c r a f = (Inr ((True, m), sd'), w)" by blast
  let ?n = "length (pt_utc_secs ts)" and ?src = "product_sources env sd south ts"
  from write_product_success [OF wp] obtain p ws extra where w: "w = Some (f, p)" "pr_closed p" "sd' = dset sd ''product_filename'' (SStr f)"
    and vars: "pr_vars p = ws @ extra" and all: "list_all2 (var_written env ?n) ?src ws" by blast
  have found: "\<exists>w. pvalue p name = Some (pv_value w) \<and> var_written env ?n vr w"
    if "List.find (\<lambda>vr. pv_name (fst vr) = name) ?src = Some vr" for name vr
    using find_written [OF all that, of extra] by (auto simp: pvalue_def vars)
  have stored: "pvalue p name = Some (SF xs)"
    if "List.find (\<lambda>vr. pv_name (fst vr) = name) ?src = Some (v, Inr (SF xs))" and "pv_type v = ''double''" and "length xs = ?n"
    for name v xs
    using found [OF that(1)] assign [rule_format, of xs] that(2,3) by (auto simp: var_written_def)
  have "\<exists>w. var_written env ?n (var_longitude, rbind (prod_longitudes (pe_mode env) sd) (\<lambda>lons. Inr (SF lons))) w"
    using found [of "''longitude''"] by (auto simp: product_sources_def)
  then obtain lons where lons: "prod_longitudes (pe_mode env) sd = Inr lons" by (auto simp: var_written_def rbind_eq_Inr)
  then have range: "\<forall>x\<in>set lons. x = NaN \<or> (\<exists>v. x = Fin v \<and> - 180 \<le> v \<and> v \<le> 180)"
    unfolding prod_longitudes_def rbind_eq_Inr rmapM_Inr_iff list_all2_conv_all_nth
    by (metis in_set_conv_nth prod_longitude_range)
  have time: "pvalue p ''time'' = Some (SF (pt_utc_secs ts))"
    by (rule stored [of _ var_time]) (simp_all add: product_sources_def)
  have longitude: "pvalue p ''longitude'' = Some (SF lons)" if "length lons = ?n"
    using that by (intro stored [of _ var_longitude]) (simp_all add: product_sources_def lons)
  have arrays: "pvalue p (fst nk) = Some (SF xs)"
    if "nk \<in> {(''latitude'', ''latitudes''), (''elevation'', ''height_filt''), (''backscatter'', ''sig0_20_ku''),
        (''reference_dem'', ''dem_elevation_values''), (''uncertainty'', ''uncertainty'')}"
      and "dget sd (snd nk) = Inr (SF xs)" and "length xs = ?n" for nk xs
    using array_sources [OF that(1), of env sd south ts] stored that(2,3) by metis
  show ?thesis
    by (intro exI [of _ f] exI [of _ p] exI [of _ ts] exI [of _ lons] conjI w ts time lons range)
      (use longitude arrays in fastforce)+
qed

text \<open>Steps whose values can be computed all succeed.\<close>

fun step_value :: "nc_step \<Rightarrow> bool" where
  "step_value (Eval r) = (\<exists>v. r = Inr v)"
| "step_value (SetAttr k r) = (\<exists>v. r = Inr v)"
| "step_value s = False"

lemma write_attrs_succeeds: "list_all step_value ss \<Longrightarrow> \<exists>q. write_steps env ss p = (q, Inr ())"
proof (induction ss arbitrary: p)
  case (Cons s ss)
  from Cons.prems have "\<exists>p'. do_step env s p = Inr p'" by (cases s) auto
  with Cons show ?case by auto
qed simp

lemma write_variables_succeeds:
  assumes "\<And>t n v. \<exists>x. pe_assign env t n v = Inr x" and "pr_time p = Some n" and "list_all (\<lambda>vr. \<exists>x. snd vr = Inr x) vrs"
  shows "\<exists>q. write_steps env (concat (map (\<lambda>vr. variable_steps (fst vr) (snd vr)) vrs)) p = (q, Inr ())"
  using assms(2,3)
proof (induction vrs arbitrary: p)
  case (Cons vr vrs)
  from Cons.prems obtain x where x: "snd vr = Inr x" by auto
  from assms(1) obtain y where y: "pe_assign env (pv_type (fst vr)) n x = Inr y" by blast
  let ?p = "p\<lparr>pr_vars := pr_vars p @ [(fst vr)\<lparr>pv_value := y\<rparr>]\<rparr>"
  have "write_steps env (variable_steps (fst vr) (snd vr)) p = (?p, Inr ())"
    using x y Cons.prems by (auto simp: write_variable)
  with Cons.IH [of ?p] Cons.prems show ?case by (auto simp: write_steps_append)
qed simp

text \<open>One measurement on 1 January 2000, without leap seconds.\<close>

definition wit_penv :: product_env where
  "wit_penv = \<lparr>pe_mode = seterr_default, pe_store = (\<lambda>f. Some []), pe_isdir = (\<lambda>d. True), pe_makedirs = (\<lambda>d. None),
     pe_isdir_later = (\<lambda>d. True), pe_create = (\<lambda>f. None), pe_assign = (\<lambda>t n v. Inr v), pe_int32 = Inr,
     pe_now = CS2_EPOCH, pe_git = Inr None, pe_str = (\<lambda>v. [])\<rparr>"

definition wit_pcfg :: config where
  "wit_pcfg = [(''product_base_dir'', CStr ''out''), (''baseline'', CStr ''c''), (''version'', CInt 1),
     (''product_output'', CDict [(''include_additional_parameters'', CBool False)])]"

definition wit_pl1b :: dataset where
  "wit_pl1b = \<lparr>ds_isinstance = True, ds_getitem = (\<lambda>k. if k = ''time_20_ku'' then Inr (SF [Fin 0]) else Inl (IndexError k)),
     ds_variables = (\<lambda>k. None), ds_attr = (\<lambda>k. Some (SInt 1))\<rparr>"

definition wit_psd :: shared where
  "wit_psd = [(''hemisphere'', SStr ''south''), (''longitudes'', SF [Fin (- 180)]), (''instr_mode'', SStr ''LRM''),
     (''l1b_file_name'', SStr ''a.nc''), (''lats_nadir'', SF [Fin (- 80)]), (''latitudes'', SF [Fin (- 80)]),
     (''height_20_ku'', SF [NaN]), (''height_filt'', SF [NaN]), (''sig0_20_ku'', SF [NaN]),
     (''cryotempo_surface_type'', SF [Fin 1]), (''dem_elevation_values'', SF [NaN]), (''basin_mask_values_zwally'', SF [Fin 1]),
     (''basin_mask_values_rignot'', SF [Fin 1]), (''uncertainty'', SF [NaN])]"

lemma wit_gets:
  "sget_floats wit_psd ''longitudes'' = Inr [Fin (- 180)]" "dget wit_psd ''instr_mode'' = Inr (SStr ''LRM'')"
  "dget wit_psd ''hemisphere'' = Inr (SStr ''south'')" "dget wit_psd ''l1b_file_name'' = Inr (SStr ''a.nc'')"
  "sget_floats wit_psd ''lats_nadir'' = Inr [Fin (- 80)]" "sget_floats wit_psd ''latitudes'' = Inr [Fin (- 80)]"
  "sget_floats wit_psd ''height_20_ku'' = Inr [NaN]"
  by (simp_all add: wit_psd_def sget_floats_def dget_def of_option_def)

lemma wit_cfg_gets:
  "dget wit_pcfg ''product_base_dir'' = Inr (CStr ''out'')" "dget wit_pcfg ''baseline'' = Inr (CStr ''c'')"
  "dget wit_pcfg ''version'' = Inr (CInt 1)" "cflag wit_pcfg ''product_output'' ''include_additional_parameters'' = Inr False"
  by (simp_all add: wit_pcfg_def dget_def cflag_def cget2_def as_cdict_def of_option_def)

lemma wit_lons: "prod_longitudes (pe_mode wit_penv) wit_psd = Inr [Fin (- 180)]"
  using round64_of_int [of "- 180"]
  by (simp add: prod_longitudes_def wit_gets prod_longitude_def npf_add_def npf_sub_def np_invalid_def np_round_def
      rat_fmod_def is_finite_def underflows_def Let_def)

lemma wit_times: "product_times_step wit_penv ''leap'' wit_pl1b = Inr \<lparr>pt_tai = [Fin 0], pt_utc_dt = [CS2_EPOCH], pt_utc_secs = [Fin 0]\<rparr>"
proof -
  have td: "td_seconds (Fin 0) = Inr 0" by (simp add: td_seconds_def timedelta_checked_def us_per_day_def rne_def)
  have g: "grain_new (pe_store wit_penv) (Some ''leap'') = Inr \<lparr>leaps = []\<rparr>"
    by (simp add: grain_new_def wit_penv_def grain_of_def offset_steps_def)
  have utc: "tai2utc \<lparr>leaps = []\<rparr> (Fin 0) DEFAULT_EPOCH = Inr CS2_EPOCH"
    by (simp add: tai2utc_def td dt_add_def leaps_between_def DEFAULT_EPOCH_def epochs max_datetime_def us_per_day_def
        td_int_seconds_def timedelta_checked_def)
  show ?thesis
    by (simp add: product_times_step_def getitem_floats_def wit_pl1b_def g product_times_of_def utc td dt_add_def epochs
        max_datetime_def us_per_day_def total_seconds_def np_zip_def npf_add_def)
qed

lemma wit_coverage: "i \<in> {0, - 1} \<Longrightarrow> \<exists>v. coverage_time [Fin 0] i = Inr v"
  by (auto simp: coverage_time_def py_index_def td_seconds_def timedelta_checked_def us_per_day_def rne_def dt_add_def
      epochs max_datetime_def)

lemma wit_attribute_steps:
  "list_all step_value (attribute_steps wit_penv wit_pcfg wit_psd True
     \<lparr>pt_tai = [Fin 0], pt_utc_dt = [CS2_EPOCH], pt_utc_secs = [Fin 0]\<rparr> (SInt 1) (SInt 1) (SInt 1))"
  using wit_coverage [of 0] wit_coverage [of "- 1"]
  by (auto simp: attribute_steps_def mode_steps_def direction_steps_def extent_steps_def orbit_steps_def wit_gets wit_cfg_gets
      wit_lons str_4f_def np_min_def np_max_def np_nan_def find_orbit_directions_def start_record_def int32_def attr_int_def
      cval_int_def get_current_commit_hash_def wit_penv_def [THEN arg_cong, of pe_int32] wit_penv_def [THEN arg_cong, of pe_git]
      Let_def)

lemma wit_product_run:
  "\<exists>sd' w. product_run wit_penv wit_pcfg ''leap'' wit_pl1b wit_psd = (Inr ((True, []), sd'), w)"
proof -
  let ?ts = "\<lparr>pt_tai = [Fin 0], pt_utc_dt = [CS2_EPOCH], pt_utc_secs = [Fin 0]\<rparr>"
  let ?attrs = "attribute_steps wit_penv wit_pcfg wit_psd True ?ts (SInt 1) (SInt 1) (SInt 1)"
  let ?vars = "concat (map (\<lambda>vr. variable_steps (fst vr) (snd vr)) (product_sources wit_penv wit_psd True ?ts))"
  obtain q where q: "write_steps wit_penv ?attrs new_product = (q, Inr ())"
    using write_attrs_succeeds [OF wit_attribute_steps] by blast
  have "list_all (\<lambda>vr. \<exists>x. snd vr = Inr x) (product_sources wit_penv wit_psd True ?ts)"
    by (simp add: product_sources_def wit_lons mode_values_def wit_gets) (simp add: wit_psd_def dget_def of_option_def)
  with write_variables_succeeds [of wit_penv "q\<lparr>pr_time := Some 1\<rparr>" 1] obtain p where
    "write_steps wit_penv ?vars (q\<lparr>pr_time := Some 1\<rparr>) = (p, Inr ())" by (auto simp: wit_penv_def)
  with q have steps: "write_steps wit_penv (?attrs @ all_variable_steps wit_penv wit_pcfg wit_psd True ?ts @ [Close]) new_product = (p\<lparr>pr_closed := True\<rparr>, Inr ())"
    by (auto simp: write_steps_append all_variable_steps_sources additional_steps_def wit_cfg_gets)
  have wp: "\<exists>sd' w. write_product wit_penv wit_pcfg wit_psd True ?ts (SInt 1) (SInt 1) (SInt 1) f = (Inr ((True, []), sd'), w)" for f
    unfolding write_product_def steps by (simp add: wit_penv_def pass_def)
  have place: "\<exists>d. product_place wit_penv wit_pcfg ''leap'' wit_pl1b wit_psd = Inr (?ts, True, d)"
    by (simp add: product_place_def wit_times wit_gets product_dir_def wit_cfg_gets upper_of_def cval_int_def py_index_def)
  have named: "\<exists>f. product_file wit_pcfg wit_pl1b ?ts True d = Inr (SInt 1, SInt 1, SInt 1, f)" for d
    by (simp add: product_file_def nc_attr_def wit_pl1b_def of_option_def py_index_def product_name_def attr_int_def
        wit_cfg_gets upper_of_def cval_int_def)
  have "make_product_dir wit_penv d = None" for d by (simp add: make_product_dir_def wit_penv_def)
  with place named wp show ?thesis unfolding product_run_def by (metis (no_types, lifting) case_prod_conv option.simps(4) sum.case(2))
qed

lemma product_holds_results_witness:
  "\<exists>f p. snd (product_run wit_penv wit_pcfg ''leap'' wit_pl1b wit_psd) = Some (f, p) \<and> pr_closed p \<and>
     pvalue p ''longitude'' = Some (SF [Fin (- 180)]) \<and> pvalue p ''latitude'' = Some (SF [Fin (- 80)])"
proof -
  obtain sd' w where run: "product_run wit_penv wit_pcfg ''leap'' wit_pl1b wit_psd = (Inr ((True, []), sd'), w)"
    using wit_product_run by blast
  have lat: "dget wit_psd ''latitudes'' = Inr (SF [Fin (- 80)])" by (simp add: wit_psd_def dget_def of_option_def)
  have "\<forall>xs. pe_assign wit_penv ''double'' (length xs) (SF xs) = Inr (SF xs)" by (simp add: wit_penv_def)
  from product_holds_results [OF run this] show ?thesis
    by (auto simp: run wit_times wit_lons lat)
qed

end
