(* ===== verification/Sarin_Phase.thy ===== *)
theory Sarin_Phase
  imports Algs_Retrack Dems
begin

text \<open>
  \<^verbatim>\<open>utils/cs2/geolocate/sarin_phase.py\<close>: the phase difference of a SARIn waveform at its retracking point, by
  sampling the window around it or by fitting a line to it. scipy's fits and numpy's reductions are parameters,
  in the record \<open>geo_env\<close>. The counters of failed fits are only logged and left out, as are the two Jacobians,
  which no fit uses. The position is an element of a plain array, so it is never masked.
\<close>

section \<open>Arithmetic\<close>

text \<open>Operations on values that may have raised, evaluated from left to right.\<close>

definition fadd :: "np_err \<Rightarrow> fl res \<Rightarrow> fl res \<Rightarrow> fl res" where
  "fadd em x y = rbind x (\<lambda>a. rbind y (npf_add em a))"

definition fsub :: "np_err \<Rightarrow> fl res \<Rightarrow> fl res \<Rightarrow> fl res" where
  "fsub em x y = rbind x (\<lambda>a. rbind y (npf_sub em a))"

definition fmul :: "np_err \<Rightarrow> fl res \<Rightarrow> fl res \<Rightarrow> fl res" where
  "fmul em x y = rbind x (\<lambda>a. rbind y (npf_mul em a))"

definition fdiv :: "np_err \<Rightarrow> fl res \<Rightarrow> fl res \<Rightarrow> fl res" where
  "fdiv em x y = rbind x (\<lambda>a. rbind y (npf_div em a))"

text \<open>\<^verbatim>\<open>np.floor\<close>, \<^verbatim>\<open>np.ceil\<close> and \<^verbatim>\<open>np.rint\<close>\<close>

fun fl_round_by :: "(rat \<Rightarrow> int) \<Rightarrow> fl \<Rightarrow> fl" where
  "fl_round_by r (Fin q) = Fin (of_int (r q))"
| "fl_round_by r x = x"

text \<open>\<^verbatim>\<open>np.nanmax\<close> and \<^verbatim>\<open>np.nanargmax\<close>; the first of an array of NaN is NaN, with a warning.\<close>

definition np_nanmax :: "fl list \<Rightarrow> fl res" where
  "np_nanmax xs = (if xs = [] then np_max [] else case filter (\<lambda>x. x \<noteq> NaN) xs of [] \<Rightarrow> Inr NaN | ys \<Rightarrow> np_max ys)"

definition np_nanargmax :: "fl list \<Rightarrow> nat res" where
  "np_nanargmax xs =
     (if filter (\<lambda>x. x \<noteq> NaN) xs = [] then Inl (ValueError ''All-NaN slice encountered'')
      else np_argmax (map (\<lambda>x. if x = NaN then NInf else x) xs))"

record geo_env = backscatter_env +
  np_nanmean :: "fl list \<Rightarrow> fl res"
  np_median :: "fl list \<Rightarrow> fl res"
  np_unwrap :: "fl list \<Rightarrow> fl list res"
  np_norm :: "fl list \<Rightarrow> fl res"                                       \<comment> \<open>\<^verbatim>\<open>np.linalg.norm\<close>\<close>
  np_dot :: "fl list \<Rightarrow> fl list \<Rightarrow> fl res"
  np_cross :: "fl list \<Rightarrow> fl list \<Rightarrow> fl list res"
  np_inner :: "fl list list \<Rightarrow> fl list \<Rightarrow> fl list res"                 \<comment> \<open>of a matrix and a vector\<close>
  pj_to_ecef :: "fl \<Rightarrow> fl \<Rightarrow> fl \<Rightarrow> (fl \<times> fl \<times> fl) res"                \<comment> \<open>pyproj: longitude, latitude, height to x, y, z\<close>
  pj_to_llh :: "fl \<Rightarrow> fl \<Rightarrow> fl \<Rightarrow> (fl \<times> fl \<times> fl) res"                 \<comment> \<open>pyproj: x, y, z to longitude, latitude, height\<close>
  least_squares :: "(fl list \<Rightarrow> fl list res) \<Rightarrow> fl list \<Rightarrow> int \<Rightarrow> (fl list \<times> fl) res"
    \<comment> \<open>residuals, start and number of evaluations; the solution and its cost\<close>
  curve_fit :: "(fl \<Rightarrow> fl \<Rightarrow> fl \<Rightarrow> fl list res) \<Rightarrow> fl list \<Rightarrow> fl list \<Rightarrow> fl list \<Rightarrow> (fl \<times> fl \<times> fl) option res"
    \<comment> \<open>function, data, start, sigma; \<open>None\<close> for \<^verbatim>\<open>OptimizeWarning\<close> and \<^verbatim>\<open>RuntimeError\<close>\<close>

section \<open>The phase model\<close>

text \<open>\<^verbatim>\<open>phase_func_least_squares\<close> and \<^verbatim>\<open>phase_func_curve_fit\<close>: constant up to \<^verbatim>\<open>tt0\<close>, then a line.\<close>

definition phase_func :: "np_err \<Rightarrow> int list \<Rightarrow> fl \<Rightarrow> fl \<Rightarrow> fl \<Rightarrow> fl list res" where
  "phase_func em ttt slope constant tt0 =
     rmapM (\<lambda>i. let tvv = of_intf i in
       if fl_lt tvv tt0 then Inr constant
       else fadd em (fmul em (Inr slope) (npf_sub em tvv tt0)) (Inr constant)) ttt"

definition resid_least_squares :: "'a geo_env_scheme \<Rightarrow> int list \<Rightarrow> fl list \<Rightarrow> fl list \<Rightarrow> fl list \<Rightarrow> fl list res" where
  "resid_least_squares env ttt actual coherence vals =
     (let em = np_mode env in
      rbind (rmapM (\<lambda>c. fdiv em (np_power env c (Fin 3)) (fsub em (Inr (Fin 1)) (np_power env c (Fin 2)))) coherence) (\<lambda>ccx.
      rbind (py_index vals 1) (\<lambda>slope. rbind (py_index vals 0) (\<lambda>constant. rbind (py_index vals 2) (\<lambda>tt0.
      rbind (phase_func em ttt slope constant tt0) (\<lambda>model.
      rbind (np_zip (npf_sub em) model actual) (\<lambda>ddd.
        np_zip (\<lambda>c d.
          let s = rbind (npf_div em d (Fin 2)) (np_sin env) in fmul em (fmul em (npf_mul em (Fin 4) c) s) s) ccx ddd)))))))"

section \<open>The window\<close>

definition two_pi :: fl where
  "two_pi = fl_mul (Fin 2) np_pi"

text \<open>The loops that bring the median into the range from \<open>-\<pi>\<close> to \<open>\<pi>\<close>.\<close>

partial_function (option) shift_loop ::
  "(fl list \<Rightarrow> fl res) \<Rightarrow> (fl \<Rightarrow> bool) \<Rightarrow> (fl \<Rightarrow> fl res) \<Rightarrow> fl list \<Rightarrow> fl list res option" where
  [code]: "shift_loop median again step xs =
     (case median xs of
        Inl e \<Rightarrow> Some (Inl e)
      | Inr m \<Rightarrow>
          if again m then
            (case rmapM step xs of
               Inl e \<Rightarrow> Some (Inl e)
             | Inr ys \<Rightarrow> shift_loop median again step ys)
          else Some (Inr xs))"

definition shift_up :: "'a geo_env_scheme \<Rightarrow> fl list \<Rightarrow> fl list res option" where
  "shift_up env = shift_loop (np_median env) (\<lambda>m. fl_lt m (fl_neg np_pi)) (\<lambda>x. npf_add (np_mode env) x two_pi)"

definition shift_down :: "'a geo_env_scheme \<Rightarrow> fl list \<Rightarrow> fl list res option" where
  "shift_down env = shift_loop (np_median env) (\<lambda>m. fl_lt np_pi m) (\<lambda>x. npf_sub (np_mode env) x two_pi)"

definition loop_result :: "'r res option \<Rightarrow> 'r res" where
  "loop_result r = (case r of None \<Rightarrow> Inl NonTermination | Some x \<Rightarrow> x)"

definition extract_phase_window :: "'a geo_env_scheme \<Rightarrow> fl list \<Rightarrow> int \<Rightarrow> int \<Rightarrow> bool \<Rightarrow> fl list res" where
  "extract_phase_window env phase_in phase_window_start phase_window_width unwrap =
     (let window = py_slice phase_in (Some phase_window_start) (Some (phase_window_start + phase_window_width)) in
      if unwrap then
        rbind (np_unwrap env window) (\<lambda>phase_o.
        rbind (loop_result (shift_up env phase_o)) (\<lambda>up. loop_result (shift_down env up)))
      else Inr window)"

text \<open>The window of the two fits: its start, its width and half of it, or \<open>None\<close> if it does not lie inside the waveform. The width has to be
  an integer for the slices that follow.\<close>

definition fit_window :: "np_err \<Rightarrow> config \<Rightarrow> fl list \<Rightarrow> fl \<Rightarrow> (int \<times> int \<times> int) option res" where
  "fit_window em sg phase position =
     rbind (dget sg ''phase_window_width'') (\<lambda>v. rbind (as_number v) (\<lambda>width.
     rbind (rbind (npf_sub em (fl_round_by floor position) (fl_div width (Fin 2))) py_trunc) (\<lambda>window_start.
       if window_start < 0 then Inr None
       else if fl_le (of_intf (int (length phase))) (fl_add (of_intf window_start) width) then Inr None
       else rbind (cint v) (\<lambda>w. rbind (py_trunc (fl_div width (Fin 2))) (\<lambda>half. Inr (Some (window_start, w, half)))))))"

text \<open>\<^verbatim>\<open>np.abs(fits) > np.pi\<close> becomes NaN.\<close>

definition within_pi :: "fl \<Rightarrow> fl" where
  "within_pi fits = (if fl_lt np_pi (fl_abs fits) then NaN else fits)"

section \<open>Least squares\<close>

definition phase_fit_lsq :: "'a geo_env_scheme \<Rightarrow> config \<Rightarrow> fl list \<Rightarrow> fl list \<Rightarrow> fl \<Rightarrow> fl res" where
  "phase_fit_lsq env sg phase coherence position =
     rbind (fit_window (np_mode env) sg phase position) (\<lambda>window. case window of
        None \<Rightarrow> Inr NaN
      | Some (start, w, half) \<Rightarrow>
          rbind (extract_phase_window env phase start w False) (\<lambda>phase_data.
            let coherence_data = py_slice coherence (Some start) (Some (start + w));
                constant = rbind (np_unwrap env (py_slice phase_data (Some 0) (Some half))) (np_mean env);
                fit = (\<lambda>slope. rbind constant (\<lambda>c.
                  least_squares env (resid_least_squares env [start..start + w - 1] phase_data coherence_data)
                    [c, slope, position] (15 * w)));
                first = (\<lambda>r. py_index (fst r) 0)
            in rbind (fit (Fin 0)) (\<lambda>res_1.
               rbind (first res_1) (\<lambda>fits1.
               rbind (if dhas sg ''do_three'' then
                        rbind (fit (round64 (5 / 100))) (\<lambda>res_2.
                        rbind (fit (round64 (- 5 / 100))) (\<lambda>res_3.
                          if fl_lt (snd res_3) (snd res_2) \<and> fl_lt (snd res_3) (snd res_1) then first res_3
                          else if fl_lt (snd res_2) (snd res_1) \<and> fl_lt (snd res_2) (snd res_3) then first res_2
                          else first res_1))
                      else Inr fits1) (\<lambda>fits. Inr (within_pi fits))))))"

section \<open>Curve fit\<close>

text \<open>One fit: the constant of the model and the sum of squares, or \<open>None\<close>.\<close>

definition cuf_fit ::
  "'a geo_env_scheme \<Rightarrow> int list \<Rightarrow> fl list \<Rightarrow> fl list \<Rightarrow> fl list \<Rightarrow> (fl \<times> fl) option res" where
  "cuf_fit env ttt phase_data guess www =
     rbind (curve_fit env (phase_func (np_mode env) ttt) phase_data guess www) (\<lambda>r. case r of
        None \<Rightarrow> Inr None
      | Some (slope, constant, tt0) \<Rightarrow>
          rbind (phase_func (np_mode env) ttt slope constant tt0) (\<lambda>model.
          rbind (np_zip (\<lambda>a b. rbind (npf_sub (np_mode env) a b) (\<lambda>d. np_power env d (Fin 2))) model phase_data) (\<lambda>squares.
          rbind (np_sum env squares) (\<lambda>resid. Inr (Some (constant, resid))))))"

text \<open>The fit with the smallest residual; a fit that failed has an infinite one, and its result is unbound.\<close>

definition best_fit :: "(fl \<times> fl) option \<Rightarrow> (fl \<times> fl) option \<Rightarrow> (fl \<times> fl) option \<Rightarrow> fl" where
  "best_fit r1 r2 r3 =
     (let resid = (\<lambda>r. case r of None \<Rightarrow> PInf | Some x \<Rightarrow> snd x);
          chosen = (if fl_lt (resid r3) (resid r2) \<and> fl_lt (resid r3) (resid r1) then r3
                    else if fl_lt (resid r2) (resid r3) \<and> fl_lt (resid r2) (resid r1) then r2 else r1)
      in case chosen of None \<Rightarrow> NaN | Some x \<Rightarrow> fst x)"

definition phase_fit_cuf :: "'a geo_env_scheme \<Rightarrow> config \<Rightarrow> fl list \<Rightarrow> fl list \<Rightarrow> fl \<Rightarrow> fl res" where
  "phase_fit_cuf env sg phase coherence position =
     rbind (fit_window (np_mode env) sg phase position) (\<lambda>window. case window of
        None \<Rightarrow> Inr NaN
      | Some (start, w, half) \<Rightarrow>
          rbind (extract_phase_window env phase start w True) (\<lambda>phase_data.
          rbind (np_mean env (py_slice phase_data (Some 0) (Some half))) (\<lambda>const_guess.
            let em = np_mode env; ttt = [start..start + w - 1] in
            rbind (rmapM (\<lambda>c. rbind (fdiv em (Inr (Fin 1)) (fdiv em (np_power env c (Fin 3)) (fsub em (Inr (Fin 1)) (np_power env c (Fin 2)))))
                      (np_sqrt env)) (py_slice coherence (Some start) (Some (start + w)))) (\<lambda>www.
              let fit = (\<lambda>slope. cuf_fit env ttt phase_data [slope, const_guess, position] www) in
              rbind (fit (Fin 0)) (\<lambda>r1.
              rbind (if dhas sg ''do_three'' then
                       rbind (fit (round64 (5 / 100))) (\<lambda>r2. rbind (fit (round64 (- 5 / 100))) (\<lambda>r3. Inr (best_fit r1 r2 r3)))
                     else Inr (case r1 of None \<Rightarrow> NaN | Some x \<Rightarrow> fst x)) (\<lambda>fits. Inr (within_pi fits)))))))"

section \<open>Sampling the window\<close>

text \<open>\<^verbatim>\<open>window_method\<close> \<^verbatim>\<open>max\<close>: the phase at the largest coherence; \<^verbatim>\<open>ValueError\<close> is caught.\<close>

definition sample_max :: "fl list \<Rightarrow> fl list \<Rightarrow> int \<Rightarrow> int \<Rightarrow> (fl \<times> fl) res" where
  "sample_max phase coherence wstart wend =
     (let window = py_slice coherence (Some wstart) (Some wend) in
      case rbind (np_nanmax window) (\<lambda>ccc. rbind (np_nanargmax window) (\<lambda>pos.
             rbind (py_index phase (wstart + int pos)) (\<lambda>ppp. Inr (ccc, ppp)))) of
        Inl e \<Rightarrow> if is_value_error e then Inr (NaN, NaN) else Inl e
      | Inr r \<Rightarrow> Inr r)"

text \<open>\<^verbatim>\<open>window_method\<close> \<^verbatim>\<open>interp\<close>: between the two bins around the position.\<close>

definition sample_interp :: "np_err \<Rightarrow> fl list \<Rightarrow> fl list \<Rightarrow> fl \<Rightarrow> (fl \<times> fl) res" where
  "sample_interp em phase coherence position =
     rbind (py_trunc (fl_round_by floor position)) (\<lambda>low. rbind (py_trunc (fl_round_by ceiling position)) (\<lambda>high.
     rbind (npf_sub em position (of_intf low)) (\<lambda>frac.
       let mix = (\<lambda>xs. fadd em (fmul em (Inr (fl_sub (Fin 1) frac)) (py_index xs low)) (fmul em (Inr frac) (py_index xs high))) in
       rbind (mix coherence) (\<lambda>ccc. rbind (mix phase) (\<lambda>ppp. Inr (ccc, ppp))))))"

definition sample_window ::
  "'a geo_env_scheme \<Rightarrow> cval \<Rightarrow> fl list \<Rightarrow> fl list \<Rightarrow> fl \<Rightarrow> int \<Rightarrow> int \<Rightarrow> int \<Rightarrow> (fl \<times> fl) res" where
  "sample_window env window_method phase coherence position ttt wstart wend =
     (if window_method = CStr ''max'' then sample_max phase coherence wstart wend
      else if window_method = CStr ''interp'' then sample_interp (np_mode env) phase coherence position
      else if window_method = CStr ''sample'' then
        rbind (py_index coherence ttt) (\<lambda>ccc. rbind (py_index phase ttt) (\<lambda>ppp. Inr (ccc, ppp)))
      else
        rbind (np_nanmean env (py_slice phase (Some wstart) (Some wend))) (\<lambda>ppp.
        rbind (np_nanmean env (py_slice coherence (Some wstart) (Some wend))) (\<lambda>ccc. Inr (ccc, ppp))))"

definition coherence_too_low :: "config \<Rightarrow> fl \<Rightarrow> bool res" where
  "coherence_too_low sg ccc =
     (if opt_flag sg ''mask'' then
        rbind (if dhas sg ''mask_coh_ths'' then rbind (dget sg ''mask_coh_ths'') as_number else Inr (round64 (8 / 10))) (\<lambda>ths.
          Inr (fl_lt ccc ths))
      else Inr False)"

definition phase_fit_sample :: "'a geo_env_scheme \<Rightarrow> config \<Rightarrow> fl list \<Rightarrow> fl list \<Rightarrow> fl \<Rightarrow> fl res" where
  "phase_fit_sample env sg phase coherence position =
     rbind (py_trunc (fl_round_by rne position)) (\<lambda>ttt.
     rbind (rbind (dget sg ''phase_window_width'') as_number) (\<lambda>width.
     rbind (py_trunc (fl_div width (Fin 2))) (\<lambda>half.
       if \<not> dhas sg ''window_method'' then
         Inl (ValueError ''Invalid config: window phase extraction requested without a method'')
       else
         rbind (dget sg ''window_method'') (\<lambda>window_method.
         rbind (sample_window env window_method phase coherence position ttt (ttt - half) (ttt + half)) (\<lambda>(ccc, ppp).
         rbind (coherence_too_low sg ccc) (\<lambda>low.
           if low then Inl (SINLocateError ''Phase retrieval failed due to coherence threshold'') else Inr ppp))))))"

section \<open>The loops end\<close>

lemma shift_loop_ends:
  assumes stop: "\<And>xs m. I 0 xs \<Longrightarrow> median xs = Inr m \<Longrightarrow> \<not> again m"
    and go: "\<And>n xs ys. I (Suc n) xs \<Longrightarrow> rmapM step xs = Inr ys \<Longrightarrow> I n ys"
    and start: "I (n :: nat) xs"
  shows "\<exists>r. shift_loop median again step xs = Some r \<and> (\<forall>ys. r = Inr ys \<longrightarrow> (\<exists>k\<le>n. I k ys))"
  using start
proof (induction n arbitrary: xs)
  case 0
  then show ?case using stop [OF 0]
    by (subst shift_loop.simps) (auto split: sum.splits)
next
  case (Suc n)
  show ?case
  proof (cases "median xs")
    case (Inl e)
    then show ?thesis by (subst shift_loop.simps) simp
  next
    case (Inr m)
    show ?thesis
    proof (cases "again m")
      case True
      show ?thesis
      proof (cases "rmapM step xs")
        case (Inl e)
        then show ?thesis using \<open>median xs = Inr m\<close> True by (subst shift_loop.simps) simp
      next
        case (Inr ys)
        from Suc.IH [OF go [OF Suc.prems Inr]] obtain r where
          r: "shift_loop median again step ys = Some r" "\<forall>zs. r = Inr zs \<longrightarrow> (\<exists>k\<le>n. I k zs)" by blast
        moreover have "shift_loop median again step xs = shift_loop median again step ys"
          using \<open>median xs = Inr m\<close> True Inr by (subst shift_loop.simps) simp
        ultimately show ?thesis by (metis le_Suc_eq)
      qed
    next
      case False
      then show ?thesis using Inr Suc.prems by (subst shift_loop.simps) auto
    qed
  qed
qed

lemma two_pi_bounds: "\<exists>t. two_pi = Fin t \<and> 6 \<le> t \<and> t \<le> 7"
proof -
  have "\<bar>884279719003555 / 140737488355328 :: rat\<bar> \<le> 2 ^ 1000"
    by (rule order_trans [of _ 8]) (simp_all add: power_increasing [of 3 1000 "2 :: rat", simplified])
  from round64_bounded [OF this] obtain t where
    t: "round64 (884279719003555 / 140737488355328) = Fin t" "\<bar>t - 884279719003555 / 140737488355328\<bar> \<le> 1 / 4"
    by fastforce
  then have "two_pi = Fin t" by (simp add: two_pi_def np_pi_def)
  moreover have "6 \<le> t \<and> t \<le> 7" using t(2) unfolding abs_le_iff by linarith
  ultimately show ?thesis by blast
qed

lemma shift_step:
  fixes v t :: rat
  assumes "\<bar>v\<bar> \<le> 2 ^ 51" and "6 \<le> \<bar>t\<bar>" "\<bar>t\<bar> \<le> 7"
  shows "\<exists>w. round64 (v + t) = Fin w \<and> \<bar>w - (v + t)\<bar> \<le> 1"
proof -
  have le: "\<bar>v + t\<bar> \<le> 2 ^ 51 + 7" using assms abs_triangle_ineq [of v t] by linarith
  also have "\<dots> \<le> (2 :: rat) ^ 52" by simp
  also have "\<dots> \<le> 2 ^ 1000" by (rule power_increasing) simp_all
  finally obtain w where w: "round64 (v + t) = Fin w" "\<bar>w - (v + t)\<bar> \<le> (\<bar>v + t\<bar> + 1) / 2 ^ 53"
    using round64_bounded by blast
  moreover have "(\<bar>v + t\<bar> + 1) / 2 ^ 53 \<le> 1" using le by simp
  ultimately show ?thesis by (meson order_trans)
qed

text \<open>What \<^verbatim>\<open>np.median\<close> promises of finite values: NaN, or a value between two of them.\<close>

definition median_between :: "(fl list \<Rightarrow> fl res) \<Rightarrow> bool" where
  "median_between median \<longleftrightarrow> (\<forall>xs m. median xs = Inr m \<longrightarrow> list_all is_finite xs \<longrightarrow>
     m = NaN \<or> (\<exists>x\<in>set xs. fl_le x m) \<and> (\<exists>x\<in>set xs. fl_le m x))"

text \<open>Phases that are below a bound that falls by 5 with every step, and have room to grow.\<close>

definition in_steps :: "rat \<Rightarrow> bool \<Rightarrow> nat \<Rightarrow> fl list \<Rightarrow> bool" where
  "in_steps room up n xs \<longleftrightarrow> (\<forall>x\<in>set xs. \<exists>v. x = Fin v \<and>
     (let u = (if up then - v else v) in u \<le> 5 * of_nat n + 3 \<and> 8 * of_nat n - room \<le> u))"

lemma in_steps_finite: "in_steps room up n xs \<Longrightarrow> list_all is_finite xs"
  by (auto simp: in_steps_def list_all_iff is_finite_def)

lemma in_steps_stop:
  assumes "in_steps room up 0 xs" and "median_between median" and "median xs = Inr m"
  shows "\<not> (if up then fl_lt m (fl_neg np_pi) else fl_lt np_pi m)"
proof (cases "m = NaN")
  case False
  with assms in_steps_finite [OF assms(1)] have
    "(\<exists>x\<in>set xs. fl_le x m) \<and> (\<exists>x\<in>set xs. fl_le m x)" unfolding median_between_def by blast
  with assms(1) show ?thesis
    by (cases m) (fastforce simp: in_steps_def np_pi_def fl_le_def fl_eq_def Let_def split: if_splits)+
qed simp

lemma in_steps_step:
  assumes "in_steps room up (Suc n) xs" and "room \<le> 2 ^ 50" and "n < 2 ^ 45"
    and "rmapM (\<lambda>x. if up then npf_add em x two_pi else npf_sub em x two_pi) xs = Inr ys"
  shows "in_steps room up n ys"
  unfolding in_steps_def
proof
  fix y assume "y \<in> set ys"
  then obtain x where x: "x \<in> set xs" "(if up then npf_add em x two_pi else npf_sub em x two_pi) = Inr y"
    using assms(4) unfolding rmapM_Inr_iff list_all2_conv_all_nth by (metis in_set_conv_nth)
  obtain t where t: "two_pi = Fin t" "6 \<le> t" "t \<le> 7" using two_pi_bounds by blast
  define s where "s = (if up then t else - t)"
  from x(1) assms(1) obtain v where v: "x = Fin v"
    and vb: "(if up then - v else v) \<le> 5 * of_nat (Suc n) + 3" "8 * of_nat (Suc n) - room \<le> (if up then - v else v)"
    unfolding in_steps_def Let_def by blast
  have n: "(of_nat n :: rat) < 2 ^ 45" using assms(3) by (metis of_nat_less_iff of_nat_numeral of_nat_power)
  have "\<bar>v\<bar> \<le> 2 ^ 51" using vb n assms(2) by (cases up) auto
  moreover have "6 \<le> \<bar>s\<bar>" "\<bar>s\<bar> \<le> 7" using t by (simp_all add: s_def)
  ultimately obtain w where w: "round64 (v + s) = Fin w" "\<bar>w - (v + s)\<bar> \<le> 1"
    using shift_step [of v s] by blast
  have "y = Fin w" using x(2) w(1) by (auto simp: v t s_def fl_sub_def split: if_splits dest!: npf_add_Inr npf_sub_Inr)
  then show "\<exists>v. y = Fin v \<and> (let u = (if up then - v else v) in u \<le> 5 * of_nat n + 3 \<and> 8 * of_nat n - room \<le> u)"
    using w(2) vb t by (cases up) (auto simp: s_def abs_le_iff)
qed

lemma shift_ends:
  assumes "median_between (np_median env)" and "room \<le> 2 ^ 50" and "n \<le> 2 ^ 44" and "in_steps room up n xs"
  shows "\<exists>r. (if up then shift_up env xs else shift_down env xs) = Some r \<and> (\<forall>ys. r = Inr ys \<longrightarrow> (\<exists>k\<le>n. in_steps room up k ys))"
proof -
  let ?again = "\<lambda>m. if up then fl_lt m (fl_neg np_pi) else fl_lt np_pi m"
  let ?step = "\<lambda>x. if up then npf_add (np_mode env) x two_pi else npf_sub (np_mode env) x two_pi"
  have "\<exists>r. shift_loop (np_median env) ?again ?step xs = Some r \<and>
      (\<forall>ys. r = Inr ys \<longrightarrow> (\<exists>k\<le>n. k \<le> 2 ^ 44 \<and> in_steps room up k ys))"
  proof (rule shift_loop_ends [where I = "\<lambda>n xs. n \<le> 2 ^ 44 \<and> in_steps room up n xs"])
    fix m ys assume "0 \<le> (2 :: nat) ^ 44 \<and> in_steps room up 0 ys" "np_median env ys = Inr m"
    then show "\<not> ?again m" using in_steps_stop assms(1) by blast
  next
    fix k ys zs assume "Suc k \<le> 2 ^ 44 \<and> in_steps room up (Suc k) ys" "rmapM ?step ys = Inr zs"
    then show "k \<le> 2 ^ 44 \<and> in_steps room up k zs" using in_steps_step [of room up k ys] assms(2) by simp
  qed (use assms in simp)
  then show ?thesis by (cases up) (auto simp: shift_up_def shift_down_def)
qed

text \<open>C32: The two loops of \<^verbatim>\<open>extract_phase_window\<close> end for phases that are finite and at most \<open>2^40\<close> in size: every round moves
  each phase by at least 5, as rounding cannot undo the addition of \<open>2\<pi>\<close> there.\<close>

theorem phase_window_loops_end:
  assumes "median_between (np_median env)" and "\<forall>x\<in>set xs. \<exists>v. x = Fin v \<and> \<bar>v\<bar> \<le> 2 ^ 40"
  shows "\<exists>r. shift_up env xs = Some r \<and> (\<forall>ys. r = Inr ys \<longrightarrow> (\<exists>r'. shift_down env ys = Some r'))"
proof -
  have "in_steps (2 ^ 44) True (2 ^ 40) xs"
    unfolding in_steps_def Let_def using assms(2) by (auto simp: abs_le_iff dest!: bspec)
  from shift_ends [OF assms(1) _ _ this] obtain r where r: "shift_up env xs = Some r"
    and ys: "\<forall>ys. r = Inr ys \<longrightarrow> (\<exists>k\<le>2 ^ 40. in_steps (2 ^ 44) True k ys)" by auto
  have "\<exists>r'. shift_down env ys = Some r'" if "r = Inr ys" for ys
  proof -
    from ys that obtain k where k: "k \<le> 2 ^ 40" "in_steps (2 ^ 44) True k ys" by blast
    then have "(of_nat k :: rat) \<le> 2 ^ 40" by (metis of_nat_le_iff of_nat_numeral of_nat_power)
    with k(2) have "in_steps (2 ^ 50) False (2 ^ 44) ys" unfolding in_steps_def Let_def by fastforce
    from shift_ends [OF assms(1) _ _ this] show ?thesis by auto
  qed
  with r show ?thesis by blast
qed

definition wit_geo :: geo_env where
  "wit_geo = \<lparr>np_mode = seterr_default, np_sum = (\<lambda>xs. Inr (Fin 0)), np_mean = (\<lambda>xs. Inr (Fin 0)), np_power = (\<lambda>x y. Inr x),
     np_log = Inr, np_log10 = Inr, np_sin = Inr, np_cos = Inr, np_sqrt = Inr, np_radians = Inr,
     np_nanmean = (\<lambda>xs. Inr (Fin 0)), np_median = (\<lambda>xs. Inr (case xs of [] \<Rightarrow> NaN | x # _ \<Rightarrow> x)), np_unwrap = Inr, np_norm = (\<lambda>xs. Inr (Fin 1)),
     np_dot = (\<lambda>xs ys. Inr (Fin 0)), np_cross = (\<lambda>xs ys. Inr xs), np_inner = (\<lambda>m v. Inr v),
     pj_to_ecef = (\<lambda>lon lat h. Inr (lon, lat, h)), pj_to_llh = (\<lambda>x y z. Inr (Fin 10, Fin (- 70), Fin 100)),
     least_squares = (\<lambda>f s n. Inr (s, Fin 0)), curve_fit = (\<lambda>f d s w. Inr None)\<rparr>"

lemma wit_median: "median_between (np_median wit_geo)"
  by (auto simp: median_between_def wit_geo_def list_all_iff is_finite_def fl_le_def fl_eq_def split: list.splits)

lemma phase_window_loops_end_witness:
  "\<exists>r. shift_up wit_geo [Fin (- 100), Fin 3] = Some r"
  using phase_window_loops_end [OF wit_median, of "[Fin (- 100), Fin 3]"] by auto

end
