(* ===== verification/Geolocate_Sin.thy ===== *)
theory Geolocate_Sin
  imports Sarin_Phase Algs_Height
begin

text \<open>
  \<^verbatim>\<open>utils/cs2/geolocate/geolocate_sin.py\<close> and \<^verbatim>\<open>alg_geolocate_sin\<close>: from the phase difference at the retracking
  point of a SARIn waveform to the point of closest approach (POCA) and its height. numpy's linear algebra and
  pyproj are parameters, in the record \<open>geo_env\<close>; messages are left out.
\<close>

section \<open>Geometry\<close>

definition llh_to_ecef_pyproj :: "'a geo_env_scheme \<Rightarrow> fl \<Rightarrow> fl \<Rightarrow> fl \<Rightarrow> (fl \<times> fl \<times> fl) res" where
  "llh_to_ecef_pyproj env lat lon alt = pj_to_ecef env lon lat alt"

definition ecef_to_llh_pyproj :: "'a geo_env_scheme \<Rightarrow> fl \<Rightarrow> fl \<Rightarrow> fl \<Rightarrow> (fl \<times> fl \<times> fl) res" where
  "ecef_to_llh_pyproj env x y z = rbind (pj_to_llh env x y z) (\<lambda>(lon, lat, height). Inr (lat, lon, height))"

text \<open>\<^verbatim>\<open>solve_eqn\<close>: of the two solutions the one with the larger x; zero if neither is larger.\<close>

definition solve_eqn :: "'a geo_env_scheme \<Rightarrow> fl \<Rightarrow> fl \<Rightarrow> fl list \<Rightarrow> fl list \<Rightarrow> fl list res" where
  "solve_eqn env aaa bbb base_vec crf_centre =
     rbind (py_index base_vec 0) (\<lambda>b0. rbind (py_index base_vec 2) (\<lambda>b2.
     rbind (py_index crf_centre 0) (\<lambda>c0. rbind (py_index crf_centre 2) (\<lambda>c2.
       let em = np_mode env; v = (\<lambda>x. (Inr x :: fl res)); pow = (\<lambda>x n. np_power env x (Fin n));
           first = fdiv em (fmul em (fmul em (v (Fin 2)) (v bbb)) (v b0)) (pow b2 2);
           ratio = fadd em (fdiv em (pow b0 2) (pow b2 2)) (v (Fin 1));
           before_sqrt = fsub em
             (fdiv em (fmul em (fmul em (v (Fin 4)) (pow bbb 2)) (pow b0 2)) (pow b2 4))
             (fmul em (fmul em (v (Fin 4)) ratio) (fsub em (fdiv em (pow bbb 2) (pow b2 2)) (v aaa)));
           z_of = (\<lambda>x. fadd em (fdiv em (fsub em (v bbb) (fmul em (v b0) (v x))) (v b2)) (v c2))
       in rbind first (\<lambda>f. rbind before_sqrt (\<lambda>d. rbind (np_sqrt env d) (\<lambda>root_d.
          rbind (fdiv em (fadd em (v f) (v root_d)) (fmul em (v (Fin 2)) ratio)) (\<lambda>xplus.
          rbind (npf_add em xplus c0) (\<lambda>xxplus. rbind (z_of xplus) (\<lambda>zzplus.
          rbind (fdiv em (fsub em (v f) (v root_d)) (fmul em (v (Fin 2)) ratio)) (\<lambda>xminus.
          rbind (npf_add em xminus c0) (\<lambda>xxminus. rbind (z_of xminus) (\<lambda>zzminus.
            Inr (if fl_lt xxminus xxplus then [xxplus, Fin 0, zzplus]
                 else if fl_lt xxplus xxminus then [xxminus, Fin 0, zzminus]
                 else [Fin 0, Fin 0, Fin 0]))))))))))))))"

text \<open>\<^verbatim>\<open>x / np.linalg.norm(x)\<close>\<close>

definition unit_vector :: "'a geo_env_scheme \<Rightarrow> fl list \<Rightarrow> fl list res" where
  "unit_vector env xs = rbind (np_norm env xs) (\<lambda>n. rmapM (\<lambda>x. npf_div (np_mode env) x n) xs)"

text \<open>\<^verbatim>\<open>get_crf_in_efc\<close>: the three axes, which are the columns of \<^verbatim>\<open>crf_axis\<close>, and the centre of gravity.\<close>

definition get_crf_in_efc ::
  "'a geo_env_scheme \<Rightarrow> fl \<Rightarrow> fl \<Rightarrow> fl \<Rightarrow> fl list \<Rightarrow> ((fl list \<times> fl list \<times> fl list) \<times> fl list) res" where
  "get_crf_in_efc env lon lat alt vel_vec =
     (let em = np_mode env in
      rbind (llh_to_ecef_pyproj env lat lon (Fin 0)) (\<lambda>(nx, ny, nz).
      rbind (llh_to_ecef_pyproj env lat lon alt) (\<lambda>(cx, cy, cz).
      rbind (np_zip (npf_sub em) [nx, ny, nz] [cx, cy, cz]) (\<lambda>sat_nad_vec.
      rbind (unit_vector env sat_nad_vec) (\<lambda>axis1.
      rbind (unit_vector env vel_vec) (\<lambda>efc_nv.
      rbind (np_dot env axis1 efc_nv) (\<lambda>scal_prod.
      rbind (np_zip (\<lambda>e a. fsub em (Inr e) (npf_mul em a scal_prod)) efc_nv axis1) (\<lambda>temp_vect.
      rbind (unit_vector env temp_vect) (\<lambda>axis2.
      rbind (np_cross env axis2 axis1) (\<lambda>axis3.
        Inr ((axis1, axis2, axis3), [cx, cy, cz])))))))))))"

definition rotation_matrix :: "'a geo_env_scheme \<Rightarrow> fl list \<times> fl list \<times> fl list \<Rightarrow> fl list list res" where
  "rotation_matrix env axes =
     (let (a1, a2, a3) = axes in
      rmapM (\<lambda>e. rmapM (np_dot env e) [a1, a2, a3])
        [[Fin 1, Fin 0, Fin 0], [Fin 0, Fin 1, Fin 0], [Fin 0, Fin 0, Fin 1]])"

definition angle_to_poca ::
  "'a geo_env_scheme \<Rightarrow> fl \<Rightarrow> fl \<Rightarrow> fl \<Rightarrow> fl \<Rightarrow> fl \<Rightarrow> fl list \<Rightarrow> fl list \<Rightarrow> (fl \<times> fl \<times> fl) res" where
  "angle_to_poca env angle lat lon alt cor_range vel_vec base_vec =
     (let em = np_mode env in
      rbind (fmul em (Inr cor_range) (np_sin env angle)) (\<lambda>offset.
      rbind (rmapM (\<lambda>b. npf_mul em b offset) base_vec) (\<lambda>crf_centre.
      rbind (fmul em (Inr cor_range) (np_cos env angle)) (\<lambda>radius.
      rbind (py_index crf_centre 1) (\<lambda>c1.
      rbind (fsub em (np_power env radius (Fin 2)) (np_power env c1 (Fin 2))) (\<lambda>aaa.
      rbind (fmul em (py_index base_vec 1) (Inr c1)) (\<lambda>bbb.
      rbind (solve_eqn env aaa bbb base_vec crf_centre) (\<lambda>crf_point.
        case get_crf_in_efc env lon lat alt vel_vec of
          Inl e \<Rightarrow> if is_value_error e then Inr (NaN, NaN, NaN) else Inl e
        | Inr (crf_axis, efc_cog) \<Rightarrow>
            rbind (rotation_matrix env crf_axis) (\<lambda>rot.
            rbind (np_inner env rot crf_point) (\<lambda>efc_vec.
            rbind (np_zip (npf_add em) efc_vec efc_cog) (\<lambda>efc_point.
            rbind (py_index efc_point 0) (\<lambda>x. rbind (py_index efc_point 1) (\<lambda>y. rbind (py_index efc_point 2) (\<lambda>z.
            rbind (ecef_to_llh_pyproj env x y z) (\<lambda>(lat_poca, lon_poca, elev_poca).
            rbind (if fl_lt (Fin 180) lon_poca then npf_sub em lon_poca (Fin 360) else Inr lon_poca) (\<lambda>lon_poca'.
              Inr (lat_poca, lon_poca', elev_poca)))))))))))))))))"

definition phase_to_angle :: "np_err \<Rightarrow> fl \<Rightarrow> fl res" where
  "phase_to_angle em phase =
     (let wavelength = round64 (22084 / 10 ^ 6); baseline = round64 (11676 / 10 ^ 4);
          inferred_angle_cal_mult = round64 (102775 / 10 ^ 5); inferred_angle_cal_add = Fin 0 in
      rbind (npf_mul em phase wavelength) (\<lambda>a.
      rbind (fdiv em (npf_mul em (Fin (- 1)) a) (Inr (fl_mul two_pi baseline))) (\<lambda>angle.
        fadd em (npf_mul em inferred_angle_cal_mult angle) (Inr inferred_angle_cal_add))))"

section \<open>Records\<close>

record sin_l1b =
  sl_lat :: "fl list"
  sl_lon :: "fl list"
  sl_ph :: "fl list list"
  sl_coh :: "fl list list"
  sl_vel :: "fl list list"
  sl_base :: "fl list list"
  sl_alt :: "fl list"

definition getitem_rows :: "dataset \<Rightarrow> string \<Rightarrow> fl list list res" where
  "getitem_rows nc k = rbind (rbind (ds_getitem nc k) as_rows) (\<lambda>r. Inr (snd r))"

definition read_sin_l1b :: "dataset \<Rightarrow> sin_l1b res" where
  "read_sin_l1b l1b =
     rbind (getitem_floats l1b ''lat_20_ku'') (\<lambda>lat. rbind (getitem_floats l1b ''lon_20_ku'') (\<lambda>lon.
     rbind (getitem_rows l1b ''ph_diff_waveform_20_ku'') (\<lambda>ph. rbind (getitem_rows l1b ''coherence_waveform_20_ku'') (\<lambda>coh.
     rbind (getitem_rows l1b ''sat_vel_vec_20_ku'') (\<lambda>vel. rbind (getitem_rows l1b ''inter_base_vec_20_ku'') (\<lambda>base.
     rbind (getitem_floats l1b ''alt_20_ku'') (\<lambda>alt.
       Inr \<lparr>sl_lat = lat, sl_lon = lon, sl_ph = ph, sl_coh = coh, sl_vel = vel, sl_base = base, sl_alt = alt\<rparr>)))))))"

text \<open>What the loop stores for one record: the solution, and the one of the unwrapped phase.\<close>

record sin_rec =
  sr_lat :: fl
  sr_lon :: fl
  sr_height :: fl
  sr_ulat :: fl
  sr_ulon :: fl
  sr_uheight :: fl

definition sin_default :: "fl \<times> fl \<times> fl \<Rightarrow> sin_rec" where
  "sin_default u = \<lparr>sr_lat = NaN, sr_lon = NaN, sr_height = NaN, sr_ulat = fst u, sr_ulon = fst (snd u), sr_uheight = snd (snd u)\<rparr>"

definition value_is :: "cval \<Rightarrow> int \<Rightarrow> bool" where
  "value_is v n = (case v of CInt i \<Rightarrow> i = n | CFloat x \<Rightarrow> x = Fin (of_int n) | CBool b \<Rightarrow> (if b then 1 else 0) = n | _ \<Rightarrow> False)"

definition sin_fitter :: "'a geo_env_scheme \<Rightarrow> config \<Rightarrow> cval \<Rightarrow> fl list \<Rightarrow> fl list \<Rightarrow> fl \<Rightarrow> fl res" where
  "sin_fitter env sg v =
     (if value_is v 1 then phase_fit_lsq env sg
      else if value_is v 2 then phase_fit_cuf env sg
      else phase_fit_sample env sg)"

text \<open>\<^verbatim>\<open>angle_to_poca\<close> for record \<open>i\<close>.\<close>

definition poca_of :: "'a geo_env_scheme \<Rightarrow> sin_l1b \<Rightarrow> fl list \<Rightarrow> nat \<Rightarrow> fl \<Rightarrow> (fl \<times> fl \<times> fl) res" where
  "poca_of env nc rng i angle =
     rbind (arr_at (sl_lat nc) i) (\<lambda>lat. rbind (arr_at (sl_lon nc) i) (\<lambda>lon. rbind (arr_at (sl_alt nc) i) (\<lambda>alt.
     rbind (arr_at rng i) (\<lambda>r. rbind (arr_at (sl_vel nc) i) (\<lambda>vel. rbind (arr_at (sl_base nc) i) (\<lambda>base.
       angle_to_poca env angle lat lon alt r vel base))))))"

text \<open>The phase of a record, or \<^verbatim>\<open>SINLocateError\<close>.\<close>

definition record_phase ::
  "(fl list \<Rightarrow> fl list \<Rightarrow> fl \<Rightarrow> fl res) \<Rightarrow> sin_l1b \<Rightarrow> nat \<Rightarrow> fl \<Rightarrow> fl res" where
  "record_phase fitter nc i position =
     rbind (arr_at (sl_ph nc) i) (\<lambda>ph. rbind (arr_at (sl_coh nc) i) (\<lambda>coh. rbind (fitter ph coh position) (\<lambda>phase.
       if phase = NaN then Inl (SINLocateError ''Phase retrieval failed'')
       else if fl_lt np_pi (fl_abs phase) then Inl (SINLocateError ''Phase out of bounds'')
       else Inr phase)))"

definition height_out_of_bounds :: "config \<Rightarrow> fl \<Rightarrow> bool res" where
  "height_out_of_bounds sg h =
     rbind (rbind (dget sg ''height_max'') as_number) (\<lambda>hi.
       if fl_lt hi h then Inr True else rbind (rbind (dget sg ''height_min'') as_number) (\<lambda>lo. Inr (fl_lt h lo)))"

text \<open>The solution of the phase on the other side.\<close>

definition unwrapped_poca :: "'a geo_env_scheme \<Rightarrow> bool \<Rightarrow> sin_l1b \<Rightarrow> fl list \<Rightarrow> nat \<Rightarrow> fl \<Rightarrow> (fl \<times> fl \<times> fl) res" where
  "unwrapped_poca env unwrap nc rng i phase =
     (if unwrap then
        rbind (npf_add (np_mode env) (if fl_lt (Fin 0) phase then fl_neg two_pi else two_pi) phase) (\<lambda>unwrap_phase.
        rbind (phase_to_angle (np_mode env) unwrap_phase) (poca_of env nc rng i))
      else Inr (NaN, NaN, Fin 0))"

definition sin_record ::
  "'a geo_env_scheme \<Rightarrow> config \<Rightarrow> (fl list \<Rightarrow> fl list \<Rightarrow> fl \<Rightarrow> fl res) \<Rightarrow> bool \<Rightarrow> sin_l1b \<Rightarrow> fl list \<Rightarrow> fl list \<Rightarrow> nat \<Rightarrow> sin_rec res" where
  "sin_record env sg fitter unwrap nc rng ind i =
     rbind (arr_at ind i) (\<lambda>position.
       if position = Fin (- 32768) then Inr (sin_default (Fin 0, Fin 0, Fin 0))
       else
         (case record_phase fitter nc i position of
            Inl (SINLocateError msg) \<Rightarrow> Inr (sin_default (Fin 0, Fin 0, Fin 0))
          | Inl e \<Rightarrow> Inl e
          | Inr phase \<Rightarrow>
              rbind (phase_to_angle (np_mode env) phase) (\<lambda>angle.
              rbind (poca_of env nc rng i angle) (\<lambda>(lat, lon, elev).
              rbind (unwrapped_poca env unwrap nc rng i phase) (\<lambda>u.
              rbind (height_out_of_bounds sg elev) (\<lambda>bad.
                Inr (if bad then sin_default u
                     else (sin_default u)\<lparr>sr_lat := lat, sr_lon := lon, sr_height := elev\<rparr>)))))))"

section \<open>Choosing between the solutions\<close>

text \<open>The solution of the unwrapped phase is used where it is closer to the elevation model.\<close>

definition unwrap_better :: "np_err \<Rightarrow> fl \<Rightarrow> sin_rec \<Rightarrow> fl \<Rightarrow> fl \<Rightarrow> bool res" where
  "unwrap_better em trigger r unwrap_dem orig_dem =
     rbind (npf_sub em (sr_uheight r) unwrap_dem) (\<lambda>du. rbind (npf_sub em (sr_height r) orig_dem) (\<lambda>d0.
       Inr (fl_lt (fl_abs du) (fl_abs d0) \<and> fl_le trigger (fl_abs d0))))"

definition use_unwrapped :: "sin_rec \<Rightarrow> sin_rec" where
  "use_unwrapped r = r\<lparr>sr_lat := sr_ulat r, sr_lon := sr_ulon r, sr_height := sr_uheight r\<rparr>"

definition choose_unwrapped ::
  "grid_env \<Rightarrow> np_err \<Rightarrow> config \<Rightarrow> grid option \<Rightarrow> grid option \<Rightarrow> sin_l1b \<Rightarrow> sin_rec list \<Rightarrow> sin_rec list res" where
  "choose_unwrapped genv em sg ant grn nc recs =
     rbind (py_index (sl_lat nc) 0) (\<lambda>lat0.
       case (if fl_lt lat0 (Fin 0) then ant else grn) of
         None \<Rightarrow> Inl (AttributeError ''interp_dem'')
       | Some g \<Rightarrow>
           rbind (interp_dem genv g (map sr_ulat recs) (map sr_ulon recs) ''linear'' True) (\<lambda>unwrap_dem.
           rbind (interp_dem genv g (map sr_lat recs) (map sr_lon recs) ''linear'' True) (\<lambda>orig_dem.
           rbind (guard (length unwrap_dem = length recs \<and> length orig_dem = length recs)
             (ValueError ''operands could not be broadcast together'')) (\<lambda>_.
           rbind (rbind (dget sg ''unwrap_trigger_m'') as_number) (\<lambda>trigger.
           rbind (rmapM (\<lambda>(r, du, d0). unwrap_better em trigger r du d0) (zip recs (zip unwrap_dem orig_dem))) (\<lambda>better.
             Inr (map2 (\<lambda>b r. if b then use_unwrapped r else r) better recs)))))))"

definition geolocate_sin ::
  "'a geo_env_scheme \<Rightarrow> grid_env \<Rightarrow> config \<Rightarrow> grid option \<Rightarrow> grid option \<Rightarrow> dataset \<Rightarrow> fl list \<Rightarrow> fl list \<Rightarrow>
     (fl list \<times> fl list \<times> fl list) res" where
  "geolocate_sin env genv cfg ant grn l1b range_cor ind_wfm_retrack =
     rbind (read_sin_l1b l1b) (\<lambda>nc.
     rbind (rbind (dget cfg ''sin_geolocation'') as_cdict) (\<lambda>sg.
     rbind (dget sg ''phase_method'') (\<lambda>phase_method.
     rbind (dget sg ''unwrap'') (\<lambda>v.
       let nrec = length (sl_lat nc); unwrap = truthy v in
       rbind (rmapM (sin_record env sg (sin_fitter env sg phase_method) unwrap nc range_cor ind_wfm_retrack) [0..<nrec]) (\<lambda>recs.
       rbind (if unwrap then choose_unwrapped genv (np_mode env) sg ant grn nc recs else Inr recs) (\<lambda>final.
         if nrec = 0 then Inl (UnboundLocalError ''i'')
         else Inr (map sr_height final, map sr_lat final, map sr_lon final)))))))"

section \<open>alg_geolocate_sin\<close>

definition init_geolocate_sin :: "grid_env \<Rightarrow> config \<Rightarrow> gshm \<Rightarrow> (ref_dems \<times> gshm) res" where
  "init_geolocate_sin genv cfg sh =
     (let load = (\<lambda>name sh. dem_new genv name True (Some cfg) None (dhas cfg ''_init_shared_mem'') sh) in
      rbind (if opt_flag cfg ''grn_only'' then Inr (None, sh)
             else rbind (load ''rema_ant_1km'' sh) (\<lambda>(g, sh1). Inr (Some g, sh1))) (\<lambda>(ant, sh1).
      rbind (load ''arcticdem_1km'' sh1) (\<lambda>(grn, sh2). Inr (\<lparr>dem_ant = ant, dem_grn = grn\<rparr>, sh2))))"

text \<open>\<^verbatim>\<open>latitudes[poca_failed] = l1b["lat_20_ku"][:].data[poca_failed]\<close>\<close>

definition nadir_where :: "nat list \<Rightarrow> dataset \<Rightarrow> string \<Rightarrow> fl list \<Rightarrow> fl list res" where
  "nadir_where failed l1b k xs = rbind (getitem_floats l1b k) (\<lambda>nadir. rbind (gather nadir failed) (\<lambda>vs. Inr (scatter xs failed vs)))"

text \<open>\<^verbatim>\<open>lon % 360.0\<close>; the remainder of an infinity is invalid.\<close>

definition np_mod360 :: "np_err \<Rightarrow> fl list \<Rightarrow> fl list res" where
  "np_mod360 em = rmapM (\<lambda>x. np_invalid em x (Fin 360) (fl_mod x 360))"

text \<open>\<^verbatim>\<open>latitudes\<close> is the array \<^verbatim>\<open>lat_poca_20_ku\<close>, so writing the nadir values into it changes the stored latitudes of
  the POCA too; the stored longitudes of the POCA are a new array.\<close>

definition store_geolocation :: "np_err \<Rightarrow> dataset \<Rightarrow> fl list \<times> fl list \<times> fl list \<Rightarrow> shared \<Rightarrow> alg_out" where
  "store_geolocation em l1b r sd =
     (let (height, lat_poca, lon_poca) = r; failed = np_where (\<lambda>x. x = NaN) lat_poca in
      rbind (np_mod360 em lon_poca) (\<lambda>lon_360.
      rbind (if failed = [] then Inr lat_poca else nadir_where failed l1b ''lat_20_ku'' lat_poca) (\<lambda>latitudes.
      rbind (if failed = [] then Inr lon_poca else nadir_where failed l1b ''lon_20_ku'' lon_poca) (\<lambda>longitudes.
        pass (dset (dset (dset (dset (dset sd ''lat_poca_20_ku'' (SF latitudes)) ''lon_poca_20_ku'' (SF lon_360))
          ''height_20_ku'' (SF height)) ''latitudes'' (SF latitudes)) ''longitudes'' (SF longitudes))))))"

definition geolocate_sin_alg :: "'a geo_env_scheme \<Rightarrow> grid_env \<Rightarrow> config \<Rightarrow> ref_dems \<Rightarrow> dataset \<Rightarrow> shared \<Rightarrow> alg_out" where
  "geolocate_sin_alg env genv cfg dems l1b sd =
     rbind (dget sd ''instr_mode'') (\<lambda>mode.
       if mode \<noteq> SStr ''SIN'' then Inr ((True, ''algorithm skipped as not SIN file''), sd)
       else
         rbind (sget_floats sd ''range_cor_20_ku'') (\<lambda>rng. rbind (sget_floats sd ''ind_wfm_retrack_20_ku'') (\<lambda>ind.
         rbind (geolocate_sin env genv cfg (dem_ant dems) (Some (dem_grn dems)) l1b rng ind) (\<lambda>r.
           store_geolocation (np_mode env) l1b r sd))))"

definition alg_geolocate_sin :: "'a geo_env_scheme \<Rightarrow> grid_env \<Rightarrow> gshm \<Rightarrow> alg_class" where
  "alg_geolocate_sin env genv sh = \<lparr>cls_name = ''clev2er.algorithms.cryotempo.alg_geolocate_sin'',
     cls_init = (\<lambda>cfg. rbind (init_geolocate_sin genv cfg sh) (\<lambda>(dems, sh1).
       Inr ((True, []), \<lparr>impl_body = geolocate_sin_alg env genv cfg dems,
         impl_finalize = (\<lambda>stage. map_sum id (\<lambda>_. ()) (Inr (finalize_ref_dem dems sh1)))\<rparr>)))\<rparr>"

interpretation geolocate_sin: chain_algorithm "geolocate_sin_alg env genv cfg dems"
    "{''lat_poca_20_ku'', ''lon_poca_20_ku'', ''height_20_ku'', ''latitudes'', ''longitudes''}"
  by (unfold_locales, erule framesD [rotated], unfold geolocate_sin_alg_def store_geolocation_def Let_def, intro frame_intros)
    (auto intro!: agree_off_dset)

section \<open>Laws\<close>

lemma unwrap_better_NaN: "sr_height r = NaN \<Longrightarrow> unwrap_better em t r du d0 = Inr b \<Longrightarrow> \<not> b"
  by (auto simp: unwrap_better_def rbind_eq_Inr)

lemma sin_record_cases:
  assumes "sin_record env sg fitter unwrap nc rng ind i = Inr r"
  shows "(sr_height r = NaN \<and> sr_lat r = NaN \<and> sr_lon r = NaN) \<or>
    (ind ! i \<noteq> Fin (- 32768) \<and> height_out_of_bounds sg (sr_height r) = Inr False)"
  using assms
  by (auto simp: sin_record_def rbind_eq_Inr sin_default_def arr_at_def
      split: if_splits sum.splits py_error.splits prod.splits)

lemma sin_record_fill:
  assumes "sin_record env sg fitter unwrap nc rng ind i = Inr r" and "ind ! i = Fin (- 32768)"
  shows "sr_height r = NaN \<and> sr_lat r = NaN \<and> sr_lon r = NaN"
  using sin_record_cases [OF assms(1)] assms(2) by auto

lemma choose_unwrapped_nth:
  assumes "choose_unwrapped genv em sg ant grn nc recs = Inr final"
  shows "length final = length recs \<and> (\<forall>i<length recs.
    final ! i = recs ! i \<or> sr_height (recs ! i) \<noteq> NaN \<and> final ! i = use_unwrapped (recs ! i))"
proof -
  from assms obtain ud od t better where len: "length ud = length recs" "length od = length recs"
    and bs: "rmapM (\<lambda>(r, du, d0). unwrap_better em t r du d0) (zip recs (zip ud od)) = Inr better"
    and final: "final = map2 (\<lambda>b r. if b then use_unwrapped r else r) better recs"
    by (auto simp: choose_unwrapped_def rbind_eq_Inr guard_def split: option.splits if_splits)
  from rmapM_length [OF bs] len have lb: "length better = length recs" by simp
  have "\<not> better ! i" if "i < length recs" "sr_height (recs ! i) = NaN" for i
    using rmapM_nth [OF bs, of i] len that by (auto dest: unwrap_better_NaN)
  with lb show ?thesis by (auto simp: final)
qed

text \<open>C29: \<^verbatim>\<open>geolocate_sin\<close> returns a height, a latitude and a longitude for every record. Records without a retracking point
  get NaN for all three. If phases are not unwrapped, every height is NaN or within the configured limits.\<close>

theorem sin_heights:
  assumes run: "geolocate_sin env genv cfg ant grn l1b rng ind = Inr (heights, lats, lons)" and nc: "read_sin_l1b l1b = Inr nc"
    and sg: "dget cfg ''sin_geolocation'' = Inr (CDict sg)"
    and hi: "rbind (dget sg ''height_max'') as_number = Inr hi" and lo: "rbind (dget sg ''height_min'') as_number = Inr lo"
  shows "length heights = length (sl_lat nc) \<and> length lats = length (sl_lat nc) \<and> length lons = length (sl_lat nc) \<and>
    (\<forall>i<length heights. ind ! i = Fin (- 32768) \<longrightarrow> heights ! i = NaN \<and> lats ! i = NaN \<and> lons ! i = NaN) \<and>
    (dget sg ''unwrap'' = Inr (CBool False) \<longrightarrow> (\<forall>h\<in>set heights. h = NaN \<or> \<not> fl_lt hi h \<and> \<not> fl_lt h lo))"
proof -
  let ?n = "length (sl_lat nc)"
  from run nc sg obtain pm u recs final where u: "dget sg ''unwrap'' = Inr u"
    and recs: "rmapM (sin_record env sg (sin_fitter env sg pm) (truthy u) nc rng ind) [0..<?n] = Inr recs"
    and final: "(if truthy u then choose_unwrapped genv (np_mode env) sg ant grn nc recs else Inr recs) = Inr final"
    and out: "heights = map sr_height final" "lats = map sr_lat final" "lons = map sr_lon final"
    by (cases "sl_lat nc = []") (auto simp: geolocate_sin_def rbind_eq_Inr as_cdict_def Let_def simp del: if_split)
  have len: "length recs = ?n" using rmapM_length [OF recs] by simp
  have rec: "sin_record env sg (sin_fitter env sg pm) (truthy u) nc rng ind i = Inr (recs ! i)" if "i < ?n" for i
    using rmapM_nth [OF recs, of i] that by simp
  have fin: "length final = ?n \<and> (\<forall>i<?n. final ! i = recs ! i \<or> sr_height (recs ! i) \<noteq> NaN \<and> final ! i = use_unwrapped (recs ! i))"
    using final len choose_unwrapped_nth [of genv "np_mode env" sg ant grn nc recs final] by (auto split: if_splits)
  have bounds: "h = NaN \<or> \<not> fl_lt hi h \<and> \<not> fl_lt h lo" if "h \<in> set heights" "u = CBool False" for h
  proof -
    from that final have "h \<in> sr_height ` set recs" by (simp add: out)
    then obtain i where "i < ?n" "h = sr_height (recs ! i)" by (auto simp: in_set_conv_nth len)
    with sin_record_cases [OF rec [of i]] hi lo show ?thesis
      by (auto simp: height_out_of_bounds_def split: if_splits)
  qed
  have fill: "heights ! i = NaN \<and> lats ! i = NaN \<and> lons ! i = NaN" if "i < ?n" "ind ! i = Fin (- 32768)" for i
    using sin_record_fill [OF rec [OF that(1)] that(2)] fin that(1) by (auto simp: out)
  from fin fill bounds u show ?thesis by (simp add: out)
qed

definition wit_sin_l1b :: dataset where
  "wit_sin_l1b = \<lparr>ds_isinstance = True, ds_getitem = (\<lambda>k.
       if k \<in> {''lat_20_ku'', ''lon_20_ku'', ''alt_20_ku''} then Inr (SF [Fin (- 71), Fin (- 72)])
       else if k \<in> {''ph_diff_waveform_20_ku'', ''coherence_waveform_20_ku''} then Inr (SF2 1 [[Fin 0], [Fin 0]])
       else Inr (SF2 3 [[Fin 0, Fin 0, Fin 1], [Fin 0, Fin 0, Fin 1]])),
     ds_variables = (\<lambda>k. None), ds_attr = (\<lambda>k. None)\<rparr>"

definition wit_sg :: config where
  "wit_sg = [(''phase_method'', CInt 3), (''unwrap'', CBool False), (''phase_window_width'', CFloat (Fin 2)),
     (''window_method'', CStr ''sample''), (''height_max'', CFloat (Fin 1000)), (''height_min'', CFloat (Fin 0))]"

definition wit_sin_nc :: sin_l1b where
  "wit_sin_nc = \<lparr>sl_lat = [Fin (- 71), Fin (- 72)], sl_lon = [Fin (- 71), Fin (- 72)], sl_ph = [[Fin 0], [Fin 0]], sl_coh = [[Fin 0], [Fin 0]],
      sl_vel = [[Fin 0, Fin 0, Fin 1], [Fin 0, Fin 0, Fin 1]], sl_base = [[Fin 0, Fin 0, Fin 1], [Fin 0, Fin 0, Fin 1]],
      sl_alt = [Fin (- 71), Fin (- 72)]\<rparr>"

lemma wit_sin_records:
  "sin_record wit_geo wit_sg (sin_fitter wit_geo wit_sg (CInt 3)) False wit_sin_nc [Fin 0, Fin 0] [Fin 0, Fin (- 32768)] 0 =
     Inr \<lparr>sr_lat = Fin (- 70), sr_lon = Fin 10, sr_height = Fin 100, sr_ulat = NaN, sr_ulon = NaN, sr_uheight = Fin 0\<rparr>"
  "sin_record wit_geo wit_sg (sin_fitter wit_geo wit_sg (CInt 3)) False wit_sin_nc [Fin 0, Fin 0] [Fin 0, Fin (- 32768)] (Suc 0) =
     Inr (sin_default (Fin 0, Fin 0, Fin 0))"
  using round64_of_int [of 1]
  by (simp_all add: sin_record_def arr_at_def record_phase_def sin_fitter_def value_is_def phase_fit_sample_def rne_def
      dget_def dhas_def of_option_def as_number_def sample_window_def py_index_def coherence_too_low_def opt_flag_def np_pi_def
      phase_to_angle_def wit_geo_def fdiv_def fadd_def fsub_def fmul_def poca_of_def angle_to_poca_def solve_eqn_def
      get_crf_in_efc_def llh_to_ecef_pyproj_def ecef_to_llh_pyproj_def unit_vector_def rotation_matrix_def np_zip_def npf_sub_def
      unwrapped_poca_def height_out_of_bounds_def sin_default_def Let_def wit_sg_def wit_sin_nc_def)

lemma wit_read_sin: "read_sin_l1b wit_sin_l1b = Inr wit_sin_nc"
  by (simp add: read_sin_l1b_def getitem_floats_def getitem_rows_def wit_sin_l1b_def wit_sin_nc_def)

lemma wit_geolocate_sin:
  "geolocate_sin wit_geo genv [(''sin_geolocation'', CDict wit_sg)] ant grn wit_sin_l1b [Fin 0, Fin 0] [Fin 0, Fin (- 32768)] =
     Inr ([Fin 100, NaN], [Fin (- 70), NaN], [Fin 10, NaN])"
proof -
  have "dget wit_sg ''phase_method'' = Inr (CInt 3)" "dget wit_sg ''unwrap'' = Inr (CBool False)"
    by (simp_all add: wit_sg_def dget_def of_option_def)
  moreover have "sl_lat wit_sin_nc = [Fin (- 71), Fin (- 72)]" by (simp add: wit_sin_nc_def)
  ultimately show ?thesis
    by (simp add: geolocate_sin_def wit_read_sin wit_sin_records dget_def of_option_def as_cdict_def sin_default_def upt_conv_Cons)
qed

lemma sin_heights_witness:
  "\<exists>h. geolocate_sin wit_geo wit_genv [(''sin_geolocation'', CDict wit_sg)] None None wit_sin_l1b [Fin 0, Fin 0] [Fin 0, Fin (- 32768)] =
     Inr ([h, NaN], [Fin (- 70), NaN], [Fin 10, NaN]) \<and> h \<noteq> NaN \<and> \<not> fl_lt (Fin 1000) h \<and> \<not> fl_lt h (Fin 0)"
proof -
  have "rbind (dget wit_sg ''height_max'') as_number = Inr (Fin 1000)" "rbind (dget wit_sg ''height_min'') as_number = Inr (Fin 0)"
    "dget wit_sg ''unwrap'' = Inr (CBool False)" by (simp_all add: wit_sg_def dget_def of_option_def as_number_def)
  with sin_heights [OF wit_geolocate_sin wit_read_sin] show ?thesis
    by (auto simp: wit_geolocate_sin dget_def of_option_def)
qed

section \<open>Where a point without a solution is placed\<close>

lemma nadir_where_nth:
  assumes "nadir_where (np_where p cs) l1b k xs = Inr ys" and "getitem_floats l1b k = Inr nadir" and "length xs = length cs"
  shows "length ys = length cs \<and> (\<forall>i<length cs. ys ! i = (if p (cs ! i) then nadir ! i else xs ! i))"
  using assms by (auto simp: nadir_where_def rbind_eq_Inr gather_Inr nth_scatter_map distinct_np_where set_np_where)

lemma np_mod360_NaN:
  assumes "np_mod360 em lons = Inr plons"
  shows "length plons = length lons \<and> (\<forall>i<length lons. lons ! i = NaN \<longrightarrow> plons ! i = NaN)"
proof (intro conjI allI impI)
  note m = assms [unfolded np_mod360_def]
  show "length plons = length lons" using rmapM_length [OF m] .
  fix i assume "i < length lons" "lons ! i = NaN"
  with rmapM_nth [OF m, of i] show "plons ! i = NaN" by (simp add: np_invalid_def)
qed

text \<open>C30: After \<^verbatim>\<open>alg_geolocate_sin\<close> the latitude and longitude of a measurement are those of its POCA, or those of the
  nadir point if it has none. The latitudes of the POCA stored beside them are the same array, so they too hold
  the nadir latitude there, while the stored longitudes of the POCA keep NaN.\<close>

theorem sin_locations:
  assumes run: "geolocate_sin_alg env genv cfg dems l1b sd = Inr ((True, []), sd')"
    and geo: "geolocate_sin env genv cfg (dem_ant dems) (Some (dem_grn dems)) l1b rng ind = Inr (heights, lats, lons)"
    and args: "sget_floats sd ''range_cor_20_ku'' = Inr rng" "sget_floats sd ''ind_wfm_retrack_20_ku'' = Inr ind"
    and nadir: "getitem_floats l1b ''lat_20_ku'' = Inr nlat" "getitem_floats l1b ''lon_20_ku'' = Inr nlon"
    and len: "length lons = length lats"
  shows "\<exists>latitudes longitudes plons. dget sd' ''latitudes'' = Inr (SF latitudes) \<and> dget sd' ''longitudes'' = Inr (SF longitudes) \<and>
    dget sd' ''lat_poca_20_ku'' = Inr (SF latitudes) \<and> dget sd' ''lon_poca_20_ku'' = Inr (SF plons) \<and>
    length latitudes = length lats \<and> length longitudes = length lats \<and> length plons = length lats \<and>
    (\<forall>i<length lats. latitudes ! i = (if lats ! i = NaN then nlat ! i else lats ! i) \<and>
      longitudes ! i = (if lats ! i = NaN then nlon ! i else lons ! i) \<and> (lons ! i = NaN \<longrightarrow> plons ! i = NaN))"
proof -
  let ?failed = "np_where (\<lambda>x. x = NaN) lats"
  let ?nadir = "\<lambda>k xs. if ?failed = [] then Inr xs else nadir_where ?failed l1b k xs"
  have "store_geolocation (np_mode env) l1b (heights, lats, lons) sd = Inr ((True, []), sd')"
    using run geo args by (auto simp: geolocate_sin_alg_def rbind_eq_Inr split: if_splits)
  then obtain plons latitudes longitudes where parts: "np_mod360 (np_mode env) lons = Inr plons"
      "?nadir ''lat_20_ku'' lats = Inr latitudes" "?nadir ''lon_20_ku'' lons = Inr longitudes"
    and sd': "sd' = dset (dset (dset (dset (dset sd ''lat_poca_20_ku'' (SF latitudes)) ''lon_poca_20_ku'' (SF plons))
          ''height_20_ku'' (SF heights)) ''latitudes'' (SF latitudes)) ''longitudes'' (SF longitudes)"
    unfolding store_geolocation_def Let_def prod.case rbind_eq_Inr pass_iff by blast
  have placed: "length ys = length lats \<and> (\<forall>i<length lats. ys ! i = (if lats ! i = NaN then nadir ! i else xs ! i))"
    if "?nadir k xs = Inr ys" "getitem_floats l1b k = Inr nadir" "length xs = length lats" for k xs ys nadir
  proof (cases "?failed = []")
    case True
    then have "\<forall>x\<in>set lats. x \<noteq> NaN" by (simp only: np_where_Nil_iff)
    with True that show ?thesis by (auto simp: all_set_conv_all_nth)
  next
    case False
    with that nadir_where_nth [of "\<lambda>x. x = NaN" lats] show ?thesis by simp
  qed
  have "length plons = length lons \<and> (\<forall>i<length lons. lons ! i = NaN \<longrightarrow> plons ! i = NaN)"
    using np_mod360_NaN [OF parts(1)] .
  with placed [OF parts(2) nadir(1)] placed [OF parts(3) nadir(2)] len show ?thesis
    by (auto simp: sd' dict_simps)
qed

definition wit_sin_sd :: shared where
  "wit_sin_sd = [(''instr_mode'', SStr ''SIN''), (''range_cor_20_ku'', SF [Fin 0, Fin 0]),
     (''ind_wfm_retrack_20_ku'', SF [Fin 0, Fin (- 32768)])]"

definition wit_sin_dems :: ref_dems where
  "wit_sin_dems = \<lparr>dem_ant = None, dem_grn = blank_grid ''arcticdem_1km'' True None None False\<rparr>"

lemma sin_locations_witness:
  "\<exists>sd'. geolocate_sin_alg wit_geo wit_genv [(''sin_geolocation'', CDict wit_sg)] wit_sin_dems wit_sin_l1b wit_sin_sd = Inr ((True, []), sd') \<and>
     dget sd' ''latitudes'' = Inr (SF [Fin (- 70), Fin (- 72)]) \<and> dget sd' ''lat_poca_20_ku'' = Inr (SF [Fin (- 70), Fin (- 72)]) \<and>
     dget sd' ''longitudes'' = Inr (SF [Fin 10, Fin (- 72)])"
proof -
  let ?cfg = "[(''sin_geolocation'', CDict wit_sg)]"
  have args: "sget_floats wit_sin_sd ''range_cor_20_ku'' = Inr [Fin 0, Fin 0]"
    "sget_floats wit_sin_sd ''ind_wfm_retrack_20_ku'' = Inr [Fin 0, Fin (- 32768)]"
    "dget wit_sin_sd ''instr_mode'' = Inr (SStr ''SIN'')"
    by (simp_all add: wit_sin_sd_def sget_floats_def dget_def of_option_def)
  have nadir: "getitem_floats wit_sin_l1b ''lat_20_ku'' = Inr [Fin (- 71), Fin (- 72)]"
    "getitem_floats wit_sin_l1b ''lon_20_ku'' = Inr [Fin (- 71), Fin (- 72)]"
    by (simp_all add: getitem_floats_def wit_sin_l1b_def)
  have where1: "np_where (\<lambda>x. x = NaN) [Fin (- 70), NaN] = [1]" by (simp add: np_where_def upt_conv_Cons)
  have "\<exists>sd'. geolocate_sin_alg wit_geo wit_genv ?cfg wit_sin_dems wit_sin_l1b wit_sin_sd = Inr ((True, []), sd')"
    by (simp add: geolocate_sin_alg_def args wit_geolocate_sin store_geolocation_def where1 nadir_where_def nadir gather_def
        arr_at_def np_mod360_def np_invalid_def rat_fmod_def pass_def Let_def)
  then obtain sd' where run: "geolocate_sin_alg wit_geo wit_genv ?cfg wit_sin_dems wit_sin_l1b wit_sin_sd = Inr ((True, []), sd')" ..
  have pair: "xs = [a, b]" if "length xs = Suc (Suc 0)" "xs ! 0 = a" "xs ! Suc 0 = b" for xs :: "fl list" and a b
    using that by (cases xs; cases "tl xs") auto
  from sin_locations [OF run wit_geolocate_sin args(1,2) nadir] obtain la lo where
    "dget sd' ''latitudes'' = Inr (SF la)" "dget sd' ''longitudes'' = Inr (SF lo)" "dget sd' ''lat_poca_20_ku'' = Inr (SF la)"
    "length la = Suc (Suc 0)" "length lo = Suc (Suc 0)" "la ! 0 = Fin (- 70)" "la ! Suc 0 = Fin (- 72)"
    "lo ! 0 = Fin 10" "lo ! Suc 0 = Fin (- 72)"
    by (simp add: All_less_Suc) blast
  with pair run show ?thesis by metis
qed

end
