(* ===== verification/Dhdt_Grids.thy ===== *)
theory Dhdt_Grids
  imports Dems
begin

text \<open>
  \<^verbatim>\<open>utils/dhdt_data/dhdt.py\<close>: grids of the rate of elevation change. The class \<^verbatim>\<open>Dhdt\<close> is a variant of \<^verbatim>\<open>Dem\<close>
  without shared memory; here a missing file raises.
\<close>

record dhdt_env =
  de_grid :: grid_env
  de_median_filter :: "int \<Rightarrow> fl list list \<Rightarrow> fl list list res"          \<comment> \<open>\<^verbatim>\<open>scipy.ndimage.median_filter\<close>\<close>
  de_ncattr :: "string \<Rightarrow> string \<Rightarrow> string \<Rightarrow> fl res"                     \<comment> \<open>file, variable, attribute\<close>

record dhdt =
  dh_name :: string
  dh_config :: "config option"
  dh_dir :: "string option"
  dh_values :: "fl list list"
  dh_x :: "fl list"
  dh_y :: "fl list"
  dh_minx :: "fl option"
  dh_miny :: "fl option"
  dh_binsize :: "fl option"
  dh_crs :: "nat option"

definition dhdt_list :: "string list" where
  "dhdt_list = [''grn_2010_2021'', ''grn_is2_is1_smith'', ''ais_is2_is1_smith'']"

text \<open>\<^verbatim>\<open>if self.config\<close>: an empty configuration counts as none.\<close>

definition dhdt_config_dir :: "dhdt \<Rightarrow> string option res" where
  "dhdt_config_dir d =
     (case dh_config d of
        None \<Rightarrow> Inr None
      | Some cfg \<Rightarrow>
          if \<not> dhas cfg ''dhdt_data_dir'' then Inr None
          else rbind (rbind (dget cfg ''dhdt_data_dir'') as_cdict) (\<lambda>dirs.
                 if dhas dirs (dh_name d) then rbind (dget dirs (dh_name d)) cpath else Inr None))"

definition dhdt_get_filename :: "grid_env \<Rightarrow> dhdt \<Rightarrow> string \<Rightarrow> string \<Rightarrow> string res" where
  "dhdt_get_filename env d default_dir filename =
     rbind (dhdt_config_dir d) (\<lambda>cdir.
       let this_dir = (case cdir of Some p \<Rightarrow> p
             | None \<Rightarrow> (case dh_dir d of None \<Rightarrow> default_dir | Some p \<Rightarrow> if p = [] then default_dir else p));
           this_path = this_dir @ ''/'' @ filename
       in if \<not> ge_isdir env this_dir then Inl (OSError (this_dir @ '' not found''))
          else if ge_isfile env this_path then Inr this_path
          else Inl (OSError (this_path @ '' not found'')))"

definition dhdt_get_geotiff_extent :: "grid_env \<Rightarrow> string \<Rightarrow> (int \<times> int \<times> (fl \<times> fl) \<times> (fl \<times> fl) \<times> (fl \<times> fl) \<times> fl) res" where
  "dhdt_get_geotiff_extent env f =
     (case ge_rasterio env f of
        Inl msg \<Rightarrow> Inl (OSError (''Could not read GeoTIFF: '' @ msg))
      | Inr t \<Rightarrow>
          if \<not> fl_eq (gt_transform0 t) (fl_neg (gt_transform4 t)) then Inl (ValueError ''pixel_width != pixel_height'')
          else Inr (gt_width t, gt_height t, gt_at t 0 0, gt_at t (gt_width t) 0, gt_at t 0 (gt_height t), gt_transform0 t))"

text \<open>Cells that satisfy a test become NaN, \<^verbatim>\<open>if np.any(void_data)\<close>: if one of them is not the first cell.\<close>

definition blank_cells :: "(fl \<Rightarrow> bool) \<Rightarrow> fl list list \<Rightarrow> fl list list" where
  "blank_cells p z =
     (if \<exists>i\<in>set [0..<length z]. \<exists>j\<in>set (np_where p (z ! i)). i \<noteq> 0 \<or> j \<noteq> 0
      then map (map (\<lambda>a. if p a then NaN else a)) z else z)"

text \<open>\<^verbatim>\<open>load_geotiff\<close>; the two filters are options of the caller.\<close>

definition dhdt_load_geotiff :: "dhdt_env \<Rightarrow> string \<Rightarrow> bool \<Rightarrow> int option \<Rightarrow> fl option \<Rightarrow> int \<Rightarrow> dhdt \<Rightarrow> dhdt res" where
  "dhdt_load_geotiff env f flip_y median_filter_width abs_filter void d =
     (let genv = de_grid env in
      rbind (dhdt_get_geotiff_extent genv f) (\<lambda>(ncols, nrows, top_l, top_r, bottom_l, bin).
      rbind (rbind (ge_imread genv f) (\<lambda>im. of_option (TypeError ''dhdt data type not supported'') im)) (\<lambda>z0.
        let z1 = (if void \<noteq> 0 then blank_cells (\<lambda>a. fl_eq a (of_intf void)) z0 else z0) in
        rbind (ge_linspace genv (fst top_l) (fst top_r) ncols) (\<lambda>x.
        rbind (ge_linspace genv (snd bottom_l) (snd top_l) nrows) (\<lambda>y0.
          let y = (if flip_y then rev y0 else y0) in
          rbind (np_min x) (\<lambda>mx. rbind (np_min y) (\<lambda>my.
            let z2 = (case abs_filter of Some a \<Rightarrow> if a \<noteq> Fin 0 then blank_cells (\<lambda>v. fl_lt a (fl_abs v)) z1 else z1 | None \<Rightarrow> z1) in
            rbind (case median_filter_width of Some w \<Rightarrow> if w \<noteq> 0 then de_median_filter env w z2 else Inr z2 | None \<Rightarrow> Inr z2) (\<lambda>z.
              Inr (d\<lparr>dh_values := z, dh_x := x, dh_y := y, dh_minx := Some mx, dh_miny := Some my, dh_binsize := Some bin\<rparr>)))))))))"

text \<open>The branch of \<^verbatim>\<open>load\<close> for the netCDF file.\<close>

definition dhdt_load_nc :: "dhdt_env \<Rightarrow> string \<Rightarrow> dhdt \<Rightarrow> dhdt res" where
  "dhdt_load_nc env f d =
     (let genv = de_grid env; attr = (\<lambda>v a. rbind (de_ncattr env f v a) (\<lambda>x. rbind (py_trunc x) (\<lambda>i. Inr (of_intf i)))) in
      rbind (ge_dataset genv f) (\<lambda>nc.
      rbind (rbind (nc_var nc ''dhdt_sm'') as_rows) (\<lambda>(ncols, z).
      rbind (attr ''x'' ''min'') (\<lambda>xmin. rbind (attr ''x'' ''max'') (\<lambda>xmax.
      rbind (attr ''y'' ''min'') (\<lambda>ymin. rbind (attr ''y'' ''max'') (\<lambda>ymax.
      rbind (ge_linspace genv xmin xmax (int ncols)) (\<lambda>x.
      rbind (ge_linspace genv ymin ymax (int (length z))) (\<lambda>y.
      rbind (np_min x) (\<lambda>mx. rbind (np_min (rev y)) (\<lambda>my.
      rbind (py_index x 1) (\<lambda>x1. rbind (py_index x 0) (\<lambda>x0. rbind (npf_sub (ge_mode genv) x1 x0) (\<lambda>bin.
        Inr (d\<lparr>dh_values := z, dh_x := x, dh_y := rev y, dh_minx := Some mx, dh_miny := Some my, dh_binsize := Some bin\<rparr>)))))))))))))))"

definition dhdt_load :: "dhdt_env \<Rightarrow> dhdt \<Rightarrow> dhdt res" where
  "dhdt_load env d =
     (let genv = de_grid env;
          path = (\<lambda>sub filename. rbind (of_option (KeyError ''CPDATA_DIR'') (ge_environ genv ''CPDATA_DIR'')) (\<lambda>base.
            dhdt_get_filename genv d (base @ ''/RESOURCES/dhdt_data'' @ sub) filename));
          smith = (\<lambda>filename. rbind (path ''/smith2020_is2_is1'' filename) (\<lambda>f.
            dhdt_load_geotiff env f False (Some 3) (Some (Fin 10)) (- 9999) d))
      in if dh_name d = ''grn_is2_is1_smith'' then
           rbind (smith ''gris_dhdt.tif'') (\<lambda>d'. Inr (d'\<lparr>dh_crs := Some 3413\<rparr>))
         else if dh_name d = ''ais_is2_is1_smith'' then
           rbind (smith ''ais_dhdt_grounded_filt.tif'') (\<lambda>d'. Inr (d'\<lparr>dh_crs := Some 3031\<rparr>))
         else if dh_name d = ''grn_2010_2021'' then
           rbind (path [] ''greenland_dhdt_2011_2022.nc'') (\<lambda>f.
           rbind (dhdt_load_nc env f d) (\<lambda>d'. Inr (d'\<lparr>dh_crs := Some 3413\<rparr>)))
         else Inl (ValueError (''loading '' @ dh_name d @ '' not supported'')))"

definition dhdt_new :: "dhdt_env \<Rightarrow> string \<Rightarrow> config option \<Rightarrow> string option \<Rightarrow> dhdt res" where
  "dhdt_new env name cfg dir =
     (if name \<notin> set dhdt_list then Inl (ValueError (''Dh/dt name '' @ name @ '' not in allowed list''))
      else dhdt_load env \<lparr>dh_name = name, dh_config = cfg, dh_dir = dir, dh_values = [], dh_x = [], dh_y = [],
             dh_minx = None, dh_miny = None, dh_binsize = None, dh_crs = None\<rparr>)"

text \<open>The \<open>y\<close> axis is used as it is, the rows are turned over.\<close>

definition interp_dhdt :: "grid_env \<Rightarrow> dhdt \<Rightarrow> fl list \<Rightarrow> fl list \<Rightarrow> string \<Rightarrow> bool \<Rightarrow> fl list res" where
  "interp_dhdt env d x0 y0 meth xy_is_latlon =
     rbind (if xy_is_latlon then
              (case dh_crs d of
                 None \<Rightarrow> Inl (AttributeError ''lonlat_to_xy_transformer'')
               | Some crs \<Rightarrow>
                   if length x0 \<noteq> length y0 then Inl (RuntimeError ''x, y must be the same size'')
                   else let ps = map2 (\<lambda>lon lat. ge_project env crs lon lat) y0 x0 in Inr (map fst ps, map snd ps))
            else Inr (x0, y0)) (\<lambda>(x, y).
       ge_interpn env meth (dh_y d) (dh_x d) (rev (dh_values d)) y x)"

end
