(* ===== verification/Geolocate_Roemer.thy ===== *)
theory Geolocate_Roemer
  imports Geolocate_Sin Dhdt_Grids Py_Time
begin

text \<open>
  \<^verbatim>\<open>utils/cs2/geolocate/geolocate_roemer.py\<close> and \<^verbatim>\<open>alg_geolocate_roemer\<close>: the point of closest approach (POCA) of an
  LRM measurement as the point of an elevation model that is nearest to the satellite. numpy's functions, pyproj and scipy
  are parameters, in the records \<open>geo_env\<close>, \<open>grid_env\<close> and \<open>roemer_env\<close>. Elevation models are float32 arrays, so
  the first operation on their values is done in single precision; it is a parameter too. Catching \<^verbatim>\<open>Exception\<close>
  around \<^verbatim>\<open>get_segment\<close> catches every error.
\<close>

section \<open>Distances\<close>

text \<open>\<open>(a - b) ** 2\<close> for float64 arrays; \<open>zsq\<close> is the same in the type of the heights.\<close>

definition sq_diff :: "'a geo_env_scheme \<Rightarrow> fl \<Rightarrow> fl \<Rightarrow> fl res" where
  "sq_diff env a b = rbind (npf_sub (np_mode env) a b) (\<lambda>d. np_power env d (Fin 2))"

definition calculate_distances3d ::
  "'a geo_env_scheme \<Rightarrow> (fl \<Rightarrow> fl \<Rightarrow> fl res) \<Rightarrow> fl \<Rightarrow> fl \<Rightarrow> fl \<Rightarrow> fl list \<Rightarrow> fl list \<Rightarrow> fl list \<Rightarrow> bool \<Rightarrow> fl list res" where
  "calculate_distances3d env zsq x1 y1 z1 x2 y2 z2 squared_only =
     (let em = np_mode env in
      rbind (rmapM (\<lambda>x. sq_diff env x x1) x2) (\<lambda>xs. rbind (rmapM (\<lambda>y. sq_diff env y y1) y2) (\<lambda>ys.
      rbind (np_zip (npf_add em) xs ys) (\<lambda>xys. rbind (rmapM (\<lambda>z. zsq z z1) z2) (\<lambda>zs.
      rbind (np_zip (npf_add em) xys zs) (\<lambda>ds. if squared_only then Inr ds else rmapM (np_sqrt env) ds))))))"

definition calculate_distances2d :: "'a geo_env_scheme \<Rightarrow> fl \<Rightarrow> fl \<Rightarrow> fl list \<Rightarrow> fl list \<Rightarrow> bool \<Rightarrow> fl list res" where
  "calculate_distances2d env x1 y1 x2 y2 squared_only =
     (let em = np_mode env in
      rbind (rmapM (\<lambda>x. sq_diff env x x1) x2) (\<lambda>xs. rbind (rmapM (\<lambda>y. sq_diff env y y1) y2) (\<lambda>ys.
      rbind (np_zip (npf_add em) xs ys) (\<lambda>ds. if squared_only then Inr ds else rmapM (np_sqrt env) ds))))"

section \<open>The nearest point\<close>

text \<open>\<^verbatim>\<open>np.nanmin\<close> and \<^verbatim>\<open>np.nanargmin\<close>\<close>

definition np_nanmin :: "fl list \<Rightarrow> fl res" where
  "np_nanmin xs = (if xs = [] then np_min [] else case filter (\<lambda>x. x \<noteq> NaN) xs of [] \<Rightarrow> Inr NaN | ys \<Rightarrow> np_min ys)"

definition np_nanargmin :: "fl list \<Rightarrow> nat res" where
  "np_nanargmin xs =
     (if filter (\<lambda>x. x \<noteq> NaN) xs = [] then Inl (ValueError ''All-NaN slice encountered'')
      else np_argmin (map (\<lambda>x. if x = NaN then PInf else x) xs))"

definition EARTH_RADIUS :: fl where
  "EARTH_RADIUS = Fin 6378137"

text \<open>The range to the satellite of every point, with the curvature of the Earth. \<open>zsub\<close> is the subtraction in
  the type of the elevations.\<close>

definition dem_ranges ::
  "'a geo_env_scheme \<Rightarrow> (fl \<Rightarrow> fl \<Rightarrow> fl res) \<Rightarrow> fl list \<Rightarrow> fl list \<Rightarrow> fl list \<Rightarrow> fl \<Rightarrow> fl \<Rightarrow> fl \<Rightarrow> fl list res" where
  "dem_ranges env zsub zdem xdem ydem nadir_x nadir_y alt_pt =
     (let em = np_mode env; sq = (\<lambda>d. np_power env d (Fin 2)) in
      rbind (rmapM (\<lambda>x. npf_sub em x nadir_x) xdem) (\<lambda>dx. rbind (rmapM (\<lambda>y. npf_sub em y nadir_y) ydem) (\<lambda>dy.
      rbind (np_zip (\<lambda>a b. fadd em (sq a) (sq b)) dx dy) (\<lambda>dmag_squared.
      rbind (rmapM (\<lambda>z. zsub z alt_pt) zdem) (\<lambda>dz0.
      rbind (np_zip (\<lambda>z d. fsub em (Inr z) (npf_div em d (fl_mul (Fin 2) EARTH_RADIUS))) dz0 dmag_squared) (\<lambda>dz.
        np_zip (\<lambda>d z. rbind (fadd em (Inr d) (sq z)) (np_sqrt env)) dmag_squared dz))))))"

record poca =
  poca_x :: fl
  poca_y :: fl
  poca_z :: fl
  poca_slope_correction :: fl
  poca_range :: fl

text \<open>\<^verbatim>\<open>find_poca\<close>; \<open>None\<close> is the result with flag 0.\<close>

definition find_poca ::
  "'a geo_env_scheme \<Rightarrow> (fl \<Rightarrow> fl \<Rightarrow> fl res) \<Rightarrow> fl list \<Rightarrow> fl list \<Rightarrow> fl list \<Rightarrow> fl \<Rightarrow> fl \<Rightarrow> fl \<Rightarrow> poca option res" where
  "find_poca env zsub zdem xdem ydem nadir_x nadir_y alt_pt =
     rbind (dem_ranges env zsub zdem xdem ydem nadir_x nadir_y alt_pt) (\<lambda>ranges.
     rbind (np_nanmin ranges) (\<lambda>rpoca. rbind (np_nanargmin ranges) (\<lambda>k. rbind (arr_at zdem k) (\<lambda>z.
       if z = NaN \<or> z = Fin (- 9999) then Inr None
       else
         rbind (fsub (np_mode env) (npf_add (np_mode env) rpoca z) (Inr alt_pt)) (\<lambda>correction.
         rbind (arr_at xdem k) (\<lambda>x. rbind (arr_at ydem k) (\<lambda>y.
           Inr (Some \<lparr>poca_x = x, poca_y = y, poca_z = z, poca_slope_correction = correction, poca_range = rpoca\<rparr>))))))))"

section \<open>Decimal years\<close>

definition datetime2year :: "datetime \<Rightarrow> fl" where
  "datetime2year t =
     (let y = dt_year t; year_part = t - midnight y 1 1; year_length = midnight (y + 1) 1 1 - midnight y 1 1
      in fl_add (of_intf y) (round64 (of_int year_part / of_int year_length)))"

section \<open>geolocate_roemer\<close>

record roemer_env =
  ro_sub32 :: "fl \<Rightarrow> fl \<Rightarrow> fl res"              \<comment> \<open>\<^verbatim>\<open>zdem - x\<close> for a float32 array\<close>
  ro_sq32 :: "fl \<Rightarrow> fl \<Rightarrow> fl res"               \<comment> \<open>\<^verbatim>\<open>(zdem - x) ** 2\<close> for a float32 array\<close>
  ro_add32 :: "fl \<Rightarrow> fl \<Rightarrow> fl res"              \<comment> \<open>\<^verbatim>\<open>zdem += x\<close> for a float32 array\<close>
  ro_median_filter :: "int \<Rightarrow> fl list list \<Rightarrow> fl list list res"
  ro_mgrid :: "fl \<times> fl \<Rightarrow> fl \<times> fl \<Rightarrow> fl \<Rightarrow> (fl list \<times> fl list) res"    \<comment> \<open>\<^verbatim>\<open>np.mgrid\<close>, both coordinates flattened\<close>
  ro_unproject :: "nat \<Rightarrow> fl \<Rightarrow> fl \<Rightarrow> fl \<times> fl"                     \<comment> \<open>EPSG code, x, y: longitude and latitude\<close>

record roemer_cfg =
  rc_beam_width :: fl
  rc_plf_size :: fl
  rc_ref_bin :: fl
  rc_bin_size :: fl
  rc_num_bins :: fl
  rc_include_dhdt :: bool
  rc_max_reloc :: fl
  rc_fine_sampling :: fl
  rc_dual_search :: bool
  rc_median :: bool
  rc_reject :: bool
  rc_lower_trim :: fl
  rc_upper_trim :: fl

definition roemer_config :: "config \<Rightarrow> roemer_cfg res" where
  "roemer_config cfg =
     (let q = ''lrm_roemer_geolocation''; ins = ''instrument'' in
      rbind (cnumber cfg ins ''across_track_beam_width_lrm'') (\<lambda>bw. rbind (cnumber cfg ins ''pulse_limited_footprint_size_lrm'') (\<lambda>plf.
      rbind (cnumber cfg ins ''ref_bin_index_lrm'') (\<lambda>rb. rbind (cnumber cfg ins ''range_bin_size_lrm'') (\<lambda>bs.
      rbind (cnumber cfg ins ''num_range_bins_lrm'') (\<lambda>nb. rbind (cflag cfg q ''include_dhdt_correction'') (\<lambda>dhdt.
      rbind (cnumber cfg q ''max_poca_reloc_distance'') (\<lambda>mr. rbind (cnumber cfg q ''fine_grid_sampling'') (\<lambda>fs.
      rbind (cflag cfg q ''dual_search'') (\<lambda>ds. rbind (cflag cfg q ''median_filter'') (\<lambda>mf.
      rbind (cflag cfg q ''reject_outside_range_window'') (\<lambda>rj. rbind (cnumber cfg q ''range_window_lower_trim'') (\<lambda>lt.
      rbind (cnumber cfg q ''range_window_upper_trim'') (\<lambda>ut.
        Inr \<lparr>rc_beam_width = bw, rc_plf_size = plf, rc_ref_bin = rb, rc_bin_size = bs, rc_num_bins = nb, rc_include_dhdt = dhdt,
          rc_max_reloc = mr, rc_fine_sampling = fs, rc_dual_search = ds, rc_median = mf, rc_reject = rj, rc_lower_trim = lt,
          rc_upper_trim = ut\<rparr>))))))))))))))"

text \<open>The years between the elevation model and the track.\<close>

definition year_difference_of :: "config \<Rightarrow> grid \<Rightarrow> dataset \<Rightarrow> bool \<Rightarrow> fl res" where
  "year_difference_of cfg dem l1b include_dhdt =
     (if include_dhdt then
        rbind (rbind (getitem_floats l1b ''time_20_ku'') (\<lambda>ts. py_index ts 0)) (\<lambda>t0.
        rbind (rbind (td_seconds t0) (dt_add CS2_EPOCH)) (\<lambda>dt.
          let track_year = datetime2year dt in
          if fl_lt track_year (Fin 2010) then Inl (ValueError ''track_year should not be < 2010 in dhdt correction'')
          else if g_reference_year dem = 0 then Inl (ValueError ''thisdem.reference_year has not been set for DEM'')
          else Inr (fl_sub track_year (of_intf (g_reference_year dem)))))
      else Inr (Fin 0))"

text \<open>The bounds around a point, \<open>half\<close> a width and one posting of the elevation model to each side.\<close>

definition bounds_around :: "np_err \<Rightarrow> fl \<Rightarrow> fl \<Rightarrow> fl \<Rightarrow> ((fl \<times> fl) \<times> (fl \<times> fl)) res" where
  "bounds_around em x y half =
     rbind (npf_sub em x half) (\<lambda>x_min. rbind (npf_add em x half) (\<lambda>x_max.
     rbind (npf_sub em y half) (\<lambda>y_min. rbind (npf_add em y half) (\<lambda>y_max. Inr ((x_min, x_max), (y_min, y_max))))))"

text \<open>The points closer than \<open>radius\<close> to a centre, without NaN and implausible heights; \<open>None\<close> if none is left. The
  distances and the test of the heights are arguments because the LEPTA method has its own.\<close>

definition near_points ::
  "(fl \<Rightarrow> bool) \<Rightarrow> fl \<Rightarrow> fl list \<Rightarrow> fl list \<Rightarrow> fl list \<Rightarrow> fl list \<Rightarrow> (fl list \<times> fl list \<times> fl list) option res" where
  "near_points sensible radius dists xs ys zs =
     (let near = np_where (\<lambda>d. fl_lt d radius) dists in
      if near = [] then Inr None
      else
        rbind (gather xs near) (\<lambda>x1. rbind (gather ys near) (\<lambda>y1. rbind (gather zs near) (\<lambda>z1.
          let good = np_where (\<lambda>z. z \<noteq> NaN) z1 in
          if good = [] then Inr None
          else
            rbind (gather x1 good) (\<lambda>x2. rbind (gather y1 good) (\<lambda>y2. rbind (gather z1 good) (\<lambda>z2.
              let valid = np_where sensible z2 in
              if valid = [] then Inr None
              else
                rbind (gather x2 valid) (\<lambda>x3. rbind (gather y2 valid) (\<lambda>y3. rbind (gather z2 valid) (\<lambda>z3.
                  Inr (Some (x3, y3, z3))))))))))))"

definition points_near ::
  "'a geo_env_scheme \<Rightarrow> fl \<Rightarrow> fl \<Rightarrow> fl \<Rightarrow> fl list \<Rightarrow> fl list \<Rightarrow> fl list \<Rightarrow> (fl list \<times> fl list \<times> fl list) option res" where
  "points_near env cx cy radius xs ys zs =
     rbind (calculate_distances2d env cx cy xs ys False) (\<lambda>dists.
       near_points (\<lambda>z. fl_lt (fl_abs z) (Fin 5000)) radius dists xs ys zs)"

text \<open>The correction of the elevations for their change over the years.\<close>

definition dhdt_corrected ::
  "np_err \<Rightarrow> grid_env \<Rightarrow> (fl \<Rightarrow> fl \<Rightarrow> fl res) \<Rightarrow> dhdt option \<Rightarrow> bool \<Rightarrow> fl \<Rightarrow> fl list \<Rightarrow> fl list \<Rightarrow> fl list \<Rightarrow> fl list res" where
  "dhdt_corrected em genv zadd dh include_dhdt years xs ys zs =
     (case dh of
        Some d \<Rightarrow>
          if include_dhdt then
            rbind (interp_dhdt genv d xs ys ''nearest'' False) (\<lambda>rates.
            rbind (rmapM (\<lambda>r. npf_mul em r years) rates) (\<lambda>change. np_zip zadd zs change))
          else Inr zs
      | None \<Rightarrow> Inr zs)"

text \<open>The nearest point among those around a centre: \<open>None\<close> stands for \<^verbatim>\<open>slope_ok[i] = False; continue\<close>.\<close>

definition search_poca ::
  "'a geo_env_scheme \<Rightarrow> grid_env \<Rightarrow> (fl \<Rightarrow> fl \<Rightarrow> fl res) \<Rightarrow> (fl \<Rightarrow> fl \<Rightarrow> fl res) \<Rightarrow> dhdt option \<Rightarrow> bool \<Rightarrow> fl \<Rightarrow> fl \<Rightarrow> fl \<Rightarrow> fl \<Rightarrow>
     fl list \<Rightarrow> fl list \<Rightarrow> fl list \<Rightarrow> fl \<Rightarrow> fl \<Rightarrow> fl \<Rightarrow> poca option res" where
  "search_poca env genv zsub zadd dh include_dhdt years cx cy radius xs ys zs nx ny alt =
     rbind (points_near env cx cy radius xs ys zs) (\<lambda>near. case near of
        None \<Rightarrow> Inr None
      | Some (x, y, z) \<Rightarrow>
          rbind (dhdt_corrected (np_mode env) genv zadd dh include_dhdt years x y z) (\<lambda>zc.
            find_poca env zsub zc x y nx ny alt))"

text \<open>The second search, on a finer grid around the first solution.\<close>

definition fine_poca ::
  "'a geo_env_scheme \<Rightarrow> grid_env \<Rightarrow> roemer_env \<Rightarrow> roemer_cfg \<Rightarrow> grid \<Rightarrow> grid \<Rightarrow> dhdt option \<Rightarrow> fl \<Rightarrow> poca \<Rightarrow> fl \<Rightarrow> fl \<Rightarrow> fl \<Rightarrow> poca option res" where
  "fine_poca env genv renv rc dem dem_fine dh years p nx ny alt =
     (let em = np_mode env; half = fl_div (rc_plf_size rc) (Fin 2) in
      rbind (bounds_around em (poca_x p) (poca_y p) (fl_add half (g_binsize dem))) (\<lambda>bounds.
        case get_segment genv dem_fine bounds False False of
          Inl e \<Rightarrow> Inr None
        | Inr (xv, yv, zv) \<Rightarrow>
            rbind (as_floats xv) (\<lambda>xdem. rbind (as_floats yv) (\<lambda>ydem. rbind (as_rows zv) (\<lambda>(c, zdem).
            rbind (ro_mgrid renv (fst bounds) (snd bounds) (rc_fine_sampling rc)) (\<lambda>(grid_x, grid_y).
            rbind (ge_interpn genv ''linear'' (rev ydem) xdem (rev zdem) grid_y grid_x) (\<lambda>new_z.
              search_poca env genv (npf_sub em) (npf_add em) dh (rc_include_dhdt rc) years (poca_x p) (poca_y p) half
                grid_x grid_y new_z nx ny alt)))))))"

definition outside_range_window :: "np_err \<Rightarrow> roemer_cfg \<Rightarrow> fl \<Rightarrow> fl \<Rightarrow> bool res" where
  "outside_range_window em rc trange r =
     rbind (fsub em (npf_add em (rc_lower_trim rc) trange) (Inr (fl_mul (rc_ref_bin rc) (rc_bin_size rc)))) (\<lambda>start.
     rbind (fsub em (npf_add em trange (fl_mul (fl_sub (rc_num_bins rc) (rc_ref_bin rc)) (rc_bin_size rc)))
       (Inr (rc_upper_trim rc))) (\<lambda>stop.
       Inr (fl_lt r start \<or> fl_lt stop r)))"

text \<open>What the loop stores for one record.\<close>

record roemer_rec =
  rr_x :: fl
  rr_y :: fl
  rr_slope :: fl
  rr_ok :: bool
  rr_reloc :: fl

text \<open>The search of both steps and the tests that follow; the flag says that the loop continues with the next record.\<close>

definition dual_search ::
  "'a geo_env_scheme \<Rightarrow> grid_env \<Rightarrow> roemer_env \<Rightarrow> roemer_cfg \<Rightarrow> grid \<Rightarrow> grid \<Rightarrow> dhdt option \<Rightarrow> fl \<Rightarrow> fl \<Rightarrow>
     fl list \<Rightarrow> fl list \<Rightarrow> fl list \<Rightarrow> fl \<Rightarrow> fl \<Rightarrow> fl \<Rightarrow> roemer_rec \<Rightarrow> (roemer_rec \<times> bool) res" where
  "dual_search env genv renv rc dem dem_fine dh years trange xdem ydem zdem nx ny alt r =
     (let em = np_mode env in
      rbind (search_poca env genv (ro_sub32 renv) (ro_add32 renv) dh (rc_include_dhdt rc) years nx ny (fl_div (rc_beam_width rc) (Fin 2))
        xdem ydem zdem nx ny alt) (\<lambda>first. case first of
          None \<Rightarrow> Inr (r\<lparr>rr_ok := False\<rparr>, True)
        | Some p1 \<Rightarrow>
            rbind (if fl_lt (Fin 0) (rc_fine_sampling rc) then fine_poca env genv renv rc dem dem_fine dh years p1 nx ny alt
                   else Inr (Some p1)) (\<lambda>second. case second of
                None \<Rightarrow> Inr (r\<lparr>rr_x := poca_x p1, rr_y := poca_y p1, rr_ok := False\<rparr>, True)
              | Some p \<Rightarrow>
                  let r1 = r\<lparr>rr_x := poca_x p, rr_y := poca_y p\<rparr> in
                  rbind (if rc_reject rc then outside_range_window em rc trange (poca_range p) else Inr False) (\<lambda>outside.
                    if outside then Inr (r1\<lparr>rr_ok := False\<rparr>, True)
                    else
                      rbind (rbind (fadd em (rbind (npf_sub em (poca_x p) nx) (\<lambda>d. np_power env d (Fin 2)))
                               (rbind (npf_sub em (poca_y p) ny) (\<lambda>d. np_power env d (Fin 2)))) (np_sqrt env)) (\<lambda>reloc.
                        Inr (r1\<lparr>rr_slope := poca_slope_correction p, rr_reloc := reloc,
                          rr_ok := (if fl_lt (rc_max_reloc rc) reloc then False else rr_ok r1)\<rparr>, False))))))"

section \<open>Sliding window\<close>

text \<open>The position of the window with the smallest mean distance, the first one of several.\<close>

fun best_window :: "(nat \<times> nat \<Rightarrow> fl res) \<Rightarrow> (nat \<times> nat) list \<Rightarrow> fl \<Rightarrow> nat \<times> nat \<Rightarrow> (nat \<times> nat) res" where
  "best_window mean [] smallest pos = Inr pos"
| "best_window mean (p # ps) smallest pos =
     rbind (mean p) (\<lambda>m. if fl_lt m smallest then best_window mean ps m p else best_window mean ps smallest pos)"

definition window_values :: "fl list list \<Rightarrow> nat \<Rightarrow> nat \<times> nat \<Rightarrow> fl list" where
  "window_values rows w p = concat (map (\<lambda>row. take w (drop (snd p) row)) (take w (drop (fst p) rows)))"

text \<open>\<^verbatim>\<open>use_sliding_window\<close>; the arrays are two-dimensional only without the dual search.\<close>

definition sliding_window ::
  "'a geo_env_scheme \<Rightarrow> roemer_env \<Rightarrow> roemer_cfg \<Rightarrow> grid \<Rightarrow> fl list list \<Rightarrow> fl list list \<Rightarrow> fl list list \<Rightarrow> nat \<Rightarrow> fl \<Rightarrow> fl \<Rightarrow> fl \<Rightarrow> roemer_rec \<Rightarrow> roemer_rec res" where
  "sliding_window env renv rc dem xdem ydem zdem c nx ny alt r =
     (let em = np_mode env in
      rbind (calculate_distances3d env (ro_sq32 renv) nx ny alt (concat xdem) (concat ydem) (concat zdem) False) (\<lambda>dists.
        let all_distances = rows_of (length xdem) c dists in
        rbind (if g_binsize dem = Fin 0 then Inl (ZeroDivisionError ''float division by zero'')
               else py_trunc (fl_div (rc_plf_size rc) (g_binsize dem))) (\<lambda>window_size.
          let w = nat window_size;
              positions = concat (map (\<lambda>i. map (\<lambda>j. (i, j)) [0..<nat (int c - window_size + 1)]) [0..<nat (int (length xdem) - window_size + 1)]) in
          rbind (best_window (\<lambda>p. np_mean env (window_values all_distances w p)) positions PInf (0, 0)) (\<lambda>(i, j).
          rbind (rbind (arr_at xdem i) (\<lambda>row. arr_at row j)) (\<lambda>x. rbind (rbind (arr_at ydem i) (\<lambda>row. arr_at row j)) (\<lambda>y.
          rbind (rbind (arr_at zdem i) (\<lambda>row. arr_at row j)) (\<lambda>z.
          rbind (calculate_distances3d env (sq_diff env) nx ny alt [x] [y] [z] False) (\<lambda>d.
          rbind (fsub em (fadd em (py_index d 0) (Inr z)) (Inr alt)) (\<lambda>correction.
            Inr (r\<lparr>rr_x := x, rr_y := y, rr_slope := correction\<rparr>))))))))))"

section \<open>Records\<close>

definition roemer_start :: "fl \<Rightarrow> fl \<Rightarrow> roemer_rec" where
  "roemer_start nx ny = \<lparr>rr_x = nx, rr_y = ny, rr_slope = NaN, rr_ok = True, rr_reloc = NaN\<rparr>"

text \<open>The body of the loop over the records. The dual search works on flattened arrays, which the sliding window
  cannot index by two positions; a record that the dual search has given up is not tried again.\<close>

definition roemer_record ::
  "'a geo_env_scheme \<Rightarrow> grid_env \<Rightarrow> roemer_env \<Rightarrow> roemer_cfg \<Rightarrow> config \<Rightarrow> grid \<Rightarrow> grid \<Rightarrow> dhdt option \<Rightarrow> fl \<Rightarrow>
     bool \<Rightarrow> fl \<Rightarrow> fl \<Rightarrow> fl \<Rightarrow> fl \<Rightarrow> roemer_rec res" where
  "roemer_record env genv renv rc cfg dem dem_fine dh years incl trange nx ny alt =
     (let r = roemer_start nx ny; em = np_mode env in
      if \<not> incl then Inr r
      else
        rbind (bounds_around em nx ny (fl_add (fl_div (rc_beam_width rc) (Fin 2)) (g_binsize dem))) (\<lambda>bounds.
          case get_segment genv dem bounds True False of
            Inl e \<Rightarrow> Inr (r\<lparr>rr_ok := False\<rparr>)
          | Inr (xv, yv, zv) \<Rightarrow>
              rbind (as_rows xv) (\<lambda>(c, xdem). rbind (as_rows yv) (\<lambda>(_, ydem). rbind (as_rows zv) (\<lambda>(_, zdem0).
              rbind (if rc_median rc then ro_median_filter renv 7 zdem0 else Inr zdem0) (\<lambda>zdem.
              rbind (if rc_dual_search rc then
                       dual_search env genv renv rc dem dem_fine dh years trange (concat xdem) (concat ydem) (concat zdem) nx ny alt r
                     else Inr (r, False)) (\<lambda>(r1, next_record).
                if next_record then Inr r1
                else
                  rbind (cflag cfg ''lrm_roemer_geolocation'' ''use_sliding_window'') (\<lambda>sliding.
                    if \<not> sliding then Inr r1
                    else if rc_dual_search rc then Inl (IndexError ''too many indices for array'')
                    else sliding_window env renv rc dem xdem ydem zdem c nx ny alt r1))))))))"

text \<open>Height and location of a record: the height only over grounded ice, the nadir point without a solution.\<close>

definition roemer_height :: "np_err \<Rightarrow> fl \<Rightarrow> fl \<Rightarrow> fl \<Rightarrow> bool \<Rightarrow> roemer_rec \<Rightarrow> fl res" where
  "roemer_height em alt trange retr grounded r =
     (if is_finite trange \<and> rr_ok r \<and> grounded
      then fadd em (fsub em (Inr alt) (npf_add em trange retr)) (Inr (rr_slope r))
      else Inr NaN)"

definition roemer_place :: "fl \<Rightarrow> fl \<Rightarrow> fl \<times> fl \<Rightarrow> bool \<Rightarrow> fl \<Rightarrow> fl \<times> fl \<times> fl" where
  "roemer_place lat lon poca ok h =
     (let (lon_poca, lat_poca) = poca in
      if \<not> is_finite lat_poca \<or> \<not> is_finite lon_poca \<or> \<not> ok then (NaN, lat, lon) else (h, lat_poca, lon_poca))"

section \<open>Slope Doppler correction\<close>

text \<open>\<^verbatim>\<open>slope_doppler\<close> of \<^verbatim>\<open>lrm_slope.py\<close> for one measurement.\<close>

definition slope_doppler :: "'a geo_env_scheme \<Rightarrow> fl \<times> fl \<times> fl \<Rightarrow> fl \<times> fl \<times> fl \<Rightarrow> fl list \<Rightarrow> fl \<Rightarrow> fl \<Rightarrow> fl \<Rightarrow> fl res" where
  "slope_doppler env sat echo vel chirp_slope wavelength speed_light =
     (let em = np_mode env; (sx, sy, sz) = sat; (ex, ey, ez) = echo; sq = (\<lambda>d. np_power env d (Fin 2)) in
      rbind (npf_sub em ex sx) (\<lambda>lx. rbind (npf_sub em ey sy) (\<lambda>ly. rbind (npf_sub em ez sz) (\<lambda>lz.
      rbind (rbind (fadd em (fadd em (sq lx) (sq ly)) (sq lz)) (np_sqrt env)) (\<lambda>mag.
      rbind (fdiv em (fadd em (fadd em (fmul em (py_index vel 0) (Inr lx)) (fmul em (py_index vel 1) (Inr ly)))
          (fmul em (py_index vel 2) (Inr lz))) (Inr mag)) (\<lambda>v_los.
        if wavelength = Fin 0 then Inl (ZeroDivisionError ''float division by zero'')
        else fdiv em (fmul em (Inr (Fin (- 1))) (npf_mul em (fl_div speed_light wavelength) v_los)) (Inr chirp_slope)))))))"

text \<open>The correction of the heights at the positions \<open>idx\<close>, as both LRM methods do it.\<close>

definition doppler_at ::
  "'a geo_env_scheme \<Rightarrow> config \<Rightarrow> dataset \<Rightarrow> fl list \<Rightarrow> fl list \<Rightarrow> fl list \<Rightarrow> fl list \<Rightarrow> fl list \<Rightarrow> fl list \<Rightarrow> nat list \<Rightarrow> fl list res" where
  "doppler_at env cfg l1b lats lons alts plats plons heights idx =
     (let em = np_mode env in
      if idx = [] then Inr heights
      else
        rbind (rmapM (\<lambda>i. pj_to_ecef env (lons ! i) (lats ! i) (alts ! i)) idx) (\<lambda>sat.
        rbind (rmapM (\<lambda>i. pj_to_ecef env (plons ! i) (plats ! i) (heights ! i)) idx) (\<lambda>echo.
        rbind (rbind (getitem_rows l1b ''sat_vel_vec_20_ku'') (\<lambda>vel. gather vel idx)) (\<lambda>vel.
        rbind (cnumber cfg ''instrument'' ''chirp_slope'') (\<lambda>chirp. rbind (cnumber cfg ''instrument'' ''wavelength'') (\<lambda>wl.
        rbind (cnumber cfg ''geophysical'' ''speed_light'') (\<lambda>c.
        rbind (rmapM (\<lambda>(s, e, v). slope_doppler env s e v chirp wl c) (zip sat (zip echo vel))) (\<lambda>sdop.
        rbind (rbind (getitem_floats l1b ''dop_cor_20_ku'') (\<lambda>dop. gather dop idx)) (\<lambda>dop.
        rbind (rmapM (\<lambda>(i, d, s). fsub em (npf_add em (heights ! i) d) (Inr s)) (zip idx (zip dop sdop))) (\<lambda>vs.
          Inr (scatter heights idx vs)))))))))))"

text \<open>The correction of the heights that are finite.\<close>

definition doppler_corrected ::
  "'a geo_env_scheme \<Rightarrow> config \<Rightarrow> dataset \<Rightarrow> fl list \<Rightarrow> fl list \<Rightarrow> fl list \<Rightarrow> fl list \<Rightarrow> fl list \<Rightarrow> fl list \<Rightarrow> fl list res" where
  "doppler_corrected env cfg l1b lats lons alts plats plons heights =
     doppler_at env cfg l1b lats lons alts plats plons heights (np_where is_finite heights)"

section \<open>The whole function\<close>

record roemer_out =
  ro_height :: "fl list"
  ro_lat :: "fl list"
  ro_lon :: "fl list"
  ro_slope_ok :: "bool list"
  ro_reloc :: "fl list"

text \<open>The arrays that the loops index have the length of the track; \<^verbatim>\<open>IndexError\<close> if one is shorter.\<close>

definition long_enough :: "nat \<Rightarrow> nat list \<Rightarrow> unit res" where
  "long_enough n lens = guard (list_all (\<lambda>l. n \<le> l) lens) (IndexError ''index out of bounds'')"

definition roemer_points ::
  "'a geo_env_scheme \<Rightarrow> grid_env \<Rightarrow> roemer_env \<Rightarrow> roemer_cfg \<Rightarrow> config \<Rightarrow> grid \<Rightarrow> grid \<Rightarrow> dhdt option \<Rightarrow> dataset \<Rightarrow>
     fl list \<Rightarrow> fl list \<Rightarrow> fl list \<Rightarrow> fl list \<Rightarrow> bool list \<Rightarrow> roemer_rec list res" where
  "roemer_points env genv renv rc cfg dem dem_fine dh l1b lats lons alts trange incl =
     rbind (to_xy genv dem lats lons True) (\<lambda>(nadir_x, nadir_y).
     rbind (year_difference_of cfg dem l1b (rc_include_dhdt rc)) (\<lambda>years.
     rbind (long_enough (length nadir_x) [length incl, length trange, length alts]) (\<lambda>_.
       rmapM (\<lambda>i. roemer_record env genv renv rc cfg dem dem_fine dh years (incl ! i) (trange ! i) (nadir_x ! i) (nadir_y ! i) (alts ! i))
         [0..<length nadir_x])))"

text \<open>Heights and locations from the solutions of the records, which the LEPTA method shares; \<open>sect\<close> is the section of
  the configuration.\<close>

definition slope_results ::
  "'a geo_env_scheme \<Rightarrow> roemer_env \<Rightarrow> config \<Rightarrow> string \<Rightarrow> grid \<Rightarrow> dataset \<Rightarrow> fl list \<Rightarrow> fl list \<Rightarrow> fl list \<Rightarrow>
     bool list \<Rightarrow> fl list \<Rightarrow> fl list \<Rightarrow> roemer_rec list \<Rightarrow> roemer_out res" where
  "slope_results env renv cfg sect dem l1b lats lons alts grounded trange retr recs =
     (let n = length lats; pocas = map (\<lambda>r. ro_unproject renv (the (g_crs dem)) (rr_x r) (rr_y r)) recs in
      rbind (long_enough n [length trange, length grounded, length retr]) (\<lambda>_.
      rbind (rmapM (\<lambda>i. roemer_height (np_mode env) (alts ! i) (trange ! i) (retr ! i) (grounded ! i) (recs ! i)) [0..<n]) (\<lambda>hs.
        let placed = map (\<lambda>i. roemer_place (lats ! i) (lons ! i) (pocas ! i) (rr_ok (recs ! i)) (hs ! i)) [0..<n];
            heights = map fst placed; plats = map (fst \<circ> snd) placed; plons = map (snd \<circ> snd) placed in
        rbind (cflag cfg sect ''include_slope_doppler_correction'') (\<lambda>doppler.
        rbind (if doppler then doppler_corrected env cfg l1b lats lons alts plats plons heights else Inr heights) (\<lambda>final.
          Inr \<lparr>ro_height = final, ro_lat = plats, ro_lon = plons, ro_slope_ok = map rr_ok recs, ro_reloc = map rr_reloc recs\<rparr>)))))"

definition geolocate_roemer ::
  "'a geo_env_scheme \<Rightarrow> grid_env \<Rightarrow> roemer_env \<Rightarrow> config \<Rightarrow> grid option \<Rightarrow> grid option \<Rightarrow> dhdt option \<Rightarrow> dataset \<Rightarrow>
     bool list \<Rightarrow> fl list \<Rightarrow> fl list \<Rightarrow> bool list \<Rightarrow> roemer_out res" where
  "geolocate_roemer env genv renv cfg thisdem thisdem_fine dh l1b grounded trange retr incl =
     (case (thisdem, thisdem_fine) of
        (None, _) \<Rightarrow> Inl (ValueError ''thisdem None value passed'')
      | (_, None) \<Rightarrow> Inl (ValueError ''thisdem_fine None value passed'')
      | (Some dem, Some dem_fine) \<Rightarrow>
          rbind (roemer_config cfg) (\<lambda>rc. rbind (getitem_floats l1b ''lat_20_ku'') (\<lambda>lats.
          rbind (rbind (getitem_floats l1b ''lon_20_ku'') (np_mod360 (np_mode env))) (\<lambda>lons.
          rbind (getitem_floats l1b ''alt_20_ku'') (\<lambda>alts.
          rbind (roemer_points env genv renv rc cfg dem dem_fine dh l1b lats lons alts trange incl)
            (slope_results env renv cfg ''lrm_roemer_geolocation'' dem l1b lats lons alts grounded trange retr))))))"

section \<open>alg_geolocate_roemer\<close>

record roemer_dems =
  rd_ant :: "grid option"
  rd_ant_fine :: "grid option"
  rd_grn :: "grid option"
  rd_grn_fine :: "grid option"
  rd_dhdt_grn :: "dhdt option"

text \<open>The two elevation models of an area; the second is the first if they have the same name.\<close>

definition roemer_dem_pair ::
  "grid_env \<Rightarrow> config \<Rightarrow> string \<Rightarrow> string \<Rightarrow> string \<Rightarrow> gshm \<Rightarrow> (grid option \<times> grid option \<times> gshm) res" where
  "roemer_dem_pair genv cfg only key fine_key sh =
     (if opt_flag cfg only then Inr (None, None, sh)
      else
        (let load = (\<lambda>v sh. case v of
               CStr name \<Rightarrow> dem_new genv name True (Some cfg) None (dhas cfg ''_init_shared_mem'') sh
             | _ \<Rightarrow> Inl (ValueError ''DEM name not in allowed list'')) in
         rbind (cget2 cfg ''lrm_roemer_geolocation'' key) (\<lambda>v. rbind (load v sh) (\<lambda>(g, sh1).
         rbind (cget2 cfg ''lrm_roemer_geolocation'' fine_key) (\<lambda>w.
           if v = w then Inr (Some g, Some g, sh1)
           else rbind (load w sh1) (\<lambda>(g2, sh2). Inr (Some g, Some g2, sh2)))))))"

definition init_geolocate_roemer :: "grid_env \<Rightarrow> dhdt_env \<Rightarrow> config \<Rightarrow> gshm \<Rightarrow> (roemer_dems \<times> gshm) res" where
  "init_geolocate_roemer genv denv cfg sh =
     rbind (roemer_dem_pair genv cfg ''grn_only'' ''antarctic_dem'' ''antarctic_dem_fine'' sh) (\<lambda>(ant, ant_fine, sh1).
     rbind (roemer_dem_pair genv cfg ''ais_only'' ''greenland_dem'' ''greenland_dem_fine'' sh1) (\<lambda>(grn, grn_fine, sh2).
     rbind (cflag cfg ''lrm_roemer_geolocation'' ''include_dhdt_correction'') (\<lambda>b.
     rbind (if b then
              rbind (rbind (cget2 cfg ''lrm_roemer_geolocation'' ''dhdt_grn_name'') (\<lambda>v. case v of
                 CStr name \<Rightarrow> dhdt_new denv name (Some cfg) None
               | _ \<Rightarrow> Inl (ValueError ''Dh/dt name not in allowed list''))) (\<lambda>d. Inr (Some d))
            else Inr None) (\<lambda>d.
       Inr (\<lparr>rd_ant = ant, rd_ant_fine = ant_fine, rd_grn = grn, rd_grn_fine = grn_fine, rd_dhdt_grn = d\<rparr>, sh2)))))"

definition sget_grounded :: "shared \<Rightarrow> bool list res" where
  "sget_grounded sd =
     rbind (dget sd ''cryotempo_surface_type'') (\<lambda>v. case v of
        SU8 ts \<Rightarrow> Inr (map (\<lambda>t. t = 1) ts)
      | SF ts \<Rightarrow> Inr (map (\<lambda>t. t = Fin 1) ts)
      | _ \<Rightarrow> Inl (TypeError ''array expected''))"

definition geolocate_roemer_alg ::
  "'a geo_env_scheme \<Rightarrow> grid_env \<Rightarrow> roemer_env \<Rightarrow> config \<Rightarrow> roemer_dems \<Rightarrow> dataset \<Rightarrow> shared \<Rightarrow> alg_out" where
  "geolocate_roemer_alg env genv renv cfg dems l1b sd =
     rbind (dget sd ''instr_mode'') (\<lambda>mode.
       if mode \<noteq> SStr ''LRM'' then Inr ((True, ''algorithm skipped as not LRM file''), sd)
       else
         rbind (dget sd ''hemisphere'') (\<lambda>hem.
           let (dem, dem_fine, dh) = (if hem = SStr ''south'' then (rd_ant dems, rd_ant_fine dems, None)
                 else (rd_grn dems, rd_grn_fine dems, rd_dhdt_grn dems)) in
           rbind (sget_grounded sd) (\<lambda>grounded. rbind (sget_floats sd ''geo_corrected_tracker_range'') (\<lambda>trange.
           rbind (sget_floats sd ''retracker_correction'') (\<lambda>retr. rbind (rbind (dget sd ''waveforms_to_include'') as_bools) (\<lambda>incl.
           rbind (geolocate_roemer env genv renv cfg dem dem_fine dh l1b grounded trange retr incl) (\<lambda>out.
           rbind (np_mod360 (np_mode env) (ro_lon out)) (\<lambda>lon360.
             pass (dset (dset (dset (dset (dset (dset (dset sd ''lat_poca_20_ku'' (SF (ro_lat out))) ''lon_poca_20_ku'' (SF lon360))
               ''latitudes'' (SF (ro_lat out))) ''longitudes'' (SF (ro_lon out))) ''height_20_ku'' (SF (ro_height out)))
               ''roemer_slope_ok'' (SB (ro_slope_ok out))) ''relocation_distance'' (SF (ro_reloc out)))))))))))"

definition finalize_geolocate_roemer :: "roemer_dems \<Rightarrow> gshm \<Rightarrow> gshm" where
  "finalize_geolocate_roemer dems sh =
     fold (\<lambda>d s. case d of None \<Rightarrow> s | Some g \<Rightarrow> snd (grid_clean_up g s))
       [rd_ant dems, rd_grn dems, rd_grn_fine dems, rd_ant_fine dems] sh"

definition alg_geolocate_roemer :: "'a geo_env_scheme \<Rightarrow> grid_env \<Rightarrow> roemer_env \<Rightarrow> dhdt_env \<Rightarrow> gshm \<Rightarrow> alg_class" where
  "alg_geolocate_roemer env genv renv denv sh = \<lparr>cls_name = ''clev2er.algorithms.cryotempo.alg_geolocate_roemer'',
     cls_init = (\<lambda>cfg. rbind (init_geolocate_roemer genv denv cfg sh) (\<lambda>(dems, sh1).
       Inr ((True, []), \<lparr>impl_body = geolocate_roemer_alg env genv renv cfg dems,
         impl_finalize = (\<lambda>stage. map_sum id (\<lambda>_. ()) (Inr (finalize_geolocate_roemer dems sh1)))\<rparr>)))\<rparr>"

interpretation geolocate_roemer: chain_algorithm "geolocate_roemer_alg env genv renv cfg dems"
    "{''lat_poca_20_ku'', ''lon_poca_20_ku'', ''latitudes'', ''longitudes'', ''height_20_ku'', ''roemer_slope_ok'', ''relocation_distance''}"
  by (unfold_locales, erule framesD [rotated], unfold geolocate_roemer_alg_def, intro frame_intros)
    (auto intro!: agree_off_dset)

section \<open>Laws\<close>

lemma doppler_corrected_other:
  assumes "doppler_corrected env cfg l1b lats lons alts plats plons heights = Inr final"
  shows "length final = length heights \<and> (\<forall>i<length heights. \<not> is_finite (heights ! i) \<longrightarrow> final ! i = heights ! i)"
proof -
  from assms have "\<exists>vs. final = scatter heights (np_where is_finite heights) vs \<or> final = heights"
    by (auto simp: doppler_corrected_def doppler_at_def rbind_eq_Inr Let_def split: if_splits)
  then show ?thesis by (auto simp: scatter_other set_np_where)
qed

lemma roemer_record_excluded:
  "roemer_record env genv renv rc cfg dem dem_fine dh years False t nx ny alt = Inr (roemer_start nx ny)"
  by (simp add: roemer_record_def)

lemma npf_add_NaN: "npf_add em x NaN = Inr y \<Longrightarrow> y = NaN"
  by (cases x) (auto simp: npf_add_def np_invalid_def split: if_splits)

lemma roemer_height_finite:
  assumes "roemer_height em alt t retr g r = Inr h" and "is_finite h"
  shows "is_finite t \<and> rr_ok r \<and> g \<and> rr_slope r \<noteq> NaN"
proof -
  have "is_finite t \<and> rr_ok r \<and> g" using assms by (auto simp: roemer_height_def is_finite_def split: if_splits)
  moreover have "rr_slope r \<noteq> NaN"
    using assms calculation by (auto simp: roemer_height_def fadd_def rbind_eq_Inr is_finite_def dest!: npf_add_NaN)
  ultimately show ?thesis by simp
qed

lemma to_xy_length: "to_xy genv g lats lons True = Inr (xs, ys) \<Longrightarrow> length xs = length lats"
  by (auto simp: to_xy_def Let_def split: option.splits if_splits)

lemma roemer_points_record:
  assumes "roemer_points env genv renv rc cfg dem dem_fine dh l1b lats lons alts trange incl = Inr recs"
  shows "length recs = length lats \<and> (\<forall>i<length lats. \<not> incl ! i \<longrightarrow> rr_ok (recs ! i) \<and> rr_slope (recs ! i) = NaN)"
proof -
  from assms obtain nx ny years where xy: "to_xy genv dem lats lons True = Inr (nx, ny)"
    and recs: "rmapM (\<lambda>i. roemer_record env genv renv rc cfg dem dem_fine dh years (incl ! i) (trange ! i) (nx ! i) (ny ! i) (alts ! i))
      [0..<length nx] = Inr recs" by (auto simp: roemer_points_def rbind_eq_Inr)
  have len: "length nx = length lats" using to_xy_length [OF xy] .
  have "recs ! i = roemer_start (nx ! i) (ny ! i)" if "i < length lats" "\<not> incl ! i" for i
    using rmapM_nth [OF recs, of i] that len by (simp add: roemer_record_excluded)
  then show ?thesis using rmapM_length [OF recs] len by (simp add: roemer_start_def)
qed

text \<open>The contract of a method that finds the solutions of the records: an excluded waveform keeps its defaults. The
  results of \<open>slope_results\<close> follow for every such method.\<close>

locale slope_method =
  fixes points :: "fl list \<Rightarrow> fl list \<Rightarrow> fl list \<Rightarrow> bool list \<Rightarrow> roemer_rec list res"
  assumes excluded: "points lats lons alts incl = Inr recs \<Longrightarrow>
    length recs = length lats \<and> (\<forall>i<length lats. \<not> incl ! i \<longrightarrow> rr_ok (recs ! i) \<and> rr_slope (recs ! i) = NaN)"
begin

lemma results:
  assumes recs: "points lats lons alts incl = Inr recs"
    and run: "slope_results env renv cfg sect dem l1b lats lons alts grounded trange retr recs = Inr out"
  shows "length (ro_height out) = length lats \<and> length (ro_slope_ok out) = length lats \<and> (\<forall>i<length lats.
    (\<not> ro_slope_ok out ! i \<longrightarrow> ro_lat out ! i = lats ! i \<and> ro_lon out ! i = lons ! i \<and> ro_height out ! i = NaN) \<and>
    (is_finite (ro_height out ! i) \<longrightarrow> ro_slope_ok out ! i \<and> is_finite (trange ! i) \<and> grounded ! i \<and> incl ! i) \<and>
    (\<not> incl ! i \<longrightarrow> ro_slope_ok out ! i))"
proof -
  let ?n = "length lats"
  from run obtain hs final doppler placed where
      hs: "rmapM (\<lambda>i. roemer_height (np_mode env) (alts ! i) (trange ! i) (retr ! i) (grounded ! i) (recs ! i)) [0..<?n] = Inr hs"
    and placed: "placed = map (\<lambda>i. roemer_place (lats ! i) (lons ! i)
        (map (\<lambda>r. ro_unproject renv (the (g_crs dem)) (rr_x r) (rr_y r)) recs ! i) (rr_ok (recs ! i)) (hs ! i)) [0..<?n]"
    and final: "(if doppler then doppler_corrected env cfg l1b lats lons alts (map (fst \<circ> snd) placed) (map (snd \<circ> snd) placed)
        (map fst placed) else Inr (map fst placed)) = Inr final"
    and out: "out = \<lparr>ro_height = final, ro_lat = map (fst \<circ> snd) placed, ro_lon = map (snd \<circ> snd) placed,
        ro_slope_ok = map rr_ok recs, ro_reloc = map rr_reloc recs\<rparr>"
    unfolding slope_results_def Let_def rbind_eq_Inr sum.inject
    by (elim exE conjE) (rule that, assumption, rule refl, assumption, erule sym)
  have rec: "length recs = ?n" "\<And>i. i < ?n \<Longrightarrow> \<not> incl ! i \<Longrightarrow> rr_ok (recs ! i) \<and> rr_slope (recs ! i) = NaN"
    using excluded [OF recs] by auto
  have same: "length final = length placed"
      "\<And>i. i < length placed \<Longrightarrow> \<not> is_finite (fst (placed ! i)) \<Longrightarrow> final ! i = fst (placed ! i)"
    using final doppler_corrected_other by (cases doppler; fastforce)+
  have pl: "placed ! i = roemer_place (lats ! i) (lons ! i) (ro_unproject renv (the (g_crs dem)) (rr_x (recs ! i)) (rr_y (recs ! i)))
      (rr_ok (recs ! i)) (hs ! i)"
    and h: "roemer_height (np_mode env) (alts ! i) (trange ! i) (retr ! i) (grounded ! i) (recs ! i) = Inr (hs ! i)"
    if "i < ?n" for i using that rec(1) rmapM_nth [OF hs] by (auto simp: placed)
  have len: "length placed = ?n" by (simp add: placed)
  have "(\<not> rr_ok (recs ! i) \<longrightarrow> fst (snd (placed ! i)) = lats ! i \<and> snd (snd (placed ! i)) = lons ! i \<and> final ! i = NaN) \<and>
    (is_finite (final ! i) \<longrightarrow> rr_ok (recs ! i) \<and> is_finite (trange ! i) \<and> grounded ! i \<and> incl ! i) \<and>
    (\<not> incl ! i \<longrightarrow> rr_ok (recs ! i))" if i: "i < ?n" for i
  proof -
    have no: "\<not> rr_ok (recs ! i) \<Longrightarrow> placed ! i = (NaN, lats ! i, lons ! i)"
      and "fst (placed ! i) = NaN \<or> fst (placed ! i) = hs ! i" unfolding pl [OF i]
      by (auto simp: roemer_place_def split: prod.splits)
    moreover have "\<not> is_finite NaN" by (simp add: is_finite_def)
    moreover have "is_finite (final ! i) \<Longrightarrow> is_finite (fst (placed ! i))" using same(2) [of i] len i by force
    ultimately have "is_finite (final ! i) \<Longrightarrow> is_finite (hs ! i)" by force
    with roemer_height_finite [OF h [OF i]] rec(2) [OF i]
    have "is_finite (final ! i) \<Longrightarrow> rr_ok (recs ! i) \<and> is_finite (trange ! i) \<and> grounded ! i \<and> incl ! i" by blast
    moreover have "\<not> rr_ok (recs ! i) \<Longrightarrow> final ! i = NaN" using no same(2) [of i] len i by (simp add: is_finite_def)
    moreover have "\<not> incl ! i \<Longrightarrow> rr_ok (recs ! i)" using rec(2) [OF i] by simp
    moreover have "\<not> rr_ok (recs ! i) \<Longrightarrow> fst (snd (placed ! i)) = lats ! i \<and> snd (snd (placed ! i)) = lons ! i" using no by simp
    ultimately show ?thesis by blast
  qed
  then have "\<forall>i<?n. (\<not> map rr_ok recs ! i \<longrightarrow> map (fst \<circ> snd) placed ! i = lats ! i \<and> map (snd \<circ> snd) placed ! i = lons ! i \<and> final ! i = NaN) \<and>
    (is_finite (final ! i) \<longrightarrow> map rr_ok recs ! i \<and> is_finite (trange ! i) \<and> grounded ! i \<and> incl ! i) \<and>
    (\<not> incl ! i \<longrightarrow> map rr_ok recs ! i)" using rec(1) len by (metis (no_types, lifting) comp_apply nth_map)
  then show ?thesis unfolding out roemer_out.select_convs length_map same(1) len rec(1) by blast
qed

end

interpretation roemer_method: slope_method
    "\<lambda>lats lons alts incl. roemer_points env genv renv rc cfg dem dem_fine dh l1b lats lons alts trange incl"
  by unfold_locales (erule roemer_points_record)

text \<open>C28: Where \<^verbatim>\<open>geolocate_roemer\<close> found no solution, a measurement is placed at nadir with height NaN. It has a finite height
  only if it has a solution, its tracker range is finite, it lies over grounded ice and its waveform was not excluded.
  An excluded waveform nevertheless counts as one with a solution in \<^verbatim>\<open>slope_ok\<close>.\<close>

theorem roemer_results:
  assumes run: "geolocate_roemer env genv renv cfg (Some dem) (Some dem_fine) dh l1b grounded trange retr incl = Inr out"
    and lats: "getitem_floats l1b ''lat_20_ku'' = Inr lats"
    and lons: "rbind (getitem_floats l1b ''lon_20_ku'') (np_mod360 (np_mode env)) = Inr lons"
  shows "length (ro_height out) = length lats \<and> length (ro_slope_ok out) = length lats \<and> (\<forall>i<length lats.
    (\<not> ro_slope_ok out ! i \<longrightarrow> ro_lat out ! i = lats ! i \<and> ro_lon out ! i = lons ! i \<and> ro_height out ! i = NaN) \<and>
    (is_finite (ro_height out ! i) \<longrightarrow> ro_slope_ok out ! i \<and> is_finite (trange ! i) \<and> grounded ! i \<and> incl ! i) \<and>
    (\<not> incl ! i \<longrightarrow> ro_slope_ok out ! i))"
proof -
  from run lats lons obtain rc alts recs where
      "roemer_points env genv renv rc cfg dem dem_fine dh l1b lats lons alts trange incl = Inr recs"
      "slope_results env renv cfg ''lrm_roemer_geolocation'' dem l1b lats lons alts grounded trange retr recs = Inr out"
    unfolding geolocate_roemer_def option.case prod.case rbind_eq_Inr by auto
  then show ?thesis by (rule roemer_method.results)
qed

definition wit_roe :: roemer_env where
  "wit_roe = \<lparr>ro_sub32 = npf_sub seterr_default, ro_sq32 = sq_diff wit_geo, ro_add32 = npf_add seterr_default, ro_median_filter = (\<lambda>n. Inr),
     ro_mgrid = (\<lambda>bx by d. Inr ([fst bx], [fst by])), ro_unproject = (\<lambda>epsg x y. (x, y))\<rparr>"

definition wit_roe_cfg :: config where
  "wit_roe_cfg = [(''instrument'', CDict (map (\<lambda>k. (k, CInt 1)) [''across_track_beam_width_lrm'', ''pulse_limited_footprint_size_lrm'',
       ''ref_bin_index_lrm'', ''range_bin_size_lrm'', ''num_range_bins_lrm''])),
     (''lrm_roemer_geolocation'', CDict (map (\<lambda>k. (k, CInt 0)) [''include_dhdt_correction'', ''max_poca_reloc_distance'',
       ''fine_grid_sampling'', ''dual_search'', ''median_filter'', ''reject_outside_range_window'', ''range_window_lower_trim'',
       ''range_window_upper_trim'', ''use_sliding_window'', ''include_slope_doppler_correction'']))]"

definition wit_roe_dem :: grid where
  "wit_roe_dem = (blank_grid ''awi_ant_1km'' True None None False)\<lparr>g_crs := Some 3031\<rparr>"

lemma roemer_results_witness:
  "\<exists>out. geolocate_roemer wit_geo wit_genv wit_roe wit_roe_cfg (Some wit_roe_dem) (Some wit_roe_dem) None wit_sin_l1b
      [True, True] [Fin 1, Fin 1] [Fin 0, Fin 0] [False, True] = Inr out \<and>
    ro_slope_ok out ! 0 \<and> \<not> is_finite (ro_height out ! 0)"
proof -
  let ?r = "geolocate_roemer wit_geo wit_genv wit_roe wit_roe_cfg (Some wit_roe_dem) (Some wit_roe_dem) None wit_sin_l1b
      [True, True] [Fin 1, Fin 1] [Fin 0, Fin 0] [False, True]"
  have "\<not> isl ?r" by code_simp
  then obtain out where out: "?r = Inr out" by (cases ?r) auto
  have "getitem_floats wit_sin_l1b ''lat_20_ku'' = Inr [Fin (- 71), Fin (- 72)]"
    "rbind (getitem_floats wit_sin_l1b ''lon_20_ku'') (np_mod360 (np_mode wit_geo)) = Inr [Fin 289, Fin 288]" by code_simp+
  from roemer_results [OF out this] show ?thesis using out by auto
qed

lemma fl_lt_neg: "fl_lt (fl_neg a) (fl_neg b) \<longleftrightarrow> fl_lt b a"
  by (cases a; cases b) auto

lemma fl_not_lt_eq: "a \<noteq> NaN \<Longrightarrow> b \<noteq> NaN \<Longrightarrow> \<not> fl_lt a b \<Longrightarrow> \<not> fl_lt b a \<Longrightarrow> a = b"
  by (cases a; cases b) auto

lemma nanargmin_nanmin:
  assumes m: "np_nanmin xs = Inr m" and k: "np_nanargmin xs = Inr k" and inf: "m \<noteq> PInf"
  shows "k < length xs \<and> xs ! k = m \<and> m \<noteq> NaN \<and> (\<forall>j<length xs. \<not> fl_lt (xs ! j) m)"
proof -
  let ?ys = "filter (\<lambda>x. x \<noteq> NaN) xs" and ?zs = "map (\<lambda>x. if x = NaN then PInf else x) xs"
  have ne: "?ys \<noteq> []" and k': "np_argmax (map fl_neg ?zs) = Inr k" using k by (auto simp: np_nanargmin_def np_argmin_def split: if_splits)
  have m': "np_min ?ys = Inr m" using m ne by (auto simp: np_nanmin_def split: list.splits if_splits)
  obtain lo hi where "np_min ?ys = Inr lo" "lo \<in> set ?ys" "\<And>v. v \<in> set ?ys \<Longrightarrow> \<not> fl_lt v lo"
    using np_min_max [of ?ys] ne by (metis (mono_tags, lifting) mem_Collect_eq set_filter)
  with m' have low: "m \<in> set xs" "m \<noteq> NaN" "\<And>v. v \<in> set xs \<Longrightarrow> \<not> fl_lt v m" by (auto, metis fl_lt_NaN(2))
  have "fl_neg z = NaN \<longleftrightarrow> z = NaN" for z by (cases z) auto
  then have "\<forall>x\<in>set (map fl_neg ?zs). x \<noteq> NaN" by auto
  note arg' = np_argmax_correct [OF k' this]
  have arg: "k < length xs" "\<not> fl_lt (?zs ! q) (?zs ! k)" if "q < length xs" for q
  proof -
    show "k < length xs" using arg' by simp
    then have neg: "map fl_neg ?zs ! k = fl_neg (?zs ! k)" "map fl_neg ?zs ! q = fl_neg (?zs ! q)"
      using that by (simp_all only: nth_map length_map)
    have "\<not> fl_lt (map fl_neg ?zs ! k) (map fl_neg ?zs ! q)" using arg' that unfolding length_map by blast
    then show "\<not> fl_lt (?zs ! q) (?zs ! k)" unfolding neg fl_lt_neg .
  qed
  obtain q where q: "q < length xs" "xs ! q = m" using low(1) by (auto simp: in_set_conv_nth)
  note k = arg(1) [OF q(1)]
  have le: "\<not> fl_lt m (?zs ! k)" using arg(2) [OF q(1)] low(2) q by simp
  have "xs ! k \<noteq> NaN" using le inf low(2) k by (cases m) auto
  then have "xs ! k = m" using le k low by (intro fl_not_lt_eq) auto
  then show ?thesis using k low by simp
qed

text \<open>C27: A point that \<^verbatim>\<open>find_poca\<close> returns with a range below infinity is a point of the elevation model with a valid height,
  the returned range is the range of that point, and no point of the model is nearer to the satellite.\<close>

theorem find_poca_nearest:
  assumes run: "find_poca env zsub zdem xdem ydem nx ny alt = Inr (Some p)"
    and ranges: "dem_ranges env zsub zdem xdem ydem nx ny alt = Inr ranges"
    and inf: "poca_range p \<noteq> PInf"
  shows "\<exists>k<length ranges. xdem ! k = poca_x p \<and> ydem ! k = poca_y p \<and> zdem ! k = poca_z p \<and> poca_z p \<noteq> NaN \<and> poca_z p \<noteq> Fin (- 9999) \<and>
    ranges ! k = poca_range p \<and> (\<forall>j<length ranges. \<not> fl_lt (ranges ! j) (poca_range p))"
proof -
  from run ranges obtain k where min: "np_nanmin ranges = Inr (poca_range p)" "np_nanargmin ranges = Inr k"
    and found: "arr_at zdem k = Inr (poca_z p)" "arr_at xdem k = Inr (poca_x p)" "arr_at ydem k = Inr (poca_y p)"
      "poca_z p \<noteq> NaN" "poca_z p \<noteq> Fin (- 9999)"
    by (auto simp: find_poca_def rbind_eq_Inr split: if_splits)
  show ?thesis using nanargmin_nanmin [OF min inf] found by (auto simp: arr_at_def split: if_splits intro!: exI [of _ k])
qed

definition wit_roe_geo :: geo_env where
  "wit_roe_geo = wit_geo\<lparr>np_power := (\<lambda>x n. npf_mul seterr_default x x)\<rparr>"

lemma find_poca_nearest_witness:
  "\<exists>p. find_poca wit_roe_geo (npf_sub seterr_default) [Fin 10, Fin 20] [Fin 0, Fin 0] [Fin 0, Fin 0] (Fin 0) (Fin 0) (Fin 100) = Inr (Some p) \<and>
    poca_z p \<in> {Fin 10, Fin 20}"
proof -
  let ?f = "find_poca wit_roe_geo (npf_sub seterr_default) [Fin 10, Fin 20] [Fin 0, Fin 0] [Fin 0, Fin 0] (Fin 0) (Fin 0) (Fin 100)"
  let ?d = "dem_ranges wit_roe_geo (npf_sub seterr_default) [Fin 10, Fin 20] [Fin 0, Fin 0] [Fin 0, Fin 0] (Fin 0) (Fin 0) (Fin 100)"
  have "case ?f of Inr (Some p) \<Rightarrow> poca_range p \<noteq> PInf | _ \<Rightarrow> False" by code_simp
  then obtain p where p: "?f = Inr (Some p)" "poca_range p \<noteq> PInf" by (auto split: sum.splits option.splits)
  have "case ?d of Inr r \<Rightarrow> length r = 2 | _ \<Rightarrow> False" by code_simp
  then obtain r where r: "?d = Inr r" "length r = 2" by (auto split: sum.splits)
  from find_poca_nearest [OF p(1) r(1) p(2)] r(2) obtain k where "k < 2" "[Fin 10, Fin 20] ! k = poca_z p" by auto
  then show ?thesis using p(1) by (auto simp: less_2_cases_iff)
qed

end
