(* ===== verification/Geolocate_Lrm.thy ===== *)
theory Geolocate_Lrm
  imports Geolocate_Roemer
begin

text \<open>
  \<^verbatim>\<open>lrm_slope.py\<close>, \<^verbatim>\<open>geolocate_lrm.py\<close> and \<^verbatim>\<open>alg_geolocate_lrm\<close>: the slope correction of LRM measurements with a
  slope-model file. The file is a list of bytes, which the code unpacks with \<^verbatim>\<open>struct\<close>. The functions of \<^verbatim>\<open>math\<close> and
  the UTF-8 codec are parameters; arithmetic is that of Python's floats where both operands are Python floats, and numpy's
  (with its error mode) as soon as one comes from an array.
\<close>

section \<open>Binary files\<close>

type_synonym bytes = "8 word list"

definition be_nat :: "bytes \<Rightarrow> nat" where
  "be_nat = foldl (\<lambda>a b. 256 * a + unat b) 0"

text \<open>The value of an IEEE 754 number with \<open>e\<close> bits of exponent and \<open>m\<close> bits of mantissa.\<close>

definition ieee_value :: "nat \<Rightarrow> nat \<Rightarrow> nat \<Rightarrow> fl" where
  "ieee_value e m v =
     (let negative = v div 2 ^ (e + m) mod 2 = 1; ex = v div 2 ^ m mod 2 ^ e; man = v mod 2 ^ m; bias = int (2 ^ (e - 1)) - 1;
          x = (if ex = 2 ^ e - 1 then (if man = 0 then PInf else NaN)
               else if ex = 0 then Fin (of_nat man * two_pow (1 - bias - int m))
               else Fin (of_nat (2 ^ m + man) * two_pow (int ex - bias - int m)))
      in if negative then fl_neg x else x)"

text \<open>\<^verbatim>\<open>struct.unpack\<close> with the formats \<^verbatim>\<open>">h"\<close>, \<^verbatim>\<open>">f"\<close> and \<^verbatim>\<open>">d"\<close>; a short read raises \<^verbatim>\<open>struct.error\<close>.\<close>

definition unpack :: "nat \<Rightarrow> (nat \<Rightarrow> 'a) \<Rightarrow> bytes \<Rightarrow> 'a res" where
  "unpack n f bs = rbind (guard (length bs = n) (StructError ''unpack requires a buffer of another size'')) (\<lambda>_. Inr (f (be_nat bs)))"

definition unpack_h :: "bytes \<Rightarrow> int res" where
  "unpack_h = unpack 2 (\<lambda>v. if v < 2 ^ 15 then int v else int v - 2 ^ 16)"

definition unpack_f :: "bytes \<Rightarrow> fl res" where
  "unpack_f = unpack 4 (ieee_value 8 23)"

definition unpack_d :: "bytes \<Rightarrow> fl res" where
  "unpack_d = unpack 8 (ieee_value 11 52)"

text \<open>\<^verbatim>\<open>seek(pos, 0)\<close> and what follows that position.\<close>

definition seek :: "bytes \<Rightarrow> int \<Rightarrow> bytes res" where
  "seek bs pos = (if pos < 0 then Inl (OSError ''Invalid argument'') else Inr (drop (nat pos) bs))"

section \<open>The environment\<close>

record lrm_env =
  ma_sin :: "fl \<Rightarrow> fl res"
  ma_cos :: "fl \<Rightarrow> fl res"
  ma_asin :: "fl \<Rightarrow> fl res"
  ma_sqrt :: "fl \<Rightarrow> fl res"
  ma_atan2 :: "fl \<Rightarrow> fl \<Rightarrow> fl"
  ma_radians :: "fl \<Rightarrow> fl"
  ma_degrees :: "fl \<Rightarrow> fl"
  lm_open :: "string \<Rightarrow> bytes res"
  lm_isfile :: "string \<Rightarrow> bool"
  lm_utf8 :: "bytes \<Rightarrow> string res"

definition py_fdiv :: "fl \<Rightarrow> fl \<Rightarrow> fl res" where
  "py_fdiv a b = (if b = Fin 0 then Inl (ZeroDivisionError ''float division by zero'') else Inr (fl_div a b))"

definition half_pi :: fl where
  "half_pi = fl_div np_pi (Fin 2)"

section \<open>lrm_slope.py: the slope model\<close>

record slope_model =
  sm_id :: int
  sm_hemisphere :: int
  sm_corner_x :: fl
  sm_corner_y :: fl
  sm_x_num :: int
  sm_y_num :: int
  sm_resolution :: fl
  sm_offset :: int

text \<open>The header of a model, read field by field.\<close>

definition read_model :: "bytes \<Rightarrow> int \<Rightarrow> slope_model res" where
  "read_model bs offset =
     rbind (seek bs offset) (\<lambda>r.
     rbind (unpack_h (take 2 r)) (\<lambda>ident. rbind (unpack_h (take 2 (drop 2 r))) (\<lambda>hemi.
     rbind (unpack_d (take 8 (drop 4 r))) (\<lambda>cx. rbind (unpack_d (take 8 (drop 12 r))) (\<lambda>cy.
     rbind (unpack_h (take 2 (drop 20 r))) (\<lambda>xn. rbind (unpack_h (take 2 (drop 22 r))) (\<lambda>yn.
     rbind (unpack_d (take 8 (drop 24 r))) (\<lambda>res.
       Inr \<lparr>sm_id = ident, sm_hemisphere = hemi, sm_corner_x = cx, sm_corner_y = cy, sm_x_num = xn, sm_y_num = yn,
         sm_resolution = res, sm_offset = 0\<rparr>))))))))"

text \<open>\<^verbatim>\<open>line.split("=")[1]\<close>\<close>

definition after_equals :: "string \<Rightarrow> string res" where
  "after_equals line = py_index (py_split (CHR ''='') line) 1"

text \<open>The loop over the words of the text header: the number of data sets read and announced, the current offset and
  the models found so far.\<close>

fun header_loop :: "bytes \<Rightarrow> string list \<Rightarrow> int \<Rightarrow> int \<Rightarrow> int \<Rightarrow> slope_model list \<Rightarrow> slope_model list res" where
  "header_loop bs [] dsd_read num_dsd offset models = Inr models"
| "header_loop bs (line # lines) dsd_read num_dsd offset models =
     rbind (if py_in ''NUM_DSD'' line then rbind (after_equals line) py_int_of else Inr num_dsd) (\<lambda>num_dsd1.
     rbind (if py_in ''DS_OFFSET'' line then rbind (rbind (after_equals line) (\<lambda>s. py_index (py_split (CHR ''<'') s) 0)) py_int_of
            else Inr offset) (\<lambda>offset1.
     rbind (if py_in ''NUM_DSR'' line then
              rbind (rbind (after_equals line) py_int_of) (\<lambda>num.
                if num = 1 then rbind (read_model bs offset1) (\<lambda>md. Inr (dsd_read + 1, models @ [md]))
                else if models = [] then Inl (IndexError ''list index out of range'')
                else Inr (dsd_read + 1, butlast models @ [(last models)\<lparr>sm_offset := offset1\<rparr>]))
            else Inr (dsd_read, models)) (\<lambda>(dsd_read1, models1).
       if dsd_read1 = num_dsd1 then Inr models1 else header_loop bs lines dsd_read1 num_dsd1 offset1 models1)))"

definition prepare_slope :: "lrm_env \<Rightarrow> string \<Rightarrow> slope_model list res" where
  "prepare_slope le slope_filename =
     rbind (lm_open le slope_filename) (\<lambda>bs. rbind (lm_utf8 le (take 2470 bs)) (\<lambda>header_a.
       header_loop bs (py_words [] header_a) 0 (- 1) 0 []))"

section \<open>lrm_slope.py: the slope at a point\<close>

definition trans_coord :: "lrm_env \<Rightarrow> fl \<Rightarrow> fl \<Rightarrow> fl \<Rightarrow> fl \<Rightarrow> (fl \<times> fl \<times> fl \<times> fl) res" where
  "trans_coord le lat lon eccentricity semimajor =
     (let lat_rad = ma_radians le lat; lon_rad = ma_radians le lon in
      rbind (ma_sin le lat_rad) (\<lambda>s.
        let t = fl_mul eccentricity s; temp = fl_sub (Fin 1) (fl_mul t t) in
        rbind (rbind (ma_sqrt le (fl_mul (fl_mul temp temp) temp))
          (py_fdiv (fl_mul semimajor (fl_sub (Fin 1) (fl_mul eccentricity eccentricity))))) (\<lambda>meridional.
        rbind (ma_cos le lat_rad) (\<lambda>c. rbind (rbind (ma_sqrt le temp) (py_fdiv (fl_mul semimajor c))) (\<lambda>zonal.
        rbind (ma_sin le (fl_div (fl_sub half_pi (fl_abs lat_rad)) (Fin 2))) (\<lambda>s2.
          let x_coord = fl_mul (fl_mul (Fin 2) meridional) s2 in
          rbind (ma_sin le lon_rad) (\<lambda>sl. rbind (ma_cos le lon_rad) (\<lambda>cl.
            Inr (fl_mul x_coord cl, fl_mul x_coord sl, meridional, zonal)))))))))"

text \<open>The first model of the hemisphere whose grid holds the point, with the cell \<open>m\<close>, \<open>n\<close> and the position in it.\<close>

fun setup_slopes :: "fl \<Rightarrow> fl \<Rightarrow> int \<Rightarrow> slope_model list \<Rightarrow> (slope_model \<times> int \<times> int \<times> fl \<times> fl) option res" where
  "setup_slopes x y hemi [] = Inr None"
| "setup_slopes x y hemi (slp # slps) =
     (let cx = sm_corner_x slp; cy = sm_corner_y slp; d = sm_resolution slp in
      rbind (rbind (py_fdiv (fl_sub x cx) d) py_trunc) (\<lambda>n. rbind (rbind (py_fdiv (fl_sub y cy) d) py_trunc) (\<lambda>m.
        if 0 < n \<and> n < sm_x_num slp - 1 \<and> 0 < m \<and> m < sm_y_num slp - 1 \<and> sm_hemisphere slp = hemi then
          rbind (py_fdiv (fl_sub (fl_sub x cx) (fl_mul (of_intf n) d)) d) (\<lambda>p.
          rbind (py_fdiv (fl_sub (fl_sub y cy) (fl_mul (of_intf m) d)) d) (\<lambda>q. Inr (Some (slp, m, n, p, q))))
        else setup_slopes x y hemi slps)))"

text \<open>The six grid points around the position, and what each contributes for its slope \<open>s\<close>.\<close>

definition slope_stencil :: "int \<Rightarrow> int \<Rightarrow> int \<Rightarrow> fl \<Rightarrow> fl \<Rightarrow> (int \<times> (fl \<Rightarrow> fl)) list" where
  "slope_stencil y_num n m p q =
     (let half = (\<lambda>v. fl_div v (Fin 2)); two = (\<lambda>v. fl_mul v (Fin 2)) in
      [(n * y_num + (m - 1), \<lambda>s. half (fl_mul (fl_mul s q) (fl_sub q (Fin 1)))),
       ((n - 1) * y_num + m, \<lambda>s. half (fl_mul (fl_mul s p) (fl_sub p (Fin 1)))),
       (n * y_num + m, \<lambda>s. fl_mul s (fl_sub (fl_sub (fl_add (Fin 1) (fl_mul p q)) (fl_mul p p)) (fl_mul q q))),
       ((n + 1) * y_num + m, \<lambda>s. half (fl_mul (fl_mul s p) (fl_add (fl_sub p (two q)) (Fin 1)))),
       (n * y_num + (m + 1), \<lambda>s. half (fl_mul (fl_mul s q) (fl_add (fl_sub q (two p)) (Fin 1)))),
       ((n + 1) * y_num + (m + 1), \<lambda>s. fl_mul (fl_mul s q) p)])"

definition slope_point :: "bytes \<Rightarrow> int \<Rightarrow> int \<Rightarrow> (fl \<times> fl) res" where
  "slope_point bs offset k =
     rbind (seek bs (offset + 8 * k)) (\<lambda>r.
     rbind (unpack_f (take 4 r)) (\<lambda>xs. rbind (unpack_f (take 4 (drop 4 r))) (\<lambda>ys. Inr (xs, ys))))"

text \<open>The flag is the error; adding to zero, the first term is exact.\<close>

fun slope_sum :: "(int \<Rightarrow> (fl \<times> fl) res) \<Rightarrow> (int \<times> (fl \<Rightarrow> fl)) list \<Rightarrow> fl \<Rightarrow> fl \<Rightarrow> (bool \<times> fl \<times> fl) res" where
  "slope_sum point [] xso yso = Inr (False, xso, yso)"
| "slope_sum point ((k, weight) # ks) xso yso =
     rbind (point k) (\<lambda>(xs, ys).
       if fl_lt (Fin 999) xs \<or> fl_lt (Fin 999) ys then Inr (True, Fin 0, Fin 0)
       else slope_sum point ks (fl_add xso (weight xs)) (fl_add yso (weight ys)))"

definition interp_slope :: "lrm_env \<Rightarrow> slope_model \<Rightarrow> int \<Rightarrow> int \<Rightarrow> fl \<Rightarrow> fl \<Rightarrow> string \<Rightarrow> (bool \<times> fl \<times> fl) res" where
  "interp_slope le model n m p q slope_filename =
     rbind (lm_open le slope_filename) (\<lambda>bs.
       slope_sum (slope_point bs (sm_offset model)) (slope_stencil (sm_y_num model) n m p q) (Fin 0) (Fin 0))"

definition np_sign :: "fl \<Rightarrow> fl" where
  "np_sign x = (if x = NaN then NaN else Fin (of_int (fl_sgn x)))"

definition comp_part_devs :: "np_err \<Rightarrow> lrm_env \<Rightarrow> fl \<Rightarrow> fl \<Rightarrow> fl \<Rightarrow> fl \<Rightarrow> (fl \<times> fl \<times> fl \<times> fl) res" where
  "comp_part_devs em le lat lon meridional eccentricity =
     (let lat_rad = ma_radians le lat; lon_rad = ma_radians le lon; co = fl_div (fl_sub half_pi (fl_abs lat_rad)) (Fin 2);
          e2 = fl_mul eccentricity eccentricity in
      rbind (ma_sin le co) (\<lambda>sco. rbind (ma_sin le (fl_mul (Fin 2) lat_rad)) (\<lambda>s2.
      rbind (ma_sin le lat_rad) (\<lambda>s.
        let d = fl_mul (fl_mul sco (fl_mul (Fin 3) s2)) e2; denom = fl_sub (Fin 1) (fl_mul (fl_mul e2 s) s) in
        if fl_lt (fl_abs denom) (round64 (1 / 10000000)) then Inr (Fin 0, Fin 0, Fin 0, Fin 0)
        else
          rbind (ma_cos le co) (\<lambda>cco.
          rbind (fmul em (fsub em (Inr (fl_div d denom)) (npf_mul em (np_sign lat_rad) cco)) (Inr meridional)) (\<lambda>d00.
          rbind (ma_sin le lon_rad) (\<lambda>sl. rbind (ma_cos le lon_rad) (\<lambda>cl.
          rbind (npf_mul em d00 sl) (\<lambda>deriv01. rbind (npf_mul em d00 cl) (\<lambda>deriv00.
            let d10 = fl_mul (fl_mul (Fin 2) meridional) sco in
            Inr (deriv00, deriv01, fl_mul d10 (fl_mul (Fin (- 1)) sl), fl_mul d10 cl)))))))))))"

text \<open>Attitude and azimuth of the echo. Where the derivatives are zero (an eccentricity near 1) they are Python floats;
  for slopes that are finite both arithmetics agree there.\<close>

definition calc_echo_dir ::
  "np_err \<Rightarrow> lrm_env \<Rightarrow> fl \<times> fl \<times> fl \<times> fl \<Rightarrow> fl \<Rightarrow> fl \<Rightarrow> fl \<Rightarrow> fl \<Rightarrow> fl \<Rightarrow> fl \<Rightarrow> (fl \<times> fl) res" where
  "calc_echo_dir em le derivs xs ys meridional zonal alt lat =
     (let (deriv00, deriv01, deriv10, deriv11) = derivs in
      rbind (fdiv em (fadd em (npf_mul em xs deriv00) (npf_mul em ys deriv01)) (npf_add em meridional alt)) (\<lambda>cor_slope_x.
      rbind (ma_cos le (ma_radians le lat)) (\<lambda>c.
      rbind (fdiv em (Inr (fl_add (fl_mul xs deriv10) (fl_mul ys deriv11))) (fadd em (Inr zonal) (npf_mul em alt c))) (\<lambda>cor_slope_y.
      rbind (npf_mul em (Fin (- 1)) cor_slope_y) (\<lambda>ay. rbind (npf_mul em (Fin (- 1)) cor_slope_x) (\<lambda>ax.
      rbind (rbind (fadd em (npf_mul em cor_slope_x cor_slope_x) (npf_mul em cor_slope_y cor_slope_y)) (ma_sqrt le)) (\<lambda>r.
      rbind (ma_asin le r) (\<lambda>att. Inr (att, ma_atan2 le ay ax)))))))))"

text \<open>\<^verbatim>\<open>do_slope\<close>: \<open>None\<close> if no model covers the point. An undefined slope at the point gives the slope zero, because
  the error of \<^verbatim>\<open>interp_slope\<close> is overwritten.\<close>

definition do_slope ::
  "np_err \<Rightarrow> lrm_env \<Rightarrow> fl \<Rightarrow> fl \<Rightarrow> fl \<Rightarrow> slope_model list \<Rightarrow> string \<Rightarrow> fl \<Rightarrow> fl \<Rightarrow> (fl \<times> fl \<times> fl \<times> fl) option res" where
  "do_slope em le lat lon alt slope slope_filename eccentricity semimajor =
     rbind (trans_coord le lat lon eccentricity semimajor) (\<lambda>(x, y, meridional, zonal).
     rbind (setup_slopes x y (if fl_lt lat (Fin 0) then 2 else 1) slope) (\<lambda>found. case found of
        None \<Rightarrow> Inr None
      | Some (slp, m, n, p, q) \<Rightarrow>
          rbind (interp_slope le slp n m p q slope_filename) (\<lambda>(bad, xs, ys).
          rbind (comp_part_devs em le lat lon meridional eccentricity) (\<lambda>derivs.
          rbind (calc_echo_dir em le derivs xs ys meridional zonal alt lat) (\<lambda>(att, azimuth).
            Inr (Some (att, azimuth, meridional, zonal)))))))"

section \<open>lrm_slope.py: height and location\<close>

definition wrap_location :: "np_err \<Rightarrow> fl \<Rightarrow> fl \<Rightarrow> (fl \<times> fl) res" where
  "wrap_location em lat lon =
     rbind (if fl_lt half_pi lat then rbind (npf_sub em np_pi lat) (\<lambda>a. rbind (npf_add em lon np_pi) (\<lambda>b. Inr (a, b)))
            else Inr (lat, lon)) (\<lambda>(lat1, lon1).
     rbind (if fl_lt lat1 (fl_neg half_pi) then rbind (npf_sub em (fl_neg np_pi) lat1) (\<lambda>a. rbind (npf_add em lon1 np_pi) (\<lambda>b. Inr (a, b)))
            else Inr (lat1, lon1)) (\<lambda>(lat2, lon2).
     rbind (if fl_lt lon2 (Fin 0) then npf_add em lon2 two_pi else Inr lon2) (\<lambda>lon3.
     rbind (if fl_lt two_pi lon3 then npf_sub em lon3 two_pi else Inr lon3) (\<lambda>lon4.
     rbind (if fl_lt np_pi lon4 then npf_sub em lon4 two_pi else Inr lon4) (\<lambda>lon5. Inr (lat2, lon5))))))"

definition proc_elev :: "np_err \<Rightarrow> lrm_env \<Rightarrow> fl \<Rightarrow> fl \<Rightarrow> fl \<Rightarrow> fl \<Rightarrow> fl \<Rightarrow> fl \<Rightarrow> fl \<Rightarrow> fl \<Rightarrow> (fl \<times> fl \<times> fl) res" where
  "proc_elev em le lat lon alt range_1 att azimuth meridional zonal =
     (let lat_rad = ma_radians le lat; lon_rad = ma_radians le lon in
      rbind (ma_cos le lat_rad) (\<lambda>c. rbind (ma_sin le azimuth) (\<lambda>sa. rbind (ma_cos le azimuth) (\<lambda>ca.
      rbind (py_fdiv (fl_mul meridional zonal)
        (fl_add (fl_mul (fl_mul (fl_mul meridional c) sa) sa) (fl_mul (fl_mul zonal ca) ca))) (\<lambda>rho.
      rbind (ma_cos le att) (\<lambda>cat. rbind (ma_sin le att) (\<lambda>sat.
      rbind (fadd em (fsub em (Inr alt) (npf_mul em range_1 cat))
        (fdiv em (fmul em (fmul em (npf_mul em range_1 sat) (Inr range_1)) (Inr sat)) (Inr (fl_mul (Fin 2) rho)))) (\<lambda>height.
      rbind (fadd em (Inr lat_rad) (fdiv em (fmul em (npf_mul em range_1 ca) (Inr sat)) (Inr meridional))) (\<lambda>lat_cor.
      rbind (fadd em (Inr lon_rad) (fdiv em (fmul em (npf_mul em range_1 sa) (Inr sat)) (Inr zonal))) (\<lambda>lon_cor.
      rbind (wrap_location em lat_cor lon_cor) (\<lambda>(lat1, lon1). Inr (height, lat1, lon1))))))))))))"

section \<open>geolocate_lrm.py\<close>

text \<open>What the loop stores for one record: height and location, and, with a slope correction, its POCA.\<close>

record lrm_rec =
  lr_height :: fl
  lr_lat :: fl
  lr_lon :: fl
  lr_poca :: "(fl \<times> fl) option"

definition lrm_record ::
  "np_err \<Rightarrow> lrm_env \<Rightarrow> config \<Rightarrow> slope_model list \<Rightarrow> string \<Rightarrow> fl \<Rightarrow> fl \<Rightarrow> fl \<Rightarrow> bool res \<Rightarrow> fl res \<Rightarrow> lrm_rec res" where
  "lrm_record em le cfg slope slp_model_file lat lon alt grounded rng =
     (let nadir = (\<lambda>h. rbind (np_mod360 em [lon]) (\<lambda>l. Inr \<lparr>lr_height = h, lr_lat = lat, lr_lon = hd l, lr_poca = None\<rparr>)) in
      rbind grounded (\<lambda>g. rbind rng (\<lambda>range_1.
        if \<not> g then rbind (npf_sub em alt range_1) nadir
        else if \<not> is_finite range_1 then nadir NaN
        else
          rbind (cnumber cfg ''geophysical'' ''eccentricity'') (\<lambda>ecc. rbind (cnumber cfg ''geophysical'' ''earth_semi_major'') (\<lambda>a.
          rbind (do_slope em le lat lon alt slope slp_model_file ecc a) (\<lambda>r. case r of
             None \<Rightarrow> nadir NaN
           | Some (att, azimuth, meridional, zonal) \<Rightarrow>
               rbind (proc_elev em le lat lon alt range_1 att azimuth meridional zonal) (\<lambda>(height, lat_cor, lon_cor).
                 let plat = ma_degrees le lat_cor; plon = ma_degrees le lon_cor in
                 Inr \<lparr>lr_height = height, lr_lat = plat, lr_lon = plon, lr_poca = Some (plat, plon)\<rparr>)))))))"

definition geolocate_lrm ::
  "'a geo_env_scheme \<Rightarrow> lrm_env \<Rightarrow> config \<Rightarrow> dataset \<Rightarrow> bool list \<Rightarrow> fl list \<Rightarrow> (fl list \<times> fl list \<times> fl list) res" where
  "geolocate_lrm env le cfg l1b grounded range_cor =
     (let em = np_mode env in
      rbind (rbind (cget2 cfg ''slope_models'' ''model_file'') cstring) (\<lambda>slp_model_file.
      rbind (getitem_floats l1b ''alt_20_ku'') (\<lambda>alts.
      rbind (prepare_slope le slp_model_file) (\<lambda>slope.
      rbind (getitem_floats l1b ''lat_20_ku'') (\<lambda>lats. rbind (getitem_floats l1b ''lon_20_ku'') (\<lambda>lons.
      rbind (rmapM (\<lambda>i. rbind (arr_at lats i) (\<lambda>lat. rbind (arr_at lons i) (\<lambda>lon.
          lrm_record em le cfg slope slp_model_file lat lon (alts ! i) (arr_at grounded i) (arr_at range_cor i))))
        [0..<length alts]) (\<lambda>recs.
        let heights = map lr_height recs; idx = np_where (\<lambda>r. lr_poca r \<noteq> None) recs in
        rbind (doppler_at env cfg l1b lats lons alts (map lr_lat recs) (map lr_lon recs) heights idx) (\<lambda>final.
          Inr (final, map lr_lat recs, map lr_lon recs)))))))))"

section \<open>alg_geolocate_lrm\<close>

definition init_geolocate_lrm :: "lrm_env \<Rightarrow> config \<Rightarrow> (bool \<times> string) res" where
  "init_geolocate_lrm le cfg =
     rbind (rbind (cget2 cfg ''slope_models'' ''model_file'') cstring) (\<lambda>f.
       Inr (if lm_isfile le f then (True, []) else (False, ''slope model file: '' @ f @ '' not found'')))"

definition geolocate_lrm_alg :: "'a geo_env_scheme \<Rightarrow> lrm_env \<Rightarrow> config \<Rightarrow> dataset \<Rightarrow> shared \<Rightarrow> alg_out" where
  "geolocate_lrm_alg env le cfg l1b sd =
     rbind (dget sd ''instr_mode'') (\<lambda>mode.
       if mode \<noteq> SStr ''LRM'' then Inr ((True, ''algorithm skipped as not LRM file''), sd)
       else
         rbind (sget_grounded sd) (\<lambda>grounded. rbind (sget_floats sd ''range_cor_20_ku'') (\<lambda>rng.
         rbind (geolocate_lrm env le cfg l1b grounded rng) (\<lambda>r. store_geolocation (np_mode env) l1b r sd))))"

definition alg_geolocate_lrm :: "'a geo_env_scheme \<Rightarrow> lrm_env \<Rightarrow> alg_class" where
  "alg_geolocate_lrm env le = \<lparr>cls_name = ''clev2er.algorithms.cryotempo.alg_geolocate_lrm'',
     cls_init = (\<lambda>cfg. rbind (init_geolocate_lrm le cfg) (\<lambda>r.
       Inr (r, \<lparr>impl_body = geolocate_lrm_alg env le cfg, impl_finalize = (\<lambda>stage. Inr ())\<rparr>)))\<rparr>"

interpretation geolocate_lrm: chain_algorithm "geolocate_lrm_alg env le cfg"
    "{''lat_poca_20_ku'', ''lon_poca_20_ku'', ''height_20_ku'', ''latitudes'', ''longitudes''}"
  by (unfold_locales, erule framesD [rotated], unfold geolocate_lrm_alg_def store_geolocation_def, intro frame_intros)
    (auto intro!: agree_off_dset)

section \<open>Laws\<close>

lemma grid_index_bound:
  fixes n m x y :: int
  assumes "0 \<le> n" "n < x" "0 \<le> m" "m < y"
  shows "0 \<le> n * y + m \<and> n * y + m < x * y"
proof -
  have "(n + 1) * y \<le> x * y" using assms by (intro mult_right_mono) auto
  then show ?thesis using assms by (auto simp: distrib_right)
qed

lemma setup_slopes_found:
  assumes "setup_slopes x y hemi slps = Inr (Some (slp, m, n, p, q))"
  shows "slp \<in> set slps \<and> sm_hemisphere slp = hemi \<and> 0 < n \<and> n < sm_x_num slp - 1 \<and> 0 < m \<and> m < sm_y_num slp - 1"
  using assms by (induction slps) (auto simp: rbind_eq_Inr Let_def split: if_splits)

text \<open>C31: The model that \<^verbatim>\<open>setup_slopes\<close> finds belongs to the hemisphere of the point, and the six grid points that
  \<^verbatim>\<open>interp_slope\<close> reads for the cell it returns lie within the grid of that model in the file.\<close>

theorem slope_reads_in_grid:
  assumes "setup_slopes x y hemi slps = Inr (Some (slp, m, n, p, q))"
  shows "slp \<in> set slps \<and> sm_hemisphere slp = hemi \<and>
    (\<forall>(k, weight)\<in>set (slope_stencil (sm_y_num slp) n m p q). 0 \<le> k \<and> k < sm_x_num slp * sm_y_num slp)"
proof -
  note found = setup_slopes_found [OF assms]
  note [simp] = grid_index_bound [of _ "sm_x_num slp" _ "sm_y_num slp"]
  show ?thesis using found by (auto simp: slope_stencil_def Let_def)
qed

definition wit_slope :: slope_model where
  "wit_slope = \<lparr>sm_id = 1, sm_hemisphere = 2, sm_corner_x = Fin 0, sm_corner_y = Fin 0, sm_x_num = 5, sm_y_num = 5,
     sm_resolution = Fin 1, sm_offset = 0\<rparr>"

lemma slope_reads_in_grid_witness:
  "setup_slopes (Fin 2) (Fin 3) 2 [wit_slope] = Inr (Some (wit_slope, 3, 2, Fin 0, Fin 0)) \<and>
    list_all (\<lambda>k. 0 \<le> k \<and> k < 25) (map fst (slope_stencil 5 2 3 (Fin 0) (Fin 0)))"
proof -
  have run: "setup_slopes (Fin 2) (Fin 3) 2 [wit_slope] = Inr (Some (wit_slope, 3, 2, Fin 0, Fin 0))" by code_simp
  have dims: "sm_x_num wit_slope = 5" "sm_y_num wit_slope = 5" by (simp_all add: wit_slope_def)
  show ?thesis using slope_reads_in_grid [OF run] run by (simp add: dims list_all_iff split_def)
qed

end
