(* ===== verification/Geolocate_Lepta.thy ===== *)
theory Geolocate_Lepta
  imports Geolocate_Roemer
begin

text \<open>
  \<^verbatim>\<open>geolocate_lepta.py\<close> and \<^verbatim>\<open>alg_geolocate_lepta\<close>: the POCA of an LRM measurement from the points of an elevation model
  whose range falls on the leading edge of the waveform. Distances, decimal years, heights and locations are those of the
  Roemer method, whose definitions are used here. Statistics of float32 arrays are parameters, in the record \<open>lepta_env\<close>.
\<close>

section \<open>Parameters\<close>

record lepta_env =
  lp_mean32 :: "fl list \<Rightarrow> fl res"
  lp_median32 :: "fl list \<Rightarrow> fl res"
  lp_nanmedian32 :: "fl list list \<Rightarrow> fl res"

record lepta_cfg =
  lc_ref_bin :: fl
  lc_bin_size :: fl
  lc_beam_width :: fl
  lc_plf_size :: fl
  lc_around_point :: bool
  lc_full_edge :: bool
  lc_delta :: fl
  lc_xy_at_min :: bool
  lc_mean_xy :: bool
  lc_mean_z :: bool
  lc_median_z :: bool
  lc_z_at_min :: bool
  lc_median_around :: bool
  lc_include_dhdt :: bool

definition lepta_config :: "config \<Rightarrow> lepta_cfg res" where
  "lepta_config cfg =
     (let q = ''lrm_lepta_geolocation''; ins = ''instrument'' in
      rbind (cnumber cfg ins ''ref_bin_index_lrm'') (\<lambda>rb. rbind (cnumber cfg ins ''range_bin_size_lrm'') (\<lambda>bs.
      rbind (cnumber cfg ins ''across_track_beam_width_lrm'') (\<lambda>bw. rbind (cnumber cfg ins ''pulse_limited_footprint_size_lrm'') (\<lambda>plf.
      rbind (cflag cfg q ''use_window_around_retracking_point'') (\<lambda>ap. rbind (cflag cfg q ''use_full_leading_edge'') (\<lambda>fe.
      rbind (cnumber cfg q ''delta_range_offset'') (\<lambda>dr. rbind (cflag cfg q ''use_xy_at_min_dem_to_sat_distance'') (\<lambda>xm.
      rbind (cflag cfg q ''use_mean_xy_in_window'') (\<lambda>mx. rbind (cflag cfg q ''use_mean_z_in_window'') (\<lambda>mz.
      rbind (cflag cfg q ''use_median_z_in_window'') (\<lambda>dz. rbind (cflag cfg q ''use_z_at_min_dem_to_sat_distance'') (\<lambda>zm.
      rbind (cflag cfg q ''use_median_height_around_point'') (\<lambda>ma. rbind (cflag cfg q ''include_dhdt_correction'') (\<lambda>dhdt.
        Inr \<lparr>lc_ref_bin = rb, lc_bin_size = bs, lc_beam_width = bw, lc_plf_size = plf, lc_around_point = ap, lc_full_edge = fe,
          lc_delta = dr, lc_xy_at_min = xm, lc_mean_xy = mx, lc_mean_z = mz, lc_median_z = dz, lc_z_at_min = zm,
          lc_median_around = ma, lc_include_dhdt = dhdt\<rparr>)))))))))))))))"

section \<open>The median height around a point\<close>

text \<open>\<^verbatim>\<open>np.where(mask)[0]\<close> of a two-dimensional mask: the row of every cell that is set, so a row may occur several times.\<close>

definition where_rows :: "(fl \<Rightarrow> bool) \<Rightarrow> fl list list \<Rightarrow> nat list" where
  "where_rows p rows = concat (map (\<lambda>i. replicate (length (filter p (rows ! i))) i) [0..<length rows])"

text \<open>\<open>None\<close> is stored in the array of heights as NaN.\<close>

definition median_dem_height_around_a_point ::
  "np_err \<Rightarrow> grid_env \<Rightarrow> lepta_env \<Rightarrow> grid \<Rightarrow> fl \<Rightarrow> fl \<Rightarrow> fl \<Rightarrow> fl option res" where
  "median_dem_height_around_a_point em genv lenv dem xpos ypos plf =
     rbind (bounds_around em xpos ypos (fl_add (fl_div plf (Fin 2)) (g_binsize dem))) (\<lambda>bounds.
       case get_segment genv dem bounds True False of
         Inl e \<Rightarrow> Inr None
       | Inr (xv, yv, zv) \<Rightarrow>
           rbind (as_rows zv) (\<lambda>(c, zdem).
             let good = where_rows (\<lambda>z. z \<noteq> NaN) zdem in
             if good = [] then Inr None
             else
               rbind (gather zdem good) (\<lambda>z1.
                 let valid = where_rows (\<lambda>z. fl_lt z (Fin 5000)) z1 in
                 if valid = [] then Inr None
                 else rbind (gather z1 valid) (\<lambda>z2. rbind (lp_nanmedian32 lenv z2) (\<lambda>v. Inr (Some v))))))"

section \<open>The range window\<close>

definition range_window :: "fl \<Rightarrow> fl \<Rightarrow> fl list \<Rightarrow> nat list" where
  "range_window lo hi = np_where (\<lambda>d. fl_le lo d \<and> fl_le d hi)"

text \<open>The points on the leading edge, or around the retracking point; an empty window around the retracking point is
  moved to the nearest point.\<close>

definition lepta_window ::
  "np_err \<Rightarrow> lepta_cfg \<Rightarrow> fl res \<Rightarrow> fl res \<Rightarrow> fl res \<Rightarrow> fl \<Rightarrow> fl list \<Rightarrow> nat list res" where
  "lepta_window em lc le_start le_stop retr trange dists =
     (if lc_full_edge lc then
        rbind (fsub em (Inr trange) (fmul em (fsub em (Inr (lc_ref_bin lc)) le_start) (Inr (lc_bin_size lc)))) (\<lambda>lo.
        rbind (fadd em (Inr trange) (fmul em (fsub em le_stop (Inr (lc_ref_bin lc))) (Inr (lc_bin_size lc)))) (\<lambda>hi.
          Inr (range_window lo hi dists)))
      else if lc_around_point lc then
        rbind (fadd em (Inr trange) retr) (\<lambda>r.
        rbind (npf_sub em r (lc_delta lc)) (\<lambda>lo. rbind (npf_add em r (lc_delta lc)) (\<lambda>hi.
          if range_window lo hi dists \<noteq> [] then Inr (range_window lo hi dists)
          else
            rbind (np_min dists) (\<lambda>closest. rbind (npf_sub em closest lo) (\<lambda>diff.
            rbind (npf_add em lo diff) (\<lambda>lo1. rbind (npf_add em hi diff) (\<lambda>hi1. Inr (range_window lo1 hi1 dists))))))))
      else Inl (ValueError ''No LEPTA window method selected''))"

section \<open>The POCA\<close>

text \<open>Location, and the index of the nearest point if it was determined. The index of \<^verbatim>\<open>np.argmin\<close> is always in range, so
  the tests of the code for the contrary are left out.\<close>

definition lepta_xy :: "'a geo_env_scheme \<Rightarrow> lepta_cfg \<Rightarrow> fl list \<Rightarrow> fl list \<Rightarrow> fl list \<Rightarrow> (fl \<times> fl \<times> nat option) res" where
  "lepta_xy env lc xs ys dists =
     (if lc_mean_xy lc then rbind (np_mean env xs) (\<lambda>x. rbind (np_mean env ys) (\<lambda>y. Inr (x, y, None)))
      else if lc_xy_at_min lc then
        rbind (np_argmin dists) (\<lambda>k. rbind (arr_at xs k) (\<lambda>x. rbind (arr_at ys k) (\<lambda>y. Inr (x, y, Some k))))
      else Inl (ValueError ''no method selected for LEPTA POCA(x,y)''))"

definition lepta_z ::
  "np_err \<Rightarrow> grid_env \<Rightarrow> lepta_env \<Rightarrow> lepta_cfg \<Rightarrow> grid \<Rightarrow> fl list \<Rightarrow> fl list \<Rightarrow> fl \<times> fl \<times> nat option \<Rightarrow> fl res" where
  "lepta_z em genv lenv lc dem zs dists xy =
     (let (x, y, closest) = xy in
      if lc_mean_z lc then lp_mean32 lenv zs
      else if lc_median_z lc then lp_median32 lenv zs
      else if lc_z_at_min lc then rbind (case closest of Some k \<Rightarrow> Inr k | None \<Rightarrow> np_argmin dists) (arr_at zs)
      else if lc_median_around lc then
        rbind (median_dem_height_around_a_point em genv lenv dem x y (lc_plf_size lc)) (\<lambda>v.
          Inr (case v of None \<Rightarrow> NaN | Some z \<Rightarrow> z))
      else Inl (ValueError ''no method selected for LEPTA POCA(z)''))"

section \<open>Records\<close>

text \<open>The body of the loop over the records; \<open>start\<close> and \<open>stop\<close> are the leading edge.\<close>

definition lepta_record ::
  "'a geo_env_scheme \<Rightarrow> grid_env \<Rightarrow> roemer_env \<Rightarrow> lepta_env \<Rightarrow> lepta_cfg \<Rightarrow> config \<Rightarrow> grid \<Rightarrow> dhdt option \<Rightarrow> fl \<Rightarrow>
     bool \<Rightarrow> fl \<Rightarrow> fl res \<Rightarrow> fl res \<Rightarrow> fl res \<Rightarrow> fl res \<Rightarrow> fl \<Rightarrow> fl \<Rightarrow> fl \<Rightarrow> roemer_rec res" where
  "lepta_record env genv renv lenv lc cfg dem dh years incl trange retr start stop h0 nx ny alt =
     (let r = roemer_start nx ny; em = np_mode env; half = fl_div (lc_beam_width lc) (Fin 2) in
      if \<not> incl then Inr r
      else
        rbind (bounds_around em nx ny (fl_add half (g_binsize dem))) (\<lambda>bounds.
          case get_segment genv dem bounds True False of
            Inl e \<Rightarrow> Inr (r\<lparr>rr_ok := False\<rparr>)
          | Inr (xv, yv, zv) \<Rightarrow>
              rbind (as_rows xv) (\<lambda>(_, xdem). rbind (as_rows yv) (\<lambda>(_, ydem). rbind (as_rows zv) (\<lambda>(_, zdem).
              rbind (cflag cfg ''lrm_lepta_geolocation'' ''median_filter'') (\<lambda>median.
              rbind (if median then ro_median_filter renv 3 zdem else Inr zdem) (\<lambda>smoothed.
              rbind h0 (\<lambda>height.
              rbind (calculate_distances3d env (ro_sq32 renv) nx ny height (concat xdem) (concat ydem) (concat smoothed) False) (\<lambda>dists.
              rbind (near_points (\<lambda>z. fl_lt z (Fin 5000)) half dists (concat xdem) (concat ydem) (concat smoothed)) (\<lambda>near. case near of
                  None \<Rightarrow> Inr (r\<lparr>rr_ok := False\<rparr>)
                | Some (xs, ys, zs) \<Rightarrow>
                    rbind (dhdt_corrected em genv (ro_add32 renv) dh (lc_include_dhdt lc) years xs ys zs) (\<lambda>zc.
                    rbind (calculate_distances3d env (ro_sq32 renv) nx ny alt xs ys zc False) (\<lambda>sat_dists.
                    rbind (lepta_window em lc start stop retr trange sat_dists) (\<lambda>idx.
                      if idx = [] then Inr (r\<lparr>rr_ok := False\<rparr>)
                      else
                        rbind (gather xs idx) (\<lambda>xw. rbind (gather ys idx) (\<lambda>yw. rbind (gather zc idx) (\<lambda>zw.
                        rbind (gather sat_dists idx) (\<lambda>dw.
                        rbind (lepta_xy env lc xw yw dw) (\<lambda>xy. rbind (lepta_z em genv lenv lc dem zw dw xy) (\<lambda>z.
                          let x = fst xy; y = fst (snd xy) in
                          rbind (calculate_distances3d env (sq_diff env) nx ny alt [x] [y] [z] False) (\<lambda>d.
                          rbind (fsub em (fadd em (py_index d 0) (Inr z)) (Inr alt)) (\<lambda>correction.
                            Inr (r\<lparr>rr_x := x, rr_y := y, rr_slope := correction\<rparr>))))))))))))))))))))))"

text \<open>\<^verbatim>\<open>leading_edge_start[i][0]\<close>\<close>

definition first_of :: "fl list list \<Rightarrow> nat \<Rightarrow> fl res" where
  "first_of xss i = rbind (arr_at xss i) (\<lambda>xs. py_index xs 0)"

definition lepta_points ::
  "'a geo_env_scheme \<Rightarrow> grid_env \<Rightarrow> roemer_env \<Rightarrow> lepta_env \<Rightarrow> lepta_cfg \<Rightarrow> config \<Rightarrow> grid \<Rightarrow> dhdt option \<Rightarrow> dataset \<Rightarrow>
     fl list \<Rightarrow> fl list \<Rightarrow> fl list list \<Rightarrow> fl list list \<Rightarrow> fl list \<Rightarrow> fl list \<Rightarrow> fl list \<Rightarrow> bool list \<Rightarrow> roemer_rec list res" where
  "lepta_points env genv renv lenv lc cfg dem dh l1b trange retr start stop lats lons alts incl =
     rbind (to_xy genv dem lats lons True) (\<lambda>(nadir_x, nadir_y).
     rbind (interp_dem genv dem nadir_x nadir_y ''linear'' False) (\<lambda>heights_at_nadir.
     rbind (year_difference_of cfg dem l1b (lc_include_dhdt lc)) (\<lambda>years.
     rbind (long_enough (length nadir_x) [length incl, length trange, length alts]) (\<lambda>_.
       rmapM (\<lambda>i. lepta_record env genv renv lenv lc cfg dem dh years (incl ! i) (trange ! i) (arr_at retr i) (first_of start i)
         (first_of stop i) (arr_at heights_at_nadir i) (nadir_x ! i) (nadir_y ! i) (alts ! i)) [0..<length nadir_x]))))"

definition geolocate_lepta ::
  "'a geo_env_scheme \<Rightarrow> grid_env \<Rightarrow> roemer_env \<Rightarrow> lepta_env \<Rightarrow> config \<Rightarrow> grid option \<Rightarrow> dhdt option \<Rightarrow> dataset \<Rightarrow>
     bool list \<Rightarrow> fl list \<Rightarrow> fl list \<Rightarrow> fl list list \<Rightarrow> fl list list \<Rightarrow> bool list \<Rightarrow> roemer_out res" where
  "geolocate_lepta env genv renv lenv cfg thisdem dh l1b grounded trange retr start stop incl =
     (case thisdem of
        None \<Rightarrow> Inl (ValueError ''thisdem None value passed'')
      | Some dem \<Rightarrow>
          rbind (lepta_config cfg) (\<lambda>lc. rbind (getitem_floats l1b ''lat_20_ku'') (\<lambda>lats.
          rbind (rbind (getitem_floats l1b ''lon_20_ku'') (np_mod360 (np_mode env))) (\<lambda>lons.
          rbind (getitem_floats l1b ''alt_20_ku'') (\<lambda>alts.
          rbind (lepta_points env genv renv lenv lc cfg dem dh l1b trange retr start stop lats lons alts incl)
            (slope_results env renv cfg ''lrm_lepta_geolocation'' dem l1b lats lons alts grounded trange retr))))))"

section \<open>alg_geolocate_lepta\<close>

record lepta_dems =
  ld_ant :: "grid option"
  ld_grn :: grid
  ld_dhdt_grn :: "dhdt option"

definition init_geolocate_lepta :: "grid_env \<Rightarrow> dhdt_env \<Rightarrow> config \<Rightarrow> gshm \<Rightarrow> (lepta_dems \<times> gshm) res" where
  "init_geolocate_lepta genv denv cfg sh =
     (let q = ''lrm_lepta_geolocation'';
          load = (\<lambda>k sh. rbind (cget2 cfg q k) (\<lambda>v. case v of
             CStr name \<Rightarrow> dem_new genv name True (Some cfg) None (dhas cfg ''_init_shared_mem'') sh
           | _ \<Rightarrow> Inl (ValueError ''DEM name not in allowed list''))) in
      rbind (if opt_flag cfg ''grn_only'' then Inr (None, sh)
             else rbind (load ''antarctic_dem'' sh) (\<lambda>(g, sh1). Inr (Some g, sh1))) (\<lambda>(ant, sh1).
      rbind (load ''greenland_dem'' sh1) (\<lambda>(grn, sh2).
      rbind (cflag cfg q ''include_dhdt_correction'') (\<lambda>b.
      rbind (if b then
               rbind (rbind (cget2 cfg q ''dhdt_grn_name'') (\<lambda>v. case v of
                  CStr name \<Rightarrow> dhdt_new denv name (Some cfg) None
                | _ \<Rightarrow> Inl (ValueError ''Dh/dt name not in allowed list''))) (\<lambda>d. Inr (Some d))
             else Inr None) (\<lambda>d.
        Inr (\<lparr>ld_ant = ant, ld_grn = grn, ld_dhdt_grn = d\<rparr>, sh2))))))"

definition sget_lists :: "shared \<Rightarrow> string \<Rightarrow> fl list list res" where
  "sget_lists sd k = rbind (dget sd k) (\<lambda>v. case v of SLists xss \<Rightarrow> Inr xss | _ \<Rightarrow> Inl (TypeError ''list expected''))"

text \<open>\<^verbatim>\<open>process\<close> does not test the mode. As in \<open>store_geolocation\<close>, \<^verbatim>\<open>latitudes\<close> is the array of the POCA latitudes.\<close>

definition geolocate_lepta_alg ::
  "'a geo_env_scheme \<Rightarrow> grid_env \<Rightarrow> roemer_env \<Rightarrow> lepta_env \<Rightarrow> config \<Rightarrow> lepta_dems \<Rightarrow> dataset \<Rightarrow> shared \<Rightarrow> alg_out" where
  "geolocate_lepta_alg env genv renv lenv cfg dems l1b sd =
     rbind (dget sd ''hemisphere'') (\<lambda>hem.
       let (dem, dh) = (if hem = SStr ''south'' then (ld_ant dems, None) else (Some (ld_grn dems), ld_dhdt_grn dems)) in
       rbind (sget_grounded sd) (\<lambda>grounded. rbind (sget_floats sd ''geo_corrected_tracker_range'') (\<lambda>trange.
       rbind (sget_floats sd ''retracker_correction'') (\<lambda>retr. rbind (sget_lists sd ''leading_edge_start'') (\<lambda>start.
       rbind (sget_lists sd ''leading_edge_stop'') (\<lambda>stop. rbind (rbind (dget sd ''waveforms_to_include'') as_bools) (\<lambda>incl.
       rbind (geolocate_lepta env genv renv lenv cfg dem dh l1b grounded trange retr start stop incl) (\<lambda>out.
         let failed = np_where (\<lambda>x. x = NaN) (ro_lat out) in
         rbind (np_mod360 (np_mode env) (ro_lon out)) (\<lambda>lon_360.
         rbind (if failed = [] then Inr (ro_lat out) else nadir_where failed l1b ''lat_20_ku'' (ro_lat out)) (\<lambda>latitudes.
         rbind (if failed = [] then Inr (ro_lon out) else nadir_where failed l1b ''lon_20_ku'' (ro_lon out)) (\<lambda>longitudes.
           pass (dset (dset (dset (dset (dset (dset sd ''lat_poca_20_ku'' (SF latitudes)) ''lon_poca_20_ku'' (SF lon_360))
             ''height_20_ku'' (SF (ro_height out))) ''lepta_slope_ok'' (SB (ro_slope_ok out))) ''latitudes'' (SF latitudes))
             ''longitudes'' (SF longitudes)))))))))))))"

definition finalize_geolocate_lepta :: "lepta_dems \<Rightarrow> gshm \<Rightarrow> gshm" where
  "finalize_geolocate_lepta dems sh =
     fold (\<lambda>d s. case d of None \<Rightarrow> s | Some g \<Rightarrow> snd (grid_clean_up g s)) [ld_ant dems, Some (ld_grn dems)] sh"

definition alg_geolocate_lepta ::
  "'a geo_env_scheme \<Rightarrow> grid_env \<Rightarrow> roemer_env \<Rightarrow> lepta_env \<Rightarrow> dhdt_env \<Rightarrow> gshm \<Rightarrow> alg_class" where
  "alg_geolocate_lepta env genv renv lenv denv sh = \<lparr>cls_name = ''clev2er.algorithms.cryotempo.alg_geolocate_lepta'',
     cls_init = (\<lambda>cfg. rbind (init_geolocate_lepta genv denv cfg sh) (\<lambda>(dems, sh1).
       Inr ((True, []), \<lparr>impl_body = geolocate_lepta_alg env genv renv lenv cfg dems,
         impl_finalize = (\<lambda>stage. map_sum id (\<lambda>_. ()) (Inr (finalize_geolocate_lepta dems sh1)))\<rparr>)))\<rparr>"

interpretation geolocate_lepta: chain_algorithm "geolocate_lepta_alg env genv renv lenv cfg dems"
    "{''lat_poca_20_ku'', ''lon_poca_20_ku'', ''height_20_ku'', ''lepta_slope_ok'', ''latitudes'', ''longitudes''}"
  by (unfold_locales, erule framesD [rotated], unfold geolocate_lepta_alg_def Let_def, intro frame_intros)
    (auto intro!: agree_off_dset)

section \<open>Laws\<close>

lemma lepta_points_record:
  assumes "lepta_points env genv renv lenv lc cfg dem dh l1b trange retr start stop lats lons alts incl = Inr recs"
  shows "length recs = length lats \<and> (\<forall>i<length lats. \<not> incl ! i \<longrightarrow> rr_ok (recs ! i) \<and> rr_slope (recs ! i) = NaN)"
proof -
  from assms obtain nx ny hn years where xy: "to_xy genv dem lats lons True = Inr (nx, ny)"
    and recs: "rmapM (\<lambda>i. lepta_record env genv renv lenv lc cfg dem dh years (incl ! i) (trange ! i) (arr_at retr i) (first_of start i)
      (first_of stop i) (arr_at hn i) (nx ! i) (ny ! i) (alts ! i)) [0..<length nx] = Inr recs"
    by (auto simp: lepta_points_def rbind_eq_Inr)
  have len: "length nx = length lats" using to_xy_length [OF xy] .
  have "recs ! i = roemer_start (nx ! i) (ny ! i)" if "i < length lats" "\<not> incl ! i" for i
    using rmapM_nth [OF recs, of i] that len by (simp add: lepta_record_def)
  then show ?thesis using rmapM_length [OF recs] len by (simp add: roemer_start_def)
qed

interpretation lepta_method: slope_method
    "\<lambda>lats lons alts incl. lepta_points env genv renv lenv lc cfg dem dh l1b trange retr start stop lats lons alts incl"
  by unfold_locales (erule lepta_points_record)

text \<open>The results of the LEPTA method satisfy the same laws as those of the Roemer method.\<close>

lemma lepta_results:
  assumes run: "geolocate_lepta env genv renv lenv cfg (Some dem) dh l1b grounded trange retr start stop incl = Inr out"
    and lats: "getitem_floats l1b ''lat_20_ku'' = Inr lats"
    and lons: "rbind (getitem_floats l1b ''lon_20_ku'') (np_mod360 (np_mode env)) = Inr lons"
  shows "length (ro_height out) = length lats \<and> length (ro_slope_ok out) = length lats \<and> (\<forall>i<length lats.
    (\<not> ro_slope_ok out ! i \<longrightarrow> ro_lat out ! i = lats ! i \<and> ro_lon out ! i = lons ! i \<and> ro_height out ! i = NaN) \<and>
    (is_finite (ro_height out ! i) \<longrightarrow> ro_slope_ok out ! i \<and> is_finite (trange ! i) \<and> grounded ! i \<and> incl ! i) \<and>
    (\<not> incl ! i \<longrightarrow> ro_slope_ok out ! i))"
proof -
  from run lats lons obtain lc alts recs where
      "lepta_points env genv renv lenv lc cfg dem dh l1b trange retr start stop lats lons alts incl = Inr recs"
      "slope_results env renv cfg ''lrm_lepta_geolocation'' dem l1b lats lons alts grounded trange retr recs = Inr out"
    unfolding geolocate_lepta_def option.case rbind_eq_Inr by auto
  then show ?thesis by (rule lepta_method.results)
qed

end
