(* ===== verification/Spec2Isabelle.thy ===== *)
theory Spec2Isabelle
  imports Main_Chain Algs_Height Product Geolocate_Lrm Geolocate_Lepta
begin

text \<open>
  Verification of the CLEV2ER land-ice chain (Cryo-TEMPO), which turns CryoSat-2 level-1b files into level-2 products.

  \<^bold>\<open>The program.\<close> A run starts in \<^verbatim>\<open>tools/run_chain.py\<close>: \<^verbatim>\<open>main\<close> checks the command line, loads two configuration files and an
  ordered list of algorithms, selects input files and calls \<^verbatim>\<open>run_chain\<close>. That function imports the algorithms, creates
  one object per algorithm, applies the list to every file (in one process, or in sets of child processes) and finalizes
  the objects. An algorithm is a class with \<^verbatim>\<open>init\<close>, \<^verbatim>\<open>process\<close> and \<^verbatim>\<open>finalize\<close>; the algorithms of a file communicate only through
  the open netCDF file, which they read, and the dictionary \<^verbatim>\<open>shared_dict\<close>, which they extend. Elevation models, slope grids
  and masks are large arrays that \<^verbatim>\<open>init\<close> loads and may keep in shared memory for the child processes.

  \<^bold>\<open>Conventions.\<close> A Python function is a HOL function into \<open>'a res\<close>, that is \<open>py_error + 'a\<close>: \<open>Inl\<close> is the exception raised, \<open>Inr\<close>
  the value, and \<open>rbind\<close> is the sequence of two statements. \<open>cval\<close> and \<open>sval\<close> are the values of configurations and of \<^verbatim>\<open>shared_dict\<close>;
  dictionaries are association lists in insertion order. A float (\<open>fl\<close>) is NaN, an infinity or a rational number, and an operation is the exact result rounded to binary64;
  the sign of zero is not modelled. numpy's operations take the error mode set by \<^verbatim>\<open>np.seterr\<close> (\<open>np_err\<close>), because in the mode
  \<^verbatim>\<open>raise\<close>, which the retrackers set, an overflow or invalid operation is an exception. uint8 and uint64 arrays are lists of words.
  Third-party code (netCDF4, scipy, pyproj, pandas, matplotlib's image reader), elementary functions, the file system,
  the environment and the clock are fields of records that are arguments of the definitions (\<open>chain_env\<close>, \<open>np_env\<close>, \<open>mask_env\<close>,
  \<open>grid_env\<close>, \<open>geo_env\<close>, \<open>product_env\<close> and others); a theorem that relies on their documented behaviour states it as
  a named predicate, with a witness on concrete functions. Log messages and timing are left out.

  \<^bold>\<open>Theories.\<close>
  \<^item> \<open>Prelude\<close>: exceptions, results, strings, lists and numpy's index operations. \<open>Float64\<close>: binary64. \<open>Np_Float\<close>: numpy's arithmetic. \<open>PyVal\<close>: values and dictionaries.
    \<open>Py_Time\<close>: dates, and \<^verbatim>\<open>utils/time/grain.py\<close> (leap seconds).
  \<^item> \<open>Base_Alg\<close>: \<^verbatim>\<open>algorithms/base\<close>. Its locale \<open>chain_algorithm\<close> is the contract of a \<^verbatim>\<open>process\<close> body, that it changes only the
    keys it documents; every algorithm interprets it.
  \<^item> \<open>Run_Chain\<close>, \<open>Run_Chain_Props\<close>, \<open>Breakpoints\<close>: \<^verbatim>\<open>run_chain\<close>, \<^verbatim>\<open>run_chain_on_single_file\<close> and \<^verbatim>\<open>utils/breakpoints\<close>. The specification
    is \<open>spec_file\<close>, what a list of stateless algorithm bodies does to one file; both branches of the controller refine it.
  \<^item> \<open>Load_Config\<close>, \<open>Finders\<close>, \<open>Log_Files\<close>, \<open>Main_Chain\<close>: \<^verbatim>\<open>utils/config\<close>, \<^verbatim>\<open>utils/xml\<close>, \<^verbatim>\<open>find_sin.py\<close>, \<^verbatim>\<open>find_lrm.py\<close>, the merging of log files and \<^verbatim>\<open>main\<close>.
  \<^item> \<open>Masks\<close>, \<open>Algs_Input\<close>, \<open>Algs_Masks\<close>: \<^verbatim>\<open>utils/masks/masks.py\<close>; \<^verbatim>\<open>alg_identify_file\<close>, \<^verbatim>\<open>alg_skip_on_mode\<close>, \<^verbatim>\<open>alg_skip_on_area_bounds\<close>;
    \<^verbatim>\<open>alg_surface_type\<close>, \<^verbatim>\<open>alg_dilated_coastal_mask\<close>, \<^verbatim>\<open>alg_basin_ids\<close>.
  \<^item> \<open>Algs_Corrections\<close>: the two tide corrections and \<^verbatim>\<open>alg_geo_corrections\<close>.
  \<^item> \<open>Waveform_QC\<close>, \<open>Fastsmooth\<close>, \<open>Retrackers\<close>, \<open>Algs_Retrack\<close>: \<^verbatim>\<open>waveform_qc_checks.py\<close>, the two retrackers, \<^verbatim>\<open>alg_retrack\<close>, \<^verbatim>\<open>alg_backscatter\<close>.
    The locale \<open>point_finder\<close> is what a retracker promises of its offsets, interpreted for both.
  \<^item> \<open>Grids\<close>, \<open>Dems\<close>, \<open>Slope_Grids\<close>, \<open>Dhdt_Grids\<close>: \<^verbatim>\<open>dems.py\<close>, \<^verbatim>\<open>slopes.py\<close>, \<^verbatim>\<open>roughness.py\<close> and \<^verbatim>\<open>dhdt.py\<close>. The locale \<open>grid_resource\<close> is the
    contract of shared memory (who creates a segment removes it), interpreted for the three classes that use it.
  \<^item> \<open>Algs_Height\<close>: \<^verbatim>\<open>alg_ref_dem\<close>, \<^verbatim>\<open>alg_filter_height\<close>, \<^verbatim>\<open>alg_uncertainty\<close>.
  \<^item> \<open>Sarin_Phase\<close>, \<open>Geolocate_Sin\<close>, \<open>Geolocate_Roemer\<close>, \<open>Geolocate_Lepta\<close>, \<open>Geolocate_Lrm\<close>: \<^verbatim>\<open>utils/cs2/geolocate\<close> and the four geolocation
    algorithms. The locale \<open>slope_method\<close> is the contract between the search for a point of closest approach and the computation of
    heights and locations, interpreted for the Roemer and the LEPTA method.
  \<^item> \<open>Product\<close>: \<^verbatim>\<open>alg_product_output\<close> and \<^verbatim>\<open>find_orbit_directions.py\<close>; the product file is the list of its attributes and variables.

  \<^bold>\<open>What is shown.\<close> Controller: a sequential run refines its specification per file, a parallel run reports the same counts,
  every file is in one process set, what a child that dies or never ends does to a parallel run, what ends a run early and what is
  finalized then, and that \<^verbatim>\<open>main\<close> processes every file unless an exception leaves it that the chain does not catch. Log files: the
  merged logs of a parallel run hold every line of the children once, file by file.
  Configuration: round trip of typed values, precedence of the two files, exactly which algorithms of a list are run.
  Data path: each algorithm's stored arrays, measurement by measurement (surface types, basins, corrections, included waveforms, retracked
  ranges, heights, locations, filtered heights, product variables), with failures and fill values, and which product file an exception
  leaves behind. Numerics: the running-sum smoothing, bin by bin, and the windowed interpolation equal their direct definitions, leap
  seconds and rounded times. Shared memory: life cycle of masks and grids.
  In this theory: two exceptions of algorithms that leave the chain and end a whole run.

  \<^bold>\<open>Loops.\<close> No definition has fuel. Two kinds of loops of the code may not end: the search for a leading edge and the shifting of a phase
  window by whole turns. Both are partial functions, where not returning is the value \<open>NonTermination\<close>; the first is shown
  to end always, the second for finite phases of moderate size. A run whose child process has this value has it too. All other loops are recursion on lists or ranges of indices.

  \<^bold>\<open>Not modelled.\<close> \<^verbatim>\<open>utils/areas\<close> and \<^verbatim>\<open>utils/backgrounds\<close> draw maps and take no part in a run. \<^verbatim>\<open>geotiff_to_zarr.py\<close>, \<^verbatim>\<open>shm.py\<close>,
  \<^verbatim>\<open>logging_funcs.py\<close> and \<^verbatim>\<open>uncertainty_preprocessing\<close> are scripts or set up libraries; \<^verbatim>\<open>testchain\<close> and \<^verbatim>\<open>alg_dump.py\<close> hold templates and debugging aids.
  Within modelled files: plots and the reading of L1b files inside the retrackers, \<^verbatim>\<open>load_npz_mask\<close>, \<^verbatim>\<open>gaussian_smooth\<close> and \<^verbatim>\<open>hillshade\<close> of the
  grids, and functions that nothing calls (the Jacobians of \<^verbatim>\<open>sarin_phase.py\<close>, \<^verbatim>\<open>replace_nan_with_median\<close>).
\<close>

section \<open>Exceptions that leave the chain\<close>

lemma pipeline_append:
  "pipeline bp pre nc sd = (sd', Inr LoopEnd) \<Longrightarrow> pipeline bp (pre @ algs) nc sd = pipeline bp algs nc sd'"
  by (induction bp pre nc sd rule: pipeline.induct) (auto split: sum.splits prod.splits if_splits)

text \<open>An exception that \<^verbatim>\<open>run_chain_on_single_file\<close> does not catch ends a sequential run: the remaining files
  are not processed and no algorithm is finalized.\<close>

lemma uncaught_ends_run:
  assumes mp: "cflag cs ''chain'' ''use_multi_processing'' = Inr False"
    and stop: "cflag cs ''chain'' ''stop_on_error'' = Inr False"
    and classes: "chain_classes env cs bp algs = Inr (pre @ cls # post)" "list_all (sound_class cs) (pre @ cls # post)"
    and ds: "\<And>f nc. env_open env f = Inr nc \<Longrightarrow> ds_isinstance nc"
    and before: "\<forall>g\<in>set done. \<exists>r. spec_file env cs (map (class_view cs) (pre @ cls # post)) bp g = Inr r"
    and opened: "env_open env f = Inr nc"
      "pipeline bp (map (class_view cs) pre) nc [(''l1b_file_name'', SStr f)] = (sd, Inr LoopEnd)"
      "impl_body (snd (class_view cs cls)) nc sd = Inl e" "\<not> caught e"
  shows "run_chain env cs (done @ f # rest) algs bp = Inl e"
proof -
  obtain name impl where cls: "class_view cs cls = (name, impl)" by (cases "class_view cs cls")
  have "spec_file env cs (map (class_view cs) (pre @ cls # post)) bp f = Inl e"
    using opened by (simp add: spec_file_def pipeline_append cls)
  moreover obtain rs where "rmapM (spec_file env cs (map (class_view cs) (pre @ cls # post)) bp) done = Inr rs"
    using rmapM_ex [OF before] by blast
  ultimately show ?thesis
    using run_chain_sequential [OF mp stop classes ds, where files = "done @ f # rest"] by (simp add: rmapM_append)
qed

lemma zero_waveforms_exit:
  assumes "nc_var nc ''pwr_waveform_20_ku'' = Inr pwr" "\<not> np_any pwr"
    and "nc_floats nc ''echo_scale_factor_20_ku'' = Inr fs" "nc_floats nc ''echo_scale_pwr_20_ku'' = Inr ss"
    and "nc_floats nc ''noise_power_20_ku'' = Inr ns"
    and "sarin_config cs = Inr sth" "lrm_config cs = Inr lth" "dget sd ''instr_mode'' = Inr mode"
  shows "waveform_quality env cs nc sd = Inl (SystemExit [])"
  using assms
  by (simp add: waveform_quality_def waveforms_ok_def sarin_waveform_qc_checks_def lrm_waveform_qc_checks_def qc_waveforms_def)

text \<open>C39: A file without power ends the whole run. If the waveforms of a file are all zero,
  \<^verbatim>\<open>alg_waveform_quality\<close> calls \<^verbatim>\<open>sys.exit()\<close>. In a sequential run of any chain that contains it, once the
  algorithms before it have succeeded on the file, the run ends there with \<^verbatim>\<open>SystemExit\<close>, whatever
  files are left.\<close>

theorem zero_waveforms_end_run:
  assumes mp: "cflag cs ''chain'' ''use_multi_processing'' = Inr False"
    and stop: "cflag cs ''chain'' ''stop_on_error'' = Inr False"
    and classes: "chain_classes env cs bp algs = Inr (pre @ alg_waveform_quality np # post)"
      "list_all (sound_class cs) (pre @ alg_waveform_quality np # post)"
    and ds: "\<And>f nc. env_open env f = Inr nc \<Longrightarrow> ds_isinstance nc"
    and before: "\<forall>g\<in>set done. \<exists>r. spec_file env cs (map (class_view cs) (pre @ alg_waveform_quality np # post)) bp g = Inr r"
    and opened: "env_open env f = Inr nc"
      "pipeline bp (map (class_view cs) pre) nc [(''l1b_file_name'', SStr f)] = (sd, Inr LoopEnd)"
      "dget sd ''instr_mode'' = Inr mode"
    and zero: "nc_var nc ''pwr_waveform_20_ku'' = Inr pwr" "\<not> np_any pwr"
    and l1b: "nc_floats nc ''echo_scale_factor_20_ku'' = Inr fs" "nc_floats nc ''echo_scale_pwr_20_ku'' = Inr ss"
      "nc_floats nc ''noise_power_20_ku'' = Inr ns"
    and conf: "sarin_config cs = Inr sth" "lrm_config cs = Inr lth"
  shows "run_chain env cs (done @ f # rest) algs bp = Inl (SystemExit [])"
proof (rule uncaught_ends_run [OF mp stop classes ds before opened(1,2)])
  show "impl_body (snd (class_view cs (alg_waveform_quality np))) nc sd = Inl (SystemExit [])"
    using zero_waveforms_exit [OF zero l1b conf opened(3)] by (simp add: class_view_def alg_waveform_quality_def)
qed (simp_all add: caught_def)

text \<open>A SIN file without power, in a chain of two algorithms.\<close>

definition wit_zero_nc :: dataset where
  "wit_zero_nc = (wit_l1b ''SARIN'' [Fin (- 75)] [Fin 0])\<lparr>ds_variables := (\<lambda>k. if k = ''pwr_waveform_20_ku'' then Some (SF2 1024 [replicate 1024 (Fin 0)])
     else Some (SF [Fin 1]))\<rparr>"

definition wit_zero_env :: chain_env where
  "wit_zero_env = \<lparr>env_open = (\<lambda>f. if f = ''gone'' then Inl (FileNotFoundError f) else Inr wit_zero_nc), env_traceback = (\<lambda>e. []),
     env_import = (\<lambda>m. if m = ''clev2er.algorithms.cryotempo.alg_identify_file'' then Some alg_identify_file
       else Some (alg_waveform_quality wit_np))\<rparr>"

definition wit_zero_cfg :: config where
  "wit_zero_cfg = (let q = [(''total_power_threshold'', CFloat (Fin 1)), (''low_peakiness_threshold'', CFloat (Fin 1)),
       (''high_peakiness_threshold'', CFloat (Fin 3)), (''low_position_max_power'', CInt 2), (''high_position_max_power'', CInt 1011)] in
     [(''chain'', CDict [(''use_multi_processing'', CBool False), (''stop_on_error'', CBool False), (''chain_name'', CStr ''cryotempo'')]),
      (''sin_waveform_quality_tests'', CDict q), (''lrm_waveform_quality_tests'', CDict q)])"

theorem zero_waveforms_end_run_witness:
  "run_chain wit_zero_env wit_zero_cfg [''gone'', ''zero'', ''b''] [''alg_identify_file'', ''alg_waveform_quality''] [] = Inl (SystemExit [])"
proof -
  let ?cs = wit_zero_cfg and ?nc = wit_zero_nc and ?cls = "[alg_identify_file] @ alg_waveform_quality wit_np # []"
  have cfg: "cflag ?cs ''chain'' ''use_multi_processing'' = Inr False" "cflag ?cs ''chain'' ''stop_on_error'' = Inr False"
    "\<exists>x. sarin_config ?cs = Inr x" "\<exists>x. lrm_config ?cs = Inr x"
    by (simp_all add: wit_zero_cfg_def cflag_def cget2_def sarin_config_def lrm_config_def float_of_def Let_def)
  then obtain sth lth where th: "sarin_config ?cs = Inr sth" "lrm_config ?cs = Inr lth" by blast
  have classes: "chain_classes wit_zero_env ?cs [] [''alg_identify_file'', ''alg_waveform_quality''] = Inr ?cls"
    by (simp add: module_path_def wit_zero_cfg_def cget2_def wit_zero_env_def Let_def)
  have sound: "list_all (sound_class ?cs) ?cls"
    by (auto simp: sound_class_def alg_identify_file_def alg_waveform_quality_def base_finalize_def)
  have ds: "env_open wit_zero_env f = Inr nc \<Longrightarrow> ds_isinstance nc" for f nc
    by (auto simp: wit_zero_env_def wit_zero_nc_def wit_l1b_def split: if_splits)
  have gone: "\<forall>g\<in>set [''gone'']. \<exists>r. spec_file wit_zero_env ?cs (map (class_view ?cs) ?cls) [] g = Inr r"
    by (auto simp: spec_file_def wit_zero_env_def caught_def)
  have mode: "instr_mode_of ''SARIN'' = Some ''SIN''" by code_simp
  obtain sd where run: "pipeline [] (map (class_view ?cs) [alg_identify_file]) ?nc [(''l1b_file_name'', SStr ''zero'')] = (sd, Inr LoopEnd)"
    and sd: "dget sd ''instr_mode'' = Inr (SStr ''SIN'')"
    by (simp add: class_view_def alg_identify_file_def identify_file_def wit_zero_nc_def wit_l1b_def nc_attr_def of_option_def mode pass_def
        last_component_def)
  have nc: "nc_var ?nc ''pwr_waveform_20_ku'' = Inr (SF2 1024 [replicate 1024 (Fin 0)])" "\<not> np_any (SF2 1024 [replicate 1024 (Fin 0)])"
    "nc_floats ?nc ''echo_scale_factor_20_ku'' = Inr [Fin 1]" "nc_floats ?nc ''echo_scale_pwr_20_ku'' = Inr [Fin 1]"
    "nc_floats ?nc ''noise_power_20_ku'' = Inr [Fin 1]" "env_open wit_zero_env ''zero'' = Inr ?nc"
    by (simp_all add: wit_zero_nc_def wit_zero_env_def nc_floats_def nc_var_def of_option_def list_ex_iff)
  from zero_waveforms_end_run [OF cfg(1,2) classes sound ds gone nc(6) run sd nc(1-5) th, where rest = "[''b'']"] show ?thesis by simp
qed

section \<open>Missing elevation models\<close>

text \<open>C40: A missing elevation model ends the whole run. If the file of the Antarctic model is not found, \<^verbatim>\<open>Dem.load\<close> returns
  \<^verbatim>\<open>False\<close>, which \<^verbatim>\<open>Dem.__init__\<close> ignores: \<^verbatim>\<open>alg_ref_dem\<close> is initialized as if nothing had happened. In a sequential
  run of any chain that contains it, the first southern file to reach it ends the run with
  \<^verbatim>\<open>AttributeError\<close>, which the chain does not catch, whatever files are left.\<close>

theorem missing_dem_ends_run:
  assumes mp: "cflag cs ''chain'' ''use_multi_processing'' = Inr False"
    and stop: "cflag cs ''chain'' ''stop_on_error'' = Inr False"
    and classes: "chain_classes env cs bp algs = Inr (pre @ alg_ref_dem ge sh # post)"
      "list_all (sound_class cs) (pre @ alg_ref_dem ge sh # post)"
    and ds: "\<And>f nc. env_open env f = Inr nc \<Longrightarrow> ds_isinstance nc"
    and before: "\<forall>g\<in>set done. \<exists>r. spec_file env cs (map (class_view cs) (pre @ alg_ref_dem ge sh # post)) bp g = Inr r"
    and opened: "env_open env f = Inr nc"
      "pipeline bp (map (class_view cs) pre) nc [(''l1b_file_name'', SStr f)] = (sd, Inr LoopEnd)"
    and dem: "\<not> opt_flag cs ''grn_only''" "cget2 cs ''reference_dem'' ''antarctic_dem'' = Inr (CStr name)"
      "map_of dem_table name = Some d"
      "grid_file ge dem_class d (set_def d (blank_grid name True (Some cs) None (dhas cs ''_init_shared_mem''))) = Inl (OSError msg)"
    and sd: "dget sd ''hemisphere'' = Inr (SStr ''south'')" "dget sd ''latitudes'' = Inr (SF lats)" "dget sd ''longitudes'' = Inr (SF lons)"
  shows "run_chain env cs (done @ f # rest) algs bp = Inl (AttributeError ''lonlat_to_xy_transformer'')"
proof (rule uncaught_ends_run [OF mp stop classes ds before opened])
  obtain dems sh' where "init_ref_dem ge cs sh = Inr (dems, sh')"
    using classes(2) by (auto simp: sound_class_def alg_ref_dem_def rbind_eq_Inr)
  then show "impl_body (snd (class_view cs (alg_ref_dem ge sh))) nc sd = Inl (AttributeError ''lonlat_to_xy_transformer'')"
    using missing_dem_raises [OF _ dem sd] by (simp add: class_view_def alg_ref_dem_def)
qed (simp_all add: caught_def)

text \<open>A chain of \<^verbatim>\<open>alg_ref_dem\<close> after an algorithm that provides the locations, on a machine without data.\<close>

definition wit_locations :: alg_class where
  "wit_locations = \<lparr>cls_name = ''locations'', cls_init = (\<lambda>cfg. Inr ((True, []), \<lparr>impl_body = (\<lambda>nc sd.
     pass (dset (dset (dset sd ''hemisphere'' (SStr ''south'')) ''latitudes'' (SF [Fin (- 75)])) ''longitudes'' (SF [Fin 10]))),
     impl_finalize = base_finalize\<rparr>))\<rparr>"

definition wit_no_data :: grid_env where
  "wit_no_data = wit_genv\<lparr>ge_isdir := (\<lambda>p. False)\<rparr>"

definition wit_dem_env :: chain_env where
  "wit_dem_env = \<lparr>env_open = (\<lambda>f. Inr wit_nc0), env_traceback = (\<lambda>e. []),
     env_import = (\<lambda>m. if m = ''clev2er.algorithms.cryotempo.locations'' then Some wit_locations else Some (alg_ref_dem wit_no_data Map.empty))\<rparr>"

definition wit_dem_cfg :: config where
  "wit_dem_cfg = [(''chain'', CDict [(''use_multi_processing'', CBool False), (''stop_on_error'', CBool False), (''chain_name'', CStr ''cryotempo'')]),
     (''reference_dem'', CDict [(''antarctic_dem'', CStr ''rema_ant_1km''), (''greenland_dem'', CStr ''awi_grn_1km'')])]"

lemma wit_no_file: "grid_file wit_no_data dem_class d (set_def d (blank_grid name True (Some wit_dem_cfg) None False)) =
    Inl (OSError (''/data'' @ gd_default_dir d @ '' not found''))"
  by (simp add: grid_file_def get_filename_def config_dir_def wit_no_data_def wit_genv_def set_def_def blank_grid_def dem_class_def
    wit_dem_cfg_def dhas_def)

lemma wit_dem_cfg: "\<not> opt_flag wit_dem_cfg ''grn_only''" "\<not> dhas wit_dem_cfg ''_init_shared_mem''"
  "cget2 wit_dem_cfg ''reference_dem'' ''antarctic_dem'' = Inr (CStr ''rema_ant_1km'')"
  "cget2 wit_dem_cfg ''reference_dem'' ''greenland_dem'' = Inr (CStr ''awi_grn_1km'')"
  "cflag wit_dem_cfg ''chain'' ''use_multi_processing'' = Inr False" "cflag wit_dem_cfg ''chain'' ''stop_on_error'' = Inr False"
  by code_simp+

theorem missing_dem_ends_run_witness:
  "run_chain wit_dem_env wit_dem_cfg [''a'', ''b''] [''locations'', ''alg_ref_dem''] [] = Inl (AttributeError ''lonlat_to_xy_transformer'')"
proof -
  let ?cs = wit_dem_cfg and ?cls = "[wit_locations] @ alg_ref_dem wit_no_data Map.empty # []"
  have classes: "chain_classes wit_dem_env ?cs [] [''locations'', ''alg_ref_dem''] = Inr ?cls"
    by (simp add: module_path_def wit_dem_cfg_def cget2_def wit_dem_env_def Let_def)
  have new: "map_of dem_table name = Some d \<Longrightarrow> name \<in> set dem_list \<Longrightarrow>
      \<exists>g. dem_new wit_no_data name True (Some ?cs) None False Map.empty = Inr (g, Map.empty)" for name d
    using wit_no_file [of d name] by (simp add: dem_new_def load_dem_def Let_def blank_grid_def)
  have "\<exists>dems. init_ref_dem wit_no_data ?cs Map.empty = Inr (dems, Map.empty)"
    using new [OF wit_dems(1,2)] new [OF wit_dems(3,4)] by (auto simp: init_ref_dem_def config_dem_def wit_dem_cfg)
  then have sound: "list_all (sound_class ?cs) ?cls"
    by (auto simp: sound_class_def wit_locations_def alg_ref_dem_def base_finalize_def)
  have ds: "env_open wit_dem_env f = Inr nc \<Longrightarrow> ds_isinstance nc" for f nc
    by (auto simp: wit_dem_env_def wit_nc0_def)
  have opened: "env_open wit_dem_env ''a'' = Inr wit_nc0" by (simp add: wit_dem_env_def)
  obtain sd where run: "pipeline [] (map (class_view ?cs) [wit_locations]) wit_nc0 [(''l1b_file_name'', SStr ''a'')] = (sd, Inr LoopEnd)"
    and sd: "dget sd ''hemisphere'' = Inr (SStr ''south'')" "dget sd ''latitudes'' = Inr (SF [Fin (- 75)])" "dget sd ''longitudes'' = Inr (SF [Fin 10])"
    by (simp add: class_view_def wit_locations_def pass_def last_component_def)
  have first: "\<forall>g\<in>set []. \<exists>r. spec_file wit_dem_env ?cs (map (class_view ?cs) ?cls) [] g = Inr r" by simp
  show ?thesis
    using missing_dem_ends_run [OF wit_dem_cfg(5,6) classes sound ds first opened run wit_dem_cfg(1,3) wit_dems(1) _ sd, where rest = "[''b'']"]
      wit_no_file [of rema_ant_1km "''rema_ant_1km''"] wit_dem_cfg(2) by simp
qed

end
